(* ===== verification/Prelude.thy ===== *)
theory Prelude
  imports Main "HOL-Library.AList" "HOL-Library.Multiset" "HOL-Library.Sublist"
begin

section \<open>Prelude: errors, dictionaries and text\<close>

text \<open>
  What every component of the model shares: Python exceptions as values of a sum
  type with a bind and a list traversal, Python's insertion-ordered dictionaries as
  association lists, and the few string operations of the standard library the
  sources call (\<open>strip\<close>, \<open>split\<close>, \<open>isdigit\<close>, \<open>int\<close>, \<open>str\<close>, \<open>join\<close>).
  A Python string is a list of characters; the characters are those of code points
  0 to 255, so the classifications below are the ones Python gives that range.
\<close>

named_theorems result_simps \<open>equations of the result monad\<close>

subsection \<open>Exceptions as values\<close>

text \<open>
  The exception classes the modelled code raises or catches, each with its message; of a
  pydantic \<open>ValidationError\<close> only the field is kept. \<open>OutOfFuel\<close> is no exception of the code:
  it marks a loop that has not ended within the fuel it was given.
\<close>

datatype py_exn =
    ValueError string
  | RuntimeError string
  | KeyError string
  | IndexError string
  | PathError string
  | UnresolvedVariable string
  | UntilError string
  | DispatchError string
  | MalformedResponse string
  | RunError string
  | TypeError string
  | AttributeError string
  | ValidationError string
  | MatrixError string
  | ResolutionError string
  | ExclusionError string
  | ScenarioFileError string
  | ClusterStartupError "(string \<times> string) list" "string option"
  | InfraFailure string
  | PermanentError string
  | ActsRunError string
  | NoApplicableTests string
  | ActsFileError string
  | BehaviorsFileError string
  | OsError string
  | CalledProcessError string
  | TimeoutExpired string
  | OutOfFuel

type_synonym 'a result = "py_exn + 'a"

abbreviation Ok :: "'a \<Rightarrow> 'a result" where "Ok \<equiv> Inr"
abbreviation Raise :: "py_exn \<Rightarrow> 'a result" where "Raise \<equiv> Inl"

definition rbind :: "'a result \<Rightarrow> ('a \<Rightarrow> 'b result) \<Rightarrow> 'b result" where
  "rbind m f = (case m of Inl e \<Rightarrow> Inl e | Inr x \<Rightarrow> f x)"

lemma rbind_Ok [simp, result_simps]: "rbind (Ok x) f = f x"
  by (simp add: rbind_def)

lemma rbind_Raise [simp, result_simps]: "rbind (Raise e) f = Raise e"
  by (simp add: rbind_def)

lemma rbind_eq_Ok [result_simps]: "rbind m f = Ok y \<longleftrightarrow> (\<exists>x. m = Ok x \<and> f x = Ok y)"
  by (cases m) simp_all

lemma rbind_eq_Raise [result_simps]:
  "rbind m f = Raise e \<longleftrightarrow> m = Raise e \<or> (\<exists>x. m = Ok x \<and> f x = Raise e)"
  by (cases m) simp_all

lemma rbind_cong [fundef_cong]:
  "m = m' \<Longrightarrow> (\<And>x. m' = Ok x \<Longrightarrow> f x = f' x) \<Longrightarrow> rbind m f = rbind m' f'"
  by (cases m') simp_all

text \<open>A Python loop that stops at the first exception.\<close>

fun traverse :: "('a \<Rightarrow> 'b result) \<Rightarrow> 'a list \<Rightarrow> 'b list result" where
  "traverse f [] = Ok []"
| "traverse f (x # xs) = rbind (f x) (\<lambda>y. rbind (traverse f xs) (\<lambda>ys. Ok (y # ys)))"

lemma traverse_cong [fundef_cong]:
  "xs = ys \<Longrightarrow> (\<And>x. x \<in> set ys \<Longrightarrow> f x = g x) \<Longrightarrow> traverse f xs = traverse g ys"
  by (induction ys arbitrary: xs) (auto cong: rbind_cong)

lemma traverse_Ok_iff:
  "traverse f xs = Ok ys \<longleftrightarrow> list_all2 (\<lambda>x y. f x = Ok y) xs ys"
proof (induction xs arbitrary: ys)
  case Nil
  then show ?case by auto
next
  case (Cons x xs)
  then show ?case by (cases ys) (auto simp: rbind_eq_Ok)
qed

lemma traverse_all_Ok:
  "(\<And>x. x \<in> set xs \<Longrightarrow> f x = Ok (g x)) \<Longrightarrow> traverse f xs = Ok (map g xs)"
  by (induction xs) auto

lemma traverse_Ok_length: "traverse f xs = Ok ys \<Longrightarrow> length ys = length xs"
  by (auto simp: traverse_Ok_iff dest: list_all2_lengthD)

lemma traverse_Ok_member:
  "traverse f xs = Ok ys \<Longrightarrow> y \<in> set ys \<longleftrightarrow> (\<exists>x \<in> set xs. f x = Ok y)"
  by (induction xs arbitrary: ys) (auto simp: rbind_eq_Ok)

lemma traverse_Raise: "traverse f xs = Raise e \<Longrightarrow> \<exists>x \<in> set xs. f x = Raise e"
  by (induction xs) (auto simp: rbind_eq_Raise)

lemma traverse_ex_Ok: "(\<exists>ys. traverse f xs = Ok ys) \<longleftrightarrow> (\<forall>x \<in> set xs. \<exists>y. f x = Ok y)"
  by (induction xs) (auto simp: rbind_eq_Ok)

lemma traverse_append:
  "traverse f (xs @ ys) =
     rbind (traverse f xs) (\<lambda>us. rbind (traverse f ys) (\<lambda>vs. Ok (us @ vs)))"
proof (induction xs)
  case Nil
  then show ?case by (cases "traverse f ys") simp_all
next
  case (Cons x xs)
  then show ?case
    by (cases "f x"; cases "traverse f xs"; cases "traverse f ys") simp_all
qed

text \<open>Two lists that agree on a predicate element by element.\<close>

lemma list_all2_quantifiers:
  "list_all2 (\<lambda>x y. P x = Q y) xs ys \<Longrightarrow> list_all P xs = list_all Q ys"
  "list_all2 (\<lambda>x y. P x = Q y) xs ys \<Longrightarrow> list_ex P xs = list_ex Q ys"
  by (induction xs ys rule: list_all2_induct) auto

lemma ball_enumerate: "(\<forall>(i, y) \<in> set (List.enumerate n ys). P y) \<longleftrightarrow> (\<forall>y \<in> set ys. P y)"
  by (induction ys arbitrary: n) auto

subsection \<open>Insertion-ordered dictionaries\<close>

text \<open>
  \<open>d[k] = v\<close> is \<^const>\<open>AList.update\<close>: an existing key keeps its place, a new one goes
  to the end, as in a Python dict. \<open>d.get(k)\<close> is \<^const>\<open>map_of\<close>.
\<close>

type_synonym ('k, 'v) dict = "('k \<times> 'v) list"

definition dict_from_keys :: "'k list \<Rightarrow> 'v \<Rightarrow> ('k, 'v) dict" where
  "dict_from_keys ks v = fold (\<lambda>k d. AList.update k v d) ks []"

definition dict_merge :: "('k, 'v) dict \<Rightarrow> ('k, 'v) dict \<Rightarrow> ('k, 'v) dict" where
  "dict_merge d e = fold (\<lambda>(k, v) d. AList.update k v d) e d"

lemma map_of_update [simp]: "map_of (AList.update k v d) = (map_of d)(k \<mapsto> v)"
  by (rule update_conv')

lemma keys_update: "fst ` set (AList.update k v d) = insert k (fst ` set d)"
  using dom_update [of k v d] by (metis Un_insert_left insert_is_Un sup_commute)

lemma fold_update_keys:
  "fst ` set (fold (\<lambda>k d. AList.update k v d) ks d) = set ks \<union> fst ` set d"
  by (induction ks arbitrary: d) (auto simp: keys_update)

lemma keys_dict_from_keys [simp]: "fst ` set (dict_from_keys ks v) = set ks"
  by (simp add: dict_from_keys_def fold_update_keys)

lemma fold_update_const:
  "map_of (fold (\<lambda>k d. AList.update k v d) ks d) k =
     (if k \<in> set ks then Some v else map_of d k)"
  by (induction ks arbitrary: d) auto

lemma map_of_dict_from_keys [simp]:
  "map_of (dict_from_keys ks v) k = (if k \<in> set ks then Some v else None)"
  by (simp add: dict_from_keys_def fold_update_const)

lemma distinct_dict_from_keys [simp]: "distinct (map fst (dict_from_keys ks v))"
proof -
  have "distinct (map fst d) \<Longrightarrow>
      distinct (map fst (fold (\<lambda>k d. AList.update k v d) ks d))" for d :: "('a \<times> 'b) list"
    by (induction ks arbitrary: d) (auto simp: distinct_update)
  then show ?thesis by (simp add: dict_from_keys_def)
qed

lemma map_of_dict_merge:
  "map_of (dict_merge d e) k = (case map_of (rev e) k of None \<Rightarrow> map_of d k | Some v \<Rightarrow> Some v)"
  by (induction e arbitrary: d rule: rev_induct) (auto simp: dict_merge_def)

text \<open>\<open>d.get(k, v0)\<close>, and \<open>d.setdefault(k, v0)\<close> for its value.\<close>

definition dict_lookup :: "('k, 'v) dict \<Rightarrow> 'k \<Rightarrow> 'v \<Rightarrow> 'v" where
  "dict_lookup d k v0 = (case map_of d k of None \<Rightarrow> v0 | Some v \<Rightarrow> v)"

lemma dict_lookup_update [simp]:
  "dict_lookup (AList.update k v d) k' v0 = (if k' = k then v else dict_lookup d k' v0)"
  by (simp add: dict_lookup_def)

subsection \<open>State and exceptions together\<close>

text \<open>
  A computation that changes an object and may raise: the exception keeps the changes made
  before it, as in Python.
\<close>

type_synonym ('s, 'a) state_result = "'s \<Rightarrow> 'a result \<times> 's"

definition st_return :: "'a \<Rightarrow> ('s, 'a) state_result" where "st_return x s = (Ok x, s)"

definition st_bind ::
  "('s, 'a) state_result \<Rightarrow> ('a \<Rightarrow> ('s, 'b) state_result) \<Rightarrow> ('s, 'b) state_result" where
  "st_bind m f s = (case m s of (Inl e, s') \<Rightarrow> (Inl e, s') | (Inr x, s') \<Rightarrow> f x s')"

lemma st_bind_cong [fundef_cong]:
  "m = m' \<Longrightarrow> (\<And>x. f x = f' x) \<Longrightarrow> st_bind m f = st_bind m' f'"
  by presburger

lemma st_bind_Ok [simp]: "m s = (Ok x, s') \<Longrightarrow> st_bind m f s = f x s'"
  by (simp add: st_bind_def)

lemma st_bind_Raise [simp]: "m s = (Raise e, s') \<Longrightarrow> st_bind m f s = (Raise e, s')"
  by (simp add: st_bind_def)

text \<open>\<open>try\<close> with a handler that sees the exception and the state it left.\<close>

definition st_catch ::
  "('s, 'a) state_result \<Rightarrow> (py_exn \<Rightarrow> ('s, 'a) state_result) \<Rightarrow> ('s, 'a) state_result" where
  "st_catch m h s = (case m s of (Inl e, s') \<Rightarrow> h e s' | (Inr x, s') \<Rightarrow> (Inr x, s'))"

definition st_raise :: "py_exn \<Rightarrow> ('s, 'a) state_result" where "st_raise e s = (Raise e, s)"

definition st_lift :: "'a result \<Rightarrow> ('s, 'a) state_result" where "st_lift r s = (r, s)"

lemma st_return_apply: "st_return x s = (Ok x, s)"
  by (simp add: st_return_def)

lemma st_bind_eq_Ok:
  "st_bind m f s = (Ok y, s') \<longleftrightarrow> (\<exists>x t. m s = (Ok x, t) \<and> f x t = (Ok y, s'))"
  by (auto simp: st_bind_def split: prod.splits sum.splits)

lemma st_bind_eq_Raise:
  "st_bind m f s = (Raise e, s') \<longleftrightarrow>
     m s = (Raise e, s') \<or> (\<exists>x t. m s = (Ok x, t) \<and> f x t = (Raise e, s'))"
  by (auto simp: st_bind_def split: prod.splits sum.splits)

fun st_traverse :: "('a \<Rightarrow> ('s, 'b) state_result) \<Rightarrow> 'a list \<Rightarrow> ('s, 'b list) state_result" where
  "st_traverse f [] = st_return []"
| "st_traverse f (x # xs) = st_bind (f x) (\<lambda>y. st_bind (st_traverse f xs) (\<lambda>ys. st_return (y # ys)))"

subsection \<open>Duplicates\<close>

fun first_duplicate :: "string set \<Rightarrow> string list \<Rightarrow> string option" where
  "first_duplicate seen [] = None"
| "first_duplicate seen (x # xs) =
     (if x \<in> seen then Some x else first_duplicate (insert x seen) xs)"

lemma first_duplicate_None:
  "first_duplicate seen xs = None \<longleftrightarrow> distinct xs \<and> set xs \<inter> seen = {}"
  by (induction xs arbitrary: seen) auto

end
