(* ===== verification/Graphs.thy ===== *)
theory Graphs
  imports Prelude
begin

section \<open>Walks and degrees over edge multisets\<close>

text \<open>
  The vocabulary in which the traversal is specified: the hops of a walk, in- and
  out-degrees in a multiset of directed edges, balance, undirected connection, and the
  invariant of a partly built Eulerian circuit. The locale \<open>edge_store\<close> is the interface
  the circuit construction needs of whatever holds the edges not walked yet.
\<close>

subsection \<open>Hops\<close>

fun hops :: "'v list \<Rightarrow> ('v \<times> 'v) list" where
  "hops (x # y # zs) = (x, y) # hops (y # zs)"
| "hops _ = []"

lemma hops_snoc: "hops (xs @ [u, v]) = hops (xs @ [u]) @ [(u, v)]"
proof (induction xs)
  case Nil
  then show ?case by simp
next
  case (Cons x xs)
  then show ?case by (cases xs) simp_all
qed

lemma hops_set: "(u, v) \<in> set (hops xs) \<Longrightarrow> u \<in> set xs \<and> v \<in> set xs"
  by (induction xs rule: hops.induct) auto

lemma length_hops: "length (hops xs) = length xs - 1"
  by (induction xs rule: hops.induct) auto

subsection \<open>Degrees and balance\<close>

definition outdeg :: "('v \<times> 'v) multiset \<Rightarrow> 'v \<Rightarrow> nat" where
  "outdeg R x = size (filter_mset (\<lambda>e. fst e = x) R)"

definition indeg :: "('v \<times> 'v) multiset \<Rightarrow> 'v \<Rightarrow> nat" where
  "indeg R x = size (filter_mset (\<lambda>e. snd e = x) R)"

definition balanced :: "('v \<times> 'v) multiset \<Rightarrow> bool" where
  "balanced R \<longleftrightarrow> (\<forall>x. outdeg R x = indeg R x)"

lemma deg_empty [simp]: "outdeg {#} x = 0" "indeg {#} x = 0"
  by (simp_all add: outdeg_def indeg_def)

lemma outdeg_add [simp]: "outdeg (add_mset (u, v) R) x = (if x = u then 1 else 0) + outdeg R x"
  by (simp add: outdeg_def)

lemma indeg_add [simp]: "indeg (add_mset (u, v) R) x = (if x = v then 1 else 0) + indeg R x"
  by (simp add: indeg_def)

lemma deg_union [simp]:
  "outdeg (A + B) x = outdeg A x + outdeg B x" "indeg (A + B) x = indeg A x + indeg B x"
  by (simp_all add: outdeg_def indeg_def)

lemma outdeg_0_iff: "outdeg R x = 0 \<longleftrightarrow> (\<forall>y. (x, y) \<notin># R)"
  by (auto simp: outdeg_def)

lemma indeg_0_iff: "indeg R x = 0 \<longleftrightarrow> (\<forall>y. (y, x) \<notin># R)"
  by (auto simp: indeg_def)

subsection \<open>Undirected connection\<close>

definition und :: "('v \<times> 'v) set \<Rightarrow> ('v \<times> 'v) set" where
  "und E = E \<union> E\<inverse>"

abbreviation connected_in :: "('v \<times> 'v) set \<Rightarrow> 'v \<Rightarrow> 'v \<Rightarrow> bool" where
  "connected_in E x y \<equiv> (x, y) \<in> (und E)\<^sup>*"

lemma und_sym: "(x, y) \<in> und E \<Longrightarrow> (y, x) \<in> und E"
  by (auto simp: und_def)

lemma connected_sym: "connected_in E x y \<Longrightarrow> connected_in E y x"
proof -
  have "sym (und E)" by (auto simp: sym_def intro: und_sym)
  then show "connected_in E x y \<Longrightarrow> connected_in E y x"
    by (meson sym_rtrancl symD)
qed

text \<open>A set closed under undirected edges holds everything connected to its members.\<close>

lemma closed_connected:
  assumes "\<And>x y. x \<in> C \<Longrightarrow> (x, y) \<in> und E \<Longrightarrow> y \<in> C"
    and "x \<in> C" "connected_in E x y"
  shows "y \<in> C"
  using assms(3,2) by (induction rule: rtrancl_induct) (auto intro: assms(1))

subsection \<open>The invariant of a circuit under construction\<close>

text \<open>
  \<open>trail_inv s0 E a stack circ R\<close>: of the edges \<open>E\<close>, those not in \<open>R\<close> are the hops along
  the stack (its top at the head) and the hops of the finished part, which starts at the
  ghost vertex \<open>a\<close> and ends at \<open>s0\<close>. What is left in \<open>R\<close> is balanced but for one unit owed
  by the top of the stack to \<open>a\<close>, so a trail from the top can only get stuck at \<open>a\<close>.
\<close>

definition trail_inv ::
  "'v \<Rightarrow> ('v \<times> 'v) multiset \<Rightarrow> 'v \<Rightarrow> 'v list \<Rightarrow> 'v list \<Rightarrow> ('v \<times> 'v) multiset \<Rightarrow> bool" where
  "trail_inv s0 E a stack circ R \<longleftrightarrow>
     E = R + mset (hops (rev stack)) + mset (hops (a # rev circ)) \<and>
     stack \<noteq> [] \<and> last stack = s0 \<and> last (a # rev circ) = s0 \<and>
     (\<forall>x. outdeg R x + of_bool (x = a) = indeg R x + of_bool (x = hd stack)) \<and>
     (\<forall>x \<in> set circ. outdeg R x = 0)"

lemma trail_inv_start: "balanced E \<Longrightarrow> trail_inv s E s [s] [] E"
  by (simp add: trail_inv_def balanced_def)

lemma trail_inv_push:
  assumes "trail_inv s0 E a (u # stack) circ R" and "R = add_mset (u, v) R'"
  shows "trail_inv s0 E a (v # u # stack) circ R'"
proof -
  have edges: "E = R' + mset (hops (rev (v # u # stack))) + mset (hops (a # rev circ))"
    using assms by (simp add: trail_inv_def hops_snoc)
  have balance: "outdeg R' x + of_bool (x = a) = indeg R' x + of_bool (x = v)" for x
  proof -
    have "outdeg R x + of_bool (x = a) = indeg R x + of_bool (x = u)"
      using assms(1) by (simp add: trail_inv_def)
    with assms(2) show ?thesis by (auto split: if_splits)
  qed
  have "\<forall>x \<in> set circ. outdeg R' x = 0"
    using assms by (auto simp: trail_inv_def)
  with assms(1) edges balance show ?thesis by (simp add: trail_inv_def)
qed

lemma trail_stuck:
  assumes "trail_inv s0 E a (u # stack) circ R" and "outdeg R u = 0"
  shows "u = a" and "balanced R"
proof -
  have eq: "outdeg R x + of_bool (x = a) = indeg R x + of_bool (x = u)" for x
    using assms(1) by (simp add: trail_inv_def)
  from eq [of u] assms(2) show "u = a" by (cases "u = a") auto
  with eq show "balanced R" by (simp add: balanced_def)
qed

lemma trail_inv_backtrack:
  assumes "trail_inv s0 E a (u # t # stack) circ R" and "outdeg R u = 0"
  shows "trail_inv s0 E t (t # stack) (circ @ [u]) R"
proof -
  from trail_stuck [OF assms] have "u = a" "balanced R" by simp_all
  moreover from assms(1) \<open>u = a\<close>
  have "E = R + mset (hops (rev (t # stack))) + mset (hops (t # u # rev circ))"
    by (simp add: trail_inv_def hops_snoc)
  ultimately show ?thesis
    using assms by (auto simp: trail_inv_def balanced_def)
qed

text \<open>The circuit is finished: its hops and what is left make up all the edges.\<close>

definition circuit_done :: "'v \<Rightarrow> ('v \<times> 'v) multiset \<Rightarrow> 'v list \<Rightarrow> ('v \<times> 'v) multiset \<Rightarrow> bool" where
  "circuit_done s0 E c R \<longleftrightarrow>
     E = R + mset (hops c) \<and> c \<noteq> [] \<and> hd c = s0 \<and> last c = s0 \<and>
     balanced R \<and> (\<forall>x \<in> set c. outdeg R x = 0)"

lemma trail_inv_finish:
  assumes "trail_inv s0 E a [u] circ R" and "outdeg R u = 0"
  shows "circuit_done s0 E (rev (circ @ [u])) R"
  using assms trail_stuck [OF assms] by (auto simp: trail_inv_def circuit_done_def)

lemma circuit_done_no_edge:
  assumes "circuit_done s0 E c R" and "x \<in> set c"
  shows "(x, y) \<notin># R" and "(y, x) \<notin># R"
proof -
  from assms have "outdeg R x = 0" "indeg R x = 0"
    by (auto simp: circuit_done_def balanced_def)
  then show "(x, y) \<notin># R" "(y, x) \<notin># R" by (auto simp: outdeg_0_iff indeg_0_iff)
qed

text \<open>Every vertex connected to the start is on the finished circuit.\<close>

lemma circuit_done_covers:
  assumes "circuit_done s0 E c R" and "connected_in (set_mset E) s0 y"
  shows "y \<in> set c"
proof (rule closed_connected [OF _ _ assms(2)])
  show "s0 \<in> set c" using assms(1) by (auto simp: circuit_done_def)
next
  fix u v assume u: "u \<in> set c" and uv: "(u, v) \<in> und (set_mset E)"
  have E: "E = R + mset (hops c)" using assms(1) by (simp add: circuit_done_def)
  from uv consider "(u, v) \<in># E" | "(v, u) \<in># E" by (auto simp: und_def)
  then show "v \<in> set c"
    using circuit_done_no_edge [OF assms(1) u] by cases (auto simp: E dest: hops_set)
qed

subsection \<open>The store of edges not walked yet\<close>

text \<open>
  What the circuit construction asks of the adjacency lists: taking an edge out of a
  vertex removes exactly that edge, and none comes out only if none is left.
\<close>

locale edge_store =
  fixes edges :: "'g \<Rightarrow> ('v \<times> 'v) multiset"
    and pop :: "'v \<Rightarrow> 'g \<Rightarrow> ('v \<times> 'g) option"
    and inv :: "'g \<Rightarrow> bool"
  assumes pop_Some: "inv g \<Longrightarrow> pop u g = Some (v, g') \<Longrightarrow> edges g = add_mset (u, v) (edges g')"
    and pop_None: "inv g \<Longrightarrow> pop u g = None \<Longrightarrow> outdeg (edges g) u = 0"
    and pop_inv: "inv g \<Longrightarrow> pop u g = Some (v, g') \<Longrightarrow> inv g'"
begin

lemma pop_decreases:
  "inv g \<Longrightarrow> pop u g = Some (v, g') \<Longrightarrow> size (edges g') < size (edges g)"
  using pop_Some [of g u v g'] by simp

lemma step_push:
  "inv g \<Longrightarrow> pop u g = Some (v, g') \<Longrightarrow> trail_inv s0 E a (u # stack) circ (edges g) \<Longrightarrow>
   trail_inv s0 E a (v # u # stack) circ (edges g')"
  using pop_Some [of g u v g'] by (intro trail_inv_push) auto

lemma step_back:
  "inv g \<Longrightarrow> pop u g = None \<Longrightarrow> trail_inv s0 E a (u # t # stack) circ (edges g) \<Longrightarrow>
   trail_inv s0 E t (t # stack) (circ @ [u]) (edges g)"
  by (rule trail_inv_backtrack) (auto dest: pop_None)

lemma step_finish:
  "inv g \<Longrightarrow> pop u g = None \<Longrightarrow> trail_inv s0 E a [u] circ (edges g) \<Longrightarrow>
   circuit_done s0 E (rev (circ @ [u])) (edges g)"
  by (rule trail_inv_finish) (auto dest: pop_None)

end

end
