(* ===== verification/Texts.thy ===== *)
theory Texts
  imports Prelude
begin

section \<open>The string operations the sources use\<close>

text \<open>
  \<open>str.isspace\<close>, \<open>str.isdigit\<close>, \<open>str.strip\<close>, \<open>str.split(sep)\<close>, \<open>sep.join\<close>, \<open>str.startswith\<close>,
  \<open>sub in s\<close>, \<open>str(n)\<close> and \<open>int(s)\<close> of the Python standard library, on code points 0 to 255.
  The lemmas are the round trips the components need: a number printed and read back, a
  joined pair split again.
\<close>

definition code_of :: "char \<Rightarrow> nat" where "code_of c = of_char c"

text \<open>\<open>str.isspace\<close> on one character, which is also what \<open>strip\<close> and the pattern \<open>\s\<close> use.\<close>

definition py_isspace :: "char \<Rightarrow> bool" where
  "py_isspace c = (let n = code_of c in
     9 \<le> n \<and> n \<le> 13 \<or> 28 \<le> n \<and> n \<le> 32 \<or> n = 133 \<or> n = 160)"

definition ascii_digit :: "char \<Rightarrow> bool" where
  "ascii_digit c = (48 \<le> code_of c \<and> code_of c \<le> 57)"

text \<open>\<open>str.isdigit\<close> also accepts the superscripts 2, 3 and 1 of Latin-1, which \<open>int\<close> refuses.\<close>

definition py_isdigit_char :: "char \<Rightarrow> bool" where
  "py_isdigit_char c = (ascii_digit c \<or> code_of c \<in> {178, 179, 185})"

definition py_isdigit :: "string \<Rightarrow> bool" where
  "py_isdigit s = (s \<noteq> [] \<and> list_all py_isdigit_char s)"

definition lstrip :: "string \<Rightarrow> string" where "lstrip s = dropWhile py_isspace s"
definition rstrip :: "string \<Rightarrow> string" where "rstrip s = rev (dropWhile py_isspace (rev s))"
definition py_strip :: "string \<Rightarrow> string" where "py_strip s = rstrip (lstrip s)"

definition starts_with :: "string \<Rightarrow> string \<Rightarrow> bool" where
  "starts_with s p = (take (length p) s = p)"

definition ends_with :: "string \<Rightarrow> string \<Rightarrow> bool" where
  "ends_with s p = starts_with (rev s) (rev p)"

fun contains :: "string \<Rightarrow> string \<Rightarrow> bool" where
  "contains [] p = (p = [])"
| "contains (c # s) p = (starts_with (c # s) p \<or> contains s p)"

text \<open>\<open>s.split(sep)\<close> for a separator that is not empty.\<close>

fun split_go :: "string \<Rightarrow> string \<Rightarrow> string \<Rightarrow> string list" where
  "split_go sep acc [] = [rev acc]"
| "split_go sep acc (c # cs) =
     (if starts_with (c # cs) sep then rev acc # split_go sep [] (drop (length sep - 1) cs)
      else split_go sep (c # acc) cs)"

definition split_on :: "string \<Rightarrow> string \<Rightarrow> string list" where
  "split_on sep s = split_go sep [] s"

fun join_with :: "string \<Rightarrow> string list \<Rightarrow> string" where
  "join_with sep [] = []"
| "join_with sep [x] = x"
| "join_with sep (x # y # ys) = x @ sep @ join_with sep (y # ys)"

text \<open>The em dash of some messages, outside the modelled characters, has the code it has in Windows-1252.\<close>

definition em_dash :: string where "em_dash = [CHR 0x97]"

subsection \<open>\<open>repr\<close> of a string\<close>

definition hex_digit :: "nat \<Rightarrow> char" where
  "hex_digit d = char_of (if d < 10 then 48 + d else 87 + d)"

definition repr_char :: "char \<Rightarrow> char \<Rightarrow> string" where
  "repr_char quote c = (let n = code_of c in
     if c = quote \<or> n = 92 then [CHR 0x5C, c]
     else if n = 9 then [CHR 0x5C, CHR 0x74]
     else if n = 10 then [CHR 0x5C, CHR 0x6E]
     else if n = 13 then [CHR 0x5C, CHR 0x72]
     else if n < 32 \<or> 127 \<le> n \<and> n \<le> 160 \<or> n = 173
       then [CHR 0x5C, CHR 0x78, hex_digit (n div 16), hex_digit (n mod 16)]
     else [c])"

definition repr_str :: "string \<Rightarrow> string" where
  "repr_str s =
     (let quote = (if CHR 0x27 \<in> set s \<and> CHR 0x22 \<notin> set s then CHR 0x22 else CHR 0x27)
      in [quote] @ concat (map (repr_char quote) s) @ [quote])"

text \<open>\<open>str.replace\<close> for a pattern that is not empty.\<close>

fun py_replace :: "string \<Rightarrow> string \<Rightarrow> string \<Rightarrow> string" where
  "py_replace old new [] = []"
| "py_replace old new (c # cs) =
     (if starts_with (c # cs) old then new @ py_replace old new (drop (length old - 1) cs)
      else c # py_replace old new cs)"

definition repr_list :: "string list \<Rightarrow> string" where
  "repr_list xs = ''['' @ join_with '', '' (map repr_str xs) @ '']''"

subsection \<open>Order on strings\<close>

text \<open>\<open>sorted\<close> on strings compares code points lexicographically.\<close>

fun str_le :: "string \<Rightarrow> string \<Rightarrow> bool" where
  "str_le [] t = True"
| "str_le (c # s) [] = False"
| "str_le (c # s) (d # t) = (code_of c < code_of d \<or> c = d \<and> str_le s t)"

fun str_insert :: "string \<Rightarrow> string list \<Rightarrow> string list" where
  "str_insert x [] = [x]"
| "str_insert x (y # ys) = (if str_le x y then x # y # ys else y # str_insert x ys)"

definition str_sort :: "string list \<Rightarrow> string list" where
  "str_sort xs = foldr str_insert xs []"

lemma mset_str_sort [simp]: "mset (str_sort xs) = mset xs"
proof -
  have "mset (str_insert x ys) = add_mset x (mset ys)" for x ys
    by (induction ys) auto
  then show ?thesis by (induction xs) (simp_all add: str_sort_def)
qed

lemma set_str_sort [simp]: "set (str_sort xs) = set xs"
  by (metis mset_str_sort set_mset_mset)

lemma distinct_str_sort [simp]: "distinct (str_sort xs) = distinct xs"
  by (metis mset_str_sort mset_eq_imp_distinct_iff)

subsection \<open>Decimal numbers\<close>

definition digit_char :: "nat \<Rightarrow> char" where "digit_char d = char_of (48 + d)"

fun show_nat :: "nat \<Rightarrow> string" where
  "show_nat n = (if n < 10 then [digit_char n] else show_nat (n div 10) @ [digit_char (n mod 10)])"

declare show_nat.simps [simp del]

definition show_int :: "int \<Rightarrow> string" where
  "show_int i = (if i < 0 then ''-'' @ show_nat (nat (- i)) else show_nat (nat i))"

definition digit_value :: "char \<Rightarrow> nat" where "digit_value c = code_of c - 48"

definition read_digits :: "string \<Rightarrow> nat" where
  "read_digits s = foldl (\<lambda>n c. 10 * n + digit_value c) 0 s"

text \<open>\<open>int(s)\<close> on a string of \<open>isdigit\<close> characters: the superscripts are refused.\<close>

definition parse_nat :: "string \<Rightarrow> nat option" where
  "parse_nat s = (if s \<noteq> [] \<and> list_all ascii_digit s then Some (read_digits s) else None)"

lemma code_of_digit_char [simp]: "d < 10 \<Longrightarrow> code_of (digit_char d) = 48 + d"
  by (simp add: code_of_def digit_char_def)

lemma ascii_digit_digit_char: "d < 10 \<Longrightarrow> ascii_digit (digit_char d)"
  by (simp add: ascii_digit_def)

lemma ascii_digit_isdigit: "ascii_digit c \<Longrightarrow> py_isdigit_char c"
  by (simp add: py_isdigit_char_def)

lemma ascii_digit_not_space: "ascii_digit c \<Longrightarrow> \<not> py_isspace c"
  by (auto simp: ascii_digit_def py_isspace_def Let_def)

lemma show_nat_digits: "list_all ascii_digit (show_nat n)"
proof (induction n rule: show_nat.induct)
  case (1 n)
  show ?case
  proof (cases "n < 10")
    case True
    then show ?thesis by (simp add: show_nat.simps [of n] ascii_digit_digit_char)
  next
    case False
    with 1 show ?thesis by (simp add: show_nat.simps [of n] ascii_digit_digit_char)
  qed
qed

lemma show_nat_nonempty [simp]: "show_nat n \<noteq> []"
  by (subst show_nat.simps) simp

lemma read_digits_snoc: "read_digits (s @ [c]) = 10 * read_digits s + digit_value c"
  by (simp add: read_digits_def)

lemma read_show_nat: "read_digits (show_nat n) = n"
proof (induction n rule: show_nat.induct)
  case (1 n)
  show ?case
  proof (cases "n < 10")
    case True
    then show ?thesis
      by (simp add: show_nat.simps [of n] read_digits_def digit_value_def)
  next
    case False
    with 1 show ?thesis
      by (simp add: show_nat.simps [of n] read_digits_snoc digit_value_def)
  qed
qed

lemma parse_show_nat [simp]: "parse_nat (show_nat n) = Some n"
  by (simp add: parse_nat_def show_nat_digits read_show_nat)

lemma isdigit_show_nat [simp]: "py_isdigit (show_nat n)"
  using show_nat_digits [of n]
  by (auto simp: py_isdigit_def list_all_iff intro: ascii_digit_isdigit)

lemma show_nat_inj: "show_nat m = show_nat n \<longleftrightarrow> m = n"
  by (metis read_show_nat)

lemma strip_no_space:
  assumes "list_all (\<lambda>c. \<not> py_isspace c) s"
  shows "py_strip s = s"
proof -
  have l: "dropWhile py_isspace t = t" if "list_all (\<lambda>c. \<not> py_isspace c) t" for t
    using that by (cases t) auto
  with assms show ?thesis
    by (simp add: py_strip_def lstrip_def rstrip_def l)
qed

lemma strip_show_nat [simp]: "py_strip (show_nat n) = show_nat n"
  using show_nat_digits [of n]
  by (intro strip_no_space) (auto simp: list_all_iff ascii_digit_not_space)

subsection \<open>Splitting and joining\<close>

lemma starts_with_append [simp]: "starts_with (p @ s) p"
  by (simp add: starts_with_def)

lemma starts_with_hd: "starts_with (c # s) p \<Longrightarrow> p \<noteq> [] \<Longrightarrow> c = hd p"
  by (cases p) (auto simp: starts_with_def)

lemma split_go_skip:
  assumes "sep \<noteq> []" "hd sep \<notin> set xs"
  shows "split_go sep acc (xs @ ys) = split_go sep (rev xs @ acc) ys"
  using assms(2)
proof (induction xs arbitrary: acc)
  case Nil
  then show ?case by simp
next
  case (Cons x xs)
  with assms(1) have "\<not> starts_with (x # xs @ ys) sep" by (auto dest: starts_with_hd)
  with Cons show ?case by simp
qed

lemma split_go_sep:
  assumes "sep \<noteq> []"
  shows "split_go sep acc (sep @ ys) = rev acc # split_go sep [] ys"
proof -
  obtain c cs where sep: "sep = c # cs" using assms by (cases sep) auto
  have "starts_with (c # cs @ ys) sep" using sep by (simp add: starts_with_def)
  with sep show ?thesis by simp
qed

lemma split_on_single:
  assumes "sep \<noteq> []" "hd sep \<notin> set xs"
  shows "split_on sep xs = [xs]"
  using split_go_skip [OF assms, of "[]" "[]"] by (simp add: split_on_def)

lemma split_on_Cons:
  assumes "sep \<noteq> []" "hd sep \<notin> set xs"
  shows "split_on sep (xs @ sep @ ys) = xs # split_on sep ys"
  using split_go_skip [OF assms, of "[]" "sep @ ys"] split_go_sep [OF assms(1)]
  by (simp add: split_on_def)

lemma split_on_nonempty [simp]: "split_on sep s \<noteq> []"
proof -
  have "split_go sep acc s \<noteq> []" for acc
    by (induction sep acc s rule: split_go.induct) auto
  then show ?thesis by (simp add: split_on_def)
qed

text \<open>\<open>int(s)\<close>: a sign and decimal digits that single underscores may separate.\<close>

definition int_text :: "string \<Rightarrow> int option" where
  "int_text s =
     (let t = py_strip s;
          negative = starts_with t ''-'';
          body = (if negative \<or> starts_with t ''+'' then drop 1 t else t);
          groups = split_on ''_'' body
      in if list_all (\<lambda>g. g \<noteq> [] \<and> list_all ascii_digit g) groups
         then Some ((if negative then - 1 else 1) * int (read_digits (concat groups))) else None)"

lemma int_text_digits:
  assumes "s \<noteq> []" "list_all ascii_digit s"
  shows "int_text s = Some (int (read_digits s))"
proof -
  have digit: "c \<noteq> CHR ''-'' \<and> c \<noteq> CHR ''+'' \<and> c \<noteq> CHR ''_'' \<and> \<not> py_isspace c" if "c \<in> set s" for c
    using that assms(2) by (auto simp: list_all_iff ascii_digit_def code_of_def py_isspace_def Let_def)
  obtain c cs where s: "s = c # cs" using assms(1) by (cases s) auto
  have "py_strip s = s" using digit by (intro strip_no_space) (auto simp: list_all_iff)
  moreover have "\<not> starts_with s ''-''" "\<not> starts_with s ''+''" using digit [of c] by (simp_all add: s starts_with_def)
  moreover have "split_on ''_'' s = [s]" using digit by (intro split_on_single) auto
  ultimately show ?thesis using assms by (simp add: int_text_def Let_def)
qed

subsection \<open>The text of an exception\<close>

fun exn_text :: "py_exn \<Rightarrow> string" where
  "exn_text (ValueError m) = m"
| "exn_text (RuntimeError m) = m"
| "exn_text (KeyError m) = repr_str m"
| "exn_text (IndexError m) = m"
| "exn_text (PathError m) = m"
| "exn_text (UnresolvedVariable m) = m"
| "exn_text (UntilError m) = m"
| "exn_text (DispatchError m) = m"
| "exn_text (MalformedResponse m) = m"
| "exn_text (RunError m) = m"
| "exn_text (TypeError m) = m"
| "exn_text (AttributeError m) = m"
| "exn_text (ValidationError m) = m"
| "exn_text (MatrixError m) = m"
| "exn_text (ResolutionError m) = m"
| "exn_text (ExclusionError m) = m"
| "exn_text (ScenarioFileError m) = m"
| "exn_text (ClusterStartupError failures summary) = ''Cluster startup failed'' @
     (case summary of None \<Rightarrow> [] | Some s \<Rightarrow> if s = [] then [] else '' ('' @ s @ '')'') @ '': '' @
     join_with ''; '' (map (\<lambda>(i, d). i @ '': '' @ d) failures)"
| "exn_text (InfraFailure m) = m"
| "exn_text (PermanentError m) = m"
| "exn_text (ActsRunError m) = m"
| "exn_text (NoApplicableTests m) = m"
| "exn_text (ActsFileError m) = m"
| "exn_text (BehaviorsFileError m) = m"
| "exn_text (OsError m) = m"
| "exn_text (CalledProcessError m) = m"
| "exn_text (TimeoutExpired m) = m"
| "exn_text OutOfFuel = []"

end
