(* ===== verification/Traversal.thy ===== *)
theory Traversal
  imports Graphs Texts
begin

section \<open>Eulerian traversals (test_suite/__init__.py)\<close>

text \<open>
  The walk over a scenario's graph: adjacency lists and degrees, the balance check, the
  decomposition into connected components and Hierholzer's algorithm on each. The store of
  edges is the adjacency dictionary, mutated by \<open>adj[u].pop()\<close> and shared by the components'
  runs. A Python \<open>set\<close> of neighbours is the list of its elements in iteration order;
  that order depends on string hashing, so \<open>set.add\<close> is the parameter \<open>add\<close> of the
  decomposition, of which only the resulting set is known.
\<close>

type_synonym sdk = string
type_synonym 'v adjacency = "('v, 'v list) dict"

subsection \<open>Adjacency lists and degrees\<close>

abbreviation adj_get :: "'v adjacency \<Rightarrow> 'v \<Rightarrow> 'v list" where
  "adj_get adj u \<equiv> dict_lookup adj u []"

record 'v digraph =
  adj :: "'v adjacency"
  in_degree :: "('v, nat) dict"
  out_degree :: "('v, nat) dict"

definition empty_digraph :: "'v list \<Rightarrow> 'v digraph" where
  "empty_digraph all_sdks =
     \<lparr>adj = dict_from_keys all_sdks [], in_degree = dict_from_keys all_sdks 0,
      out_degree = dict_from_keys all_sdks 0\<rparr>"

definition add_edge :: "'v \<times> 'v \<Rightarrow> 'v digraph \<Rightarrow> 'v digraph" where
  "add_edge e g = (let (u, v) = e in
     g\<lparr>adj := AList.update u (adj_get (adj g) u @ [v]) (adj g),
       out_degree := AList.update u (dict_lookup (out_degree g) u 0 + 1) (out_degree g),
       in_degree := AList.update v (dict_lookup (in_degree g) v 0 + 1) (in_degree g)\<rparr>)"

definition build_digraph :: "'v list \<Rightarrow> ('v \<times> 'v) list \<Rightarrow> 'v digraph" where
  "build_digraph all_sdks target_edges = fold add_edge target_edges (empty_digraph all_sdks)"

definition complete_edges :: "'v list \<Rightarrow> ('v \<times> 'v) list" where
  "complete_edges all_sdks = [(u, v). u \<leftarrow> all_sdks, v \<leftarrow> all_sdks, u \<noteq> v]"

text \<open>An empty edge list is falsy, so it means the complete digraph too.\<close>

definition target_edges :: "'v list \<Rightarrow> ('v \<times> 'v) list option \<Rightarrow> ('v \<times> 'v) list" where
  "target_edges all_sdks edges =
     (case edges of
        Some (e # es) \<Rightarrow>
          filter (\<lambda>(u, v). u \<in> set all_sdks \<and> v \<in> set all_sdks) (e # es)
      | _ \<Rightarrow> complete_edges all_sdks)"

subsection \<open>The balance check\<close>

definition msg_unbalanced :: "sdk \<Rightarrow> nat \<Rightarrow> nat \<Rightarrow> string" where
  "msg_unbalanced node i k =
     ''Eulerian cycle impossible: Node '' @ [CHR 0x27] @ node @ [CHR 0x27] @
     '' has in-degree='' @ show_nat i @ '' and out-degree='' @ show_nat k @ ''.''"

fun verify_eulerian_graph ::
  "(sdk, nat) dict \<Rightarrow> (sdk, nat) dict \<Rightarrow> sdk list \<Rightarrow> unit result" where
  "verify_eulerian_graph ind outd [] = Ok ()"
| "verify_eulerian_graph ind outd (node # rest) =
     (let i = dict_lookup ind node 0; k = dict_lookup outd node 0 in
      if i \<noteq> k then Raise (ValueError (msg_unbalanced node i k))
      else verify_eulerian_graph ind outd rest)"

subsection \<open>Connected components\<close>

definition add_neighbour ::
  "('v \<Rightarrow> 'v list \<Rightarrow> 'v list) \<Rightarrow> 'v \<Rightarrow> 'v \<Rightarrow> 'v adjacency \<Rightarrow> 'v adjacency" where
  "add_neighbour add u v d = AList.update u (add v (adj_get d u)) d"

definition undirected_adj ::
  "('v \<Rightarrow> 'v list \<Rightarrow> 'v list) \<Rightarrow> 'v adjacency \<Rightarrow> 'v adjacency" where
  "undirected_adj add adjm =
     fold (\<lambda>(u, v) d. add_neighbour add v u (add_neighbour add u v d))
       (concat (map (\<lambda>(u, vs). map (Pair u) vs) adjm))
       (dict_from_keys (map fst adjm) [])"

fun push_new :: "'v list \<Rightarrow> 'v set \<Rightarrow> 'v list \<Rightarrow> 'v set \<times> 'v list" where
  "push_new [] vis stack = (vis, stack)"
| "push_new (v # vs) vis stack =
     (if v \<in> vis then push_new vs vis stack else push_new vs (insert v vis) (v # stack))"

lemma push_new_visited [simp]: "fst (push_new vs vis st) = vis \<union> set vs"
  by (induction vs vis st rule: push_new.induct) auto

lemma push_new_stack: "set (snd (push_new vs vis st)) = set st \<union> (set vs - vis)"
  by (induction vs vis st rule: push_new.induct) auto

lemma push_new_old: "set vs \<subseteq> vis \<Longrightarrow> push_new vs vis st = (vis, st)"
  by (induction vs vis st rule: push_new.induct) auto

definition adj_range :: "'v adjacency \<Rightarrow> 'v set" where
  "adj_range uadj = (\<Union>p \<in> set uadj. set (snd p))"

lemma finite_adj_range [simp]: "finite (adj_range uadj)"
  by (simp add: adj_range_def)

lemma adj_get_range: "set (adj_get uadj u) \<subseteq> adj_range uadj"
proof (cases "map_of uadj u")
  case None
  then show ?thesis by (simp add: dict_lookup_def)
next
  case (Some vs)
  then have "(u, vs) \<in> set uadj" by (rule map_of_SomeD)
  with Some show ?thesis by (force simp: dict_lookup_def adj_range_def)
qed

text \<open>The stack of the sources is a list popped at its end; here its top is the head.\<close>

function component_loop ::
  "'v adjacency \<Rightarrow> 'v list \<Rightarrow> 'v set \<Rightarrow> 'v list \<Rightarrow> 'v list \<times> 'v set" where
  "component_loop uadj [] vis cmp = (cmp, vis)"
| "component_loop uadj (u # stack) vis cmp =
     (let (vis', stack') = push_new (adj_get uadj u) vis stack in
      component_loop uadj stack' vis' (cmp @ [u]))"
  by pat_completeness auto
termination
proof (relation "measures [\<lambda>(uadj, _, vis, _). card (adj_range uadj - vis),
                           \<lambda>(_, stack, _, _). length stack]", goal_cases)
  case 1
  then show ?case by simp
next
  case (2 uadj u stack vis cmp p vis' stack')
  then have vis': "vis' = vis \<union> set (adj_get uadj u)"
    by (metis fst_conv push_new_visited)
  show ?case
  proof (cases "set (adj_get uadj u) \<subseteq> vis")
    case True
    with 2 show ?thesis by (simp add: push_new_old)
  next
    case False
    then obtain x where x: "x \<in> set (adj_get uadj u)" "x \<notin> vis" by auto
    then have "x \<in> adj_range uadj - vis" using adj_get_range by fastforce
    moreover have "adj_range uadj - vis' \<subseteq> (adj_range uadj - vis) - {x}"
      using x vis' by auto
    ultimately have "adj_range uadj - vis' \<subset> adj_range uadj - vis" by auto
    then have "card (adj_range uadj - vis') < card (adj_range uadj - vis)"
      by (intro psubset_card_mono) simp_all
    with 2 show ?thesis by simp
  qed
qed

fun components_go ::
  "'v adjacency \<Rightarrow> 'v list \<Rightarrow> 'v set \<Rightarrow> 'v list list \<Rightarrow> 'v list list" where
  "components_go uadj [] visited components = components"
| "components_go uadj (node # nodes) visited components =
     (if node \<in> visited then components_go uadj nodes visited components
      else (let (cmp, vis) = component_loop uadj [node] {node} [] in
            components_go uadj nodes (visited \<union> vis) (components @ [cmp])))"

definition decompose_into_components ::
  "('v \<Rightarrow> 'v list \<Rightarrow> 'v list) \<Rightarrow> 'v list \<Rightarrow> 'v adjacency \<Rightarrow> 'v list list" where
  "decompose_into_components add nodes_with_edges adjm =
     components_go (undirected_adj add adjm) nodes_with_edges {} []"

subsection \<open>Hierholzer's algorithm\<close>

definition adj_pop :: "'v \<Rightarrow> 'v adjacency \<Rightarrow> ('v \<times> 'v adjacency) option" where
  "adj_pop u adjm = (case adj_get adjm u of
     [] \<Rightarrow> None
   | vs \<Rightarrow> Some (last vs, AList.update u (butlast vs) adjm))"

fun adj_edges :: "'v adjacency \<Rightarrow> ('v \<times> 'v) multiset" where
  "adj_edges [] = {#}"
| "adj_edges ((u, vs) # d) = image_mset (Pair u) (mset vs) + adj_edges d"

lemma adj_edges_update_butlast:
  "map_of d u = Some vs \<Longrightarrow> vs \<noteq> [] \<Longrightarrow>
   adj_edges d = add_mset (u, last vs) (adj_edges (AList.update u (butlast vs) d))"
proof (induction d)
  case Nil
  then show ?case by simp
next
  case (Cons p d)
  obtain w ws where p: "p = (w, ws)" by (cases p)
  show ?case
  proof (cases "w = u")
    case True
    with Cons.prems p have "ws = vs" by simp
    moreover have "mset vs = mset (butlast vs @ [last vs])"
      using Cons.prems by simp
    then have "mset vs = add_mset (last vs) (mset (butlast vs))" by simp
    ultimately show ?thesis using True p by simp
  next
    case False
    with Cons p show ?thesis by simp
  qed
qed

lemma adj_pop_edges:
  "adj_pop u d = Some (v, d') \<Longrightarrow> adj_edges d = add_mset (u, v) (adj_edges d')"
  by (auto simp: adj_pop_def dict_lookup_def adj_edges_update_butlast
      split: list.splits option.splits)

function hierholzer :: "'v list \<Rightarrow> 'v list \<Rightarrow> 'v adjacency \<Rightarrow> 'v list \<times> 'v adjacency" where
  "hierholzer [] comp_circuit adjm = (comp_circuit, adjm)"
| "hierholzer (u # stack) comp_circuit adjm =
     (case adj_pop u adjm of
        Some (v, adjm') \<Rightarrow> hierholzer (v # u # stack) comp_circuit adjm'
      | None \<Rightarrow> hierholzer stack (comp_circuit @ [u]) adjm)"
  by pat_completeness auto
termination
  by (relation "measures [\<lambda>(_, _, adjm). size (adj_edges adjm), \<lambda>(stack, _, _). length stack]")
    (auto dest: adj_pop_edges)

fun run_components :: "'v \<Rightarrow> 'v list list \<Rightarrow> 'v adjacency \<Rightarrow> 'v list list \<times> 'v adjacency" where
  "run_components current [] adjm = ([], adjm)"
| "run_components current (cmp # comps) adjm =
     (let start_node = (if current \<in> set cmp then current else hd cmp);
          (comp_circuit, adjm') = hierholzer [start_node] [] adjm;
          (circuits, adjm'') = run_components current comps adjm'
      in (rev comp_circuit # circuits, adjm''))"

definition euler_traversal_with_hierholzer ::
  "(sdk \<Rightarrow> sdk list \<Rightarrow> sdk list) \<Rightarrow> sdk \<Rightarrow> sdk list \<Rightarrow> (sdk \<times> sdk) list option \<Rightarrow>
   sdk list list result" where
  "euler_traversal_with_hierholzer add current_sdk all_sdks edges =
     (let g = build_digraph all_sdks (target_edges all_sdks edges) in
      rbind (verify_eulerian_graph (in_degree g) (out_degree g) all_sdks) (\<lambda>_.
        let nodes_with_edges = filter (\<lambda>n. dict_lookup (out_degree g) n 0 > 0) all_sdks;
            components = decompose_into_components add nodes_with_edges (adj g)
        in if components = [] then Ok [[current_sdk]]
           else Ok (fst (run_components current_sdk
                  (sort_key (\<lambda>c. current_sdk \<notin> set c) components) (adj g)))))"

end
