(* ===== verification/Euler.thy ===== *)
theory Euler
  imports Traversal
begin

section \<open>Correctness of the Eulerian traversal\<close>

text \<open>
  The adjacency dictionary is an \<open>edge_store\<close>; Hierholzer's loop keeps the trail invariant
  and so ends with a circuit; the decomposition yields the undirected components whatever
  the iteration order of the neighbour sets; together the circuits walk every edge once.
\<close>

subsection \<open>The adjacency dictionary as a store of edges\<close>

lemma outdeg_adj_edges:
  "distinct (map fst d) \<Longrightarrow> outdeg (adj_edges d) u = length (adj_get d u)"
proof (induction d)
  case Nil
  then show ?case by (simp add: dict_lookup_def)
next
  case (Cons p d)
  obtain w ws where p: "p = (w, ws)" by (cases p)
  have *: "outdeg (image_mset (Pair w) M) u = (if u = w then size M else 0)" for w u and M
    by (induction M) auto
  show ?case
  proof (cases "w = u")
    case True
    have "map_of d w = None" using Cons.prems p by (simp add: map_of_eq_None_iff)
    with True Cons p show ?thesis by (simp add: * dict_lookup_def)
  next
    case False
    with Cons p show ?thesis by (simp add: * dict_lookup_def)
  qed
qed

lemma adj_pop_distinct:
  "adj_pop u d = Some (v, d') \<Longrightarrow> distinct (map fst d) \<Longrightarrow> distinct (map fst d')"
  by (auto simp: adj_pop_def distinct_update split: list.splits)

interpretation adj_store: edge_store adj_edges adj_pop "\<lambda>d. distinct (map fst d)"
proof
  fix g g' :: "'a adjacency" and u v
  show "adj_pop u g = Some (v, g') \<Longrightarrow> adj_edges g = add_mset (u, v) (adj_edges g')"
    by (rule adj_pop_edges)
  assume "distinct (map fst g)"
  then show "adj_pop u g = Some (v, g') \<Longrightarrow> distinct (map fst g')"
    by (rule adj_pop_distinct [rotated])
  show "adj_pop u g = None \<Longrightarrow> outdeg (adj_edges g) u = 0"
    using \<open>distinct (map fst g)\<close>
    by (simp add: outdeg_adj_edges adj_pop_def split: list.splits)
qed

declare hierholzer.simps [simp del]

lemma hierholzer_Nil [simp]: "hierholzer [] circ d = (circ, d)"
  by (simp add: hierholzer.simps)

lemma hierholzer_push:
  "adj_pop u d = Some (v, d') \<Longrightarrow> hierholzer (u # stack) circ d = hierholzer (v # u # stack) circ d'"
  by (simp add: hierholzer.simps)

lemma hierholzer_back:
  "adj_pop u d = None \<Longrightarrow> hierholzer (u # stack) circ d = hierholzer stack (circ @ [u]) d"
  by (simp add: hierholzer.simps)

lemma hierholzer_trail:
  assumes "trail_inv s0 E a stack circ (adj_edges d)" and "distinct (map fst d)"
    and "hierholzer stack circ d = (circ', d')"
  shows "circuit_done s0 E (rev circ') (adj_edges d') \<and> distinct (map fst d')"
  using assms
proof (induction stack circ d arbitrary: a rule: hierholzer.induct)
  case (1 circ d)
  then show ?case by (simp add: trail_inv_def)
next
  case (2 u stack circ d)
  show ?case
  proof (cases "adj_pop u d")
    case (Some p)
    then obtain v d1 where p: "adj_pop u d = Some (v, d1)" by (cases p) auto
    show ?thesis
      using 2(2)[OF p refl adj_store.step_push [OF 2(4) p 2(3)] adj_store.pop_inv [OF 2(4) p]]
        2(5) by (simp add: hierholzer_push [OF p])
  next
    case None
    show ?thesis
    proof (cases stack)
      case Nil
      with 2 None show ?thesis
        using adj_store.step_finish [OF _ None] by (auto simp: hierholzer_back)
    next
      case (Cons t st)
      have "trail_inv s0 E t (t # st) (circ @ [u]) (adj_edges d)"
        using 2(3) Cons by (intro adj_store.step_back [OF 2(4) None]) simp
      from 2(1)[OF None, unfolded Cons, OF this 2(4)] 2(5) show ?thesis
        by (simp add: hierholzer_back [OF None] Cons)
    qed
  qed
qed

lemma hierholzer_done:
  assumes "balanced (adj_edges d)" "distinct (map fst d)" "hierholzer [s] [] d = (circ, d')"
  shows "circuit_done s (adj_edges d) (rev circ) (adj_edges d')" "distinct (map fst d')"
  using hierholzer_trail [OF trail_inv_start [OF assms(1), of s] assms(2,3)] by simp_all

subsection \<open>Components\<close>

text \<open>A component of an edge set: closed under undirected edges, connected to its first node.\<close>

definition component_of :: "('v \<times> 'v) set \<Rightarrow> 'v list \<Rightarrow> bool" where
  "component_of E C \<longleftrightarrow> C \<noteq> [] \<and>
     (\<forall>x \<in> set C. \<forall>y. (x, y) \<in> und E \<longrightarrow> y \<in> set C) \<and>
     (\<forall>x \<in> set C. connected_in E (hd C) x)"

lemma component_of_connected:
  assumes "component_of E C" "x \<in> set C"
  shows "connected_in E x y \<longleftrightarrow> y \<in> set C"
proof
  assume "connected_in E x y"
  then show "y \<in> set C"
    using assms by (intro closed_connected [of "set C" E x y]) (auto simp: component_of_def)
next
  assume "y \<in> set C"
  with assms have "connected_in E x (hd C)" "connected_in E (hd C) y"
    by (auto simp: component_of_def intro: connected_sym)
  then show "connected_in E x y" by (rule rtrancl_trans)
qed

lemma component_of_mono:
  assumes "component_of E C" "E' \<subseteq> E"
    and touch: "\<And>x y. x \<in> set C \<Longrightarrow> (x, y) \<in> und E \<Longrightarrow> (x, y) \<in> und E'"
  shows "component_of E' C"
proof -
  have "connected_in E' (hd C) y" if "connected_in E (hd C) y" for y
    using that
  proof (induction rule: rtrancl_induct)
    case base
    then show ?case by simp
  next
    case (step y z)
    have "y \<in> set C"
      using assms(1) step(1) by (metis component_of_connected component_of_def hd_in_set)
    with step touch show ?case by (meson rtrancl.rtrancl_into_rtrancl)
  qed
  moreover have "und E' \<subseteq> und E" using assms(2) by (auto simp: und_def)
  ultimately show ?thesis using assms(1) by (auto simp: component_of_def)
qed

text \<open>The depth-first loop: visited is what is listed or stacked, listed nodes are expanded.\<close>

lemma component_loop_correct:
  assumes "component_loop uadj stack vis cmp = (cmp', vis')"
    and "vis = set cmp \<union> set stack"
    and "\<forall>x \<in> set cmp. set (adj_get uadj x) \<subseteq> vis"
    and "\<forall>x \<in> vis. (s, x) \<in> {(x, y). y \<in> set (adj_get uadj x)}\<^sup>*"
  shows "vis' = set cmp' \<and> (\<forall>x \<in> set cmp'. set (adj_get uadj x) \<subseteq> set cmp') \<and>
    (\<forall>x \<in> set cmp'. (s, x) \<in> {(x, y). y \<in> set (adj_get uadj x)}\<^sup>*)"
  using assms
proof (induction uadj stack vis cmp rule: component_loop.induct)
  case (1 uadj vis cmp)
  then show ?case by auto
next
  case (2 uadj u stack vis cmp)
  obtain vis1 stack1 where pn: "push_new (adj_get uadj u) vis stack = (vis1, stack1)"
    by (cases "push_new (adj_get uadj u) vis stack")
  have vis1: "vis1 = vis \<union> set (adj_get uadj u)"
    using pn push_new_visited [of "adj_get uadj u" vis stack] by simp
  have stack1: "set stack1 = set stack \<union> (set (adj_get uadj u) - vis)"
    using pn push_new_stack [of "adj_get uadj u" vis stack] by simp
  have "u \<in> vis" using 2(3) by simp
  then have reach: "\<forall>x \<in> vis1. (s, x) \<in> {(x, y). y \<in> set (adj_get uadj x)}\<^sup>*"
    using 2(5) by (auto simp: vis1 intro: rtrancl.rtrancl_into_rtrancl)
  show ?case
  proof (rule 2(1) [OF pn [symmetric] refl])
    show "component_loop uadj stack1 vis1 (cmp @ [u]) = (cmp', vis')"
      using 2(2) pn by simp
    show "vis1 = set (cmp @ [u]) \<union> set stack1"
      using 2(3) by (auto simp: vis1 stack1)
    show "\<forall>x \<in> set (cmp @ [u]). set (adj_get uadj x) \<subseteq> vis1"
      using 2(4) by (auto simp: vis1)
    show "\<forall>x \<in> vis1. (s, x) \<in> {(x, y). y \<in> set (adj_get uadj x)}\<^sup>*" by (rule reach)
  qed
qed

lemma component_loop_prefix:
  "\<exists>ys. fst (component_loop uadj stack vis cmp) = cmp @ ys \<and>
        (stack \<noteq> [] \<longrightarrow> ys \<noteq> [] \<and> hd ys = hd stack)"
proof (induction uadj stack vis cmp rule: component_loop.induct)
  case (1 uadj vis cmp)
  then show ?case by simp
next
  case (2 uadj u stack vis cmp)
  obtain vis1 stack1 where pn: "push_new (adj_get uadj u) vis stack = (vis1, stack1)"
    by (cases "push_new (adj_get uadj u) vis stack")
  from 2 [OF pn [symmetric] refl] pn show ?case by auto
qed

definition uadj_of :: "'v adjacency \<Rightarrow> ('v \<times> 'v) set \<Rightarrow> bool" where
  "uadj_of uadj E \<longleftrightarrow> (\<forall>x. set (adj_get uadj x) = {y. (x, y) \<in> und E})"

lemma component_loop_component:
  assumes "uadj_of uadj E" "component_loop uadj [node] {node} [] = (cmp, vis)"
  shows "component_of E cmp" "hd cmp = node" "vis = set cmp"
proof -
  have rel: "{(x, y). y \<in> set (adj_get uadj x)} = und E"
    using assms(1) by (auto simp: uadj_of_def)
  obtain ys where "cmp = ys" "ys \<noteq> []" "hd ys = node"
    using component_loop_prefix [of uadj "[node]" "{node}" "[]"] assms(2) by auto
  then have hd: "cmp \<noteq> []" "hd cmp = node" by auto
  have *: "vis = set cmp \<and> (\<forall>x \<in> set cmp. set (adj_get uadj x) \<subseteq> set cmp) \<and>
      (\<forall>x \<in> set cmp. (node, x) \<in> {(x, y). y \<in> set (adj_get uadj x)}\<^sup>*)"
    by (rule component_loop_correct [OF assms(2)]) simp_all
  with hd assms(1) show "component_of E cmp" "hd cmp = node" "vis = set cmp"
    unfolding rel by (auto simp: component_of_def uadj_of_def)
qed

lemma components_go_correct:
  assumes "uadj_of uadj E"
    and "\<forall>C \<in> set comps. component_of E C" "visited = \<Union> (set ` set comps)"
    and "sorted_wrt (\<lambda>C D. set C \<inter> set D = {}) comps"
    and "result = components_go uadj nodes visited comps"
  shows "(\<forall>C \<in> set result. component_of E C) \<and>
    sorted_wrt (\<lambda>C D. set C \<inter> set D = {}) result \<and>
    set nodes \<union> visited \<subseteq> \<Union> (set ` set result) \<and>
    hd ` (set result - set comps) \<subseteq> set nodes"
  using assms
proof (induction uadj nodes visited comps arbitrary: result rule: components_go.induct)
  case (1 uadj visited components)
  then show ?case by simp
next
  case (2 uadj node nodes visited components)
  show ?case
  proof (cases "node \<in> visited")
    case True
    then have "result = components_go uadj nodes visited components"
      using 2(7) by simp
    from 2(1)[OF True 2(3-6) this] True show ?thesis by auto
  next
    case False
    obtain cmp vis where cl: "component_loop uadj [node] {node} [] = (cmp, vis)"
      by (cases "component_loop uadj [node] {node} []")
    note cl' = component_loop_component [OF 2(3) cl]
    have disj: "set C \<inter> set cmp = {}" if "C \<in> set components" for C
    proof (rule ccontr)
      assume "set C \<inter> set cmp \<noteq> {}"
      then obtain x where x: "x \<in> set C" "x \<in> set cmp" by auto
      have C: "component_of E C" using 2(4) that by auto
      from cl'(1) x(2) have "connected_in E x node"
        using cl'(2) component_of_connected by (metis component_of_def hd_in_set)
      with C x(1) have "node \<in> set C" by (simp add: component_of_connected)
      with that False 2(5) show False by auto
    qed
    have res: "result = components_go uadj nodes (visited \<union> vis) (components @ [cmp])"
      using 2(7) False cl by simp
    have ih: "(\<forall>C \<in> set result. component_of E C) \<and>
        sorted_wrt (\<lambda>C D. set C \<inter> set D = {}) result \<and>
        set nodes \<union> (visited \<union> vis) \<subseteq> \<Union> (set ` set result) \<and>
        hd ` (set result - set (components @ [cmp])) \<subseteq> set nodes"
    proof (rule 2(2) [OF False cl [symmetric] refl 2(3) _ _ _ res])
      show "\<forall>C \<in> set (components @ [cmp]). component_of E C" using 2(4) cl'(1) by simp
      show "visited \<union> vis = \<Union> (set ` set (components @ [cmp]))" using 2(5) cl'(3) by auto
      show "sorted_wrt (\<lambda>C D. set C \<inter> set D = {}) (components @ [cmp])"
        using 2(6) disj by (simp add: sorted_wrt_append)
    qed
    have "node \<in> vis" using cl' by (auto simp: component_of_def)
    with ih have "set (node # nodes) \<union> visited \<subseteq> \<Union> (set ` set result)" by auto
    moreover have "hd ` (set result - set components) \<subseteq> insert node (set nodes)"
      using ih cl'(2) by fastforce
    ultimately show ?thesis using ih by simp
  qed
qed


subsection \<open>The graph the traversal builds\<close>

lemma adj_get_update [simp]:
  "dict_lookup (AList.update k v d) k' v0 = (if k' = k then v else dict_lookup d k' v0)"
  by (simp add: dict_lookup_def)

lemma adj_edges_update_append:
  "distinct (map fst d) \<Longrightarrow>
   adj_edges (AList.update u (adj_get d u @ [v]) d) = add_mset (u, v) (adj_edges d)"
proof (induction d)
  case Nil
  then show ?case by (simp add: dict_lookup_def)
next
  case (Cons p d)
  obtain w ws where p: "p = (w, ws)" by (cases p)
  show ?case
  proof (cases "w = u")
    case True
    with Cons p show ?thesis by (simp add: dict_lookup_def)
  next
    case False
    with Cons p have "adj_get (p # d) u = adj_get d u" by (simp add: dict_lookup_def)
    with False Cons p show ?thesis by simp
  qed
qed

text \<open>What \<open>build_digraph\<close> keeps: the edges so far in the lists, their degrees in the counters.\<close>

definition graph_ok :: "'v list \<Rightarrow> ('v \<times> 'v) multiset \<Rightarrow> 'v digraph \<Rightarrow> bool" where
  "graph_ok sdks E g \<longleftrightarrow> adj_edges (adj g) = E \<and> distinct (map fst (adj g)) \<and>
     fst ` set (adj g) = set sdks \<and>
     (\<forall>x. dict_lookup (out_degree g) x 0 = outdeg E x) \<and>
     (\<forall>x. dict_lookup (in_degree g) x 0 = indeg E x)"

lemma adj_edges_no_values: "\<forall>p \<in> set d. snd p = [] \<Longrightarrow> adj_edges d = {#}"
  by (induction d) auto

lemma graph_ok_empty: "graph_ok sdks {#} (empty_digraph sdks)"
proof -
  have "snd p = v" if "p \<in> set (dict_from_keys sdks v)" for p and v :: "'a list"
  proof -
    obtain k w where p: "p = (k, w)" by (cases p)
    with that have "map_of (dict_from_keys sdks v) k = Some w"
      by (metis distinct_dict_from_keys map_of_eq_Some_iff)
    with p show ?thesis by (simp split: if_splits)
  qed
  then show ?thesis
    by (simp add: graph_ok_def empty_digraph_def adj_edges_no_values dict_lookup_def)
qed

lemma graph_ok_add_edge:
  assumes "graph_ok sdks E g" "u \<in> set sdks"
  shows "graph_ok sdks (add_mset (u, v) E) (add_edge (u, v) g)"
  using assms
  by (auto simp: graph_ok_def add_edge_def adj_edges_update_append distinct_update keys_update)

lemma graph_ok_build:
  assumes "\<forall>(u, v) \<in> set es. u \<in> set sdks"
  shows "graph_ok sdks (mset es) (build_digraph sdks es)"
proof -
  have "graph_ok sdks (E + mset es) (fold add_edge es g)" if "graph_ok sdks E g" for E g
    using assms that
  proof (induction es arbitrary: E g)
    case Nil
    then show ?case by simp
  next
    case (Cons e es)
    obtain u v where e: "e = (u, v)" by (cases e)
    with Cons.prems have "graph_ok sdks (add_mset e E) (add_edge e g)"
      by (auto intro: graph_ok_add_edge)
    from Cons.IH [OF _ this] Cons.prems(1) show ?case by simp
  qed
  from this [OF graph_ok_empty] show ?thesis by (simp add: build_digraph_def)
qed

lemma verify_ok_iff:
  "verify_eulerian_graph ind outd nodes = Ok () \<longleftrightarrow>
   (\<forall>n \<in> set nodes. dict_lookup ind n 0 = dict_lookup outd n 0)"
  by (induction nodes) (auto simp: Let_def)

lemma verify_error:
  "verify_eulerian_graph ind outd nodes \<noteq> Ok () \<Longrightarrow>
   \<exists>n \<in> set nodes. verify_eulerian_graph ind outd nodes =
     Raise (ValueError (msg_unbalanced n (dict_lookup ind n 0) (dict_lookup outd n 0)))"
  by (induction nodes) (auto simp: Let_def)

text \<open>The undirected neighbours, whatever order \<open>set.add\<close> keeps them in.\<close>

definition set_add :: "('v \<Rightarrow> 'v list \<Rightarrow> 'v list) \<Rightarrow> bool" where
  "set_add add \<longleftrightarrow> (\<forall>x xs. set (add x xs) = insert x (set xs))"

lemma set_add_neighbour:
  "set_add add \<Longrightarrow> set (adj_get (add_neighbour add u v d) x) =
     (if x = u then insert v (set (adj_get d u)) else set (adj_get d x))"
  by (auto simp: add_neighbour_def set_add_def)

lemma adj_edges_concat: "mset (concat (map (\<lambda>(u, vs). map (Pair u) vs) d)) = adj_edges d"
  by (induction d) auto

lemma undirected_adj_correct:
  assumes "set_add add"
  shows "uadj_of (undirected_adj add d) (set_mset (adj_edges d))"
proof -
  let ?es = "concat (map (\<lambda>(u, vs). map (Pair u) vs) d)"
  let ?f = "\<lambda>(u, v) d. add_neighbour add v u (add_neighbour add u v d)"
  have *: "set (adj_get (fold ?f es d0) x) = set (adj_get d0 x) \<union> {y. (x, y) \<in> und (set es)}"
    for es :: "('a \<times> 'a) list" and d0 x
  proof (induction es arbitrary: d0)
    case Nil
    then show ?case by (simp add: und_def)
  next
    case (Cons e es)
    obtain u v where e: "e = (u, v)" by (cases e)
    show ?case
      by (simp add: e Cons.IH set_add_neighbour [OF assms]) (auto simp: und_def)
  qed
  have "set ?es = set_mset (adj_edges d)"
    by (metis adj_edges_concat set_mset_mset)
  moreover have "adj_get (dict_from_keys (map fst d) []) x = []" for x :: 'a
    by (simp add: dict_lookup_def)
  ultimately show ?thesis by (simp add: uadj_of_def undirected_adj_def *)
qed

subsection \<open>All circuits together\<close>

definition closed_walk :: "'v list \<Rightarrow> bool" where
  "closed_walk c \<longleftrightarrow> c \<noteq> [] \<and> hd c = last c"

lemma circuit_vertices:
  assumes "circuit_done s E c R" "component_of (set_mset E) C" "s \<in> set C"
  shows "set c = set C"
proof
  have "mset (hops c) \<subseteq># E" using assms(1) by (simp add: circuit_done_def)
  then have sub: "set (hops c) \<subseteq> set_mset E" by (metis set_mset_mono set_mset_mset)
  have "set xs \<subseteq> set C" if "xs \<noteq> []" "hd xs \<in> set C" "set (hops xs) \<subseteq> set_mset E" for xs
    using that
  proof (induction xs rule: hops.induct)
    case (1 x y zs)
    then have "(x, y) \<in> und (set_mset E)" by (auto simp: und_def)
    with 1 assms(2) have "y \<in> set C" by (auto simp: component_of_def)
    with 1 show ?case by auto
  qed auto
  with sub assms(1,3) show "set c \<subseteq> set C" by (auto simp: circuit_done_def)
next
  show "set C \<subseteq> set c"
  proof
    fix y assume "y \<in> set C"
    with assms have "connected_in (set_mset E) s y" by (simp add: component_of_connected)
    with assms(1) show "y \<in> set c" by (rule circuit_done_covers)
  qed
qed

lemma run_components_correct:
  assumes "run_components cur comps d = (circuits, d')"
    and "balanced (adj_edges d)" "distinct (map fst d)"
    and "\<forall>C \<in> set comps. component_of (set_mset (adj_edges d)) C"
    and "sorted_wrt (\<lambda>C D. set C \<inter> set D = {}) comps"
  shows "adj_edges d = adj_edges d' + mset (concat (map hops circuits)) \<and>
    (\<forall>c \<in> set circuits. closed_walk c) \<and>
    map set circuits = map set comps \<and>
    map hd circuits = map (\<lambda>C. if cur \<in> set C then cur else hd C) comps \<and>
    (\<forall>C \<in> set comps. \<forall>x \<in> set C. outdeg (adj_edges d') x = 0)"
  using assms
proof (induction comps arbitrary: d circuits)
  case Nil
  then show ?case by simp
next
  case (Cons C comps)
  define s where "s = (if cur \<in> set C then cur else hd C)"
  obtain circ d1 where h: "hierholzer [s] [] d = (circ, d1)" by (cases "hierholzer [s] [] d")
  obtain cs d2 where r: "run_components cur comps d1 = (cs, d2)"
    by (cases "run_components cur comps d1")
  have res: "circuits = rev circ # cs" "d' = d2" using Cons.prems(1) h r by (auto simp: s_def)
  note fin = hierholzer_done [OF Cons.prems(2,3) h]
  have C: "component_of (set_mset (adj_edges d)) C" using Cons.prems(4) by simp
  have s: "s \<in> set C" using C by (auto simp: s_def component_of_def)
  have verts: "set (rev circ) = set C" by (rule circuit_vertices [OF fin(1) C s])
  have E: "adj_edges d = adj_edges d1 + mset (hops (rev circ))"
    and bal: "balanced (adj_edges d1)" and closed: "closed_walk (rev circ)" "hd (rev circ) = s"
    and out: "\<forall>x \<in> set C. outdeg (adj_edges d1) x = 0"
    using fin(1) verts by (auto simp: circuit_done_def closed_walk_def)
  have comps: "\<forall>D \<in> set comps. component_of (set_mset (adj_edges d1)) D"
  proof
    fix D assume D: "D \<in> set comps"
    then have disj: "set C \<inter> set D = {}" using Cons.prems(5) by auto
    show "component_of (set_mset (adj_edges d1)) D"
    proof (rule component_of_mono)
      show "component_of (set_mset (adj_edges d)) D" using Cons.prems(4) D by simp
      show "set_mset (adj_edges d1) \<subseteq> set_mset (adj_edges d)" by (simp add: E)
      fix x y assume "x \<in> set D" "(x, y) \<in> und (set_mset (adj_edges d))"
      with disj verts show "(x, y) \<in> und (set_mset (adj_edges d1))"
        by (auto simp: und_def E dest!: hops_set)
    qed
  qed
  have ih: "adj_edges d1 = adj_edges d' + mset (concat (map hops cs)) \<and>
      (\<forall>c \<in> set cs. closed_walk c) \<and> map set cs = map set comps \<and>
      map hd cs = map (\<lambda>C. if cur \<in> set C then cur else hd C) comps \<and>
      (\<forall>C \<in> set comps. \<forall>x \<in> set C. outdeg (adj_edges d') x = 0)"
    using Cons.IH [OF r [folded res(2)] bal fin(2) comps] Cons.prems(5) by simp
  then have "outdeg (adj_edges d') x \<le> outdeg (adj_edges d1) x" for x by simp
  with out have "\<forall>x \<in> set C. outdeg (adj_edges d') x = 0" by (metis le_zero_eq)
  with ih E closed verts show ?case by (simp add: res(1) s_def [symmetric])
qed


subsection \<open>The traversal as a whole\<close>

lemma target_edges_nodes:
  "(u, v) \<in> set (target_edges sdks es) \<Longrightarrow> u \<in> set sdks \<and> v \<in> set sdks"
  by (auto simp: target_edges_def complete_edges_def split: option.splits list.splits if_splits)

lemma graph_ok_target:
  "graph_ok sdks (mset (target_edges sdks es)) (build_digraph sdks (target_edges sdks es))"
  by (rule graph_ok_build) (auto dest: target_edges_nodes)

text \<open>Balance at the listed agents is balance: every endpoint is a listed agent.\<close>

lemma balanced_on_nodes:
  assumes "\<forall>(u, v) \<in># E. u \<in> S \<and> v \<in> S"
  shows "balanced E \<longleftrightarrow> (\<forall>x \<in> S. indeg E x = outdeg E x)"
proof -
  have "outdeg E x = 0 \<and> indeg E x = 0" if "x \<notin> S" for x
    using assms that by (auto simp: outdeg_0_iff indeg_0_iff)
  then show ?thesis by (metis balanced_def)
qed

lemma verify_target:
  "(let g = build_digraph sdks (target_edges sdks es) in
    verify_eulerian_graph (in_degree g) (out_degree g) sdks = Ok ()) \<longleftrightarrow>
   balanced (mset (target_edges sdks es))"
  using graph_ok_target [of sdks es]
    balanced_on_nodes [of "mset (target_edges sdks es)" "set sdks"]
  by (auto simp: verify_ok_iff Let_def graph_ok_def dest: target_edges_nodes)

definition components_for ::
  "(sdk \<Rightarrow> sdk list \<Rightarrow> sdk list) \<Rightarrow> sdk list \<Rightarrow> (sdk \<times> sdk) list option \<Rightarrow> sdk list list" where
  "components_for add sdks es =
     (let g = build_digraph sdks (target_edges sdks es) in
      decompose_into_components add
        (filter (\<lambda>n. dict_lookup (out_degree g) n 0 > 0) sdks) (adj g))"

lemma euler_unfold:
  "euler_traversal_with_hierholzer add cur sdks es =
     (let g = build_digraph sdks (target_edges sdks es); cs = components_for add sdks es in
      rbind (verify_eulerian_graph (in_degree g) (out_degree g) sdks) (\<lambda>_.
        if cs = [] then Ok [[cur]]
        else Ok (fst (run_components cur (sort_key (\<lambda>c. cur \<notin> set c) cs) (adj g)))))"
  by (simp add: euler_traversal_with_hierholzer_def components_for_def Let_def)

lemma components_for_correct:
  fixes sdks :: "sdk list" and es :: "(sdk \<times> sdk) list option"
  assumes "set_add add"
  defines "E \<equiv> set (target_edges sdks es)"
  shows "\<forall>C \<in> set (components_for add sdks es). component_of E C"
    and "sorted_wrt (\<lambda>C D. set C \<inter> set D = {}) (components_for add sdks es)"
    and "(x, y) \<in> E \<Longrightarrow> \<exists>C \<in> set (components_for add sdks es). x \<in> set C"
    and "C \<in> set (components_for add sdks es) \<Longrightarrow> \<exists>y. (hd C, y) \<in> E"
proof -
  let ?g = "build_digraph sdks (target_edges sdks es)"
  let ?nodes = "filter (\<lambda>n. dict_lookup (out_degree ?g) n 0 > 0) sdks"
  have g: "graph_ok sdks (mset (target_edges sdks es)) ?g" by (rule graph_ok_target)
  have nodes: "x \<in> set ?nodes \<longleftrightarrow> x \<in> set sdks \<and> (\<exists>y. (x, y) \<in> E)" for x
    using g outdeg_0_iff [of "mset (target_edges sdks es)" x]
    by (auto simp: graph_ok_def E_def)
  have u: "uadj_of (undirected_adj add (adj ?g)) E"
    using undirected_adj_correct [OF assms(1), of "adj ?g"] g by (simp add: graph_ok_def E_def)
  have c: "components_for add sdks es = components_go (undirected_adj add (adj ?g)) ?nodes {} []"
    by (simp add: components_for_def decompose_into_components_def Let_def)
  note all = components_go_correct [OF u _ _ _ c, simplified]
  show "\<forall>C \<in> set (components_for add sdks es). component_of E C"
    and "sorted_wrt (\<lambda>C D. set C \<inter> set D = {}) (components_for add sdks es)"
    using all by simp_all
  show "\<exists>C \<in> set (components_for add sdks es). x \<in> set C" if "(x, y) \<in> E"
  proof -
    have "x \<in> set ?nodes"
      using that target_edges_nodes [of x y sdks es] nodes by (auto simp: E_def)
    then show ?thesis using all by auto
  qed
  show "\<exists>y. (hd C, y) \<in> E" if "C \<in> set (components_for add sdks es)"
  proof -
    have "hd C \<in> set ?nodes" using all that by auto
    then show ?thesis using nodes by blast
  qed
qed

lemma components_for_empty_iff:
  assumes "set_add add"
  shows "components_for add sdks es = [] \<longleftrightarrow> target_edges sdks es = []"
proof
  assume "components_for add sdks es = []"
  with components_for_correct(3) [OF assms, where sdks = sdks and es = es]
  show "target_edges sdks es = []" by (cases "target_edges sdks es") auto
next
  assume "target_edges sdks es = []"
  with components_for_correct(4) [OF assms, where sdks = sdks and es = es]
  show "components_for add sdks es = []" by (cases "components_for add sdks es") auto
qed

lemma sorted_wrt_disjoint_sort:
  "sorted_wrt (\<lambda>C D. set C \<inter> set D = {}) cs \<Longrightarrow> \<forall>C \<in> set cs. C \<noteq> [] \<Longrightarrow>
   sorted_wrt (\<lambda>C D. set C \<inter> set D = {}) (sort_key f cs)"
proof -
  have *: "sorted_wrt (\<lambda>C D. set C \<inter> set D = {}) ds \<Longrightarrow>
      \<forall>D \<in> set ds. set C \<inter> set D = {} \<Longrightarrow>
      sorted_wrt (\<lambda>C D. set C \<inter> set D = {}) (insort_key f C ds)" for C and ds :: "'a list list"
    by (induction ds) (auto simp: set_insort_key)
  show "sorted_wrt (\<lambda>C D. set C \<inter> set D = {}) cs \<Longrightarrow> ?thesis"
    by (induction cs) (simp_all add: *)
qed

lemma sort_key_bool_first:
  assumes "x \<in> set xs" "\<not> f x"
  shows "sort_key f xs \<noteq> [] \<and> \<not> f (hd (sort_key f xs))"
proof -
  have s: "sorted (map f (sort_key f xs))" by simp
  have x: "x \<in> set (sort_key f xs)" using assms(1) by simp
  then obtain y ys where ys: "sort_key f xs = y # ys" by (cases "sort_key f xs") auto
  with s x assms(2) show ?thesis by (auto simp: le_bool_def)
qed

lemma euler_circuits:
  assumes "set_add add" "balanced (mset (target_edges sdks es))" "target_edges sdks es \<noteq> []"
  shows "\<exists>circuits. euler_traversal_with_hierholzer add cur sdks es = Ok circuits \<and>
    mset (concat (map hops circuits)) = mset (target_edges sdks es) \<and>
    (\<forall>c \<in> set circuits. closed_walk c) \<and>
    ((\<exists>y. (cur, y) \<in> set (target_edges sdks es)) \<longrightarrow> hd (hd circuits) = cur) \<and>
    sorted_wrt (\<lambda>c d. set c \<inter> set d = {}) circuits \<and>
    (\<forall>c \<in> set circuits. component_of (set (target_edges sdks es)) c \<and>
       (\<exists>x \<in> set c. \<exists>y. (x, y) \<in> set (target_edges sdks es)))"
proof -
  define g where "g = build_digraph sdks (target_edges sdks es)"
  define cs where "cs = sort_key (\<lambda>c. cur \<notin> set c) (components_for add sdks es)"
  obtain circuits d' where run: "run_components cur cs (adj g) = (circuits, d')"
    by (cases "run_components cur cs (adj g)")
  have g: "graph_ok sdks (mset (target_edges sdks es)) g"
    unfolding g_def by (rule graph_ok_target)
  then have E: "adj_edges (adj g) = mset (target_edges sdks es)" by (simp add: graph_ok_def)
  note comps = components_for_correct [OF assms(1), where sdks = sdks and es = es]
  have "balanced (adj_edges (adj g))" "distinct (map fst (adj g))"
    using assms(2) E g by (auto simp: graph_ok_def)
  moreover have "\<forall>C \<in> set cs. component_of (set_mset (adj_edges (adj g))) C"
    using comps(1) by (simp add: cs_def E)
  moreover have dis: "sorted_wrt (\<lambda>C D. set C \<inter> set D = {}) cs"
    unfolding cs_def using comps(1,2)
    by (intro sorted_wrt_disjoint_sort) (auto simp: component_of_def)
  ultimately have r: "mset (target_edges sdks es) =
        adj_edges d' + mset (concat (map hops circuits))"
      "\<forall>c \<in> set circuits. closed_walk c"
      "map hd circuits = map (\<lambda>C. if cur \<in> set C then cur else hd C) cs"
      "\<forall>C \<in> set cs. \<forall>x \<in> set C. outdeg (adj_edges d') x = 0"
      "map set circuits = map set cs"
    using run_components_correct [OF run] E by simp_all
  have disjoint: "sorted_wrt (\<lambda>c d. set c \<inter> set d = {}) circuits"
  proof -
    have "sorted_wrt (\<lambda>A B. A \<inter> B = {}) (map set cs)"
      using dis by (simp only: sorted_wrt_map)
    then show ?thesis by (simp only: r(5) [symmetric] sorted_wrt_map)
  qed
  have comp: "component_of (set (target_edges sdks es)) c \<and>
      (\<exists>x \<in> set c. \<exists>y. (x, y) \<in> set (target_edges sdks es))" if c: "c \<in> set circuits" for c
  proof -
    obtain C where C: "C \<in> set (components_for add sdks es)" "set c = set C"
    proof -
      have "set c \<in> set (map set cs)" using c by (simp flip: r(5))
      then show ?thesis using that by (auto simp: cs_def)
    qed
    have *: "component_of (set (target_edges sdks es)) C" using comps(1) C(1) by blast
    have ne: "c \<noteq> []" using r(2) c by (auto simp: closed_walk_def)
    have "connected_in (set (target_edges sdks es)) (hd c) x" if "x \<in> set c" for x
      using component_of_connected [OF *, of "hd c" x] that ne C(2) hd_in_set [OF ne] by simp
    with * ne C(2) have "component_of (set (target_edges sdks es)) c"
      by (simp add: component_of_def)
    moreover have "hd C \<in> set c" using * C(2) by (simp add: component_of_def)
    ultimately show ?thesis using comps(4) [OF C(1)] by blast
  qed
  have "e \<notin># adj_edges d'" for e
  proof
    assume e: "e \<in># adj_edges d'"
    obtain x y where xy: "e = (x, y)" by (cases e)
    with e r(1) have "(x, y) \<in> set (target_edges sdks es)"
      by (metis set_mset_mset union_iff)
    from comps(3) [OF this] r(4) e xy show False by (auto simp: cs_def outdeg_0_iff)
  qed
  then have "adj_edges d' = {#}" by (meson multiset_nonemptyE)
  with r(1) have walk: "mset (concat (map hops circuits)) = mset (target_edges sdks es)" by simp
  have "verify_eulerian_graph (in_degree g) (out_degree g) sdks = Ok ()"
    using verify_target [of sdks es] assms(2) by (simp add: g_def Let_def)
  moreover have ne: "components_for add sdks es \<noteq> []"
    using components_for_empty_iff [OF assms(1)] assms(3) by simp
  ultimately have val: "euler_traversal_with_hierholzer add cur sdks es = Ok circuits"
    using run by (simp add: euler_unfold g_def [symmetric] cs_def [symmetric] Let_def)
  have "hd (hd circuits) = cur" if y: "(cur, y) \<in> set (target_edges sdks es)" for y
  proof -
    obtain C where "C \<in> set (components_for add sdks es)" "cur \<in> set C"
      using comps(3) [OF y] by blast
    then have "cs \<noteq> []" "cur \<in> set (hd cs)"
      using sort_key_bool_first [of C "components_for add sdks es" "\<lambda>c. cur \<notin> set c"]
      by (auto simp: cs_def)
    with r(3) show ?thesis by (cases cs; cases circuits) auto
  qed
  with val walk r(2) disjoint comp show ?thesis by blast
qed

text \<open>One circuit when every edge hangs together with the starting agent.\<close>

lemma euler_single_circuit:
  assumes "set_add add" "balanced (mset (target_edges sdks es))" "target_edges sdks es \<noteq> []"
    and conn: "\<And>x y. (x, y) \<in> set (target_edges sdks es) \<Longrightarrow>
      connected_in (set (target_edges sdks es)) cur x"
    and start: "(cur, z) \<in> set (target_edges sdks es)"
  shows "\<exists>c. euler_traversal_with_hierholzer add cur sdks es = Ok [c] \<and>
    mset (hops c) = mset (target_edges sdks es) \<and> closed_walk c \<and> hd c = cur"
proof -
  obtain circuits where c: "euler_traversal_with_hierholzer add cur sdks es = Ok circuits"
    "mset (concat (map hops circuits)) = mset (target_edges sdks es)"
    "\<forall>c \<in> set circuits. closed_walk c" "hd (hd circuits) = cur"
    "sorted_wrt (\<lambda>c d. set c \<inter> set d = {}) circuits"
    "\<forall>c \<in> set circuits. component_of (set (target_edges sdks es)) c \<and>
       (\<exists>x \<in> set c. \<exists>y. (x, y) \<in> set (target_edges sdks es))"
    using euler_circuits [OF assms(1-3), of cur] start by blast
  have "cur \<in> set d" if "d \<in> set circuits" for d
  proof -
    have d: "component_of (set (target_edges sdks es)) d" using c(6) that by blast
    have "\<exists>x \<in> set d. \<exists>y. (x, y) \<in> set (target_edges sdks es)" using c(6) that by blast
    then obtain x y where x: "x \<in> set d" and y: "(x, y) \<in> set (target_edges sdks es)" by blast
    have "connected_in (set (target_edges sdks es)) x cur"
      by (rule connected_sym [OF conn [OF y]])
    with d x show ?thesis by (simp add: component_of_connected)
  qed
  note on_all = this
  have "circuits \<noteq> []"
  proof
    assume "circuits = []"
    with c(2) have "mset (target_edges sdks es) = {#}" by simp
    with assms(3) show False by simp
  qed
  then obtain d ds where ds: "circuits = d # ds" by (cases circuits) auto
  have "ds = []"
  proof (cases ds)
    case (Cons e es)
    then have "cur \<in> set d" "cur \<in> set e" "set d \<inter> set e = {}"
      using on_all [of d] on_all [of e] c(5) by (simp_all add: ds)
    then show ?thesis by blast
  qed simp
  with c ds show ?thesis by simp
qed


subsection \<open>The iteration order of neighbour sets does not matter\<close>

text \<open>Two runs list the same components: same first node, same members.\<close>

definition comp_sig :: "'v list \<Rightarrow> 'v \<times> 'v set" where
  "comp_sig C = (hd C, set C)"

lemma component_loop_sig:
  assumes "uadj_of u1 E" "uadj_of u2 E"
    and "component_loop u1 [node] {node} [] = (c1, v1)"
    and "component_loop u2 [node] {node} [] = (c2, v2)"
  shows "comp_sig c1 = comp_sig c2 \<and> v1 = v2"
proof -
  note a = component_loop_component [OF assms(1,3)]
  note b = component_loop_component [OF assms(2,4)]
  have "node \<in> set c1" "node \<in> set c2"
    using a b by (metis component_of_def hd_in_set)+
  then have "set c1 = set c2"
    using component_of_connected [OF a(1)] component_of_connected [OF b(1)] by blast
  with a b show ?thesis by (simp add: comp_sig_def)
qed

lemma components_go_sig:
  assumes "uadj_of u1 E" "uadj_of u2 E" "map comp_sig cs1 = map comp_sig cs2"
  shows "map comp_sig (components_go u1 nodes visited cs1) =
    map comp_sig (components_go u2 nodes visited cs2)"
  using assms(3)
proof (induction nodes arbitrary: visited cs1 cs2)
  case Nil
  then show ?case by simp
next
  case (Cons node nodes)
  obtain c1 v1 c2 v2 where
    cl: "component_loop u1 [node] {node} [] = (c1, v1)"
        "component_loop u2 [node] {node} [] = (c2, v2)"
    by (cases "component_loop u1 [node] {node} []"; cases "component_loop u2 [node] {node} []")
  have sig: "comp_sig c1 = comp_sig c2" "v1 = v2"
    using component_loop_sig [OF assms(1,2) cl] by simp_all
  show ?case
    using Cons.IH [of cs1 cs2 visited] Cons.IH [of "cs1 @ [c1]" "cs2 @ [c2]" "visited \<union> v1"]
      Cons.prems sig cl by simp
qed

lemma map_insort_key:
  "map f (insort_key (\<lambda>x. g (f x)) x xs) = insort_key g (f x) (map f xs)"
  by (induction xs) auto

lemma map_sort_key: "map f (sort_key (\<lambda>x. g (f x)) xs) = sort_key g (map f xs)"
  by (induction xs) (simp_all add: map_insort_key)

lemma run_components_sig:
  "map comp_sig cs1 = map comp_sig cs2 \<Longrightarrow>
   run_components cur cs1 d = run_components cur cs2 d"
proof (induction cs1 arbitrary: cs2 d)
  case Nil
  then show ?case by simp
next
  case (Cons c1 cs1)
  then obtain c2 cs2' where cs2: "cs2 = c2 # cs2'" by (cases cs2) auto
  with Cons.prems have "hd c1 = hd c2" "set c1 = set c2" by (simp_all add: comp_sig_def)
  with Cons cs2 show ?case by (simp add: Let_def split: prod.split)
qed

lemma euler_order_independent:
  assumes "set_add add1" "set_add add2"
  shows "euler_traversal_with_hierholzer add1 cur sdks es =
    euler_traversal_with_hierholzer add2 cur sdks es"
proof -
  let ?g = "build_digraph sdks (target_edges sdks es)"
  let ?E = "set_mset (adj_edges (adj ?g))"
  have sig: "map comp_sig (components_for add1 sdks es) = map comp_sig (components_for add2 sdks es)"
    using components_go_sig [OF undirected_adj_correct [OF assms(1)]
        undirected_adj_correct [OF assms(2)], of "[]" "[]"]
    by (simp add: components_for_def decompose_into_components_def Let_def)
  have key: "(\<lambda>c. cur \<notin> set c) = (\<lambda>c. (\<lambda>p. cur \<notin> snd p) (comp_sig c))"
    by (simp add: comp_sig_def)
  have "run_components cur (sort_key (\<lambda>c. cur \<notin> set c) (components_for add1 sdks es)) d =
      run_components cur (sort_key (\<lambda>c. cur \<notin> set c) (components_for add2 sdks es)) d" for d
    by (rule run_components_sig)
      (simp only: key map_sort_key [where f = comp_sig and g = "\<lambda>p. cur \<notin> snd p"] sig)
  moreover have "components_for add1 sdks es = [] \<longleftrightarrow> components_for add2 sdks es = []"
    using sig by (metis map_is_Nil_conv)
  ultimately show ?thesis by (simp add: euler_unfold Let_def)
qed

end
