(* ===== verification/Topologies.thy ===== *)
theory Topologies
  imports Texts
begin

section \<open>Transports, topologies and edge lists (transports.py, scenarios/topology.py)\<close>

text \<open>
  The transports a hop can use, the named shapes of a scenario and their edge lists, the
  canonical form of an edge list, and the restriction of a scenario's graph to the agents
  that are available: the one decision the resolver and the runner share.
\<close>

subsection \<open>Transports\<close>

datatype transport = JSONRPC | GRPC | HTTP_JSON

fun transport_value :: "transport \<Rightarrow> string" where
  "transport_value JSONRPC = ''jsonrpc''"
| "transport_value GRPC = ''grpc''"
| "transport_value HTTP_JSON = ''http_json''"

definition transport_order :: "string list" where
  "transport_order = map transport_value [JSONRPC, GRPC, HTTP_JSON]"

definition all_transports :: "string set" where "all_transports = set transport_order"

subsection \<open>Topologies\<close>

datatype topology = STAR | CHAIN | EULER

fun topology_value :: "topology \<Rightarrow> string" where
  "topology_value STAR = ''star''"
| "topology_value CHAIN = ''chain''"
| "topology_value EULER = ''euler''"

definition min_nodes :: nat where "min_nodes = 2"

definition edge_str :: "nat \<Rightarrow> nat \<Rightarrow> string" where
  "edge_str u v = show_nat u @ ''->'' @ show_nat v"

definition msg_few_nodes :: "topology \<Rightarrow> nat \<Rightarrow> string" where
  "msg_few_nodes t n = topology_value t @ '' topology needs at least '' @ show_nat min_nodes @
     '' agents, got '' @ show_nat n"

definition topology_to_edges :: "topology \<Rightarrow> nat \<Rightarrow> string list option result" where
  "topology_to_edges t node_count =
     (if node_count < min_nodes then Raise (ValueError (msg_few_nodes t node_count))
      else case t of
        STAR \<Rightarrow> Ok (Some (map (\<lambda>i. edge_str 0 i) [1..<node_count] @
                          map (\<lambda>i. edge_str i 0) [1..<node_count]))
      | CHAIN \<Rightarrow> Ok (Some (map (\<lambda>i. edge_str i ((i + 1) mod node_count)) [0..<node_count]))
      | EULER \<Rightarrow> Ok None)"

definition remove_spaces :: "string \<Rightarrow> string" where
  "remove_spaces s = filter (\<lambda>c. c \<noteq> CHR 0x20) s"

definition normalize_edges :: "string list option \<Rightarrow> nat \<Rightarrow> string set" where
  "normalize_edges edges node_count = (case edges of
     None \<Rightarrow> set [edge_str u v. u \<leftarrow> [0..<node_count], v \<leftarrow> [0..<node_count], u \<noteq> v]
   | Some es \<Rightarrow> set (map remove_spaces es))"

text \<open>
  \<open>restrict_to_available\<close>: what is left of a scenario when only the agents in \<open>usable\<close> are
  there. \<open>Ok None\<close> is the source's \<open>None\<close>, the scenario cannot run; the exception is the one
  of \<open>topology_to_edges\<close>, for a caller with \<open>min_agents\<close> below 2.
\<close>

definition restrict_to_available ::
  "string list \<Rightarrow> topology option \<Rightarrow> string list option \<Rightarrow> string set \<Rightarrow> nat \<Rightarrow>
   (string list \<times> string list option) option result" where
  "restrict_to_available sdks topology edges usable min_agents =
     (let kept = filter (\<lambda>s. s \<in> usable) sdks in
      if length kept < min_agents then Ok None
      else if length kept < length sdks \<and> edges \<noteq> None \<and> topology = None then Ok None
      else case topology of
        Some t \<Rightarrow> rbind (topology_to_edges t (length kept)) (\<lambda>es. Ok (Some (kept, es)))
      | None \<Rightarrow> Ok (Some (kept, edges)))"

subsection \<open>Laws of the restriction\<close>

lemma topology_to_edges_Ok: "min_nodes \<le> n \<Longrightarrow> \<exists>es. topology_to_edges t n = Ok es"
  by (cases t) (auto simp: topology_to_edges_def)

lemma restrict_Ok:
  assumes "min_nodes \<le> m"
  shows "\<exists>r. restrict_to_available sdks t es usable m = Ok r"
proof (cases t)
  case None
  then show ?thesis by (simp add: restrict_to_available_def Let_def)
next
  case (Some t')
  show ?thesis
  proof (cases "length (filter (\<lambda>s. s \<in> usable) sdks) < m")
    case True
    then show ?thesis by (simp add: restrict_to_available_def Let_def)
  next
    case False
    with assms obtain e where "topology_to_edges t' (length (filter (\<lambda>s. s \<in> usable) sdks)) = Ok e"
      using topology_to_edges_Ok [of "length (filter (\<lambda>s. s \<in> usable) sdks)" t'] by auto
    with Some False show ?thesis by (simp add: restrict_to_available_def Let_def)
  qed
qed

lemma restrict_kept:
  "restrict_to_available sdks t es usable m = Ok (Some (kept, es')) \<Longrightarrow>
   kept = filter (\<lambda>s. s \<in> usable) sdks \<and> m \<le> length kept"
  by (auto simp: restrict_to_available_def Let_def rbind_eq_Ok split: if_splits option.splits)

lemma restrict_None_iff:
  assumes "min_nodes \<le> m"
  shows "restrict_to_available sdks t es usable m = Ok None \<longleftrightarrow>
    length (filter (\<lambda>s. s \<in> usable) sdks) < m \<or>
    (\<not> set sdks \<subseteq> usable \<and> es \<noteq> None \<and> t = None)"
proof -
  have "length (filter (\<lambda>s. s \<in> usable) sdks) < length sdks \<longleftrightarrow> \<not> set sdks \<subseteq> usable"
    by (metis filter_id_conv length_filter_le length_filter_less nat_less_le subset_code(1))
  then show ?thesis
    using assms
    by (auto simp: restrict_to_available_def Let_def rbind_eq_Ok split: option.splits)
qed

lemma restrict_all:
  assumes "set sdks \<subseteq> usable" "min_nodes \<le> m" "m \<le> length sdks"
  shows "restrict_to_available sdks None es usable m = Ok (Some (sdks, es))"
proof -
  have "filter (\<lambda>s. s \<in> usable) sdks = sdks" using assms(1) by (auto simp: filter_id_conv)
  with assms show ?thesis by (simp add: restrict_to_available_def)
qed

end
