(* ===== verification/Instructions.thy ===== *)
theory Instructions
  imports Euler Topologies
begin

section \<open>Edge lists, nested instructions and test suites (test_suite/__init__.py, agent_table.py)\<close>

text \<open>
  The agent table of a run, the edge strings of a scenario, the nested instruction a
  circuit becomes, the test suite of a scenario and its traversable subgraphs. The
  \<open>Instruction\<close> message of \<open>protos/instruction.proto\<close> is a datatype with the message's
  alternatives; an unset \<open>oneof\<close> behaviour is \<open>NoBehavior\<close>.
\<close>

subsection \<open>The agent table\<close>

record agent_endpoint =
  http_port :: nat
  grpc_port :: nat

type_synonym agent_table = "(sdk, agent_endpoint) dict"

definition endpoint_card_uri :: "agent_endpoint \<Rightarrow> string" where
  "endpoint_card_uri e = ''http://127.0.0.1:'' @ show_nat (http_port e)"

definition msg_no_agent :: "agent_table \<Rightarrow> sdk \<Rightarrow> string" where
  "msg_no_agent agents a =
     ''No running agent '' @ repr_str a @ '' in this run; started agents are: '' @
     (let known = join_with '', '' (str_sort (map fst agents)) in
      if known = [] then ''(none)'' else known)"

definition card_uri :: "agent_table \<Rightarrow> sdk \<Rightarrow> string result" where
  "card_uri agents a = (case map_of agents a of
     Some e \<Rightarrow> Ok (endpoint_card_uri e)
   | None \<Rightarrow> Raise (RuntimeError (msg_no_agent agents a)))"

subsection \<open>Edge strings\<close>

definition msg_edge_format :: "string \<Rightarrow> string" where
  "msg_edge_format s = ''Invalid edge format: '' @ s"

definition msg_edge_format_or_index :: "string \<Rightarrow> string" where
  "msg_edge_format_or_index s = ''Invalid edge format or index: '' @ s"

definition msg_edge_index :: "string \<Rightarrow> string" where
  "msg_edge_index s = ''Invalid edge index: '' @ s"

text \<open>\<open>int(s)\<close>, which refuses the superscript digits that \<open>isdigit\<close> lets through.\<close>

definition py_int :: "string \<Rightarrow> nat result" where
  "py_int s = (case parse_nat s of
     Some n \<Rightarrow> Ok n
   | None \<Rightarrow> Raise (ValueError (''invalid literal for int() with base 10: '' @ repr_str s)))"

text \<open>The parsing both edge functions share: two fields, both digits, both below the bound.\<close>

definition edge_indices :: "(string \<Rightarrow> string) \<Rightarrow> nat \<Rightarrow> string \<Rightarrow> (nat \<times> nat) result" where
  "edge_indices msg_bound n edge_text =
     (case split_on ''->'' edge_text of
        [u, v] \<Rightarrow>
          (let u_s = py_strip u; v_s = py_strip v in
           if \<not> (py_isdigit u_s \<and> py_isdigit v_s)
           then Raise (ValueError (msg_edge_format_or_index edge_text))
           else rbind (py_int u_s) (\<lambda>u_idx. rbind (py_int v_s) (\<lambda>v_idx.
             if u_idx \<ge> n \<or> v_idx \<ge> n then Raise (ValueError (msg_bound edge_text))
             else Ok (u_idx, v_idx))))
      | _ \<Rightarrow> Raise (ValueError (msg_edge_format edge_text)))"

definition parse_edge_strings :: "string list \<Rightarrow> sdk list \<Rightarrow> (sdk \<times> sdk) list result" where
  "parse_edge_strings edges ref_sdks =
     traverse (\<lambda>edge_text.
       rbind (edge_indices msg_edge_format_or_index (length ref_sdks) edge_text)
         (\<lambda>(u_idx, v_idx). Ok (ref_sdks ! u_idx, ref_sdks ! v_idx))) edges"

definition name_to_new_idx :: "sdk list \<Rightarrow> (sdk, nat) dict" where
  "name_to_new_idx sub_sdks =
     fold (\<lambda>(idx, name) d. AList.update name idx d) (List.enumerate 0 sub_sdks) []"

definition map_edges_to_subgraph :: "string list \<Rightarrow> sdk list \<Rightarrow> sdk list \<Rightarrow> string list result" where
  "map_edges_to_subgraph original_edges original_sdks sub_sdks =
     rbind (traverse (edge_indices msg_edge_index (length original_sdks)) original_edges)
       (\<lambda>pairs. Ok (List.map_filter (\<lambda>(u_idx, v_idx).
          case (map_of (name_to_new_idx sub_sdks) (original_sdks ! u_idx),
                map_of (name_to_new_idx sub_sdks) (original_sdks ! v_idx)) of
            (Some new_u, Some new_v) \<Rightarrow> Some (edge_str new_u new_v)
          | _ \<Rightarrow> None) pairs))"

subsection \<open>Instructions\<close>

datatype behavior_field =
    NoBehavior
  | SendMessageBehavior
  | PushNotificationBehavior string
  | ResubscribeBehavior

datatype response_generator = GENERATOR_UNSPECIFIED | GENERATOR_CONCAT

datatype instruction =
    CallAgent (ca_transport: string) (ca_card_uri: string) (ca_instruction: instruction)
      (ca_streaming: bool) (ca_behavior: behavior_field)
  | ReturnResponse string bool
  | SeriesOfSteps "instruction list" response_generator

definition end_token :: "string \<Rightarrow> string" where
  "end_token transport = ''traversal-completed:'' @ transport"

definition trace_token :: "string \<Rightarrow> sdk \<times> sdk \<Rightarrow> string" where
  "trace_token transport e =
     ''['' @ fst e @ '' -> '' @ snd e @ '' ('' @ transport @ '')]''"

definition behavior_of :: "string \<Rightarrow> string \<Rightarrow> behavior_field" where
  "behavior_of behavior url =
     (if behavior = ''push_notification'' then PushNotificationBehavior url
      else if behavior = ''send_message'' then SendMessageBehavior
      else if behavior = ''resubscribe'' then ResubscribeBehavior
      else NoBehavior)"

record hop_config =
  hop_transport :: string
  hop_streaming :: bool
  hop_behavior :: string
  hop_url :: string

definition hold_task :: "hop_config \<Rightarrow> bool" where
  "hold_task cfg = (hop_behavior cfg = ''resubscribe'')"

text \<open>One turn of the loop: hop \<open>u \<rightarrow> v\<close> around what comes after it.\<close>

definition wrap_hop ::
  "agent_table \<Rightarrow> hop_config \<Rightarrow> sdk \<times> sdk \<Rightarrow> instruction \<Rightarrow> instruction result" where
  "wrap_hop agents cfg e current_inst =
     rbind (card_uri agents (snd e)) (\<lambda>uri. Ok (SeriesOfSteps
       [ReturnResponse (trace_token (hop_transport cfg) e) (hold_task cfg),
        CallAgent (hop_transport cfg) uri current_inst (hop_streaming cfg)
          (behavior_of (hop_behavior cfg) (hop_url cfg))] GENERATOR_CONCAT))"

fun wrap_hops ::
  "agent_table \<Rightarrow> hop_config \<Rightarrow> (sdk \<times> sdk) list \<Rightarrow> instruction \<Rightarrow> string list \<Rightarrow>
   (instruction \<times> string list) result" where
  "wrap_hops agents cfg [] current_inst trace_tokens = Ok (current_inst, trace_tokens)"
| "wrap_hops agents cfg (e # es) current_inst trace_tokens =
     rbind (wrap_hop agents cfg e current_inst) (\<lambda>hop.
       wrap_hops agents cfg es hop (trace_tokens @ [trace_token (hop_transport cfg) e]))"

definition traversal_to_instruction ::
  "sdk list \<Rightarrow> agent_table \<Rightarrow> hop_config \<Rightarrow> (instruction \<times> string list) result" where
  "traversal_to_instruction circuit agents cfg =
     wrap_hops agents cfg (rev (hops circuit))
       (ReturnResponse (end_token (hop_transport cfg)) (hold_task cfg)) []"

subsection \<open>Test suites\<close>

record suite_config =
  sc_edges :: "string list option"
  sc_protocols :: "string list option"
  sc_streaming :: bool
  sc_behavior :: string
  sc_url :: string

definition first_sdk :: "sdk list \<Rightarrow> sdk result" where
  "first_sdk sdks = (case sdks of
     [] \<Rightarrow> Raise (IndexError ''list index out of range'') | s # _ \<Rightarrow> Ok s)"

definition hop_config_for :: "suite_config \<Rightarrow> string \<Rightarrow> hop_config" where
  "hop_config_for cfg transport =
     \<lparr>hop_transport = transport, hop_streaming = sc_streaming cfg,
      hop_behavior = sc_behavior cfg, hop_url = sc_url cfg\<rparr>"

text \<open>
  The circuits of one transport, turned into instructions with their expected tokens.
\<close>

definition suite_for_transport ::
  "(sdk \<Rightarrow> sdk list \<Rightarrow> sdk list) \<Rightarrow> sdk list \<Rightarrow> agent_table \<Rightarrow> suite_config \<Rightarrow>
   (sdk \<times> sdk) list option \<Rightarrow> string \<Rightarrow> (instruction list \<times> string list) result" where
  "suite_for_transport add sdks agents cfg pe transport =
     rbind (first_sdk sdks) (\<lambda>start.
     rbind (euler_traversal_with_hierholzer add start sdks pe) (\<lambda>circuits.
     rbind (traverse (\<lambda>c. traversal_to_instruction c agents (hop_config_for cfg transport)) circuits)
       (\<lambda>rs. Ok (map fst rs, concat (map (\<lambda>r. snd r @ [end_token transport]) rs)))))"

text \<open>
  \<open>order\<close> is the iteration order of the frozen set \<open>ALL_TRANSPORTS\<close>, used when no
  protocols are named.
\<close>

definition parsed_edges :: "sdk list \<Rightarrow> suite_config \<Rightarrow> (sdk \<times> sdk) list option result" where
  "parsed_edges sdks cfg = (case sc_edges cfg of
     Some (e # es) \<Rightarrow> rbind (parse_edge_strings (e # es) sdks) (\<lambda>ps. Ok (Some ps))
   | _ \<Rightarrow> Ok None)"

definition transports_to_test :: "string list \<Rightarrow> suite_config \<Rightarrow> string list" where
  "transports_to_test order cfg = (case sc_protocols cfg of Some ps \<Rightarrow> ps | None \<Rightarrow> order)"

definition create_test_suite ::
  "(sdk \<Rightarrow> sdk list \<Rightarrow> sdk list) \<Rightarrow> string list \<Rightarrow> sdk list \<Rightarrow> agent_table \<Rightarrow> suite_config \<Rightarrow>
   (instruction \<times> string list) result" where
  "create_test_suite add order sdks agents cfg =
     rbind (parsed_edges sdks cfg) (\<lambda>pe.
     rbind (traverse (suite_for_transport add sdks agents cfg pe)
              (transports_to_test order cfg)) (\<lambda>parts.
     Ok (SeriesOfSteps (concat (map fst parts)) GENERATOR_CONCAT, concat (map snd parts))))"

subsection \<open>Traversable subgraphs\<close>

text \<open>\<open>itertools.combinations(xs, r)\<close>.\<close>

fun combinations :: "nat \<Rightarrow> 'a list \<Rightarrow> 'a list list" where
  "combinations 0 xs = [[]]"
| "combinations (Suc r) [] = []"
| "combinations (Suc r) (x # xs) = map ((#) x) (combinations r xs) @ combinations (Suc r) xs"

definition try_subgraph ::
  "(sdk \<Rightarrow> sdk list \<Rightarrow> sdk list) \<Rightarrow> string list \<Rightarrow> sdk list \<Rightarrow> agent_table \<Rightarrow> suite_config \<Rightarrow>
   sdk list \<Rightarrow> (sdk list \<times> string list option) option result" where
  "try_subgraph add order sdks agents cfg sub_sdks =
     (if length sub_sdks < 2 then Ok None
      else case (case sc_edges cfg of
                   None \<Rightarrow> Ok None
                 | Some es \<Rightarrow> rbind (map_edges_to_subgraph es sdks sub_sdks) (\<lambda>m. Ok (Some m))) of
        Inl (ValueError m) \<Rightarrow> Ok None
      | Inl e \<Rightarrow> Raise e
      | Inr new_edges \<Rightarrow>
          (case create_test_suite add order sub_sdks agents
                  (cfg\<lparr>sc_edges := new_edges, sc_url := []\<rparr>) of
             Inl (ValueError m) \<Rightarrow> Ok None
           | Inl e \<Rightarrow> Raise e
           | Inr _ \<Rightarrow> Ok (Some (sub_sdks, new_edges))))"

definition get_valid_subgraphs ::
  "(sdk \<Rightarrow> sdk list \<Rightarrow> sdk list) \<Rightarrow> string list \<Rightarrow> sdk list \<Rightarrow> agent_table \<Rightarrow> suite_config \<Rightarrow>
   (sdk list \<times> string list option) list result" where
  "get_valid_subgraphs add order sdks agents cfg =
     (case sdks of
        [] \<Rightarrow> Ok []
      | root # remaining \<Rightarrow>
          rbind (traverse (\<lambda>combo. try_subgraph add order sdks agents cfg (root # combo))
                  (concat (map (\<lambda>r. combinations r remaining) [0..<length remaining + 1])))
            (\<lambda>found. Ok (List.map_filter id found)))"


subsection \<open>What an agent does with an instruction\<close>

text \<open>
  The specification side: an agent replies to \<open>ReturnResponse\<close> with its text, to a series of
  steps with the replies of its steps in order, and to \<open>CallAgent\<close> with what the called agent
  replies. \<open>replies\<close> is the list of texts that come back, \<open>calls\<close> the agent cards fetched on
  the way, with the transport, in call order.
\<close>

fun replies :: "instruction \<Rightarrow> string list" where
  "replies (ReturnResponse r h) = [r]"
| "replies (CallAgent t uri i st b) = replies i"
| "replies (SeriesOfSteps is g) = concat (map replies is)"

fun calls :: "instruction \<Rightarrow> (string \<times> string) list" where
  "calls (ReturnResponse r h) = []"
| "calls (CallAgent t uri i st b) = (t, uri) # calls i"
| "calls (SeriesOfSteps is g) = concat (map calls is)"

lemma wrap_hops_correct:
  "wrap_hops agents cfg es inst toks = Ok (i, ts) \<Longrightarrow>
   ts = toks @ map (trace_token (hop_transport cfg)) es \<and>
   replies i = rev (map (trace_token (hop_transport cfg)) es) @ replies inst \<and>
   (\<exists>uris. traverse (\<lambda>e. card_uri agents (snd e)) es = Ok uris \<and>
     calls i = rev (map (Pair (hop_transport cfg)) uris) @ calls inst)"
proof (induction es arbitrary: inst toks)
  case Nil
  then show ?case by simp
next
  case (Cons e es)
  from Cons.prems obtain uri where uri: "card_uri agents (snd e) = Ok uri"
    by (auto simp: wrap_hop_def rbind_eq_Ok)
  with Cons.prems have "wrap_hops agents cfg es (SeriesOfSteps
       [ReturnResponse (trace_token (hop_transport cfg) e) (hold_task cfg),
        CallAgent (hop_transport cfg) uri inst (hop_streaming cfg)
          (behavior_of (hop_behavior cfg) (hop_url cfg))] GENERATOR_CONCAT)
       (toks @ [trace_token (hop_transport cfg) e]) = Ok (i, ts)"
    by (simp add: wrap_hop_def)
  from Cons.IH [OF this] uri show ?case by auto
qed

lemma card_uri_Ok: "(\<exists>u. card_uri agents a = Ok u) \<longleftrightarrow> a \<in> fst ` set agents"
proof (cases "map_of agents a")
  case None
  then have "a \<notin> fst ` set agents" by (simp only: map_of_eq_None_iff not_False_eq_True)
  with None show ?thesis by (simp add: card_uri_def)
next
  case (Some e)
  then have "a \<in> fst ` set agents" by (metis map_of_eq_None_iff option.distinct(1))
  with Some show ?thesis by (simp add: card_uri_def)
qed

lemma wrap_hops_Ok:
  "(\<exists>r. wrap_hops agents cfg es inst toks = Ok r) \<longleftrightarrow>
   (\<forall>e \<in> set es. snd e \<in> fst ` set agents)"
proof (induction es arbitrary: inst toks)
  case Nil
  then show ?case by simp
next
  case (Cons e es)
  show ?case
  proof (cases "card_uri agents (snd e)")
    case (Inl x)
    then have "snd e \<notin> fst ` set agents" using card_uri_Ok [of agents "snd e"] by simp
    with Inl show ?thesis by (simp add: wrap_hop_def)
  next
    case (Inr uri)
    then have "snd e \<in> fst ` set agents" using card_uri_Ok [of agents "snd e"] by simp
    then show ?thesis
      unfolding wrap_hops.simps wrap_hop_def Inr rbind_Ok Cons.IH by simp
  qed
qed

lemma wrap_hops_error:
  "wrap_hops agents cfg es inst toks = Raise x \<Longrightarrow> \<exists>m. x = RuntimeError m"
  by (induction es arbitrary: inst toks)
    (auto simp: wrap_hop_def card_uri_def rbind_eq_Raise rbind_eq_Ok split: option.splits)

lemma traversal_to_instruction_correct:
  assumes "traversal_to_instruction circuit agents cfg = Ok (i, ts)"
  shows "replies i = map (trace_token (hop_transport cfg)) (hops circuit) @
      [end_token (hop_transport cfg)]"
    and "ts = rev (map (trace_token (hop_transport cfg)) (hops circuit))"
    and "traverse (\<lambda>e. card_uri agents (snd e)) (hops circuit) = Ok (map snd (calls i))"
    and "\<forall>c \<in> set (calls i). fst c = hop_transport cfg"
proof -
  from wrap_hops_correct [OF assms [unfolded traversal_to_instruction_def]]
  obtain uris where r: "ts = map (trace_token (hop_transport cfg)) (rev (hops circuit))"
    "replies i = rev (map (trace_token (hop_transport cfg)) (rev (hops circuit))) @
       [end_token (hop_transport cfg)]"
    "traverse (\<lambda>e. card_uri agents (snd e)) (rev (hops circuit)) = Ok uris"
    "calls i = rev (map (Pair (hop_transport cfg)) uris)"
    by auto
  then show "replies i = map (trace_token (hop_transport cfg)) (hops circuit) @
      [end_token (hop_transport cfg)]"
    and "ts = rev (map (trace_token (hop_transport cfg)) (hops circuit))"
    and "\<forall>c \<in> set (calls i). fst c = hop_transport cfg"
    by (auto simp: rev_map)
  from r(3,4) show "traverse (\<lambda>e. card_uri agents (snd e)) (hops circuit) = Ok (map snd (calls i))"
    by (simp add: traverse_Ok_iff rev_map o_def) (metis list_all2_rev rev_rev_ident)
qed

lemma traversal_to_instruction_Ok:
  "(\<exists>r. traversal_to_instruction circuit agents cfg = Ok r) \<longleftrightarrow>
   (\<forall>e \<in> set (hops circuit). snd e \<in> fst ` set agents)"
  unfolding traversal_to_instruction_def wrap_hops_Ok by simp

subsection \<open>Edge strings printed and read\<close>

lemma split_edge_str: "split_on ''->'' (edge_str u v) = [show_nat u, show_nat v]"
proof -
  have "c \<noteq> CHR 0x2D" if "c \<in> set (show_nat n)" for c n
    using that show_nat_digits [of n] by (auto simp: list_all_iff ascii_digit_def code_of_def)
  then have no: "hd ''->'' \<notin> set (show_nat n)" for n by auto
  have "split_on ''->'' (show_nat u @ ''->'' @ show_nat v) = show_nat u # split_on ''->'' (show_nat v)"
    by (rule split_on_Cons) (use no in simp_all)
  moreover have "split_on ''->'' (show_nat v) = [show_nat v]"
    by (rule split_on_single) (use no in simp_all)
  ultimately show ?thesis by (simp add: edge_str_def)
qed

lemma edge_indices_edge_str:
  "edge_indices msg n (edge_str u v) =
     (if u < n \<and> v < n then Ok (u, v) else Raise (ValueError (msg (edge_str u v))))"
  by (auto simp: edge_indices_def split_edge_str py_int_def Let_def)

lemma parse_edge_strs:
  assumes "\<forall>(u, v) \<in> set es. u < length sdks \<and> v < length sdks"
  shows "parse_edge_strings (map (\<lambda>(u, v). edge_str u v) es) sdks =
    Ok (map (\<lambda>(u, v). (sdks ! u, sdks ! v)) es)"
proof -
  have "parse_edge_strings (map (\<lambda>(u, v). edge_str u v) es) sdks =
      traverse (\<lambda>(u, v). Ok (sdks ! u, sdks ! v)) es"
    unfolding parse_edge_strings_def using assms
    by (induction es) (auto simp: edge_indices_edge_str)
  also have "\<dots> = Ok (map (\<lambda>(u, v). (sdks ! u, sdks ! v)) es)"
    by (induction es) auto
  finally show ?thesis .
qed

lemma edge_indices_error:
  "edge_indices msg n s = Raise x \<Longrightarrow> \<exists>m. x = ValueError m"
  by (auto simp: edge_indices_def py_int_def Let_def rbind_eq_Raise
      split: list.splits if_splits option.splits)

lemma edge_indices_bound: "edge_indices msg n s = Ok (u, v) \<Longrightarrow> u < n \<and> v < n"
  by (auto simp: edge_indices_def py_int_def Let_def rbind_eq_Ok
      split: list.splits if_splits option.splits)

end
