(* ===== verification/Suites.thy ===== *)
theory Suites
  imports Instructions
begin

section \<open>What a test suite makes the agents do (test_suite/__init__.py)\<close>

text \<open>
  The correctness of \<open>create_test_suite\<close> against the specification of an agent's replies
  and calls: the expected tokens are what comes back, every edge is walked once per
  transport, and the errors are the two the callers tell apart. Then the named
  topologies, whose edge lists are always traversable, and the subgraphs of a scenario.
\<close>

subsection \<open>The traversal and its errors\<close>

lemma euler_Ok_iff:
  "(\<exists>cs. euler_traversal_with_hierholzer add cur sdks es = Ok cs) \<longleftrightarrow>
   balanced (mset (target_edges sdks es))"
  using verify_target [of sdks es] by (auto simp: euler_unfold Let_def rbind_eq_Ok)

lemma euler_error:
  "euler_traversal_with_hierholzer add cur sdks es = Raise x \<Longrightarrow>
   (\<exists>m. x = ValueError m) \<and> \<not> balanced (mset (target_edges sdks es))"
proof -
  assume e: "euler_traversal_with_hierholzer add cur sdks es = Raise x"
  then have "\<not> (\<exists>cs. euler_traversal_with_hierholzer add cur sdks es = Ok cs)" by simp
  then have "\<not> balanced (mset (target_edges sdks es))" by (simp only: euler_Ok_iff not_False_eq_True)
  moreover from e have "\<exists>m. x = ValueError m"
    using verify_error [of "in_degree (build_digraph sdks (target_edges sdks es))"
        "out_degree (build_digraph sdks (target_edges sdks es))" sdks]
    by (auto simp: euler_unfold Let_def rbind_eq_Raise split: if_splits)
  ultimately show ?thesis by simp
qed

lemma euler_hops:
  assumes "set_add add" "euler_traversal_with_hierholzer add cur sdks es = Ok cs"
  shows "mset (concat (map hops cs)) = mset (target_edges sdks es)" "cs \<noteq> []"
proof -
  have bal: "balanced (mset (target_edges sdks es))" using assms(2) euler_Ok_iff by blast
  have "mset (concat (map hops cs)) = mset (target_edges sdks es) \<and> cs \<noteq> []"
  proof (cases "target_edges sdks es = []")
    case True
    with assms show ?thesis
      by (auto simp: euler_unfold Let_def rbind_eq_Ok components_for_empty_iff [OF assms(1)])
  next
    case False
    from euler_circuits [OF assms(1) bal False, of cur] assms(2)
    have "mset (concat (map hops cs)) = mset (target_edges sdks es)" by auto
    with False show ?thesis by auto
  qed
  then show "mset (concat (map hops cs)) = mset (target_edges sdks es)" "cs \<noteq> []" by simp_all
qed

subsection \<open>One transport\<close>

lemma concat_tokens:
  "mset (concat (map (\<lambda>c. f c @ [z]) cs)) =
   mset (concat (map f cs)) + replicate_mset (length cs) z"
  by (induction cs) (auto simp: ac_simps)

lemma suite_for_transport_correct:
  assumes "set_add add" "suite_for_transport add sdks agents cfg pe t = Ok (is, toks)"
  shows "mset (concat (map replies is)) = mset toks"
    and "\<exists>n \<ge> 1. mset toks =
      image_mset (trace_token t) (mset (target_edges sdks pe)) + replicate_mset n (end_token t)"
    and "mset (concat (map calls is)) =
      image_mset (\<lambda>e. (t, case card_uri agents (snd e) of Inr u \<Rightarrow> u | Inl _ \<Rightarrow> [])) 
        (mset (target_edges sdks pe))"
proof -
  let ?cfg = "hop_config_for cfg t"
  let ?uri = "\<lambda>e. case card_uri agents (snd e) of Inr u \<Rightarrow> u | Inl _ \<Rightarrow> []"
  from assms(2) obtain start cs rs where
    e: "euler_traversal_with_hierholzer add start sdks pe = Ok cs" and
    rs: "traverse (\<lambda>c. traversal_to_instruction c agents ?cfg) cs = Ok rs" and
    insts: "is = map fst rs" and toks: "toks = concat (map (\<lambda>r. snd r @ [end_token t]) rs)"
    by (auto simp: suite_for_transport_def rbind_eq_Ok)
  have cfg: "hop_transport ?cfg = t" by (simp add: hop_config_for_def)
  have each: "list_all2 (\<lambda>c r. replies (fst r) = map (trace_token t) (hops c) @ [end_token t] \<and>
      snd r = rev (map (trace_token t) (hops c)) \<and>
      calls (fst r) = map (\<lambda>e. (t, ?uri e)) (hops c)) cs rs"
  proof -
    have "replies i = map (trace_token t) (hops c) @ [end_token t] \<and>
      ts = rev (map (trace_token t) (hops c)) \<and> calls i = map (\<lambda>e. (t, ?uri e)) (hops c)"
      if "traversal_to_instruction c agents ?cfg = Ok (i, ts)" for c i ts
    proof -
      note r = traversal_to_instruction_correct [OF that, unfolded cfg]
      from r(3) have "map snd (calls i) = map ?uri (hops c)"
        by (auto simp: traverse_Ok_iff list_all2_conv_all_nth intro!: nth_equalityI)
      moreover have "map fst (calls i) = map (\<lambda>_. t) (calls i)" using r(4) by simp
      ultimately have "calls i = map (\<lambda>e. (t, ?uri e)) (hops c)"
      proof -
        assume a: "map snd (calls i) = map ?uri (hops c)"
        have "calls i = map (\<lambda>p. (t, snd p)) (calls i)"
          using r(4) by (intro nth_equalityI) (auto simp: prod_eq_iff)
        also have "\<dots> = map (Pair t) (map snd (calls i))" by simp
        also have "\<dots> = map (\<lambda>e. (t, ?uri e)) (hops c)" by (simp only: a map_map o_def)
        finally show ?thesis .
      qed
      with r(1,2) show ?thesis by simp
    qed
    with rs show ?thesis
      by (auto simp: traverse_Ok_iff elim!: list_all2_mono)
  qed
  from each have "map (\<lambda>r. replies (fst r)) rs = map (\<lambda>c. map (trace_token t) (hops c) @ [end_token t]) cs"
    "map snd rs = map (\<lambda>c. rev (map (trace_token t) (hops c))) cs"
    "map (\<lambda>r. calls (fst r)) rs = map (\<lambda>c. map (\<lambda>e. (t, ?uri e)) (hops c)) cs"
    by (auto simp: list_all2_conv_all_nth intro!: nth_equalityI)
  then have shape: "map replies is = map (\<lambda>c. map (trace_token t) (hops c) @ [end_token t]) cs"
    "map snd rs = map (\<lambda>c. rev (map (trace_token t) (hops c))) cs"
    "map calls is = map (\<lambda>c. map (\<lambda>e. (t, ?uri e)) (hops c)) cs"
    by (simp_all add: insts o_def)
  have "toks = concat (map (\<lambda>ts. ts @ [end_token t]) (map snd rs))" by (simp add: toks o_def)
  then have toks': "toks = concat (map (\<lambda>c. rev (map (trace_token t) (hops c)) @ [end_token t]) cs)"
    by (simp only: shape(2) map_map o_def)
  have rev: "mset (concat (map (\<lambda>c. rev (map (trace_token t) (hops c))) cs)) =
      image_mset (trace_token t) (mset (concat (map hops cs)))"
    and fwd: "mset (concat (map (\<lambda>c. map (trace_token t) (hops c)) cs)) =
      image_mset (trace_token t) (mset (concat (map hops cs)))"
    and cl: "mset (concat (map (\<lambda>c. map (\<lambda>e. (t, ?uri e)) (hops c)) cs)) =
      image_mset (\<lambda>e. (t, ?uri e)) (mset (concat (map hops cs)))"
    by (induction cs) auto
  note E = euler_hops [OF assms(1) e]
  show "mset (concat (map replies is)) = mset toks"
    by (simp only: shape(1) toks' concat_tokens rev fwd)
  show "\<exists>n \<ge> 1. mset toks =
      image_mset (trace_token t) (mset (target_edges sdks pe)) + replicate_mset n (end_token t)"
  proof (intro exI conjI)
    show "1 \<le> length cs" using E(2) by (cases cs) auto
    show "mset toks = image_mset (trace_token t) (mset (target_edges sdks pe)) +
        replicate_mset (length cs) (end_token t)"
      by (simp only: toks' concat_tokens rev E(1))
  qed
  show "mset (concat (map calls is)) = image_mset (\<lambda>e. (t, ?uri e)) (mset (target_edges sdks pe))"
    by (simp only: shape(3) cl E(1))
qed

text \<open>When one transport succeeds, and how it fails.\<close>

lemma traversal_to_instruction_error:
  "traversal_to_instruction c agents cfg = Raise x \<Longrightarrow> \<exists>m. x = RuntimeError m"
  by (auto simp: traversal_to_instruction_def dest: wrap_hops_error)

lemma suite_for_transport_error:
  assumes "set_add add" "sdks \<noteq> []" "suite_for_transport add sdks agents cfg pe t = Raise x"
  shows "(\<exists>m. x = ValueError m) \<and> \<not> balanced (mset (target_edges sdks pe)) \<or>
    (\<exists>m. x = RuntimeError m) \<and> balanced (mset (target_edges sdks pe)) \<and>
      (\<exists>e \<in> set (target_edges sdks pe). snd e \<notin> fst ` set agents)"
proof -
  obtain s ss where s: "sdks = s # ss" using assms(2) by (cases sdks) auto
  show ?thesis
  proof (cases "euler_traversal_with_hierholzer add s sdks pe")
    case (Inl y)
    with assms(3) s have "x = y" by (simp add: suite_for_transport_def first_sdk_def)
    with euler_error [OF Inl] show ?thesis by blast
  next
    case (Inr cs)
    with assms(3) s have
      tr: "traverse (\<lambda>c. traversal_to_instruction c agents (hop_config_for cfg t)) cs = Raise x"
      by (auto simp: suite_for_transport_def first_sdk_def rbind_eq_Raise)
    then obtain c where c: "c \<in> set cs"
      "traversal_to_instruction c agents (hop_config_for cfg t) = Raise x"
      using traverse_Raise by blast
    then have "\<not> (\<exists>r. traversal_to_instruction c agents (hop_config_for cfg t) = Ok r)" by simp
    then obtain e where e: "e \<in> set (hops c)" "snd e \<notin> fst ` set agents"
      unfolding traversal_to_instruction_Ok by blast
    have "set_mset (mset (concat (map hops cs))) = set_mset (mset (target_edges sdks pe))"
      using euler_hops(1) [OF assms(1) Inr] by (rule arg_cong)
    with c(1) e(1) have "e \<in> set (target_edges sdks pe)" by auto
    with e(2) traversal_to_instruction_error [OF c(2)] Inr show ?thesis
      using euler_Ok_iff by blast
  qed
qed

lemma suite_for_transport_Ok_iff:
  assumes "set_add add" "sdks \<noteq> []"
  shows "(\<exists>r. suite_for_transport add sdks agents cfg pe t = Ok r) \<longleftrightarrow>
    balanced (mset (target_edges sdks pe)) \<and>
    (\<forall>e \<in> set (target_edges sdks pe). snd e \<in> fst ` set agents)"
proof -
  obtain s ss where s: "sdks = s # ss" using assms(2) by (cases sdks) auto
  show ?thesis
  proof (cases "euler_traversal_with_hierholzer add s sdks pe")
    case (Inl y)
    with s show ?thesis using euler_error [OF Inl]
      by (auto simp: suite_for_transport_def first_sdk_def)
  next
    case (Inr cs)
    then have bal: "balanced (mset (target_edges sdks pe))" using euler_Ok_iff by blast
    have "set_mset (mset (concat (map hops cs))) = set_mset (mset (target_edges sdks pe))"
      using euler_hops(1) [OF assms(1) Inr] by (rule arg_cong)
    then have E: "set (target_edges sdks pe) = (\<Union>c \<in> set cs. set (hops c))" by auto
    have "(\<exists>r. suite_for_transport add sdks agents cfg pe t = Ok r) \<longleftrightarrow>
        (\<exists>rs. traverse (\<lambda>c. traversal_to_instruction c agents (hop_config_for cfg t)) cs = Ok rs)"
      using s Inr by (auto simp: suite_for_transport_def first_sdk_def rbind_eq_Ok)
    with bal show ?thesis unfolding traverse_ex_Ok traversal_to_instruction_Ok E by blast
  qed
qed

subsection \<open>The whole suite\<close>

text \<open>What a traversal has to produce for the transports \<open>ts\<close>.\<close>

definition hop_calls ::
  "agent_table \<Rightarrow> string list \<Rightarrow> (sdk \<times> sdk) multiset \<Rightarrow> (string \<times> string) multiset" where
  "hop_calls agents ts E = sum_list (map (\<lambda>t. image_mset (\<lambda>e.
     (t, case card_uri agents (snd e) of Inr u \<Rightarrow> u | Inl _ \<Rightarrow> [])) E) ts)"

lemma create_test_suite_correct:
  assumes "set_add add" "create_test_suite add order sdks agents cfg = Ok (i, toks)"
  obtains pe where "parsed_edges sdks cfg = Ok pe"
    and "mset (replies i) = mset toks"
    and "mset (calls i) =
      hop_calls agents (transports_to_test order cfg) (mset (target_edges sdks pe))"
    and "\<forall>t \<in> set (transports_to_test order cfg).
      (\<forall>e \<in> set (target_edges sdks pe). trace_token t e \<in> set toks) \<and> end_token t \<in> set toks"
proof -
  from assms(2) obtain pe parts where
    pe: "parsed_edges sdks cfg = Ok pe" and
    parts: "traverse (suite_for_transport add sdks agents cfg pe)
      (transports_to_test order cfg) = Ok parts" and
    i: "i = SeriesOfSteps (concat (map fst parts)) GENERATOR_CONCAT" and
    toks: "toks = concat (map snd parts)"
    by (auto simp: create_test_suite_def rbind_eq_Ok)
  let ?E = "mset (target_edges sdks pe)"
  have "mset (concat (map replies (concat (map fst parts)))) = mset (concat (map snd parts)) \<and>
     mset (concat (map calls (concat (map fst parts)))) = hop_calls agents ts ?E \<and>
     (\<forall>t \<in> set ts. (\<forall>e \<in> set (target_edges sdks pe). trace_token t e \<in> set (concat (map snd parts))) \<and>
        end_token t \<in> set (concat (map snd parts)))"
    if "traverse (suite_for_transport add sdks agents cfg pe) ts = Ok parts" for ts
    using that
  proof (induction ts arbitrary: parts)
    case Nil
    then show ?case by (simp add: hop_calls_def)
  next
    case (Cons t ts)
    then obtain p ps where p: "suite_for_transport add sdks agents cfg pe t = Ok p"
      and ps: "traverse (suite_for_transport add sdks agents cfg pe) ts = Ok ps"
      and parts: "parts = p # ps" by (auto simp: rbind_eq_Ok)
    obtain insts tks where p': "p = (insts, tks)" by (cases p)
    note one = suite_for_transport_correct [OF assms(1) p [unfolded p']]
    from one(2) obtain n where n: "1 \<le> n"
      "mset tks = image_mset (trace_token t) ?E + replicate_mset n (end_token t)" by blast
    have "set_mset (mset tks) = trace_token t ` set (target_edges sdks pe) \<union> {end_token t}"
      unfolding n(2) using n(1) by auto
    then have "set tks = trace_token t ` set (target_edges sdks pe) \<union> {end_token t}" by simp
    with Cons.IH [OF ps] one(1,3) show ?case by (simp add: parts p' hop_calls_def)
  qed
  from this [OF parts] show thesis
    by (intro that [OF pe]) (auto simp: i toks)
qed

lemma parsed_edges_error: "parsed_edges sdks cfg = Raise x \<Longrightarrow> \<exists>m. x = ValueError m"
  by (auto simp: parsed_edges_def parse_edge_strings_def rbind_eq_Raise
      split: option.splits list.splits dest!: traverse_Raise edge_indices_error)

lemma create_test_suite_result:
  assumes "set_add add" "sdks \<noteq> []" "transports_to_test order cfg \<noteq> []"
    and pe: "parsed_edges sdks cfg = Ok pe"
  shows "case create_test_suite add order sdks agents cfg of
      Inr _ \<Rightarrow> balanced (mset (target_edges sdks pe)) \<and>
        (\<forall>e \<in> set (target_edges sdks pe). snd e \<in> fst ` set agents)
    | Inl (ValueError _) \<Rightarrow> \<not> balanced (mset (target_edges sdks pe))
    | Inl (RuntimeError _) \<Rightarrow> balanced (mset (target_edges sdks pe)) \<and>
        \<not> (\<forall>e \<in> set (target_edges sdks pe). snd e \<in> fst ` set agents)
    | Inl _ \<Rightarrow> False"
proof (cases "create_test_suite add order sdks agents cfg")
  case (Inl x)
  with pe obtain t where "suite_for_transport add sdks agents cfg pe t = Raise x"
    by (auto simp: create_test_suite_def rbind_eq_Raise dest!: traverse_Raise)
  from suite_for_transport_error [OF assms(1,2) this] show ?thesis
    by (elim disjE conjE exE) (simp_all add: Inl)
next
  case (Inr r)
  with pe have "\<exists>ps. traverse (suite_for_transport add sdks agents cfg pe)
      (transports_to_test order cfg) = Ok ps"
    by (auto simp: create_test_suite_def rbind_eq_Ok)
  then have "\<exists>r. suite_for_transport add sdks agents cfg pe (hd (transports_to_test order cfg)) = Ok r"
    unfolding traverse_ex_Ok using assms(3) hd_in_set by blast
  with Inr show ?thesis unfolding suite_for_transport_Ok_iff [OF assms(1,2)] by simp
qed

end
