(* ===== verification/Subgraphs.thy ===== *)
theory Subgraphs
  imports Suites
begin

section \<open>Named topologies and induced subgraphs (test_suite/__init__.py, topology.py)\<close>

text \<open>
  The edge lists of the named topologies are balanced and connected, so each is one circuit
  from the first agent through every agent. The subgraphs of a scenario: the combinations
  are the sublists, the mapped edge strings are the edges of the induced subgraph, and on a
  complete digraph every sublist is traversable.
\<close>

subsection \<open>Balanced edge lists\<close>

lemma closed_list_degrees:
  "c \<noteq> [] \<Longrightarrow> outdeg (mset (hops c)) x + of_bool (x = last c) =
    indeg (mset (hops c)) x + of_bool (x = hd c)"
  by (induction c rule: hops.induct) auto

lemma closed_list_balanced: "closed_walk c \<Longrightarrow> balanced (mset (hops c))"
  using closed_list_degrees [of c] by (auto simp: closed_walk_def balanced_def)

lemma hops_pairs_deg:
  "outdeg (mset (concat (map (\<lambda>u. map (Pair u) (filter (\<lambda>v. u \<noteq> v) xs)) ys))) x =
     count (mset ys) x * length (filter (\<lambda>v. v \<noteq> x) xs)"
  "indeg (mset (concat (map (\<lambda>u. map (Pair u) (filter (\<lambda>v. u \<noteq> v) xs)) ys))) x =
     length (filter (\<lambda>u. u \<noteq> x) ys) * count (mset xs) x"
proof -
  have "outdeg (image_mset (Pair u) (filter_mset ((\<noteq>) u) (mset xs))) x =
      (if u = x then length (filter (\<lambda>v. v \<noteq> x) xs) else 0)"
    "indeg (image_mset (Pair u) (filter_mset ((\<noteq>) u) (mset xs))) x =
      (if u = x then 0 else count (mset xs) x)" for u
    by (induction xs) auto
  then show "outdeg (mset (concat (map (\<lambda>u. map (Pair u) (filter (\<lambda>v. u \<noteq> v) xs)) ys))) x =
     count (mset ys) x * length (filter (\<lambda>v. v \<noteq> x) xs)"
  "indeg (mset (concat (map (\<lambda>u. map (Pair u) (filter (\<lambda>v. u \<noteq> v) xs)) ys))) x =
     length (filter (\<lambda>u. u \<noteq> x) ys) * count (mset xs) x"
    by (induction ys) auto
qed

lemma complete_edges_alt:
  "complete_edges xs = concat (map (\<lambda>u. map (Pair u) (filter (\<lambda>v. u \<noteq> v) xs)) xs)"
proof -
  have "concat (map (\<lambda>v. if u \<noteq> v then [(u, v)] else []) xs) = map (Pair u) (filter (\<lambda>v. u \<noteq> v) xs)"
    for u :: 'a by (induction xs) auto
  then show ?thesis by (simp add: complete_edges_def)
qed

lemma complete_balanced: "balanced (mset (complete_edges xs))"
  by (simp add: complete_edges_alt balanced_def hops_pairs_deg mult.commute)

lemma complete_edges_set: "set (complete_edges xs) = {(u, v). u \<in> set xs \<and> v \<in> set xs \<and> u \<noteq> v}"
  by (auto simp: complete_edges_alt)

lemma symmetric_balanced: "balanced (mset (map (Pair a) xs @ map (\<lambda>x. (x, a)) xs))"
proof -
  have "outdeg (mset (map (Pair a) xs @ map (\<lambda>x. (x, a)) xs)) y =
      indeg (mset (map (Pair a) xs @ map (\<lambda>x. (x, a)) xs)) y" for y
    by (induction xs) auto
  then show ?thesis by (simp add: balanced_def)
qed

subsection \<open>The edge lists of the named topologies\<close>

lemma parse_star:
  assumes "topology_to_edges STAR (length sdks) = Ok (Some es)"
  shows "parse_edge_strings es sdks =
    Ok (map (Pair (hd sdks)) (tl sdks) @ map (\<lambda>s. (s, hd sdks)) (tl sdks))"
proof -
  let ?n = "length sdks"
  have n: "2 \<le> ?n" and es: "es = map (\<lambda>(u, v). edge_str u v)
      (map (Pair 0) [1..<?n] @ map (\<lambda>i. (i, 0)) [1..<?n])"
    using assms by (auto simp: topology_to_edges_def min_nodes_def split: if_splits)
  have hd: "sdks ! 0 = hd sdks" using n by (cases sdks) auto
  have tl: "map ((!) sdks) [1..<?n] = tl sdks"
    by (intro nth_equalityI) (auto simp: nth_tl)
  have "parse_edge_strings es sdks = Ok (map (\<lambda>(u, v). (sdks ! u, sdks ! v))
      (map (Pair 0) [1..<?n] @ map (\<lambda>i. (i, 0)) [1..<?n]))"
    unfolding es by (rule parse_edge_strs) (use n in auto)
  also have "map (\<lambda>(u, v). (sdks ! u, sdks ! v)) (map (Pair 0) [1..<?n] @ map (\<lambda>i. (i, 0)) [1..<?n]) =
      map (Pair (hd sdks)) (map ((!) sdks) [1..<?n]) @ map (\<lambda>s. (s, hd sdks)) (map ((!) sdks) [1..<?n])"
    by (simp add: hd)
  finally show ?thesis by (simp only: tl)
qed

lemma hops_nth: "hops xs = map (\<lambda>i. (xs ! i, xs ! (i + 1))) [0..<length xs - 1]"
proof (induction xs rule: hops.induct)
  case (1 x y zs)
  have "[0..<length (x # y # zs) - 1] = 0 # map Suc [0..<length (y # zs) - 1]"
    by (simp add: upt_conv_Cons map_Suc_upt del: upt_Suc)
  with 1 show ?case by (simp del: upt_Suc)
qed auto

lemma parse_chain:
  assumes "topology_to_edges CHAIN (length sdks) = Ok (Some es)"
  shows "parse_edge_strings es sdks = Ok (hops (sdks @ [hd sdks]))"
proof -
  let ?n = "length sdks"
  have n: "2 \<le> ?n" and es: "es = map (\<lambda>(u, v). edge_str u v) (map (\<lambda>i. (i, (i + 1) mod ?n)) [0..<?n])"
    using assms by (auto simp: topology_to_edges_def min_nodes_def split: if_splits)
  have "parse_edge_strings es sdks = Ok (map (\<lambda>(u, v). (sdks ! u, sdks ! v))
      (map (\<lambda>i. (i, (i + 1) mod ?n)) [0..<?n]))"
    unfolding es by (rule parse_edge_strs) (use n in \<open>auto intro!: mod_less_divisor\<close>)
  also have "map (\<lambda>(u, v). (sdks ! u, sdks ! v)) (map (\<lambda>i. (i, (i + 1) mod ?n)) [0..<?n]) =
      map (\<lambda>i. ((sdks @ [hd sdks]) ! i, (sdks @ [hd sdks]) ! (i + 1))) [0..<?n]"
  proof -
    have "sdks ! ((i + 1) mod ?n) = (sdks @ [hd sdks]) ! (i + 1)" if "i < ?n" for i
    proof (cases "i + 1 = ?n")
      case True
      with n show ?thesis by (cases sdks) (auto simp: nth_append)
    next
      case False
      with that show ?thesis by (simp add: nth_append)
    qed
    then show ?thesis by (simp add: nth_append)
  qed
  finally show ?thesis by (simp add: hops_nth del: upt_Suc)
qed

text \<open>The edges a named topology stands for, as pairs of agents.\<close>

fun topology_pairs :: "topology \<Rightarrow> sdk list \<Rightarrow> (sdk \<times> sdk) list" where
  "topology_pairs STAR sdks = map (Pair (hd sdks)) (tl sdks) @ map (\<lambda>s. (s, hd sdks)) (tl sdks)"
| "topology_pairs CHAIN sdks = hops (sdks @ [hd sdks])"
| "topology_pairs EULER sdks = complete_edges sdks"

lemma topology_pairs_nodes:
  "sdks \<noteq> [] \<Longrightarrow> e \<in> set (topology_pairs t sdks) \<Longrightarrow> fst e \<in> set sdks \<and> snd e \<in> set sdks"
proof (cases t)
  case STAR
  then show "sdks \<noteq> [] \<Longrightarrow> e \<in> set (topology_pairs t sdks) \<Longrightarrow> fst e \<in> set sdks \<and> snd e \<in> set sdks"
    by (cases sdks) auto
next
  case CHAIN
  then show "sdks \<noteq> [] \<Longrightarrow> e \<in> set (topology_pairs t sdks) \<Longrightarrow> fst e \<in> set sdks \<and> snd e \<in> set sdks"
    using hops_set [of "fst e" "snd e" "sdks @ [hd sdks]"] by auto
next
  case EULER
  then show "sdks \<noteq> [] \<Longrightarrow> e \<in> set (topology_pairs t sdks) \<Longrightarrow> fst e \<in> set sdks \<and> snd e \<in> set sdks"
    by (auto simp: complete_edges_set)
qed

lemma topology_pairs_balanced: "sdks \<noteq> [] \<Longrightarrow> balanced (mset (topology_pairs t sdks))"
proof (cases t)
  case STAR
  then show ?thesis using symmetric_balanced [of "hd sdks" "tl sdks"] by simp
next
  case CHAIN
  assume "sdks \<noteq> []"
  then have "closed_walk (sdks @ [hd sdks])" by (simp add: closed_walk_def)
  with CHAIN show ?thesis by (simp add: closed_list_balanced)
next
  case EULER
  then show ?thesis by (simp add: complete_balanced)
qed

lemma topology_pairs_start:
  "2 \<le> length sdks \<Longrightarrow> distinct sdks \<Longrightarrow> \<exists>z. (hd sdks, z) \<in> set (topology_pairs t sdks)"
  by (cases t; cases sdks; cases "tl sdks") (auto simp: complete_edges_set)

lemma hops_connected:
  "c \<noteq> [] \<Longrightarrow> set (hops c) \<subseteq> E \<Longrightarrow> x \<in> set c \<Longrightarrow> connected_in E (hd c) x"
proof (induction c rule: hops.induct)
  case (1 a b zs)
  show ?case
  proof (cases "x = a")
    case False
    with 1 have "connected_in E b x" by simp
    moreover have "(a, b) \<in> und E" using 1(3) by (auto simp: und_def)
    ultimately show ?thesis by (simp add: converse_rtrancl_into_rtrancl)
  qed simp
qed auto

lemma topology_pairs_connected:
  assumes "2 \<le> length sdks" "x \<in> set sdks"
  shows "connected_in (set (topology_pairs t sdks)) (hd sdks) x"
proof (cases t)
  case CHAIN
  have "sdks \<noteq> []" using assms(1) by auto
  then show ?thesis
    using hops_connected [of "sdks @ [hd sdks]" "set (hops (sdks @ [hd sdks]))" x] assms CHAIN
    by simp
next
  case STAR
  then have "x = hd sdks \<or> (hd sdks, x) \<in> und (set (topology_pairs t sdks))"
    using assms by (cases sdks) (auto simp: und_def)
  then show ?thesis by auto
next
  case EULER
  then have "x = hd sdks \<or> (hd sdks, x) \<in> und (set (topology_pairs t sdks))"
    using assms by (cases sdks) (auto simp: und_def complete_edges_set)
  then show ?thesis by auto
qed

lemma topology_target_edges:
  assumes "topology_to_edges t (length sdks) = Ok es"
  shows "\<exists>pe. parsed_edges sdks (cfg\<lparr>sc_edges := es\<rparr>) = Ok pe \<and>
    target_edges sdks pe = topology_pairs t sdks"
proof -
  have n: "2 \<le> length sdks" using assms
    by (auto simp: topology_to_edges_def min_nodes_def split: if_splits)
  have ne: "sdks \<noteq> []" using n by auto
  have keep: "target_edges sdks (Some (topology_pairs t sdks)) = topology_pairs t sdks"
    if "t \<noteq> EULER"
  proof -
    have "topology_pairs t sdks \<noteq> []"
      using n that by (cases t; cases sdks; cases "tl sdks") auto
    then obtain p ps where p: "topology_pairs t sdks = p # ps" by (cases "topology_pairs t sdks") auto
    have "\<forall>e \<in> set (p # ps). fst e \<in> set sdks \<and> snd e \<in> set sdks"
      using topology_pairs_nodes [OF ne, where t = t] unfolding p by blast
    then have "filter (\<lambda>(u, v). u \<in> set sdks \<and> v \<in> set sdks) (p # ps) = p # ps"
      by (auto simp: case_prod_unfold)
    then show ?thesis by (simp add: target_edges_def p)
  qed
  show ?thesis
  proof (cases t)
    case EULER
    with assms n show ?thesis
      by (auto simp: topology_to_edges_def parsed_edges_def target_edges_def min_nodes_def
          split: if_splits)
  next
    case STAR
    with assms n obtain e es' where es: "es = Some (e # es')"
      by (cases "[1..<length sdks]") (auto simp: topology_to_edges_def min_nodes_def split: if_splits)
    with STAR assms keep parse_star [of sdks "e # es'"] show ?thesis
      by (simp add: parsed_edges_def)
  next
    case CHAIN
    with assms n obtain e es' where es: "es = Some (e # es')"
      by (cases "[0..<length sdks]") (auto simp: topology_to_edges_def min_nodes_def split: if_splits)
    with CHAIN assms keep parse_chain [of sdks "e # es'"] show ?thesis
      by (simp add: parsed_edges_def)
  qed
qed

lemma topology_single_circuit:
  assumes "set_add add" "distinct sdks" "topology_to_edges t (length sdks) = Ok es"
  shows "\<exists>pe c. parsed_edges sdks (cfg\<lparr>sc_edges := es\<rparr>) = Ok pe \<and>
    euler_traversal_with_hierholzer add (hd sdks) sdks pe = Ok [c] \<and>
    mset (hops c) = mset (topology_pairs t sdks) \<and> closed_walk c \<and> hd c = hd sdks \<and>
    set c = set sdks"
proof -
  have n: "2 \<le> length sdks" using assms(3)
    by (auto simp: topology_to_edges_def min_nodes_def split: if_splits)
  then have ne: "sdks \<noteq> []" by auto
  obtain pe where pe: "parsed_edges sdks (cfg\<lparr>sc_edges := es\<rparr>) = Ok pe"
    "target_edges sdks pe = topology_pairs t sdks"
    using topology_target_edges [OF assms(3)] by blast
  obtain z where z: "(hd sdks, z) \<in> set (topology_pairs t sdks)"
    using topology_pairs_start [OF n assms(2)] by blast
  have "\<exists>c. euler_traversal_with_hierholzer add (hd sdks) sdks pe = Ok [c] \<and>
      mset (hops c) = mset (target_edges sdks pe) \<and> closed_walk c \<and> hd c = hd sdks"
  proof (rule euler_single_circuit [OF assms(1)])
    show "balanced (mset (target_edges sdks pe))"
      unfolding pe(2) by (rule topology_pairs_balanced [OF ne])
    show "target_edges sdks pe \<noteq> []" unfolding pe(2) using z by auto
    show "(hd sdks, z) \<in> set (target_edges sdks pe)" unfolding pe(2) by (rule z)
    fix x y assume "(x, y) \<in> set (target_edges sdks pe)"
    then have "x \<in> set sdks" by (auto dest: target_edges_nodes)
    then show "connected_in (set (target_edges sdks pe)) (hd sdks) x"
      unfolding pe(2) by (rule topology_pairs_connected [OF n])
  qed
  then obtain c where c: "euler_traversal_with_hierholzer add (hd sdks) sdks pe = Ok [c]"
    "mset (hops c) = mset (topology_pairs t sdks)" "closed_walk c" "hd c = hd sdks"
    unfolding pe(2) by blast
  have E: "set (hops c) = set (topology_pairs t sdks)" using c(2) by (metis set_mset_mset)
  have "x \<in> set sdks" if "x \<in> set c" for x
  proof (cases "x = hd sdks")
    case False
    have "connected_in (set (hops c)) (hd c) x"
      using hops_connected [of c "set (hops c)" x] c(3) that by (simp add: closed_walk_def)
    then show ?thesis
    proof (rule closed_connected [rotated 2])
      show "hd c \<in> set sdks" using c(4) ne by simp
      fix u v assume "(u, v) \<in> und (set (hops c))"
      then show "v \<in> set sdks"
        using topology_pairs_nodes [OF ne, of _ t] unfolding E und_def by fastforce
    qed
  qed (use ne in simp)
  moreover have "x \<in> set c" if "x \<in> set sdks" for x
  proof -
    have "connected_in (set (hops c)) (hd sdks) x"
      unfolding E by (rule topology_pairs_connected [OF n that])
    then show ?thesis
    proof (rule closed_connected [rotated 2])
      show "hd sdks \<in> set c" using c(3,4) hd_in_set [of c] by (simp add: closed_walk_def)
      fix u v assume "(u, v) \<in> und (set (hops c))"
      then show "v \<in> set c" by (auto simp: und_def dest: hops_set)
    qed
  qed
  ultimately show ?thesis using pe(1) c by blast
qed

subsection \<open>Combinations\<close>

lemma combinations_set: "set (combinations r xs) = {ys. subseq ys xs \<and> length ys = r}"
proof (induction r xs rule: combinations.induct)
  case (3 r x xs)
  have "subseq ys (x # xs) \<and> length ys = Suc r \<longleftrightarrow>
      (\<exists>zs. ys = x # zs \<and> subseq zs xs \<and> length zs = r) \<or> subseq ys xs \<and> length ys = Suc r" for ys
    by (cases ys) (auto dest: subseq_Cons')
  with 3 show ?case by auto
qed auto

lemma combinations_length: "length (combinations r xs) = length xs choose r"
  by (induction r xs rule: combinations.induct) auto

text \<open>All sublists of the remaining agents, smallest first, but the empty one.\<close>

lemma all_combinations_length:
  "length (concat (map (\<lambda>r. combinations r xs) [0..<length xs + 1])) = 2 ^ length xs"
proof -
  have "length (concat (map (\<lambda>r. combinations r xs) [0..<n])) = (\<Sum>r<n. length xs choose r)" for n
    by (induction n) (simp_all add: combinations_length)
  then show ?thesis using choose_row_sum [of "length xs"] by (simp only: lessThan_Suc_atMost Suc_eq_plus1 [symmetric])
qed

lemma all_combinations_set:
  "set (concat (map (\<lambda>r. combinations r xs) [0..<length xs + 1])) = {ys. subseq ys xs}"
proof -
  have "ys \<in> set (combinations (length ys) xs) \<and> length ys \<le> length xs" if "subseq ys xs" for ys
    using that by (simp add: combinations_set list_emb_length)
  then show ?thesis by (auto simp: combinations_set) (metis le_neq_implies_less)
qed

subsection \<open>The edges of an induced subgraph\<close>

lemma name_to_new_idx_lookup:
  "case map_of (name_to_new_idx sub) x of
     None \<Rightarrow> x \<notin> set sub
   | Some i \<Rightarrow> i < length sub \<and> sub ! i = x"
proof (induction sub rule: rev_induct)
  case Nil
  then show ?case by (simp add: name_to_new_idx_def)
next
  case (snoc a sub)
  have "name_to_new_idx (sub @ [a]) = AList.update a (length sub) (name_to_new_idx sub)"
    by (simp add: name_to_new_idx_def enumerate_append_eq)
  with snoc show ?case by (auto simp: nth_append split: option.splits)
qed

lemma edge_indices_Ok_msg:
  "edge_indices m1 n s = Ok p \<Longrightarrow> edge_indices m2 n s = Ok p"
  by (auto simp: edge_indices_def Let_def rbind_eq_Ok split: list.splits if_splits)

lemma parse_edge_strings_indices:
  "traverse (edge_indices msg (length sdks)) es = Ok idx \<Longrightarrow>
   parse_edge_strings es sdks = Ok (map (\<lambda>(u, v). (sdks ! u, sdks ! v)) idx) \<and>
   (\<forall>(u, v) \<in> set idx. u < length sdks \<and> v < length sdks)"
proof (induction es arbitrary: idx)
  case Nil
  then show ?case by (simp add: parse_edge_strings_def)
next
  case (Cons e es)
  then obtain u v ids where e: "edge_indices msg (length sdks) e = Ok (u, v)"
    and es: "traverse (edge_indices msg (length sdks)) es = Ok ids" and idx: "idx = (u, v) # ids"
    by (auto simp: rbind_eq_Ok)
  from Cons.IH [OF es] edge_indices_Ok_msg [OF e, of msg_edge_format_or_index]
    edge_indices_bound [OF e]
  show ?case by (simp add: parse_edge_strings_def idx)
qed

text \<open>Reading the mapped strings against the subgraph gives exactly the edges inside it.\<close>

lemma map_edges_induced:
  assumes "map_edges_to_subgraph es sdks sub = Ok es'"
  shows "\<exists>pairs. parse_edge_strings es sdks = Ok pairs \<and>
    parse_edge_strings es' sub = Ok (filter (\<lambda>(u, v). u \<in> set sub \<and> v \<in> set sub) pairs)"
proof -
  let ?m = "map_of (name_to_new_idx sub)"
  let ?keep = "\<lambda>(u, v). case (?m (sdks ! u), ?m (sdks ! v)) of
      (Some new_u, Some new_v) \<Rightarrow> Some (edge_str new_u new_v) | _ \<Rightarrow> None"
  from assms obtain idx where idx: "traverse (edge_indices msg_edge_index (length sdks)) es = Ok idx"
    and es': "es' = List.map_filter ?keep idx"
    by (auto simp: map_edges_to_subgraph_def rbind_eq_Ok)
  let ?pairs = "map (\<lambda>(u, v). (sdks ! u, sdks ! v)) idx"
  have "parse_edge_strings es' sub = Ok (filter (\<lambda>(u, v). u \<in> set sub \<and> v \<in> set sub) ?pairs)"
    unfolding es'
  proof (induction idx)
    case Nil
    then show ?case by (simp add: parse_edge_strings_def List.map_filter_simps)
  next
    case (Cons p idx)
    obtain u v where p: "p = (u, v)" by (cases p)
    show ?case
    proof (cases "?m (sdks ! u)")
      case None
      with name_to_new_idx_lookup [where sub = sub and x = "sdks ! u"] Cons p show ?thesis
        by (simp add: List.map_filter_simps)
    next
      case (Some i)
      note i = this name_to_new_idx_lookup [where sub = sub and x = "sdks ! u"]
      show ?thesis
      proof (cases "?m (sdks ! v)")
        case None
        with i name_to_new_idx_lookup [where sub = sub and x = "sdks ! v"] Cons p show ?thesis
          by (simp add: List.map_filter_simps)
      next
        case (Some j)
        with i name_to_new_idx_lookup [where sub = sub and x = "sdks ! v"] have
          j: "i < length sub" "sub ! i = sdks ! u" "j < length sub" "sub ! j = sdks ! v" by simp_all
        then have "sdks ! u \<in> set sub" "sdks ! v \<in> set sub" by (metis nth_mem)+
        with i Some Cons p j show ?thesis
          by (simp add: List.map_filter_simps parse_edge_strings_def edge_indices_edge_str)
      qed
    qed
  qed
  with parse_edge_strings_indices [OF idx] show ?thesis by blast
qed

lemma map_edges_error: "map_edges_to_subgraph es sdks sub = Raise x \<Longrightarrow> \<exists>m. x = ValueError m"
  by (auto simp: map_edges_to_subgraph_def rbind_eq_Raise
      dest!: traverse_Raise edge_indices_error)

subsection \<open>The traversable subgraphs\<close>

definition subgraph_edges :: "suite_config \<Rightarrow> sdk list \<Rightarrow> sdk list \<Rightarrow> string list option result" where
  "subgraph_edges cfg sdks sub = (case sc_edges cfg of
     None \<Rightarrow> Ok None
   | Some es \<Rightarrow> rbind (map_edges_to_subgraph es sdks sub) (\<lambda>m. Ok (Some m)))"

lemma try_subgraph_Some_iff:
  "try_subgraph add order sdks agents cfg sub = Ok (Some (sub', es')) \<longleftrightarrow>
     sub' = sub \<and> 2 \<le> length sub \<and> subgraph_edges cfg sdks sub = Ok es' \<and>
     (\<exists>r. create_test_suite add order sub agents (cfg\<lparr>sc_edges := es', sc_url := []\<rparr>) = Ok r)"
proof (cases "2 \<le> length sub")
  case False
  then show ?thesis by (simp add: try_subgraph_def)
next
  case True
  have eq: "try_subgraph add order sdks agents cfg sub =
      (case subgraph_edges cfg sdks sub of
        Inl (ValueError m) \<Rightarrow> Ok None
      | Inl e \<Rightarrow> Raise e
      | Inr new_edges \<Rightarrow>
          (case create_test_suite add order sub agents
                  (cfg\<lparr>sc_edges := new_edges, sc_url := []\<rparr>) of
             Inl (ValueError m) \<Rightarrow> Ok None
           | Inl e \<Rightarrow> Raise e
           | Inr _ \<Rightarrow> Ok (Some (sub, new_edges))))"
    using True by (simp add: try_subgraph_def subgraph_edges_def)
  show ?thesis
  proof (cases "subgraph_edges cfg sdks sub")
    case (Inl x)
    then show ?thesis using True unfolding eq by (cases x) simp_all
  next
    case (Inr ne)
    show ?thesis
    proof (cases "create_test_suite add order sub agents (cfg\<lparr>sc_edges := ne, sc_url := []\<rparr>)")
      case (Inl x)
      then show ?thesis using True Inr unfolding eq by (cases x) auto
    next
      case (Inr r)
      then show ?thesis using True \<open>subgraph_edges cfg sdks sub = Inr ne\<close> unfolding eq by auto
    qed
  qed
qed

lemma get_valid_subgraphs_iff:
  assumes "get_valid_subgraphs add order (root # remaining) agents cfg = Ok found"
  shows "(sub, es') \<in> set found \<longleftrightarrow>
    (\<exists>ys. subseq ys remaining \<and> ys \<noteq> [] \<and> sub = root # ys) \<and>
    subgraph_edges cfg (root # remaining) sub = Ok es' \<and>
    (\<exists>r. create_test_suite add order sub agents (cfg\<lparr>sc_edges := es', sc_url := []\<rparr>) = Ok r)"
proof -
  let ?attempt = "\<lambda>combo. try_subgraph add order (root # remaining) agents cfg (root # combo)"
  let ?combos = "concat (map (\<lambda>r. combinations r remaining) [0..<length remaining + 1])"
  from assms obtain rs where rs: "traverse ?attempt ?combos = Ok rs" "found = List.map_filter id rs"
    by (auto simp: get_valid_subgraphs_def rbind_eq_Ok simp del: upt_Suc)
  have "(sub, es') \<in> set found \<longleftrightarrow> Some (sub, es') \<in> set rs"
    by (force simp: rs(2) List.map_filter_def image_iff)
  also have "\<dots> \<longleftrightarrow> (\<exists>ys \<in> set ?combos. ?attempt ys = Ok (Some (sub, es')))"
    by (rule traverse_Ok_member [OF rs(1)])
  also have "\<dots> \<longleftrightarrow> (\<exists>ys. subseq ys remaining \<and> ?attempt ys = Ok (Some (sub, es')))"
    unfolding all_combinations_set by blast
  finally show ?thesis unfolding try_subgraph_Some_iff by (auto simp: Suc_le_eq)
qed

text \<open>On a complete digraph with every agent present, every sublist is traversable.\<close>

lemma map_filter_id_Some: "List.map_filter id (map Some xs) = xs"
  by (induction xs) (simp_all add: List.map_filter_simps)

lemma create_test_suite_complete:
  assumes "set_add add" "sub \<noteq> []" "sc_edges cfg = None" "set sub \<subseteq> fst ` set agents"
  shows "\<exists>r. create_test_suite add order sub agents cfg = Ok r"
proof -
  have "\<exists>r. suite_for_transport add sub agents cfg None t = Ok r" for t
    unfolding suite_for_transport_Ok_iff [OF assms(1,2)] using assms(4)
    by (auto simp: target_edges_def complete_balanced complete_edges_set)
  then have "\<exists>ps. traverse (suite_for_transport add sub agents cfg None)
      (transports_to_test order cfg) = Ok ps"
    unfolding traverse_ex_Ok by blast
  with assms(3) show ?thesis by (auto simp: create_test_suite_def parsed_edges_def)
qed

lemma complete_subgraphs:
  assumes "set_add add" "sc_edges cfg = None" "set (root # remaining) \<subseteq> fst ` set agents"
  shows "get_valid_subgraphs add order (root # remaining) agents cfg =
    Ok (map (\<lambda>ys. (root # ys, None))
      (concat (map (\<lambda>r. combinations r remaining) [1..<length remaining + 1])))"
proof -
  let ?attempt = "\<lambda>combo. try_subgraph add order (root # remaining) agents cfg (root # combo)"
  let ?rest = "concat (map (\<lambda>r. combinations r remaining) [1..<length remaining + 1])"
  have "[0..<length remaining + 1] = 0 # [1..<length remaining + 1]"
    by (simp add: upt_conv_Cons del: upt_Suc)
  then have split: "concat (map (\<lambda>r. combinations r remaining) [0..<length remaining + 1]) = [] # ?rest"
    by (simp del: upt_Suc)
  have "?attempt ys = Ok (Some (root # ys, None))" if ys: "ys \<in> set ?rest" for ys
  proof -
    from ys have "subseq ys remaining" "ys \<noteq> []" by (auto simp: combinations_set)
    then have "set (root # ys) \<subseteq> fst ` set agents" using assms(3) by (auto dest: list_emb_set)
    then have "\<exists>r. create_test_suite add order (root # ys) agents (cfg\<lparr>sc_edges := None, sc_url := []\<rparr>) = Ok r"
      by (intro create_test_suite_complete [OF assms(1)]) simp_all
    with assms(2) \<open>ys \<noteq> []\<close> show ?thesis
      unfolding try_subgraph_Some_iff by (simp add: subgraph_edges_def Suc_le_eq)
  qed
  then have "traverse ?attempt ?rest = Ok (map (\<lambda>ys. Some (root # ys, None)) ?rest)"
    by (rule traverse_all_Ok)
  moreover have "?attempt [] = Ok None" by (simp add: try_subgraph_def)
  moreover have "List.map_filter id (None # map (\<lambda>ys. Some (root # ys, None)) ?rest) =
      map (\<lambda>ys. (root # ys, None :: string list option)) ?rest"
    using map_filter_id_Some [of "map (\<lambda>ys. (root # ys, None :: string list option)) ?rest"]
    by (simp add: List.map_filter_simps o_def)
  ultimately show ?thesis
    unfolding get_valid_subgraphs_def list.case split traverse.simps by (simp only: rbind_Ok)
qed

text \<open>A missing agent stops the enumeration instead of shrinking it.\<close>

lemma create_test_suite_runtime:
  assumes "set_add add" "sub \<noteq> []" "create_test_suite add order sub agents cfg = Raise x"
  shows "(\<exists>m. x = ValueError m) \<or> (\<exists>m. x = RuntimeError m)"
proof -
  from assms(3) consider "parsed_edges sub cfg = Raise x" |
      pe t where "suite_for_transport add sub agents cfg pe t = Raise x"
    by (auto simp: create_test_suite_def rbind_eq_Raise dest!: traverse_Raise)
  then show ?thesis
    using parsed_edges_error suite_for_transport_error [OF assms(1,2)] by cases blast+
qed

lemma try_subgraph_error:
  assumes "set_add add" "try_subgraph add order sdks agents cfg sub = Raise x"
  shows "\<exists>m. x = RuntimeError m"
proof -
  have len: "2 \<le> length sub" using assms(2) by (auto simp: try_subgraph_def split: if_splits)
  then have ne: "sub \<noteq> []" by auto
  show ?thesis
  proof (cases "subgraph_edges cfg sdks sub")
    case (Inl y)
    then obtain m where "y = ValueError m"
      by (auto simp: subgraph_edges_def rbind_eq_Raise split: option.splits dest!: map_edges_error)
    with Inl assms(2) len show ?thesis by (simp add: try_subgraph_def subgraph_edges_def)
  next
    case (Inr es')
    show ?thesis
    proof (cases "create_test_suite add order sub agents (cfg\<lparr>sc_edges := es', sc_url := []\<rparr>)")
      case (Inl y)
      with create_test_suite_runtime [OF assms(1) ne Inl] assms(2) len Inr show ?thesis
        by (auto simp: try_subgraph_def subgraph_edges_def)
    next
      case (Inr r)
      with \<open>subgraph_edges cfg sdks sub = Inr es'\<close> assms(2) len show ?thesis
        by (simp add: try_subgraph_def subgraph_edges_def)
    qed
  qed
qed

lemma missing_agent_propagates:
  assumes "set_add add" "sc_edges cfg = None" "transports_to_test order cfg \<noteq> []"
    and "a \<in> set remaining" "a \<noteq> root" "a \<notin> fst ` set agents"
  shows "\<exists>m. get_valid_subgraphs add order (root # remaining) agents cfg = Raise (RuntimeError m)"
proof -
  let ?attempt = "\<lambda>combo. try_subgraph add order (root # remaining) agents cfg (root # combo)"
  let ?combos = "concat (map (\<lambda>r. combinations r remaining) [0..<length remaining + 1])"
  have a: "[a] \<in> set ?combos" unfolding all_combinations_set using assms(4) by (simp add: subseq_singleton_left)
  have pe: "parsed_edges [root, a] (cfg\<lparr>sc_edges := None, sc_url := []\<rparr>) = Ok None"
    by (simp add: parsed_edges_def)
  have tr: "transports_to_test order (cfg\<lparr>sc_edges := None, sc_url := []\<rparr>) \<noteq> []"
    using assms(3) by (simp add: transports_to_test_def)
  have miss: "\<not> (\<forall>e \<in> set (target_edges [root, a] None). snd e \<in> fst ` set agents)"
    using assms(5,6) by (auto simp: target_edges_def complete_edges_set)
  have bal: "balanced (mset (target_edges [root, a] None))"
    by (simp add: target_edges_def complete_balanced)
  obtain m where m: "create_test_suite add order [root, a] agents (cfg\<lparr>sc_edges := None, sc_url := []\<rparr>) =
      Raise (RuntimeError m)"
    using create_test_suite_result [OF assms(1) _ tr pe, where agents = agents] miss bal
    by (cases "create_test_suite add order [root, a] agents (cfg\<lparr>sc_edges := None, sc_url := []\<rparr>)")
      (auto split: py_exn.splits)
  then have "?attempt [a] = Raise (RuntimeError m)"
    using assms(2) by (simp add: try_subgraph_def)
  with a have "\<not> (\<exists>rs. traverse ?attempt ?combos = Ok rs)" unfolding traverse_ex_Ok by fastforce
  then obtain x where x: "traverse ?attempt ?combos = Raise x" by (metis obj_sumE)
  then obtain c where "?attempt c = Raise x" by (meson traverse_Raise)
  from try_subgraph_error [OF assms(1) this] obtain m' where "x = RuntimeError m'" by blast
  with x show ?thesis unfolding get_valid_subgraphs_def list.case by (simp only: rbind_Raise) blast
qed

subsection \<open>Properties\<close>

lemma set_add_insert: "set_add List.insert"
  by (simp add: set_add_def)

text \<open>
  C1: The Eulerian traversal either refuses the graph with a \<open>ValueError\<close>, exactly when some
  agent's in-degree and out-degree differ, or returns closed walks over pairwise disjoint sets
  of agents whose hops together are the target edges, each taken exactly once, and the first
  of which starts at the current agent if that agent has an edge at all. This holds whatever
  order the neighbour sets are iterated in.
\<close>

theorem traversal_walks_every_edge_once:
  assumes "set_add add"
  shows "case euler_traversal_with_hierholzer add cur sdks es of
      Inr circuits \<Rightarrow>
        mset (concat (map hops circuits)) = mset (target_edges sdks es) \<and>
        (\<forall>c \<in> set circuits. closed_walk c) \<and>
        sorted_wrt (\<lambda>c d. set c \<inter> set d = {}) circuits \<and>
        ((\<exists>y. (cur, y) \<in> set (target_edges sdks es)) \<longrightarrow> hd (hd circuits) = cur)
    | Inl x \<Rightarrow> (\<exists>m. x = ValueError m) \<and> \<not> balanced (mset (target_edges sdks es))"
proof (cases "euler_traversal_with_hierholzer add cur sdks es")
  case (Inl x)
  then show ?thesis using euler_error by fastforce
next
  case (Inr cs)
  then have bal: "balanced (mset (target_edges sdks es))" using euler_Ok_iff by blast
  show ?thesis
  proof (cases "target_edges sdks es = []")
    case True
    with Inr have "cs = [[cur]]"
      by (auto simp: euler_unfold Let_def rbind_eq_Ok components_for_empty_iff [OF assms])
    with Inr True show ?thesis by (simp add: closed_walk_def)
  next
    case False
    from euler_circuits [OF assms bal False, of cur] Inr show ?thesis by auto
  qed
qed

theorem traversal_walks_every_edge_once_witness:
  "euler_traversal_with_hierholzer List.insert ''a'' [''a'', ''b''] None = Ok [[''a'', ''b'', ''a'']] \<and>
   set_add (List.insert :: string \<Rightarrow> string list \<Rightarrow> string list) \<and>
   mset (concat (map hops [[''a'', ''b'', ''a'']])) = mset (target_edges [''a'', ''b''] None)"
proof -
  have "euler_traversal_with_hierholzer List.insert ''a'' [''a'', ''b''] None = Ok [[''a'', ''b'', ''a'']]"
    by code_simp
  with traversal_walks_every_edge_once
    [OF set_add_insert, where cur = "''a''" and sdks = "[''a'', ''b'']" and es = None]
  show ?thesis by (simp add: set_add_insert)
qed

text \<open>
  The circuits do not depend on the iteration order of the neighbour sets, so string
  hashing cannot change the instruction an agent is sent.
\<close>

theorem traversal_hash_independent:
  assumes "set_add add1" "set_add add2"
  shows "euler_traversal_with_hierholzer add1 cur sdks es =
    euler_traversal_with_hierholzer add2 cur sdks es"
  using assms by (rule euler_order_independent)

theorem traversal_hash_independent_witness:
  "euler_traversal_with_hierholzer List.insert ''a'' [''a'', ''b'', ''c''] None =
   euler_traversal_with_hierholzer (\<lambda>x xs. if x \<in> set xs then xs else xs @ [x]) ''a''
     [''a'', ''b'', ''c''] None"
  by (rule traversal_hash_independent) (auto simp: set_add_def)

text \<open>
  C3: When a suite is built, what the agents reply to its instruction is, as a multiset,
  exactly the list of expected tokens; the agent cards fetched on the way are, for every
  transport under test, the card of the target of every edge, once per edge; and every edge
  has its trace token and every transport its end token among those expected.
\<close>

theorem suite_replies_are_expected_tokens:
  assumes "set_add add" "create_test_suite add order sdks agents cfg = Ok (inst, expected)"
  shows "mset (replies inst) = mset expected \<and>
    (\<exists>pe. parsed_edges sdks cfg = Ok pe \<and>
      mset (calls inst) =
        hop_calls agents (transports_to_test order cfg) (mset (target_edges sdks pe)) \<and>
      (\<forall>t \<in> set (transports_to_test order cfg).
        (\<forall>e \<in> set (target_edges sdks pe). trace_token t e \<in> set expected) \<and>
        end_token t \<in> set expected))"
  using create_test_suite_correct [OF assms] by metis

definition two_agents :: agent_table where
  "two_agents = [(''a'', \<lparr>http_port = 1, grpc_port = 2\<rparr>),
                 (''b'', \<lparr>http_port = 3, grpc_port = 4\<rparr>)]"

definition plain_suite :: suite_config where
  "plain_suite = \<lparr>sc_edges = None, sc_protocols = Some [''jsonrpc''], sc_streaming = False,
     sc_behavior = ''send_message'', sc_url = []\<rparr>"

theorem suite_replies_are_expected_tokens_witness:
  "\<exists>inst expected.
    create_test_suite List.insert [] [''a'', ''b''] two_agents plain_suite = Ok (inst, expected) \<and>
    mset (replies inst) = mset expected \<and> length (calls inst) = 2"
proof -
  have "\<exists>r. create_test_suite List.insert [] [''a'', ''b''] two_agents plain_suite = Ok r"
    by (rule create_test_suite_complete [OF set_add_insert])
      (simp_all add: plain_suite_def two_agents_def)
  then obtain inst expected where
    r: "create_test_suite List.insert [] [''a'', ''b''] two_agents plain_suite = Ok (inst, expected)"
    by auto
  have pe: "parsed_edges [''a'', ''b''] plain_suite = Ok None"
    "transports_to_test [] plain_suite = [''jsonrpc'']"
    by (simp_all add: parsed_edges_def plain_suite_def transports_to_test_def)
  note p = suite_replies_are_expected_tokens [OF set_add_insert r]
  from p pe have "mset (calls inst) =
      hop_calls two_agents [''jsonrpc''] (mset (target_edges [''a'', ''b''] None))" by auto
  then have "size (mset (calls inst)) = 2"
    by (simp add: hop_calls_def target_edges_def complete_edges_def)
  with p r show ?thesis by auto
qed

text \<open>
  Building a suite for at least one agent and one transport, from edges that parse,
  succeeds exactly when the edges are balanced and every target agent is running; an
  unbalanced graph is a \<open>ValueError\<close>, a balanced one with an agent missing a
  \<open>RuntimeError\<close>, and nothing else is raised.
\<close>

theorem suite_errors_classified:
  assumes "set_add add" "sdks \<noteq> []" "transports_to_test order cfg \<noteq> []"
    and "parsed_edges sdks cfg = Ok pe"
  shows "case create_test_suite add order sdks agents cfg of
      Inr _ \<Rightarrow> balanced (mset (target_edges sdks pe)) \<and>
        (\<forall>e \<in> set (target_edges sdks pe). snd e \<in> fst ` set agents)
    | Inl (ValueError _) \<Rightarrow> \<not> balanced (mset (target_edges sdks pe))
    | Inl (RuntimeError _) \<Rightarrow> balanced (mset (target_edges sdks pe)) \<and>
        \<not> (\<forall>e \<in> set (target_edges sdks pe). snd e \<in> fst ` set agents)
    | Inl _ \<Rightarrow> False"
  using assms by (rule create_test_suite_result)

theorem suite_errors_classified_witness:
  "\<exists>m. create_test_suite List.insert [] [''a'', ''b'', ''c''] two_agents plain_suite =
     Raise (RuntimeError m)"
proof -
  have pe: "parsed_edges [''a'', ''b'', ''c''] plain_suite = Ok None"
    "transports_to_test [] plain_suite \<noteq> []" "[''a'', ''b'', ''c''] \<noteq> []"
    by (simp_all add: parsed_edges_def plain_suite_def transports_to_test_def)
  have miss: "\<not> (\<forall>e \<in> set (target_edges [''a'', ''b'', ''c''] None). snd e \<in> fst ` set two_agents)"
    by code_simp
  have "balanced (mset (target_edges [''a'', ''b'', ''c''] None))"
    by (simp add: target_edges_def complete_balanced)
  with miss suite_errors_classified [OF set_add_insert pe(3,2,1), where agents = two_agents]
  show ?thesis
    by (cases "create_test_suite List.insert [] [''a'', ''b'', ''c''] two_agents plain_suite")
      (auto split: py_exn.splits)
qed

text \<open>
  C40: A named topology over distinct agents parses back to its own edges and is walked as a
  single closed circuit that starts at the first agent and visits every agent.
\<close>

theorem topology_is_one_circuit:
  assumes "set_add add" "distinct sdks" "topology_to_edges t (length sdks) = Ok es"
  shows "\<exists>pe c. parsed_edges sdks (cfg\<lparr>sc_edges := es\<rparr>) = Ok pe \<and>
    euler_traversal_with_hierholzer add (hd sdks) sdks pe = Ok [c] \<and>
    mset (hops c) = mset (topology_pairs t sdks) \<and> closed_walk c \<and> hd c = hd sdks \<and>
    set c = set sdks"
  using assms by (rule topology_single_circuit)

theorem topology_is_one_circuit_witness:
  "\<exists>pe c. parsed_edges [''a'', ''b''] (plain_suite\<lparr>sc_edges := Some [''0->1'', ''1->0'']\<rparr>) = Ok pe \<and>
    euler_traversal_with_hierholzer List.insert ''a'' [''a'', ''b''] pe = Ok [c] \<and>
    set c = {''a'', ''b''}"
proof -
  have "topology_to_edges CHAIN (length [''a'', ''b'']) = Ok (Some [''0->1'', ''1->0''])"
    by code_simp
  from topology_is_one_circuit [OF set_add_insert _ this, where cfg = plain_suite] show ?thesis
    by auto
qed

text \<open>
  C17: The subgraphs found are exactly the sublists of the agents that contain the first agent
  and at least one other, with the edges of the scenario mapped to them, for which a suite can
  be built.
\<close>

theorem valid_subgraphs_characterised:
  assumes "get_valid_subgraphs add order (root # remaining) agents cfg = Ok found"
  shows "(sub, es') \<in> set found \<longleftrightarrow>
    (\<exists>ys. subseq ys remaining \<and> ys \<noteq> [] \<and> sub = root # ys) \<and>
    subgraph_edges cfg (root # remaining) sub = Ok es' \<and>
    (\<exists>r. create_test_suite add order sub agents (cfg\<lparr>sc_edges := es', sc_url := []\<rparr>) = Ok r)"
  using assms by (rule get_valid_subgraphs_iff)

theorem valid_subgraphs_characterised_witness:
  "([''a'', ''b''], None :: string list option) \<in> set [([''a'', ''b''], None)] \<longleftrightarrow>
    (\<exists>ys. subseq ys [''b''] \<and> ys \<noteq> [] \<and> [''a'', ''b''] = ''a'' # ys) \<and>
    subgraph_edges plain_suite [''a'', ''b''] [''a'', ''b''] = Ok None \<and>
    (\<exists>r. create_test_suite List.insert [] [''a'', ''b''] two_agents
      (plain_suite\<lparr>sc_edges := None, sc_url := []\<rparr>) = Ok r)"
proof -
  have "get_valid_subgraphs List.insert [] [''a'', ''b''] two_agents plain_suite =
      Ok (map (\<lambda>ys. (''a'' # ys, None))
        (concat (map (\<lambda>r. combinations r [''b'']) [1..<length [''b''] + 1])))"
    by (rule complete_subgraphs [OF set_add_insert]) (simp_all add: plain_suite_def two_agents_def)
  then have "get_valid_subgraphs List.insert [] [''a'', ''b''] two_agents plain_suite =
      Ok [([''a'', ''b''], None)]"
    by (simp add: upt_rec numeral_2_eq_2)
  from valid_subgraphs_characterised [OF this, where sub = "[''a'', ''b'']" and es' = None]
  show ?thesis .
qed

text \<open>
  With no explicit edges and every agent running, every sublist that keeps the first agent
  and one more is traversable: there are \<open>2 ^ (n - 1) - 1\<close> of them for \<open>n\<close> agents.
\<close>

theorem complete_digraph_subgraphs:
  assumes "set_add add" "sc_edges cfg = None" "set (root # remaining) \<subseteq> fst ` set agents"
  shows "\<exists>found. get_valid_subgraphs add order (root # remaining) agents cfg = Ok found \<and>
    length found = 2 ^ length remaining - 1 \<and>
    set found = {(root # ys, None) | ys. subseq ys remaining \<and> ys \<noteq> []}"
proof -
  let ?rest = "concat (map (\<lambda>r. combinations r remaining) [1..<length remaining + 1])"
  have "[0..<length remaining + 1] = 0 # [1..<length remaining + 1]"
    by (simp add: upt_conv_Cons del: upt_Suc)
  then have split: "concat (map (\<lambda>r. combinations r remaining) [0..<length remaining + 1]) = [] # ?rest"
    by (simp del: upt_Suc)
  have "length ?rest = 2 ^ length remaining - 1"
    using all_combinations_length [of remaining] unfolding split by simp
  moreover have "set ?rest = {ys. subseq ys remaining \<and> ys \<noteq> []}"
  proof -
    have "[] \<notin> set ?rest" by (auto simp: combinations_set)
    then show ?thesis using all_combinations_set [of remaining] unfolding split by auto
  qed
  ultimately show ?thesis
    unfolding complete_subgraphs [OF assms] by (auto simp del: upt_Suc set_concat)
qed

theorem complete_digraph_subgraphs_witness:
  "\<exists>found. get_valid_subgraphs List.insert [] [''a'', ''b''] two_agents plain_suite = Ok found \<and>
    length found = 1"
proof -
  have "\<exists>found. get_valid_subgraphs List.insert [] [''a'', ''b''] two_agents plain_suite = Ok found \<and>
      length found = 2 ^ length [''b''] - 1 \<and>
      set found = {(''a'' # ys, None) | ys. subseq ys [''b''] \<and> ys \<noteq> []}"
    by (rule complete_digraph_subgraphs [OF set_add_insert])
      (simp_all add: plain_suite_def two_agents_def)
  then show ?thesis by auto
qed

text \<open>
  A peer that is not running stops the enumeration with a \<open>RuntimeError\<close>: it cannot be
  mistaken for an unbalanced subgraph and silently dropped.
\<close>

theorem missing_peer_not_dropped:
  assumes "set_add add" "sc_edges cfg = None" "transports_to_test order cfg \<noteq> []"
    and "a \<in> set remaining" "a \<noteq> root" "a \<notin> fst ` set agents"
  shows "\<exists>m. get_valid_subgraphs add order (root # remaining) agents cfg = Raise (RuntimeError m)"
  using assms by (rule missing_agent_propagates)

theorem missing_peer_not_dropped_witness:
  "\<exists>m. get_valid_subgraphs List.insert [] [''a'', ''c''] two_agents plain_suite = Raise (RuntimeError m)"
  by (rule missing_peer_not_dropped [OF set_add_insert, where a = "''c''"])
    (simp_all add: plain_suite_def two_agents_def transports_to_test_def)

text \<open>
  The edge strings mapped to a subgraph, read against it, are exactly the scenario's edges
  with both ends inside it, in order.
\<close>

theorem mapped_edges_are_induced:
  assumes "map_edges_to_subgraph es sdks sub = Ok es'"
  shows "\<exists>pairs. parse_edge_strings es sdks = Ok pairs \<and>
    parse_edge_strings es' sub = Ok (filter (\<lambda>(u, v). u \<in> set sub \<and> v \<in> set sub) pairs)"
  using assms by (rule map_edges_induced)

theorem mapped_edges_are_induced_witness:
  "\<exists>pairs. parse_edge_strings [''0->2'', '' 2 -> 0'', ''0->1''] [''a'', ''b'', ''c''] = Ok pairs \<and>
    parse_edge_strings [''0->1'', ''1->0''] [''a'', ''c''] =
      Ok (filter (\<lambda>(u, v). u \<in> set [''a'', ''c''] \<and> v \<in> set [''a'', ''c'']) pairs)"
  by (rule mapped_edges_are_induced) code_simp

text \<open>
  A subgraph none of the scenario's edges survives in is not refused: its empty edge list
  is falsy, so its suite walks the complete digraph on its agents, edges the scenario never
  declared.
\<close>

theorem edgeless_subgraph_walked_as_complete:
  "parsed_edges sub (cfg\<lparr>sc_edges := Some []\<rparr>) = Ok None \<and>
   target_edges sub None = complete_edges sub \<and>
   get_valid_subgraphs List.insert [] [''a'', ''b'', ''c'']
     (two_agents @ [(''c'', \<lparr>http_port = 5, grpc_port = 6\<rparr>)])
     (plain_suite\<lparr>sc_edges := Some [''0->1'', ''1->0'']\<rparr>) =
   Ok [([''a'', ''b''], Some [''0->1'', ''1->0'']), ([''a'', ''c''], Some []),
       ([''a'', ''b'', ''c''], Some [''0->1'', ''1->0''])]"
  by (simp add: parsed_edges_def target_edges_def) code_simp

end
