(* ===== verification/Json.thy ===== *)
theory Json
  imports Texts
begin

section \<open>The values of requests, responses and assertions\<close>

text \<open>
  A request, a response and an assertion are what \<open>json.loads\<close> and the YAML loader return:
  None, booleans, unbounded integers, floats, strings, lists and dicts with string keys.
  A float is given by the decimal \<open>m * 10 ^ e\<close> that \<open>repr\<close> prints for it (finite floats
  only; a float and an int are compared by these decimals, which is exact up to 2^53).
  \<open>JHeaders\<close> is the one mapping the sources build themselves, the case-folded response
  headers. The distinction between None and a value that is not there at all (\<open>MISSING\<close>) is
  that between \<open>Some JNull\<close> and the option \<open>None\<close>.
\<close>

datatype json =
    JNull
  | JBool bool
  | JInt int
  | JFloat int int
  | JStr string
  | JArr "json list"
  | JObj "(string \<times> json) list"
  | JHeaders "(string \<times> json) list"

subsection \<open>Type tests\<close>

fun is_mapping :: "json \<Rightarrow> bool" where
  "is_mapping (JObj d) = True"
| "is_mapping (JHeaders d) = True"
| "is_mapping v = False"

fun is_array :: "json \<Rightarrow> bool" where
  "is_array (JArr xs) = True"
| "is_array v = False"

fun is_str :: "json \<Rightarrow> bool" where
  "is_str (JStr s) = True"
| "is_str v = False"

fun is_bool :: "json \<Rightarrow> bool" where
  "is_bool (JBool b) = True"
| "is_bool v = False"

fun is_int :: "json \<Rightarrow> bool" where
  "is_int (JInt i) = True"
| "is_int v = False"

fun is_number :: "json \<Rightarrow> bool" where
  "is_number (JInt i) = True"
| "is_number (JFloat m e) = True"
| "is_number v = False"

fun type_name :: "json \<Rightarrow> string" where
  "type_name JNull = ''NoneType''"
| "type_name (JBool b) = ''bool''"
| "type_name (JInt i) = ''int''"
| "type_name (JFloat m e) = ''float''"
| "type_name (JStr s) = ''str''"
| "type_name (JArr xs) = ''list''"
| "type_name (JObj d) = ''dict''"
| "type_name (JHeaders d) = ''_FoldedHeaders''"

text \<open>\<open>bool(v)\<close>.\<close>

fun truthy :: "json \<Rightarrow> bool" where
  "truthy JNull = False"
| "truthy (JBool b) = b"
| "truthy (JInt i) = (i \<noteq> 0)"
| "truthy (JFloat m e) = (m \<noteq> 0)"
| "truthy (JStr s) = (s \<noteq> [])"
| "truthy (JArr xs) = (xs \<noteq> [])"
| "truthy (JObj d) = (d \<noteq> [])"
| "truthy (JHeaders d) = (d \<noteq> [])"

subsection \<open>Numbers\<close>

text \<open>A decimal \<open>(m, e)\<close> stands for \<open>m * 10 ^ e\<close>.\<close>

type_synonym decimal = "int \<times> int"

definition dec_le :: "decimal \<Rightarrow> decimal \<Rightarrow> bool" where
  "dec_le a b = (let e = min (snd a) (snd b) in
     fst a * 10 ^ nat (snd a - e) \<le> fst b * 10 ^ nat (snd b - e))"

text \<open>The number behind a value, a bool being 0 or 1 as in Python.\<close>

fun num_of :: "json \<Rightarrow> decimal option" where
  "num_of (JBool b) = Some (if b then 1 else 0, 0)"
| "num_of (JInt i) = Some (i, 0)"
| "num_of (JFloat m e) = Some (m, e)"
| "num_of v = None"

definition num_le :: "json \<Rightarrow> json \<Rightarrow> bool" where
  "num_le a b = (case (num_of a, num_of b) of (Some x, Some y) \<Rightarrow> dec_le x y | _ \<Rightarrow> False)"

lemma dec_le_int [simp]: "dec_le (a, 0) (b, 0) \<longleftrightarrow> a \<le> b"
  by (simp add: dec_le_def)

text \<open>The order is that of the numbers \<open>m * 10 ^ e\<close>, whatever common exponent they are scaled to.\<close>

lemma dec_le_scale:
  assumes "e \<le> snd a" "e \<le> snd b"
  shows "dec_le a b \<longleftrightarrow>
    fst a * 10 ^ nat (snd a - e) \<le> fst b * 10 ^ nat (snd b - e)"
proof -
  define m where "m = min (snd a) (snd b)"
  have "nat (snd a - e) = nat (snd a - m) + nat (m - e)" "nat (snd b - e) = nat (snd b - m) + nat (m - e)"
    using assms by (simp_all add: m_def)
  then have "fst a * 10 ^ nat (snd a - e) \<le> fst b * 10 ^ nat (snd b - e) \<longleftrightarrow>
      (fst a * 10 ^ nat (snd a - m)) * 10 ^ nat (m - e) \<le>
      (fst b * 10 ^ nat (snd b - m)) * (10::int) ^ nat (m - e)"
    by (simp add: power_add ac_simps)
  also have "\<dots> \<longleftrightarrow> fst a * 10 ^ nat (snd a - m) \<le> fst b * 10 ^ nat (snd b - m)" by simp
  finally show ?thesis by (simp add: dec_le_def m_def Let_def)
qed

lemma dec_le_linear: "dec_le a b \<or> dec_le b a"
proof -
  define e where "e = min (snd a) (snd b)"
  then have "e \<le> snd a" "e \<le> snd b" by simp_all
  then show ?thesis by (simp add: dec_le_scale [of e] linear)
qed

lemma dec_le_trans: "dec_le a b \<Longrightarrow> dec_le b c \<Longrightarrow> dec_le a c"
proof -
  assume le: "dec_le a b" "dec_le b c"
  define e where "e = min (snd a) (min (snd b) (snd c))"
  then have "e \<le> snd a" "e \<le> snd b" "e \<le> snd c" by simp_all
  with le show "dec_le a c" by (simp add: dec_le_scale [of e])
qed

subsection \<open>Equality\<close>

text \<open>
  Python's \<open>==\<close>: numbers by value (so \<open>True == 1 == 1.0\<close>), lists by position, mappings by
  key whatever the order of insertion. Keys are distinct in a dict.
\<close>

fun py_eq :: "json \<Rightarrow> json \<Rightarrow> bool"
  and py_eq_list :: "json list \<Rightarrow> json list \<Rightarrow> bool"
  and py_eq_members :: "(string \<times> json) list \<Rightarrow> (string \<times> json) list \<Rightarrow> bool" where
  "py_eq (JStr s) w = (w = JStr s)"
| "py_eq JNull w = (w = JNull)"
| "py_eq (JArr xs) w = (case w of JArr ys \<Rightarrow> py_eq_list xs ys | _ \<Rightarrow> False)"
| "py_eq (JObj d) w = (case w of
      JObj d' \<Rightarrow> length d = length d' \<and> py_eq_members d d'
    | JHeaders d' \<Rightarrow> length d = length d' \<and> py_eq_members d d' | _ \<Rightarrow> False)"
| "py_eq (JHeaders d) w = (case w of
      JObj d' \<Rightarrow> length d = length d' \<and> py_eq_members d d'
    | JHeaders d' \<Rightarrow> length d = length d' \<and> py_eq_members d d' | _ \<Rightarrow> False)"
| "py_eq v w = (num_le v w \<and> num_le w v)"
| "py_eq_list [] ys = (ys = [])"
| "py_eq_list (x # xs) ys = (case ys of [] \<Rightarrow> False | y # ys' \<Rightarrow> py_eq x y \<and> py_eq_list xs ys')"
| "py_eq_members [] d' = True"
| "py_eq_members ((k, v) # d) d' =
     ((case map_of d' k of None \<Rightarrow> False | Some w \<Rightarrow> py_eq v w) \<and> py_eq_members d d')"

lemma py_eq_list_iff: "py_eq_list xs ys \<longleftrightarrow> list_all2 py_eq xs ys"
  by (induction xs arbitrary: ys) (auto split: list.splits simp: list_all2_Cons1)

lemma py_eq_members_iff:
  "py_eq_members d d' \<longleftrightarrow> (\<forall>(k, v) \<in> set d. \<exists>w. map_of d' k = Some w \<and> py_eq v w)"
  by (induction d) (auto split: option.splits)

text \<open>A dict has distinct keys, at every depth.\<close>

fun wf_json :: "json \<Rightarrow> bool" where
  "wf_json (JArr xs) = list_all wf_json xs"
| "wf_json (JObj d) = (distinct (map fst d) \<and> list_all wf_json (map snd d))"
| "wf_json (JHeaders d) = (distinct (map fst d) \<and> list_all wf_json (map snd d))"
| "wf_json v = True"

lemma num_le_refl: "num_of v \<noteq> None \<Longrightarrow> num_le v v"
  using dec_le_linear by (auto simp: num_le_def split: option.splits)

lemma py_eq_refl: "wf_json v \<Longrightarrow> py_eq v v"
proof (induction v)
  case (JArr xs)
  then show ?case by (auto simp: py_eq_list_iff list_all_iff list_all2_conv_all_nth)
next
  case (JObj d)
  then have "py_eq b b" if "(a, b) \<in> set d" for a b using that by (force simp: list_all_iff)
  with JObj.prems show ?case by (force simp: py_eq_members_iff)
next
  case (JHeaders d)
  then have "py_eq b b" if "(a, b) \<in> set d" for a b using that by (force simp: list_all_iff)
  with JHeaders.prems show ?case by (force simp: py_eq_members_iff)
qed (auto intro: num_le_refl)

subsection \<open>\<open>repr\<close> and \<open>str\<close>\<close>

definition trailing_zeros :: "nat \<Rightarrow> string" where
  "trailing_zeros n = replicate n (CHR 0x30)"

text \<open>\<open>repr\<close> of a float: positional when the point falls within 16 digits, else scientific.\<close>

definition repr_float :: "int \<Rightarrow> int \<Rightarrow> string" where
  "repr_float m e = (let ds = show_nat (nat \<bar>m\<bar>); n = int (length ds); p = n + e in
     (if m < 0 then ''-'' else []) @
     (if m = 0 then ''0.0''
      else if -4 < p \<and> p \<le> 16 then
        (if p \<le> 0 then ''0.'' @ trailing_zeros (nat (- p)) @ ds
         else if n \<le> p then ds @ trailing_zeros (nat (p - n)) @ ''.0''
         else take (nat p) ds @ ''.'' @ drop (nat p) ds)
      else (let x = p - 1; xs = show_nat (nat \<bar>x\<bar>) in
        take 1 ds @ (if length ds = 1 then [] else ''.'' @ drop 1 ds) @ ''e'' @
        (if x < 0 then ''-'' else ''+'') @ (if length xs = 1 then ''0'' @ xs else xs))))"

fun py_repr :: "json \<Rightarrow> string" where
  "py_repr JNull = ''None''"
| "py_repr (JBool b) = (if b then ''True'' else ''False'')"
| "py_repr (JInt i) = show_int i"
| "py_repr (JFloat m e) = repr_float m e"
| "py_repr (JStr s) = repr_str s"
| "py_repr (JArr xs) = ''['' @ join_with '', '' (map py_repr xs) @ '']''"
| "py_repr (JObj d) =
     ''{'' @ join_with '', '' (map (\<lambda>(k, v). repr_str k @ '': '' @ py_repr v) d) @ ''}''"
| "py_repr (JHeaders d) =
     ''{'' @ join_with '', '' (map (\<lambda>(k, v). repr_str k @ '': '' @ py_repr v) d) @ ''}''"

text \<open>\<open>for x in v\<close>.\<close>

definition iterate :: "json \<Rightarrow> json list result" where
  "iterate v = (case v of
     JArr xs \<Rightarrow> Ok xs
   | JStr s \<Rightarrow> Ok (map (\<lambda>c. JStr [c]) s)
   | JObj d \<Rightarrow> Ok (map (\<lambda>(k, x). JStr k) d)
   | JHeaders d \<Rightarrow> Ok (map (\<lambda>(k, x). JStr k) d)
   | _ \<Rightarrow> Raise (TypeError (repr_str (type_name v) @ '' object is not iterable'')))"

definition py_str :: "json \<Rightarrow> string" where
  "py_str v = (case v of JStr s \<Rightarrow> s | _ \<Rightarrow> py_repr v)"

subsection \<open>\<open>str.lower\<close>\<close>

definition lower_char :: "char \<Rightarrow> char" where
  "lower_char c = (let n = code_of c in
     if 65 \<le> n \<and> n \<le> 90 \<or> 192 \<le> n \<and> n \<le> 222 \<and> n \<noteq> 215 then char_of (n + 32) else c)"

definition lower :: "string \<Rightarrow> string" where "lower s = map lower_char s"

lemma lower_char_idem [simp]: "lower_char (lower_char c) = lower_char c"
  by (simp add: lower_char_def code_of_def Let_def)

lemma lower_idem [simp]: "lower (lower s) = lower s"
  by (simp add: lower_def o_def)

end
