(* ===== verification/Paths.thy ===== *)
theory Paths
  imports Json
begin

section \<open>Dot-paths into a response (acts/variables.py)\<close>

text \<open>
  A dot-path such as \<open>task.artifacts[0].parts[*].text\<close>: the scanner that splits it into
  segments, the reads that follow one, and the enumeration of what a wildcard path reaches.
  The scanner follows \<open>re.finditer\<close> with the pattern \<open>_SEGMENT\<close>: the matches are the
  leftmost ones, a bracketed index before a run of name characters, and the text between
  two matches has to be one dot.
\<close>

datatype segment = Key string | Index int | Wildcard

subsection \<open>The scanner\<close>

definition name_char :: "char \<Rightarrow> bool" where
  "name_char c = (c \<noteq> CHR 0x2E \<and> c \<noteq> CHR 0x5B \<and> c \<noteq> CHR 0x5D)"

text \<open>\<open>\s*(\*|-?\d+)\s*\]\<close> after an opening bracket.\<close>

definition read_bracket_body :: "string \<Rightarrow> (segment \<times> string) option" where
  "read_bracket_body s =
     (case s of
        [] \<Rightarrow> None
      | c # cs \<Rightarrow>
          if c = CHR 0x2A then Some (Wildcard, cs)
          else let neg = (c = CHR 0x2D); ds = (if neg then cs else c # cs);
                   digits = takeWhile ascii_digit ds
               in if digits = [] then None
                  else Some (Index (if neg then - int (read_digits digits)
                                    else int (read_digits digits)),
                             dropWhile ascii_digit ds))"

definition match_bracket :: "string \<Rightarrow> (segment \<times> string) option" where
  "match_bracket s = (case read_bracket_body (lstrip s) of
     None \<Rightarrow> None
   | Some (seg, rest) \<Rightarrow>
       (case lstrip rest of
          c # cs \<Rightarrow> if c = CHR 0x5D then Some (seg, cs) else None
        | [] \<Rightarrow> None))"

text \<open>One match of \<open>_SEGMENT\<close> at the head of the text, with what follows it.\<close>

definition match_segment :: "string \<Rightarrow> (segment \<times> string) option" where
  "match_segment s = (case s of
     [] \<Rightarrow> None
   | c # cs \<Rightarrow>
       if c = CHR 0x5B then match_bracket cs
       else if name_char c then Some (Key (takeWhile name_char s), dropWhile name_char s)
       else None)"

lemma length_dropWhile_le: "length (dropWhile P s) \<le> length s"
  by (induction s) auto

lemma length_lstrip: "length (lstrip s) \<le> length s"
  by (simp add: lstrip_def length_dropWhile_le)

lemma read_bracket_body_length: "read_bracket_body s = Some (seg, rest) \<Longrightarrow> length rest \<le> length s"
  using length_dropWhile_le [of ascii_digit "tl s"] length_dropWhile_le [of ascii_digit s]
  by (auto simp: read_bracket_body_def Let_def split: list.splits if_splits)

lemma match_bracket_length: "match_bracket s = Some (seg, rest) \<Longrightarrow> length rest < length s"
proof -
  assume m: "match_bracket s = Some (seg, rest)"
  then obtain r where r: "read_bracket_body (lstrip s) = Some (seg, r)" "lstrip r = CHR 0x5D # rest"
    by (auto simp: match_bracket_def split: option.splits list.splits if_splits)
  with read_bracket_body_length [OF r(1)] length_lstrip [of s] length_lstrip [of r] show ?thesis
    by simp
qed

lemma match_segment_length: "match_segment s = Some (seg, rest) \<Longrightarrow> length rest < length s"
  using length_dropWhile_le [of name_char "tl s"]
  by (auto simp: match_segment_def name_char_def less_Suc_eq_le
      split: list.splits if_splits dest!: match_bracket_length)

text \<open>\<open>_SEGMENT.finditer\<close>: the matches with their start and end offsets.\<close>

function find_segments :: "nat \<Rightarrow> string \<Rightarrow> (nat \<times> nat \<times> segment) list" where
  "find_segments pos [] = []"
| "find_segments pos (c # cs) =
     (case match_segment (c # cs) of
        Some (seg, rest) \<Rightarrow>
          (let stop = pos + (length (c # cs) - length rest)
           in (pos, stop, seg) # find_segments stop rest)
      | None \<Rightarrow> find_segments (pos + 1) cs)"
  by pat_completeness auto
termination
  by (relation "measure (\<lambda>(pos, s). length s)") (auto dest: match_segment_length)

definition slice :: "nat \<Rightarrow> nat \<Rightarrow> string \<Rightarrow> string" where
  "slice i j s = take (j - i) (drop i s)"

definition msg_path_gap :: "string \<Rightarrow> nat \<Rightarrow> string \<Rightarrow> string" where
  "msg_path_gap path position gap =
     ''cannot parse '' @ repr_str path @ '' at offset '' @ show_nat position @ '': '' @ repr_str gap"

definition msg_path_trailing :: "string \<Rightarrow> string \<Rightarrow> string" where
  "msg_path_trailing path rest = ''cannot parse '' @ repr_str path @ '': trailing '' @ repr_str rest"

fun check_segments ::
  "string \<Rightarrow> string \<Rightarrow> nat \<Rightarrow> (nat \<times> nat \<times> segment) list \<Rightarrow> segment list result" where
  "check_segments path text position [] =
     (if position \<noteq> length text
      then Raise (PathError (msg_path_trailing path (drop position text))) else Ok [])"
| "check_segments path text position ((start, stop, seg) # ms) =
     (if start \<noteq> position \<and> slice position start text \<noteq> ''.''
      then Raise (PathError (msg_path_gap path position (slice position start text)))
      else rbind (check_segments path text stop ms) (\<lambda>segs. Ok (seg # segs)))"

definition parse_path :: "string \<Rightarrow> segment list result" where
  "parse_path path =
     (let text = py_strip path in
      if text = [] then Ok [] else check_segments path text 0 (find_segments 0 text))"

definition show_segment :: "segment \<Rightarrow> string" where
  "show_segment s = (case s of
     Key n \<Rightarrow> n | Index i \<Rightarrow> ''['' @ show_int i @ '']'' | Wildcard \<Rightarrow> ''[*]'')"

definition format_step :: "string \<Rightarrow> segment \<Rightarrow> string" where
  "format_step out s = (case s of
     Key n \<Rightarrow> if out = [] then n else out @ ''.'' @ n
   | _ \<Rightarrow> out @ show_segment s)"

definition format_path :: "segment list \<Rightarrow> string" where
  "format_path segs = foldl format_step [] segs"

subsection \<open>Reading\<close>

fun items_of :: "json \<Rightarrow> (string \<times> json) list" where
  "items_of (JObj d) = d"
| "items_of (JHeaders d) = d"
| "items_of v = []"

text \<open>\<open>key in value\<close> and \<open>value[key]\<close> of a mapping; the headers are looked up case-folded.\<close>

fun mapping_get :: "json \<Rightarrow> string \<Rightarrow> json option" where
  "mapping_get (JObj d) k = map_of d k"
| "mapping_get (JHeaders d) k = map_of d (lower k)"
| "mapping_get v k = None"

text \<open>\<open>xs[i]\<close>, counted from the end when \<open>i\<close> is negative; None is the IndexError.\<close>

definition seq_get :: "json list \<Rightarrow> int \<Rightarrow> json option" where
  "seq_get xs i =
     (let j = (if i < 0 then i + int (length xs) else i)
      in if 0 \<le> j \<and> j < int (length xs) then Some (xs ! nat j) else None)"

definition msg_wildcard :: string where
  "msg_wildcard = ''`[*]` is only valid in a collection assertion path''"

definition path_step :: "json \<Rightarrow> segment \<Rightarrow> json option result" where
  "path_step vl s = (case s of
     Key n \<Rightarrow> Ok (mapping_get vl n)
   | Index i \<Rightarrow> (case vl of JArr xs \<Rightarrow> Ok (seq_get xs i) | _ \<Rightarrow> Ok None)
   | Wildcard \<Rightarrow> Raise (PathError msg_wildcard))"

fun read_segments :: "json \<Rightarrow> segment list \<Rightarrow> json option result" where
  "read_segments vl [] = Ok (Some vl)"
| "read_segments vl (s # ss) =
     rbind (path_step vl s) (\<lambda>r. case r of None \<Rightarrow> Ok None | Some v \<Rightarrow> read_segments v ss)"

text \<open>
  \<open>value\<close> may itself be \<open>MISSING\<close>, which every segment steps to \<open>MISSING\<close> from but the
  wildcard, which raises.
\<close>

definition read_path :: "json option \<Rightarrow> string \<Rightarrow> json option result" where
  "read_path vl path = rbind (parse_path path) (\<lambda>segs. case vl of
     Some v \<Rightarrow> read_segments v segs
   | None \<Rightarrow> (case segs of Wildcard # _ \<Rightarrow> Raise (PathError msg_wildcard) | _ \<Rightarrow> Ok None))"

text \<open>\<open>_walk\<close>: what remains of the path, and the concrete path reached so far.\<close>

fun walk :: "json \<Rightarrow> segment list \<Rightarrow> segment list \<Rightarrow> (segment list \<times> json) list" where
  "walk vl [] reached = [(reached, vl)]"
| "walk vl (Wildcard # tail) reached =
     (case vl of
        JArr xs \<Rightarrow> concat (map (\<lambda>(i, x). walk x tail (reached @ [Index (int i)])) (List.enumerate 0 xs))
      | _ \<Rightarrow> [])"
| "walk vl (s # tail) reached =
     (case path_step vl s of
        Inr (Some v) \<Rightarrow> walk v tail (reached @ [s])
      | _ \<Rightarrow> [])"

definition walk_all :: "json option \<Rightarrow> segment list \<Rightarrow> (segment list \<times> json option) list" where
  "walk_all vl segs = (case vl of
     Some v \<Rightarrow> map (\<lambda>(reached, x). (reached, Some x)) (walk v segs [])
   | None \<Rightarrow> (if segs = [] then [([], None)] else []))"

definition read_path_all :: "json option \<Rightarrow> string \<Rightarrow> (string \<times> json option) list result" where
  "read_path_all vl path = rbind (parse_path path) (\<lambda>segs.
     Ok (map (\<lambda>(reached, x). (format_path reached, x)) (walk_all vl segs)))"

subsection \<open>A formatted path read back\<close>

definition good_key :: "string \<Rightarrow> bool" where
  "good_key n \<longleftrightarrow> n \<noteq> [] \<and> list_all name_char n \<and> \<not> py_isspace (hd n) \<and> \<not> py_isspace (last n)"

fun good_segment :: "segment \<Rightarrow> bool" where
  "good_segment (Key n) = good_key n"
| "good_segment s = True"

text \<open>The text of a segment after the first, with its dot.\<close>

fun dotted :: "segment \<Rightarrow> string" where
  "dotted (Key n) = ''.'' @ n"
| "dotted s = show_segment s"

lemma format_step_nonempty: "out \<noteq> [] \<Longrightarrow> format_step out s = out @ dotted s"
  by (cases s) (auto simp: format_step_def show_segment_def)

lemma format_foldl: "out \<noteq> [] \<Longrightarrow> foldl format_step out ss = out @ concat (map dotted ss)"
  by (induction ss arbitrary: out) (auto simp: format_step_nonempty)

lemma show_segment_nonempty: "good_segment s \<Longrightarrow> show_segment s \<noteq> []"
  by (cases s) (auto simp: show_segment_def good_key_def)

lemma format_path_Cons:
  "good_segment s \<Longrightarrow> format_path (s # ss) = show_segment s @ concat (map dotted ss)"
proof -
  assume g: "good_segment s"
  have "format_step [] s = show_segment s" by (cases s) (auto simp: format_step_def show_segment_def)
  with g show ?thesis by (simp add: format_path_def format_foldl show_segment_nonempty)
qed

text \<open>What may follow a name: nothing, a dot or a bracket.\<close>

definition delimited :: "string \<Rightarrow> bool" where
  "delimited rest \<longleftrightarrow> (case rest of [] \<Rightarrow> True | c # _ \<Rightarrow> \<not> name_char c)"

lemma delimited_dotted: "delimited (concat (map dotted ss))"
proof (cases ss)
  case (Cons s ss')
  then show ?thesis by (cases s) (auto simp: delimited_def name_char_def show_segment_def)
qed (simp add: delimited_def)

lemma ascii_digit_neq: "ascii_digit c \<Longrightarrow> c \<noteq> CHR 0x2A \<and> c \<noteq> CHR 0x2D \<and> c \<noteq> CHR 0x5D \<and> \<not> py_isspace c"
  by (auto simp: ascii_digit_def code_of_def py_isspace_def Let_def)

lemma show_nat_prefix:
  "takeWhile ascii_digit (show_nat n @ CHR 0x5D # rest) = show_nat n"
  "dropWhile ascii_digit (show_nat n @ CHR 0x5D # rest) = CHR 0x5D # rest"
  using show_nat_digits [of n]
  by (auto simp: takeWhile_append dropWhile_append list_all_iff ascii_digit_def code_of_def)

lemma show_nat_Cons: obtains c cs where "show_nat n = c # cs" "ascii_digit c"
  using show_nat_digits [of n] show_nat_nonempty [of n] by (cases "show_nat n") auto

lemma not_space_bracket: "\<not> py_isspace (CHR 0x5D)" "\<not> py_isspace (CHR 0x5B)" "\<not> py_isspace (CHR 0x2A)"
  "\<not> py_isspace (CHR 0x2D)" "\<not> py_isspace (CHR 0x2E)"
  by (simp_all add: py_isspace_def code_of_def)

lemma lstrip_Cons [simp]: "\<not> py_isspace c \<Longrightarrow> lstrip (c # cs) = c # cs"
  by (simp add: lstrip_def)

lemma match_bracket_index: "match_bracket (show_int i @ CHR 0x5D # rest) = Some (Index i, rest)"
proof (cases "i < 0")
  case True
  define n where "n = nat (- i)"
  with True have i: "i = - int n" by simp
  have "show_int i = CHR 0x2D # show_nat n" using True by (simp add: show_int_def n_def)
  then show ?thesis
    by (simp add: match_bracket_def read_bracket_body_def not_space_bracket show_nat_prefix
        read_show_nat i)
next
  case False
  define n where "n = nat i"
  with False have i: "i = int n" by simp
  have s: "show_int i = show_nat n" using False by (simp add: show_int_def n_def)
  obtain c cs where c: "show_nat n = c # cs" "ascii_digit c" by (rule show_nat_Cons)
  have "takeWhile ascii_digit (c # cs @ CHR 0x5D # rest) = show_nat n"
    "dropWhile ascii_digit (c # cs @ CHR 0x5D # rest) = CHR 0x5D # rest"
    using show_nat_prefix [of n rest] unfolding c(1) by simp_all
  moreover have "read_digits (c # cs) = n" using read_show_nat [of n] unfolding c(1) .
  moreover have "lstrip (c # cs @ CHR 0x5D # rest) = c # cs @ CHR 0x5D # rest"
    using ascii_digit_neq [OF c(2)] by simp
  ultimately have "match_bracket (c # cs @ CHR 0x5D # rest) = Some (Index (int n), rest)"
    using ascii_digit_neq [OF c(2)] c(1)
    by (simp add: match_bracket_def read_bracket_body_def not_space_bracket Let_def
        del: takeWhile.simps dropWhile.simps)
  then show ?thesis by (simp add: s c(1)) (simp add: i)
qed

lemma match_segment_shown:
  assumes "good_segment s" "delimited rest"
  shows "match_segment (show_segment s @ rest) = Some (s, rest)"
proof (cases s)
  case (Key n)
  with assms(1) have n: "n \<noteq> []" "\<forall>c \<in> set n. name_char c" by (auto simp: good_key_def list_all_iff)
  then obtain c cs where c: "n = c # cs" by (cases n) auto
  have "takeWhile name_char (n @ rest) = n" "dropWhile name_char (n @ rest) = rest"
    using n(2) assms(2)
    by (auto simp: takeWhile_append dropWhile_append delimited_def split: list.splits)
  moreover have "c \<noteq> CHR 0x5B" "name_char c" using n(2) c by (auto simp: name_char_def)
  ultimately show ?thesis by (simp add: Key show_segment_def match_segment_def c
        del: takeWhile.simps dropWhile.simps)
next
  case (Index i)
  then show ?thesis by (simp add: show_segment_def match_segment_def match_bracket_index)
next
  case Wildcard
  then show ?thesis
    by (simp add: show_segment_def match_segment_def match_bracket_def read_bracket_body_def
        not_space_bracket)
qed

lemma find_segments_shown:
  assumes "good_segment s" "delimited rest"
  shows "find_segments pos (show_segment s @ rest) =
    (pos, pos + length (show_segment s), s) # find_segments (pos + length (show_segment s)) rest"
proof -
  obtain c cs where c: "show_segment s @ rest = c # cs"
    using show_segment_nonempty [OF assms(1)] by (cases "show_segment s") auto
  have "length (c # cs) - length rest = length (show_segment s)"
    using arg_cong [OF c, of length] by simp
  with match_segment_shown [OF assms] show ?thesis
    by (simp add: c Let_def del: One_nat_def)
qed

lemma check_segments_dotted:
  assumes "list_all good_segment ss"
  shows "check_segments path (pre @ concat (map dotted ss)) (length pre)
    (find_segments (length pre) (concat (map dotted ss))) = Ok ss"
  using assms
proof (induction ss arbitrary: pre)
  case Nil
  then show ?case by simp
next
  case (Cons s ss)
  let ?rest = "concat (map dotted ss)"
  have g: "good_segment s" "list_all good_segment ss" using Cons.prems by simp_all
  show ?case
  proof (cases s)
    case (Key n)
    have "find_segments (length pre) (CHR 0x2E # n @ ?rest) = find_segments (length pre + 1) (n @ ?rest)"
      by (simp add: match_segment_def name_char_def)
    also have "\<dots> = (length pre + 1, length pre + 1 + length n, s) #
        find_segments (length pre + 1 + length n) ?rest"
      using find_segments_shown [OF g(1) delimited_dotted, of "length pre + 1" ss]
      by (simp add: Key show_segment_def)
    finally have "find_segments (length pre) (concat (map dotted (s # ss))) =
        (length pre + 1, length pre + 1 + length n, s) #
        find_segments (length (pre @ ''.'' @ n)) ?rest"
      by (simp add: Key)
    moreover have "slice (length pre) (length pre + 1) (pre @ concat (map dotted (s # ss))) = ''.''"
      by (simp add: slice_def Key)
    ultimately show ?thesis
      using Cons.IH [OF g(2), of "pre @ ''.'' @ n"] by (simp add: Key)
  next
    case (Index i)
    have "find_segments (length pre) (concat (map dotted (s # ss))) =
        (length pre, length pre + length (show_segment s), s) #
        find_segments (length (pre @ show_segment s)) ?rest"
      using find_segments_shown [OF g(1) delimited_dotted, of "length pre" ss] by (simp add: Index)
    with Cons.IH [OF g(2), of "pre @ show_segment s"] show ?thesis by (simp add: Index)
  next
    case Wildcard
    have "find_segments (length pre) (concat (map dotted (s # ss))) =
        (length pre, length pre + length (show_segment s), s) #
        find_segments (length (pre @ show_segment s)) ?rest"
      using find_segments_shown [OF g(1) delimited_dotted, of "length pre" ss] by (simp add: Wildcard)
    with Cons.IH [OF g(2), of "pre @ show_segment s"] show ?thesis by (simp add: Wildcard)
  qed
qed

lemma strip_ends:
  assumes "s \<noteq> []" "\<not> py_isspace (hd s)" "\<not> py_isspace (last s)"
  shows "py_strip s = s"
proof -
  obtain c cs where s: "s = c # cs" using assms(1) by (cases s) auto
  then have "lstrip s = s" using assms(2) by simp
  moreover have "dropWhile py_isspace (rev s) = rev s"
    using assms(1,3) by (cases s rule: rev_cases) auto
  ultimately show ?thesis by (simp add: py_strip_def rstrip_def)
qed

lemma last_concat_dotted:
  "x \<noteq> [] \<Longrightarrow> \<not> py_isspace (last x) \<Longrightarrow> list_all good_segment ss \<Longrightarrow>
   \<not> py_isspace (last (x @ concat (map dotted ss)))"
proof (induction ss rule: rev_induct)
  case (snoc s ss)
  show ?case
  proof (cases s)
    case (Key n)
    then show ?thesis using snoc.prems by (simp add: good_key_def)
  qed (use snoc.prems in \<open>simp_all add: show_segment_def not_space_bracket\<close>)
qed simp

lemma parse_format_path:
  assumes "list_all good_segment segs"
  shows "parse_path (format_path segs) = Ok segs"
proof (cases segs)
  case Nil
  then show ?thesis by (simp add: format_path_def parse_path_def py_strip_def lstrip_def rstrip_def)
next
  case (Cons s ss)
  with assms have g: "good_segment s" "list_all good_segment ss" by simp_all
  let ?rest = "concat (map dotted ss)"
  have f: "format_path segs = show_segment s @ ?rest"
    using Cons format_path_Cons [OF g(1)] by simp
  have ends: "\<not> py_isspace (hd (show_segment s))" "\<not> py_isspace (last (show_segment s))"
    using g(1) by (cases s; simp add: show_segment_def good_key_def not_space_bracket)+
  have ne: "show_segment s @ ?rest \<noteq> []" using show_segment_nonempty [OF g(1)] by simp
  have "py_strip (show_segment s @ ?rest) = show_segment s @ ?rest"
  proof (rule strip_ends [OF ne])
    show "\<not> py_isspace (hd (show_segment s @ ?rest))"
      using ends(1) show_segment_nonempty [OF g(1)] by simp
    show "\<not> py_isspace (last (show_segment s @ ?rest))"
      by (rule last_concat_dotted [OF show_segment_nonempty [OF g(1)] ends(2) g(2)])
  qed
  moreover have "check_segments (show_segment s @ ?rest) (show_segment s @ ?rest) 0
      (find_segments 0 (show_segment s @ ?rest)) = Ok (s # ss)"
    using find_segments_shown [OF g(1) delimited_dotted, of 0 ss]
      check_segments_dotted [OF g(2), of _ "show_segment s"] by simp
  ultimately show ?thesis using ne Cons unfolding f by (simp add: parse_path_def Let_def)
qed

subsection \<open>What a wildcard path reaches\<close>

text \<open>A concrete path is an instance of a path with wildcards at the same positions.\<close>

fun instance_seg :: "segment \<Rightarrow> segment \<Rightarrow> bool" where
  "instance_seg Wildcard s = (case s of Index i \<Rightarrow> 0 \<le> i | _ \<Rightarrow> False)"
| "instance_seg p s = (s = p)"

definition path_instance :: "segment list \<Rightarrow> segment list \<Rightarrow> bool" where
  "path_instance ps ss = list_all2 instance_seg ps ss"

lemma path_instance_Cons:
  "path_instance (p # ps) ss \<longleftrightarrow> (\<exists>s ss'. ss = s # ss' \<and> instance_seg p s \<and> path_instance ps ss')"
  by (auto simp: path_instance_def list_all2_Cons1)

lemma seq_get_nat: "seq_get xs (int i) = (if i < length xs then Some (xs ! i) else None)"
  by (simp add: seq_get_def)

lemma walk_iff:
  "(r, v) \<in> set (walk vl segs reached) \<longleftrightarrow>
   (\<exists>ss. r = reached @ ss \<and> path_instance segs ss \<and> read_segments vl ss = Ok (Some v))"
proof (induction vl segs reached arbitrary: r v rule: walk.induct [case_names Done Wild Named Positioned])
  case (Done vl reached)
  then show ?case by (auto simp: path_instance_def)
next
  case (Wild vl tail reached)
  show ?case
  proof (cases "is_array vl")
    case True
    then obtain xs where JArr: "vl = JArr xs" by (cases vl) auto
    have IH: "(r, v) \<in> set (walk (xs ! i) tail (reached @ [Index (int i)])) \<longleftrightarrow>
        (\<exists>ss. r = (reached @ [Index (int i)]) @ ss \<and> path_instance tail ss \<and>
          read_segments (xs ! i) ss = Ok (Some v))" if "i < length xs" for i
      using Wild [OF JArr, of "(i, xs ! i)" i "xs ! i"] that by (auto simp: in_set_enumerate_eq)
    have "(r, v) \<in> set (walk vl (Wildcard # tail) reached) \<longleftrightarrow>
        (\<exists>i < length xs. (r, v) \<in> set (walk (xs ! i) tail (reached @ [Index (int i)])))"
      by (force simp: JArr in_set_enumerate_eq)
    also have "\<dots> \<longleftrightarrow> (\<exists>i < length xs. \<exists>ss. r = (reached @ [Index (int i)]) @ ss \<and>
        path_instance tail ss \<and> read_segments (xs ! i) ss = Ok (Some v))"
      using IH by blast
    also have "\<dots> \<longleftrightarrow> (\<exists>ss. r = reached @ ss \<and> path_instance (Wildcard # tail) ss \<and>
        read_segments vl ss = Ok (Some v))" (is "?L \<longleftrightarrow> ?R")
    proof
      assume ?L
      then obtain i ss where "i < length xs" "r = reached @ Index (int i) # ss"
        "path_instance tail ss" "read_segments (xs ! i) ss = Ok (Some v)" by auto
      then show ?R
        by (intro exI [of _ "Index (int i) # ss"])
          (simp add: path_instance_Cons path_step_def JArr seq_get_nat)
    next
      assume ?R
      then obtain s ss where s: "r = reached @ s # ss" "instance_seg Wildcard s"
        "path_instance tail ss" "read_segments vl (s # ss) = Ok (Some v)"
        by (auto simp: path_instance_Cons)
      from s(2) obtain k where k: "s = Index k" "0 \<le> k" by (cases s) simp_all
      then have i: "s = Index (int (nat k))" by simp
      have "nat k < length xs \<and> read_segments (xs ! nat k) ss = Ok (Some v)"
        using s(4) unfolding i
        by (simp only: path_step_def JArr segment.case json.case read_segments.simps rbind_Ok seq_get_nat)
          (simp split: if_splits)
      with s i show ?L by (intro exI [of _ "nat k"] conjI exI [of _ ss]) simp_all
    qed
    finally show ?thesis .
  next
    case False
    then have "walk vl (Wildcard # tail) reached = []" by (cases vl) simp_all
    moreover have "read_segments vl ss \<noteq> Ok (Some v)" if "path_instance (Wildcard # tail) ss" for ss
    proof -
      from that obtain s ss' where s: "ss = s # ss'" "instance_seg Wildcard s"
        by (auto simp: path_instance_Cons)
      then obtain i where "s = Index i" by (cases s) simp_all
      with s(1) False show ?thesis by (cases vl) (simp_all add: path_step_def)
    qed
    ultimately show ?thesis by auto
  qed
next
  case (Named vl n tail reached)
  show ?case
  proof (cases "mapping_get vl n")
    case None
    then show ?thesis by (auto simp: path_instance_Cons path_step_def)
  next
    case (Some x)
    then have "path_step vl (Key n) = Inr (Some x)" by (simp add: path_step_def)
    with Named [OF this refl] show ?thesis by (auto simp: path_instance_Cons)
  qed
next
  case (Positioned vl i tail reached)
  show ?case
  proof (cases "path_step vl (Index i)")
    case (Inl e)
    then show ?thesis by (auto simp: path_step_def split: json.splits)
  next
    case (Inr y)
    show ?thesis
    proof (cases y)
      case None
      with Inr show ?thesis by (auto simp: path_instance_Cons)
    next
      case (Some x)
      with Inr have "path_step vl (Index i) = Inr (Some x)" by simp
      with Positioned [OF Inr Some] show ?thesis by (auto simp: path_instance_Cons)
    qed
  qed
qed

lemma path_instance_good:
  "path_instance ps ss \<Longrightarrow> list_all good_segment ps \<Longrightarrow> list_all good_segment ss"
proof -
  have "instance_seg p s \<Longrightarrow> good_segment p \<Longrightarrow> good_segment s" for p s
    by (cases p; cases s) auto
  then show "path_instance ps ss \<Longrightarrow> list_all good_segment ps \<Longrightarrow> list_all good_segment ss"
    by (auto simp: path_instance_def list_all_length list_all2_conv_all_nth)
qed

lemma read_path_format:
  "list_all good_segment ss \<Longrightarrow> read_path (Some v) (format_path ss) = read_segments v ss"
  by (simp add: read_path_def parse_format_path)

lemma read_path_all_iff:
  assumes "parse_path path = Ok segs"
  shows "\<exists>found. read_path_all (Some vl) path = Ok found \<and>
    set found = {(format_path ss, Some v) | ss v.
      path_instance segs ss \<and> read_segments vl ss = Ok (Some v)}"
proof -
  have "set (map (\<lambda>(reached, x). (format_path reached, x)) (walk_all (Some vl) segs)) =
      {(format_path ss, Some v) | ss v. path_instance segs ss \<and> read_segments vl ss = Ok (Some v)}"
    (is "?L = ?R")
  proof
    show "?L \<subseteq> ?R"
    proof
      fix p assume "p \<in> ?L"
      then obtain ss v where "p = (format_path ss, Some v)" "(ss, v) \<in> set (walk vl segs [])"
        by (auto simp: walk_all_def)
      then show "p \<in> ?R" unfolding walk_iff by auto
    qed
    show "?R \<subseteq> ?L"
    proof
      fix p assume "p \<in> ?R"
      then obtain ss v where p: "p = (format_path ss, Some v)"
        "path_instance segs ss" "read_segments vl ss = Ok (Some v)" by auto
      then have "(ss, v) \<in> set (walk vl segs [])" unfolding walk_iff by simp
      with p(1) show "p \<in> ?L" by (force simp: walk_all_def)
    qed
  qed
  with assms show ?thesis by (simp add: read_path_all_def)
qed

subsection \<open>Properties\<close>

text \<open>
  A path printed for a report parses back to the segments it was printed from, as long as
  its names are non-empty, hold no dot or bracket and do not begin or end with white space.
\<close>

theorem printed_path_parses_back:
  assumes "list_all good_segment segs"
  shows "parse_path (format_path segs) = Ok segs"
  using assms by (rule parse_format_path)

theorem printed_path_parses_back_witness:
  "parse_path (format_path [Key ''task'', Key ''artifacts'', Index (-1), Wildcard, Key ''text'']) =
   Ok [Key ''task'', Key ''artifacts'', Index (-1), Wildcard, Key ''text'']"
  by (rule printed_path_parses_back) code_simp

text \<open>
  What a wildcard path reaches is exactly what the concrete paths of its shape read, each
  reported under a path that, read again on its own, gives the value it was reported with.
\<close>

theorem wildcard_reach_is_reread:
  assumes "parse_path path = Ok segs" "list_all good_segment segs"
  shows "\<exists>found. read_path_all (Some root) path = Ok found \<and>
    set found = {(format_path ss, Some v) | ss v.
      path_instance segs ss \<and> read_segments root ss = Ok (Some v)} \<and>
    (\<forall>(reached, v) \<in> set found. read_path (Some root) reached = Ok v)"
proof -
  from read_path_all_iff [OF assms(1), of root] obtain found where
    f: "read_path_all (Some root) path = Ok found"
      "set found = {(format_path ss, Some v) | ss v.
        path_instance segs ss \<and> read_segments root ss = Ok (Some v)}" by blast
  have "read_path (Some root) (format_path ss) = Ok (Some v)"
    if "path_instance segs ss" "read_segments root ss = Ok (Some v)" for ss v
    using read_path_format [OF path_instance_good [OF that(1) assms(2)]] that(2) by simp
  with f show ?thesis by auto
qed

theorem wildcard_reach_is_reread_witness:
  "\<exists>found. read_path_all (Some (JObj [(''parts'', JArr [JStr ''x'', JStr ''y''])])) ''parts[*]'' = Ok found \<and>
    (\<forall>(reached, v) \<in> set found.
      read_path (Some (JObj [(''parts'', JArr [JStr ''x'', JStr ''y''])])) reached = Ok v)"
proof -
  have "parse_path ''parts[*]'' = Ok [Key ''parts'', Wildcard]" by code_simp
  from wildcard_reach_is_reread [OF this, of "JObj [(''parts'', JArr [JStr ''x'', JStr ''y''])]"]
  show ?thesis by (auto simp: good_key_def name_char_def py_isspace_def code_of_def)
qed

end
