(* ===== verification/Variables.thy ===== *)
theory Variables
  imports Paths
begin

section \<open>Scopes, captures and substitution (acts/variables.py)\<close>

text \<open>
  The variables one test can see: the document variables, the environment and what earlier
  steps captured. \<open>new_uuid\<close> is the parameter behind \<open>$uuid\<close>: its argument counts the calls,
  so each occurrence draws a new value. \<open>_REFERENCE\<close> is scanned as \<open>re\<close> does: two braces, a
  body of at least one character that is no brace, two braces; every use strips the body.
\<close>

record scope =
  variables :: "(string, json) dict"
  env :: "(string, string) dict"
  captures :: "(string, (string, json) dict) dict"
  drawn :: nat

definition new_scope :: "(string, json) dict \<Rightarrow> (string, string) dict \<Rightarrow> scope" where
  "new_scope vs e = \<lparr>variables = vs, env = e, captures = [], drawn = 0\<rparr>"

definition implicit_response :: string where "implicit_response = ''response''"

subsection \<open>Recording\<close>

definition captures_for :: "scope \<Rightarrow> string \<Rightarrow> (string, json) dict" where
  "captures_for sc step_id = dict_lookup (captures sc) step_id []"

definition record_capture :: "string \<Rightarrow> string \<Rightarrow> json \<Rightarrow> scope \<Rightarrow> scope" where
  "record_capture step_id name v sc =
     sc\<lparr>captures := AList.update step_id (AList.update name v (captures_for sc step_id)) (captures sc)\<rparr>"

definition record_response :: "string \<Rightarrow> json \<Rightarrow> scope \<Rightarrow> scope" where
  "record_response step_id response sc =
     (case map_of (captures_for sc step_id) implicit_response of
        None \<Rightarrow> record_capture step_id implicit_response response sc
      | Some _ \<Rightarrow> sc)"

definition msg_no_capture :: "string \<Rightarrow> string \<Rightarrow> string \<Rightarrow> string" where
  "msg_no_capture step_id name path =
     ''step '' @ repr_str step_id @ '' cannot capture '' @ repr_str name @
     '': no value at path '' @ repr_str path @ '' in the response''"

fun capture_loop ::
  "string \<Rightarrow> (string, string) dict \<Rightarrow> json option \<Rightarrow> (string, json) dict \<Rightarrow>
   (scope, (string, json) dict) state_result" where
  "capture_loop step_id [] response captured sc = (Ok captured, sc)"
| "capture_loop step_id ((name, path) # spec) response captured sc =
     (case read_path response path of
        Inl e \<Rightarrow> (Raise e, sc)
      | Inr None \<Rightarrow> (Raise (UnresolvedVariable (msg_no_capture step_id name path)), sc)
      | Inr (Some v) \<Rightarrow>
          capture_loop step_id spec response (AList.update name v captured)
            (record_capture step_id name v sc))"

definition capture ::
  "string \<Rightarrow> (string, string) dict \<Rightarrow> json option \<Rightarrow> (scope, (string, json) dict) state_result" where
  "capture step_id spec response sc = capture_loop step_id spec response [] sc"

subsection \<open>Resolution\<close>

definition name_list :: "(string, 'v) dict \<Rightarrow> string" where
  "name_list d = py_repr (JArr (map JStr (str_sort (map fst d))))"

definition msg_no_env :: "string \<Rightarrow> string" where
  "msg_no_env tail = ''environment variable '' @ repr_str tail @ '' is not set''"

definition msg_not_captured :: "string \<Rightarrow> string \<Rightarrow> (string, json) dict \<Rightarrow> string" where
  "msg_not_captured head tail known =
     ''step '' @ repr_str head @ '' captured nothing called '' @ repr_str tail @
     ''; it has '' @ name_list known"

definition msg_no_step :: "string \<Rightarrow> string \<Rightarrow> string" where
  "msg_no_step head ref =
     ''no step '' @ repr_str head @ '' has run yet, and no variable is named '' @ repr_str ref"

definition msg_undefined :: "string \<Rightarrow> (string, json) dict \<Rightarrow> string" where
  "msg_undefined ref known =
     ''undefined variable '' @ repr_str ref @ ''; known: '' @ name_list known"

definition partition_dot :: "string \<Rightarrow> string \<times> string" where
  "partition_dot s = (takeWhile (\<lambda>c. c \<noteq> CHR 0x2E) s, drop 1 (dropWhile (\<lambda>c. c \<noteq> CHR 0x2E) s))"

definition lookup_dotted :: "scope \<Rightarrow> string \<Rightarrow> json result" where
  "lookup_dotted sc ref = (let (head, tail) = partition_dot ref in
     case map_of (captures_for sc head) tail of
       Some v \<Rightarrow> Ok v
     | None \<Rightarrow>
        (case map_of (variables sc) ref of
           Some v \<Rightarrow> Ok v
         | None \<Rightarrow>
             if head = ''env'' then
               (case map_of (env sc) tail of
                  Some s \<Rightarrow> Ok (JStr s)
                | None \<Rightarrow> Raise (UnresolvedVariable (msg_no_env tail)))
             else if map_of (captures sc) head \<noteq> None
               then Raise (UnresolvedVariable (msg_not_captured head tail (captures_for sc head)))
             else Raise (UnresolvedVariable (msg_no_step head ref))))"

definition lookup_plain :: "scope \<Rightarrow> string \<Rightarrow> json result" where
  "lookup_plain sc ref = (case map_of (variables sc) ref of
     Some v \<Rightarrow> Ok v
   | None \<Rightarrow> Raise (UnresolvedVariable (msg_undefined ref (variables sc))))"

definition resolve :: "(nat \<Rightarrow> string) \<Rightarrow> string \<Rightarrow> (scope, json) state_result" where
  "resolve new_uuid reference sc = (let ref = py_strip reference in
     if ref = ''$uuid'' then (Ok (JStr (new_uuid (drawn sc))), sc\<lparr>drawn := drawn sc + 1\<rparr>)
     else if CHR 0x2E \<in> set ref then (lookup_dotted sc ref, sc)
     else (lookup_plain sc ref, sc))"

subsection \<open>Substitution\<close>

definition no_brace :: "char \<Rightarrow> bool" where
  "no_brace c = (c \<noteq> CHR 0x7B \<and> c \<noteq> CHR 0x7D)"

text \<open>One match of \<open>_REFERENCE\<close> at the head of the text: its body, stripped, and the rest.\<close>

definition match_reference :: "string \<Rightarrow> (string \<times> string) option" where
  "match_reference s =
     (if starts_with s ''{{'' then
        (let body = takeWhile no_brace (drop 2 s); rest = dropWhile no_brace (drop 2 s)
         in if body \<noteq> [] \<and> starts_with rest ''}}'' then Some (py_strip body, drop 2 rest) else None)
      else None)"

lemma match_reference_length: "match_reference s = Some (ref, rest) \<Longrightarrow> length rest < length s"
proof -
  assume m: "match_reference s = Some (ref, rest)"
  then have "starts_with s ''{{''" "rest = drop 2 (dropWhile no_brace (drop 2 s))"
    by (auto simp: match_reference_def Let_def split: if_splits)
  moreover from this(1) have "s \<noteq> []" by (auto simp: starts_with_def)
  then have "length (drop 2 s) < length s" by simp
  with length_dropWhile_le [of no_brace "drop 2 s"] have
    "length (dropWhile no_brace (drop 2 s)) < length s" by simp
  ultimately show ?thesis by simp
qed

definition whole_reference :: "string \<Rightarrow> string option" where
  "whole_reference s = (case match_reference s of Some (ref, []) \<Rightarrow> Some ref | _ \<Rightarrow> None)"

function find_references :: "string \<Rightarrow> string list" where
  "find_references [] = []"
| "find_references (c # cs) = (case match_reference (c # cs) of
     Some (ref, rest) \<Rightarrow> ref # find_references rest
   | None \<Rightarrow> find_references cs)"
  by pat_completeness auto
termination by (relation "measure length") (auto dest: match_reference_length)

function interpolate :: "(nat \<Rightarrow> string) \<Rightarrow> string \<Rightarrow> (scope, string) state_result" where
  "interpolate new_uuid [] = st_return []"
| "interpolate new_uuid (c # cs) = (case match_reference (c # cs) of
     Some (ref, rest) \<Rightarrow>
       st_bind (resolve new_uuid ref) (\<lambda>v. st_bind (interpolate new_uuid rest)
         (\<lambda>t. st_return (py_str v @ t)))
   | None \<Rightarrow> st_bind (interpolate new_uuid cs) (\<lambda>t. st_return (c # t)))"
  by pat_completeness auto
termination
  by (relation "measure (\<lambda>(_, s). length s)") (auto dest: match_reference_length)

fun substitute :: "(nat \<Rightarrow> string) \<Rightarrow> json \<Rightarrow> (scope, json) state_result"
  and substitute_list :: "(nat \<Rightarrow> string) \<Rightarrow> json list \<Rightarrow> (scope, json list) state_result"
  and substitute_members ::
    "(nat \<Rightarrow> string) \<Rightarrow> (string \<times> json) list \<Rightarrow> (scope, (string \<times> json) list) state_result" where
  "substitute u (JStr s) = (case whole_reference s of
     Some ref \<Rightarrow> resolve u ref
   | None \<Rightarrow> st_bind (interpolate u s) (\<lambda>t. st_return (JStr t)))"
| "substitute u (JObj d) = st_bind (substitute_members u d) (\<lambda>d'. st_return (JObj d'))"
| "substitute u (JHeaders d) = st_bind (substitute_members u d) (\<lambda>d'. st_return (JObj d'))"
| "substitute u (JArr xs) = st_bind (substitute_list u xs) (\<lambda>ys. st_return (JArr ys))"
| "substitute u JNull = st_return JNull"
| "substitute u (JBool b) = st_return (JBool b)"
| "substitute u (JInt i) = st_return (JInt i)"
| "substitute u (JFloat m e) = st_return (JFloat m e)"
| "substitute_list u [] = st_return []"
| "substitute_list u (x # xs) =
     st_bind (substitute u x) (\<lambda>y. st_bind (substitute_list u xs) (\<lambda>ys. st_return (y # ys)))"
| "substitute_members u [] = st_return []"
| "substitute_members u ((k, x) # d) =
     st_bind (substitute u x) (\<lambda>y. st_bind (substitute_members u d)
       (\<lambda>d'. st_return ((k, y) # d')))"

fun references :: "json \<Rightarrow> string set" where
  "references (JStr s) = set (find_references s)"
| "references (JObj d) = (\<Union>p \<in> set d. references (snd p))"
| "references (JHeaders d) = (\<Union>p \<in> set d. references (snd p))"
| "references (JArr xs) = (\<Union>x \<in> set xs. references x)"
| "references _ = {}"

subsection \<open>Which references resolve\<close>

definition resolvable :: "scope \<Rightarrow> string \<Rightarrow> bool" where
  "resolvable sc ref \<longleftrightarrow> (\<exists>v. fst (resolve (\<lambda>_. []) ref sc) = Ok v)"

text \<open>Drawing a uuid changes nothing a reference can see.\<close>

definition same_view :: "scope \<Rightarrow> scope \<Rightarrow> bool" where
  "same_view s t \<longleftrightarrow> variables s = variables t \<and> env s = env t \<and> captures s = captures t"

lemma same_view_refl [simp]: "same_view s s"
  by (simp add: same_view_def)

lemma same_view_trans: "same_view s t \<Longrightarrow> same_view t u \<Longrightarrow> same_view s u"
  by (simp add: same_view_def)

lemma lookups_same_view:
  "same_view s t \<Longrightarrow> lookup_dotted s ref = lookup_dotted t ref"
  "same_view s t \<Longrightarrow> lookup_plain s ref = lookup_plain t ref"
proof -
  assume "same_view s t"
  then have v: "variables s = variables t" "env s = env t" "captures s = captures t"
    by (simp_all add: same_view_def)
  show "lookup_dotted s ref = lookup_dotted t ref"
    unfolding lookup_dotted_def captures_for_def v by (rule refl)
next
  assume "same_view s t"
  then have v: "variables s = variables t" by (simp add: same_view_def)
  show "lookup_plain s ref = lookup_plain t ref"
    unfolding lookup_plain_def v by (rule refl)
qed

lemma resolve_same_view: "same_view sc (snd (resolve u ref sc))"
  by (simp add: resolve_def same_view_def Let_def)

lemma resolvable_same_view: "same_view s t \<Longrightarrow> resolvable s ref = resolvable t ref"
  by (simp add: resolvable_def resolve_def Let_def lookups_same_view)

lemma resolve_Ok_iff: "(\<exists>v. fst (resolve u ref sc) = Ok v) \<longleftrightarrow> resolvable sc ref"
  by (simp add: resolvable_def resolve_def Let_def)

lemma resolve_error: "fst (resolve u ref sc) = Raise e \<Longrightarrow> \<exists>m. e = UnresolvedVariable m"
  by (auto simp: resolve_def Let_def lookup_dotted_def lookup_plain_def partition_dot_def
      split: if_splits option.splits)

lemma strip_idem [simp]: "py_strip (py_strip s) = py_strip s"
proof (cases "py_strip s = []")
  case True
  moreover have "py_strip [] = []" by (simp add: py_strip_def lstrip_def rstrip_def)
  ultimately show ?thesis by simp
next
  case False
  have r: "rstrip t \<noteq> [] \<Longrightarrow> \<not> py_isspace (last (rstrip t))" for t
    using hd_dropWhile [of py_isspace "rev t"] by (simp add: rstrip_def last_rev)
  have h: "rstrip t \<noteq> [] \<Longrightarrow> hd (rstrip t) = hd t" for t
  proof -
    assume ne: "rstrip t \<noteq> []"
    have "t = rstrip t @ rev (takeWhile py_isspace (rev t))"
      unfolding rstrip_def by (metis rev_append rev_rev_ident takeWhile_dropWhile_id)
    with ne show ?thesis by (metis hd_append2)
  qed
  have l: "lstrip s \<noteq> []"
  proof
    assume "lstrip s = []"
    then have "py_strip s = []" by (simp only: py_strip_def rstrip_def) simp
    with False show False by simp
  qed
  then have "\<not> py_isspace (hd (lstrip s))" using hd_dropWhile [of py_isspace s] by (simp add: lstrip_def)
  with False r [of "lstrip s"] h [of "lstrip s"] show ?thesis
    by (intro strip_ends) (simp_all add: py_strip_def)
qed

text \<open>What a computation needs: it succeeds exactly when every reference in \<open>R\<close> resolves.\<close>

definition needs :: "(scope, 'a) state_result \<Rightarrow> string set \<Rightarrow> bool" where
  "needs m R \<longleftrightarrow> (\<forall>sc. same_view sc (snd (m sc)) \<and>
     ((\<exists>v. fst (m sc) = Ok v) \<longleftrightarrow> (\<forall>ref \<in> R. resolvable sc ref)) \<and>
     (\<forall>e. fst (m sc) = Raise e \<longrightarrow> (\<exists>msg. e = UnresolvedVariable msg)))"

lemma needs_return: "needs (st_return x) {}"
  by (simp add: needs_def st_return_def)

lemma needs_resolve: "needs (resolve u ref) {ref}"
  by (auto simp: needs_def resolve_same_view resolve_Ok_iff dest: resolve_error)

lemma needs_bind:
  assumes "needs m R" "\<And>x. needs (f x) R'"
  shows "needs (st_bind m f) (R \<union> R')"
proof -
  have "same_view sc (snd (st_bind m f sc)) \<and>
     ((\<exists>v. fst (st_bind m f sc) = Ok v) \<longleftrightarrow> (\<forall>ref \<in> R \<union> R'. resolvable sc ref)) \<and>
     (\<forall>e. fst (st_bind m f sc) = Raise e \<longrightarrow> (\<exists>msg. e = UnresolvedVariable msg))" for sc
  proof -
    obtain r s where ms: "m sc = (r, s)" by (cases "m sc")
    note m = assms(1) [unfolded needs_def, THEN spec, of sc, unfolded ms]
    show ?thesis
    proof (cases r)
      case (Inl e)
      then have "st_bind m f sc = (Raise e, s)" by (simp add: ms)
      with m Inl show ?thesis by auto
    next
      case (Inr x)
      then have b: "st_bind m f sc = f x s" by (simp add: ms)
      note f = assms(2) [of x, unfolded needs_def, THEN spec, of s]
      have "resolvable s ref = resolvable sc ref" for ref
        using m resolvable_same_view [of sc s ref] by simp
      with m f Inr show ?thesis unfolding b by (auto intro: same_view_trans)
    qed
  qed
  then show ?thesis by (simp add: needs_def)
qed

lemma needs_map: "needs m R \<Longrightarrow> needs (st_bind m (\<lambda>x. st_return (g x))) R"
  using needs_bind [of m R "\<lambda>x. st_return (g x)" "{}"] by (simp only: needs_return Un_empty_right)

lemma interpolate_needs: "needs (interpolate u s) (set (find_references s))"
proof (induction s rule: find_references.induct)
  case 1
  have "interpolate u [] = st_return []" by simp
  then show ?case by (simp add: needs_return)
next
  case (2 c cs)
  show ?case
  proof (cases "match_reference (c # cs)")
    case None
    then have "interpolate u (c # cs) = st_bind (interpolate u cs) (\<lambda>t. st_return (c # t))"
      by simp
    with 2(1) [OF None] None show ?thesis by (simp add: needs_map)
  next
    case (Some p)
    obtain ref rest where p: "p = (ref, rest)" by (cases p)
    with Some have "interpolate u (c # cs) =
        st_bind (resolve u ref) (\<lambda>v. st_bind (interpolate u rest) (\<lambda>t. st_return (py_str v @ t)))"
      by simp
    moreover have "needs (st_bind (interpolate u rest) (\<lambda>t. st_return (py_str v @ t)))
        (set (find_references rest))" for v
      using 2(2) [OF Some p [symmetric]] by (rule needs_map)
    ultimately show ?thesis using needs_bind [OF needs_resolve] Some p by fastforce
  qed
qed

lemma whole_reference_refs: "whole_reference s = Some ref \<Longrightarrow> find_references s = [ref]"
  by (cases s) (auto simp: whole_reference_def match_reference_def starts_with_def
      split: option.splits list.splits)

lemma substitute_needs:
  "needs (substitute u node) (references node)"
  "needs (substitute_list u xs) (\<Union>x \<in> set xs. references x)"
  "needs (substitute_members u d) (\<Union>p \<in> set d. references (snd p))"
proof (induction u node and u xs and u d rule: substitute_substitute_list_substitute_members.induct)
  case (1 u s)
  show ?case
  proof (cases "whole_reference s")
    case None
    then have "substitute u (JStr s) = st_bind (interpolate u s) (\<lambda>t. st_return (JStr t))"
      by simp
    then show ?thesis by (simp add: needs_map interpolate_needs)
  next
    case (Some ref)
    then have "substitute u (JStr s) = resolve u ref" by simp
    with Some show ?thesis by (simp add: needs_resolve whole_reference_refs)
  qed
next
  case (10 u x xs)
  have "needs (st_bind (substitute_list u xs) (\<lambda>ys. st_return (y # ys))) (\<Union>x \<in> set xs. references x)" for y
    using 10(2) by (rule needs_map)
  from needs_bind [OF 10(1) this] show ?case by simp
next
  case (12 u k x d)
  have "needs (st_bind (substitute_members u d) (\<lambda>d'. st_return ((k, y) # d')))
      (\<Union>p \<in> set d. references (snd p))" for y
    using 12(2) by (rule needs_map)
  from needs_bind [OF 12(1) this] show ?case by simp
qed (simp_all add: needs_return needs_map)

subsection \<open>Captures\<close>

lemma captures_for_record [simp]:
  "captures_for (record_capture step_id name v sc) s =
     (if s = step_id then AList.update name v (captures_for sc step_id) else captures_for sc s)"
  by (simp add: record_capture_def captures_for_def)

lemma record_capture_view [simp]:
  "variables (record_capture step_id name v sc) = variables sc"
  "env (record_capture step_id name v sc) = env sc"
  by (simp_all add: record_capture_def)

text \<open>The captures after a \<open>capture\<close> block: its names, each with what its path reads.\<close>

lemma capture_loop_correct:
  assumes "capture_loop step_id spec response captured sc = (Ok captured', sc')"
    and "distinct (map fst spec)"
  shows "variables sc' = variables sc" "env sc' = env sc"
    and "s \<noteq> step_id \<Longrightarrow> captures_for sc' s = captures_for sc s"
    and "map_of (captures_for sc' step_id) name = (case map_of spec name of
      None \<Rightarrow> map_of (captures_for sc step_id) name
    | Some path \<Rightarrow> (case read_path response path of Inr v \<Rightarrow> v | Inl _ \<Rightarrow> None))"
    and "map_of captured' name = (case map_of spec name of
      None \<Rightarrow> map_of captured name
    | Some path \<Rightarrow> (case read_path response path of Inr v \<Rightarrow> v | Inl _ \<Rightarrow> None))"
    and "\<forall>path \<in> snd ` set spec. \<exists>v. read_path response path = Ok (Some v)"
proof -
  have "variables sc' = variables sc \<and> env sc' = env sc \<and>
    (s \<noteq> step_id \<longrightarrow> captures_for sc' s = captures_for sc s) \<and>
    map_of (captures_for sc' step_id) name = (case map_of spec name of
      None \<Rightarrow> map_of (captures_for sc step_id) name
    | Some path \<Rightarrow> (case read_path response path of Inr v \<Rightarrow> v | Inl _ \<Rightarrow> None)) \<and>
    map_of captured' name = (case map_of spec name of
      None \<Rightarrow> map_of captured name
    | Some path \<Rightarrow> (case read_path response path of Inr v \<Rightarrow> v | Inl _ \<Rightarrow> None)) \<and>
    (\<forall>path \<in> snd ` set spec. \<exists>v. read_path response path = Ok (Some v))"
    using assms
  proof (induction spec arbitrary: captured sc)
    case Nil
    then show ?case by simp
  next
    case (Cons p spec)
    obtain n path where p: "p = (n, path)" by (cases p)
    from Cons.prems p obtain v where v: "read_path response path = Ok (Some v)"
      by (auto split: sum.splits option.splits)
    with Cons.prems p have step: "capture_loop step_id spec response (AList.update n v captured)
        (record_capture step_id n v sc) = (Ok captured', sc')" "distinct (map fst spec)" "n \<notin> fst ` set spec"
      by auto
    from step(3) have "map_of spec n = None" by (simp add: map_of_eq_None_iff)
    with Cons.IH [OF step(1,2)] v p show ?case
      by (cases "map_of spec name") auto
  qed
  then show "variables sc' = variables sc" "env sc' = env sc"
    "s \<noteq> step_id \<Longrightarrow> captures_for sc' s = captures_for sc s"
    "map_of (captures_for sc' step_id) name = (case map_of spec name of
      None \<Rightarrow> map_of (captures_for sc step_id) name
    | Some path \<Rightarrow> (case read_path response path of Inr v \<Rightarrow> v | Inl _ \<Rightarrow> None))"
    "map_of captured' name = (case map_of spec name of
      None \<Rightarrow> map_of captured name
    | Some path \<Rightarrow> (case read_path response path of Inr v \<Rightarrow> v | Inl _ \<Rightarrow> None))"
    "\<forall>path \<in> snd ` set spec. \<exists>v. read_path response path = Ok (Some v)"
    by blast+
qed

lemma partition_dot_join:
  "CHR 0x2E \<notin> set head \<Longrightarrow> partition_dot (head @ CHR 0x2E # tail) = (head, tail)"
  by (induction head) (auto simp: partition_dot_def)

lemma resolve_dotted:
  assumes "py_strip (head @ CHR 0x2E # tail) = head @ CHR 0x2E # tail"
  shows "resolve u (head @ CHR 0x2E # tail) sc = (lookup_dotted sc (head @ CHR 0x2E # tail), sc)"
proof -
  have "CHR 0x2E \<notin> set ''$uuid''" by simp
  then have "head @ CHR 0x2E # tail \<noteq> ''$uuid''" by (metis in_set_conv_decomp)
  with assms show ?thesis by (simp add: resolve_def Let_def)
qed

lemma resolve_capture:
  assumes "py_strip (head @ CHR 0x2E # tail) = head @ CHR 0x2E # tail" "CHR 0x2E \<notin> set head"
    and "map_of (captures_for sc head) tail = Some v"
  shows "resolve u (head @ CHR 0x2E # tail) sc = (Ok v, sc)"
  using assms by (simp add: resolve_dotted lookup_dotted_def partition_dot_join)

subsection \<open>References with nothing around them, and text with none\<close>

lemma match_reference_braces:
  assumes "body \<noteq> []" "list_all no_brace body"
  shows "match_reference (''{{'' @ body @ ''}}'' @ rest) = Some (py_strip body, rest)"
proof -
  have "takeWhile no_brace (body @ ''}}'' @ rest) = body" "dropWhile no_brace (body @ ''}}'' @ rest) = ''}}'' @ rest"
    using assms(2) by (auto simp: takeWhile_append dropWhile_append list_all_iff no_brace_def)
  then show ?thesis using assms(1)
    by (simp add: match_reference_def starts_with_def del: takeWhile.simps dropWhile.simps)
qed

lemma whole_reference_braces:
  "body \<noteq> [] \<Longrightarrow> list_all no_brace body \<Longrightarrow> whole_reference (''{{'' @ body @ ''}}'') = Some (py_strip body)"
  using match_reference_braces [of body "[]"] by (simp add: whole_reference_def)

lemma resolve_strip [simp]: "resolve u (py_strip ref) = resolve u ref"
  by (rule ext) (simp add: resolve_def)

lemma interpolate_plain: "find_references s = [] \<Longrightarrow> interpolate u s = st_return s"
proof (induction s rule: find_references.induct)
  case (2 c cs)
  then show ?case by (auto simp: st_bind_def st_return_def split: option.splits prod.splits)
qed simp

text \<open>Case-folded headers are never part of a request; everything else without a reference is kept.\<close>

fun header_free :: "json \<Rightarrow> bool" where
  "header_free (JHeaders d) = False"
| "header_free (JObj d) = list_all (\<lambda>p. header_free (snd p)) d"
| "header_free (JArr xs) = list_all header_free xs"
| "header_free v = True"

lemma st_bind_return [simp]: "st_bind (st_return x) f = f x"
  by (rule ext) (simp add: st_bind_def st_return_def)

lemma substitute_plain:
  "references node = {} \<Longrightarrow> header_free node \<Longrightarrow> substitute u node = st_return node"
  "(\<Union>x \<in> set xs. references x) = {} \<Longrightarrow> list_all header_free xs \<Longrightarrow>
   substitute_list u xs = st_return xs"
  "(\<Union>p \<in> set d. references (snd p)) = {} \<Longrightarrow> list_all (\<lambda>p. header_free (snd p)) d \<Longrightarrow>
   substitute_members u d = st_return d"
proof (induction u node and u xs and u d rule: substitute_substitute_list_substitute_members.induct)
  case (1 u s)
  then have "find_references s = []" by simp
  moreover from this have "whole_reference s = None"
    using whole_reference_refs [of s] by (cases "whole_reference s") auto
  ultimately show ?case by (simp add: interpolate_plain)
qed auto

subsection \<open>Properties\<close>

text \<open>
  Substitution succeeds exactly when every reference that \<open>references\<close> reports for the
  structure resolves in the scope; otherwise it raises \<open>UnresolvedVariable\<close>, never leaving a
  reference in place. It changes no variable and no capture, and a structure without
  references comes back as it was.
\<close>

theorem substitution_needs_its_references:
  "same_view sc (snd (substitute u node sc)) \<and>
   (case fst (substitute u node sc) of
      Inr _ \<Rightarrow> (\<forall>ref \<in> references node. resolvable sc ref)
    | Inl e \<Rightarrow> (\<exists>m. e = UnresolvedVariable m) \<and> \<not> (\<forall>ref \<in> references node. resolvable sc ref)) \<and>
   (references node = {} \<and> header_free node \<longrightarrow> substitute u node sc = (Ok node, sc))"
proof -
  note n = substitute_needs(1) [of u node, unfolded needs_def, THEN spec, of sc]
  have "references node = {} \<and> header_free node \<longrightarrow> substitute u node sc = (Ok node, sc)"
    using substitute_plain(1) [of node u] by (simp add: st_return_def)
  with n show ?thesis by (cases "fst (substitute u node sc)") auto
qed

theorem substitution_needs_its_references_witness:
  "substitute (\<lambda>_. ''u'') (JObj [(''id'', JStr ''plain'')]) (new_scope [] []) =
   (Ok (JObj [(''id'', JStr ''plain'')]), new_scope [] [])"
proof -
  have "references (JObj [(''id'', JStr ''plain'')]) = {} \<and>
      header_free (JObj [(''id'', JStr ''plain'')])"
    by (simp add: match_reference_def starts_with_def)
  then show ?thesis
    using substitution_needs_its_references [of "new_scope [] []" "\<lambda>_. ''u''"
        "JObj [(''id'', JStr ''plain'')]"] by blast
qed

text \<open>
  C35: After a step's \<open>capture\<close> block succeeds, a string that is nothing but the reference to
  one of its names, \<open>{{step.name}}\<close>, substitutes to the value its path read in the response,
  with its own type and whatever document variable has that name.
\<close>

theorem captured_then_referenced:
  assumes "capture step_id spec response sc = (Ok captured, sc')"
    and "distinct (map fst spec)" "(name, path) \<in> set spec"
    and "CHR 0x2E \<notin> set step_id" "list_all no_brace (step_id @ ''.'' @ name)"
    and "py_strip (step_id @ ''.'' @ name) = step_id @ ''.'' @ name"
  shows "\<exists>v. read_path response path = Ok (Some v) \<and>
    substitute u (JStr (''{{'' @ step_id @ ''.'' @ name @ ''}}'')) sc' = (Ok v, sc')"
proof -
  note c = capture_loop_correct [OF assms(1) [unfolded capture_def] assms(2)]
  from assms(2,3) have "map_of spec name = Some path" by simp
  moreover from c(6) assms(3) obtain v where v: "read_path response path = Ok (Some v)" by force
  ultimately have "map_of (captures_for sc' step_id) name = Some v" using c(4) [of name] by simp
  then have "resolve u (step_id @ CHR 0x2E # name) sc' = (Ok v, sc')"
    using assms(4,6) by (intro resolve_capture) simp_all
  moreover have "whole_reference (''{{'' @ (step_id @ ''.'' @ name) @ ''}}'') =
      Some (py_strip (step_id @ ''.'' @ name))"
    using assms(5) by (intro whole_reference_braces) simp_all
  ultimately show ?thesis using v assms(6) by simp
qed

theorem captured_then_referenced_witness:
  "\<exists>v. read_path (Some (JObj [(''task'', JInt 7)])) ''task'' = Ok (Some v) \<and>
    substitute (\<lambda>_. ''u'') (JStr (''{{'' @ ''send'' @ ''.'' @ ''id'' @ ''}}''))
      (record_capture ''send'' ''id'' (JInt 7) (new_scope [] [])) =
    (Ok v, record_capture ''send'' ''id'' (JInt 7) (new_scope [] []))"
proof (rule captured_then_referenced [where spec = "[(''id'', ''task'')]" and sc = "new_scope [] []"
      and captured = "[(''id'', JInt 7)]"])
  show "capture ''send'' [(''id'', ''task'')] (Some (JObj [(''task'', JInt 7)])) (new_scope [] []) =
      (Ok [(''id'', JInt 7)], record_capture ''send'' ''id'' (JInt 7) (new_scope [] []))"
    by code_simp
qed (simp_all add: no_brace_def, code_simp)

end
