(* ===== verification/Assertions.thy ===== *)
theory Assertions
  imports Variables
begin

section \<open>The assertion language (acts/assertions.py)\<close>

text \<open>
  An assertion is a value itself: a scalar is exact equality, a list asserts on the elements
  by position, a map mixes operators and field descents. \<open>re_search\<close>, \<open>re.search(pattern, text)
  is not None\<close> of the standard library's regex engine, is a parameter. The actual value is an
  option, None being \<open>MISSING\<close>.
\<close>

subsection \<open>Results\<close>

record failure =
  f_path :: string
  f_operator :: string
  f_expected :: json
  f_actual :: "json option"
  f_message :: string

datatype assertion_result = AssertionResult (failures: "failure list") (checks: nat)

definition ok :: "assertion_result \<Rightarrow> bool" where "ok r = (failures r = [])"

definition first_failure :: "assertion_result \<Rightarrow> failure option" where
  "first_failure r = (case failures r of [] \<Rightarrow> None | f # _ \<Rightarrow> Some f)"

definition empty_pass :: assertion_result where "empty_pass = AssertionResult [] 0"

definition add_results :: "assertion_result \<Rightarrow> assertion_result \<Rightarrow> assertion_result" where
  "add_results a b = AssertionResult (failures a @ failures b) (checks a + checks b)"

text \<open>The empty pass and the addition of results, as the library's \<open>0\<close> and \<open>+\<close>.\<close>

instantiation assertion_result :: monoid_add
begin

definition zero_assertion_result :: assertion_result where "0 = empty_pass"

definition plus_assertion_result :: "assertion_result \<Rightarrow> assertion_result \<Rightarrow> assertion_result" where
  "a + b = add_results a b"

instance
proof
  fix a b c :: assertion_result
  show "a + b + c = a + (b + c)" by (simp add: plus_assertion_result_def add_results_def)
  show "0 + a = a" by (simp add: zero_assertion_result_def plus_assertion_result_def empty_pass_def add_results_def)
  show "a + 0 = a" by (simp add: zero_assertion_result_def plus_assertion_result_def empty_pass_def add_results_def)
qed

end

lemmas result_sum_defs = zero_assertion_result_def plus_assertion_result_def empty_pass_def add_results_def

definition fail_with ::
  "string \<Rightarrow> string \<Rightarrow> json \<Rightarrow> json option \<Rightarrow> string \<Rightarrow> assertion_result" where
  "fail_with path oper expected actual message =
     AssertionResult [\<lparr>f_path = path, f_operator = oper, f_expected = expected,
                       f_actual = actual, f_message = message\<rparr>] 1"

definition passed :: "nat \<Rightarrow> assertion_result" where "passed n = AssertionResult [] n"

definition show_actual :: "json option \<Rightarrow> string" where
  "show_actual v = (case v of None \<Rightarrow> ''<missing>'' | Some x \<Rightarrow> py_str x)"

text \<open>The report's \<open>failure-detail\<close>: a path only when there is one.\<close>

definition as_detail :: "failure \<Rightarrow> (string, string) dict" where
  "as_detail f = [(''message'', f_message f)] @
     (if f_path f = [] then [] else [(''assertion_path'', f_path f)]) @
     [(''expected'', py_str (f_expected f)), (''actual'', show_actual (f_actual f))]"

definition join_path :: "string \<Rightarrow> string \<Rightarrow> string" where
  "join_path path part =
     (if path = [] then part
      else if starts_with part ''['' then path @ part else path @ ''.'' @ part)"

definition at_index :: "nat \<Rightarrow> string" where "at_index i = ''['' @ show_nat i @ '']''"

definition subject :: "string \<Rightarrow> string" where
  "subject path = (if path = [] then ''value'' else path)"

subsection \<open>Leaf operators\<close>

definition type_names :: "string list" where
  "type_names = [''string'', ''number'', ''boolean'', ''array'', ''object'', ''null'']"

definition type_holds :: "string \<Rightarrow> json \<Rightarrow> bool" where
  "type_holds name v =
     (if name = ''string'' then is_str v
      else if name = ''number'' then is_number v
      else if name = ''boolean'' then is_bool v
      else if name = ''array'' then is_array v
      else if name = ''object'' then is_mapping v
      else name = ''null'' \<and> v = JNull)"

definition leaf_operators :: "string list" where
  "leaf_operators = [''type'', ''exists'', ''absent'', ''contains'', ''matches'', ''starts_with'',
     ''ends_with'', ''gte'', ''lte'', ''gt'', ''lt'', ''count'', ''count_gte'', ''count_lte'', ''one_of'']"

definition combinators :: "string list" where "combinators = [''all_of'', ''any_of'', ''not'']"
definition extension_operators :: "string list" where "extension_operators = [''items'']"

definition operators :: "string list" where
  "operators = leaf_operators @ combinators @ extension_operators"

text \<open>The \<open>accepts\<close> of each leaf: is the argument well-formed for it?\<close>

definition leaf_accepts :: "string \<Rightarrow> json \<Rightarrow> bool" where
  "leaf_accepts name a =
     (if name = ''type'' then (case a of JStr s \<Rightarrow> s \<in> set type_names | _ \<Rightarrow> False)
      else if name \<in> {''exists'', ''absent''} then is_bool a
      else if name \<in> {''contains'', ''matches'', ''starts_with'', ''ends_with''} then is_str a
      else if name \<in> {''gte'', ''lte'', ''gt'', ''lt''} then is_number a
      else if name \<in> {''count'', ''count_gte'', ''count_lte''} then is_int a
      else is_array a)"

definition accepts :: "string \<Rightarrow> json \<Rightarrow> bool" where
  "accepts name a =
     (if name \<in> set leaf_operators then leaf_accepts name a
      else if name \<in> {''all_of'', ''any_of''} then (case a of JArr xs \<Rightarrow> xs \<noteq> [] | _ \<Rightarrow> False)
      else if name = ''not'' then True
      else if name = ''items'' then is_array a \<or> is_mapping a
      else False)"

definition tolerates_missing :: "string \<Rightarrow> bool" where
  "tolerates_missing name = (name \<in> {''exists'', ''absent''})"

definition describe :: "string \<Rightarrow> string" where
  "describe name = the (map_of
     [(''type'', ''be of type''), (''exists'', ''be present''), (''absent'', ''be absent''),
      (''contains'', ''contain''), (''matches'', ''match regex''), (''starts_with'', ''start with''),
      (''ends_with'', ''end with''), (''gte'', ''be >=''), (''lte'', ''be <=''), (''gt'', ''be >''),
      (''lt'', ''be <''), (''count'', ''have length''), (''count_gte'', ''have length >=''),
      (''count_lte'', ''have length <=''), (''one_of'', ''be one of'')] name)"

text \<open>Exact equality, without \<open>True == 1\<close> at the top.\<close>

definition same :: "json \<Rightarrow> json \<Rightarrow> bool" where
  "same actual expected = (is_bool expected = is_bool actual \<and> py_eq actual expected)"

definition contains_holds :: "json \<Rightarrow> json \<Rightarrow> bool" where
  "contains_holds a v = (case v of
     JStr s \<Rightarrow> (case a of JStr p \<Rightarrow> contains s p | _ \<Rightarrow> False)
   | JArr xs \<Rightarrow> list_ex (\<lambda>x. py_eq x a) xs
   | _ \<Rightarrow> False)"

definition str_holds :: "(string \<Rightarrow> string \<Rightarrow> bool) \<Rightarrow> json \<Rightarrow> json \<Rightarrow> bool" where
  "str_holds test a v = (case (v, a) of (JStr s, JStr p) \<Rightarrow> test s p | _ \<Rightarrow> False)"

definition count_holds :: "(int \<Rightarrow> int \<Rightarrow> bool) \<Rightarrow> json \<Rightarrow> json \<Rightarrow> bool" where
  "count_holds compare a v = (case (v, a) of
     (JArr xs, JInt n) \<Rightarrow> compare (int (length xs)) n | _ \<Rightarrow> False)"

definition compare_holds :: "(json \<Rightarrow> json \<Rightarrow> bool) \<Rightarrow> json \<Rightarrow> json \<Rightarrow> bool" where
  "compare_holds test a v = (is_number v \<and> test v a)"

text \<open>The \<open>holds\<close> of each leaf but \<open>one_of\<close>, for an argument it accepts.\<close>

definition leaf_holds :: "(string \<Rightarrow> string \<Rightarrow> bool) \<Rightarrow> string \<Rightarrow> json \<Rightarrow> json option \<Rightarrow> bool" where
  "leaf_holds re_search name a actual =
     (if name = ''exists'' then ((actual \<noteq> None) = (a = JBool True))
      else if name = ''absent'' then ((actual = None) = (a = JBool True))
      else case actual of None \<Rightarrow> False | Some v \<Rightarrow>
        if name = ''type'' then (case a of JStr s \<Rightarrow> type_holds s v | _ \<Rightarrow> False)
        else if name = ''contains'' then contains_holds a v
        else if name = ''matches'' then str_holds (\<lambda>s p. re_search p s) a v
        else if name = ''starts_with'' then str_holds starts_with a v
        else if name = ''ends_with'' then str_holds ends_with a v
        else if name = ''gte'' then compare_holds (\<lambda>x y. num_le y x) a v
        else if name = ''lte'' then compare_holds num_le a v
        else if name = ''gt'' then compare_holds (\<lambda>x y. \<not> num_le x y) a v
        else if name = ''lt'' then compare_holds (\<lambda>x y. \<not> num_le y x) a v
        else if name = ''count'' then count_holds (=) a v
        else if name = ''count_gte'' then count_holds (\<ge>) a v
        else if name = ''count_lte'' then count_holds (\<le>) a v
        else False)"

subsection \<open>Messages\<close>

definition msg_missing :: "string \<Rightarrow> string" where "msg_missing path = subject path @ '' is missing''"

definition msg_unequal :: "string \<Rightarrow> json \<Rightarrow> json option \<Rightarrow> string" where
  "msg_unequal path expected actual =
     subject path @ '' should equal '' @ py_str expected @ '', got '' @ show_actual actual"

definition msg_not_positional :: "string \<Rightarrow> string" where
  "msg_not_positional path = subject path @ '' should be an array to match by position''"

definition msg_too_short :: "string \<Rightarrow> nat \<Rightarrow> nat \<Rightarrow> string" where
  "msg_too_short path n k =
     subject path @ '' has '' @ show_nat n @ '' element(s), '' @ show_nat k @ '' asserted''"

definition msg_none_matched :: "string \<Rightarrow> nat \<Rightarrow> string" where
  "msg_none_matched path n =
     subject path @ '' matched none of the '' @ show_nat n @ '' alternatives''"

definition msg_should_not :: "string \<Rightarrow> json \<Rightarrow> string" where
  "msg_should_not path a = subject path @ '' should not have matched '' @ py_str a"

definition msg_not_items :: "string \<Rightarrow> string" where
  "msg_not_items path = subject path @ '' should be an array for `items`''"

definition msg_leaf_missing :: "string \<Rightarrow> string \<Rightarrow> json \<Rightarrow> string" where
  "msg_leaf_missing path name a =
     subject path @ '' is missing, so it cannot '' @ describe name @ '' '' @ py_str a"

definition msg_leaf :: "string \<Rightarrow> string \<Rightarrow> json \<Rightarrow> json option \<Rightarrow> string" where
  "msg_leaf path name a actual =
     subject path @ '' should '' @ describe name @ '' '' @ py_str a @ '', got '' @ show_actual actual"

subsection \<open>Evaluation\<close>

definition evaluate_exact :: "json \<Rightarrow> json option \<Rightarrow> string \<Rightarrow> assertion_result" where
  "evaluate_exact expected actual path = (case actual of
     None \<Rightarrow> fail_with path ''exact'' expected actual (msg_missing path)
   | Some v \<Rightarrow> if same v expected then passed 1
       else fail_with path ''exact'' expected actual (msg_unequal path expected actual))"

definition member :: "json option \<Rightarrow> string \<Rightarrow> json option" where
  "member actual key = (case actual of None \<Rightarrow> None | Some v \<Rightarrow> mapping_get v key)"

text \<open>The elements a positional list is matched against, or the failure it is.\<close>

definition positional_target :: "json list \<Rightarrow> json option \<Rightarrow> string \<Rightarrow> assertion_result + json list" where
  "positional_target assertions actual path = (case actual of
     Some (JArr xs) \<Rightarrow>
       if length xs < length assertions
       then Inl (fail_with path ''items'' (JArr assertions) actual
              (msg_too_short path (length xs) (length assertions)))
       else Inr xs
   | _ \<Rightarrow> Inl (fail_with path ''items'' (JArr assertions) actual (msg_not_positional path)))"

definition leaf_result ::
  "string \<Rightarrow> json \<Rightarrow> json option \<Rightarrow> string \<Rightarrow> bool \<Rightarrow> assertion_result" where
  "leaf_result name a actual path holds =
     (if actual = None \<and> \<not> tolerates_missing name
      then fail_with path name a actual (msg_leaf_missing path name a)
      else if holds then passed 1
      else fail_with path name a actual (msg_leaf path name a actual))"

function (sequential)
      evaluate :: "(string \<Rightarrow> string \<Rightarrow> bool) \<Rightarrow> json \<Rightarrow> json option \<Rightarrow> string \<Rightarrow> assertion_result"
  and evaluate_map ::
    "(string \<Rightarrow> string \<Rightarrow> bool) \<Rightarrow> (string \<times> json) list \<Rightarrow> json option \<Rightarrow> string \<Rightarrow> assertion_result"
  and evaluate_elements ::
    "(string \<Rightarrow> string \<Rightarrow> bool) \<Rightarrow> nat \<Rightarrow> json list \<Rightarrow> json list \<Rightarrow> string \<Rightarrow> assertion_result"
  and evaluate_branches ::
    "(string \<Rightarrow> string \<Rightarrow> bool) \<Rightarrow> json list \<Rightarrow> json option \<Rightarrow> string \<Rightarrow> assertion_result list"
  and one_of_holds :: "(string \<Rightarrow> string \<Rightarrow> bool) \<Rightarrow> json list \<Rightarrow> json option \<Rightarrow> bool"
  and apply_operator ::
    "(string \<Rightarrow> string \<Rightarrow> bool) \<Rightarrow> string \<Rightarrow> json \<Rightarrow> json option \<Rightarrow> string \<Rightarrow> assertion_result"
where
  "evaluate re_search assertion actual path = (case assertion of
     JObj d \<Rightarrow> evaluate_map re_search d actual path
   | JHeaders d \<Rightarrow> evaluate_map re_search d actual path
   | JArr xs \<Rightarrow>
       (case positional_target xs actual path of
          Inl r \<Rightarrow> r | Inr ys \<Rightarrow> evaluate_elements re_search 0 xs ys path)
   | _ \<Rightarrow> evaluate_exact assertion actual path)"
| "evaluate_map re_search [] actual path = 0"
| "evaluate_map re_search ((key, a) # d) actual path =
     (if key \<in> set operators \<and> accepts key a
      then apply_operator re_search key a actual path
      else evaluate re_search a (member actual key) (join_path path key))
     + evaluate_map re_search d actual path"
| "evaluate_elements re_search i (a # xs) (y # ys) path =
     evaluate re_search a (Some y) (join_path path (at_index i))
     + evaluate_elements re_search (Suc i) xs ys path"
| "evaluate_elements re_search i _ _ path = 0"
| "evaluate_branches re_search [] actual path = []"
| "evaluate_branches re_search (b # bs) actual path =
     evaluate re_search b actual path # evaluate_branches re_search bs actual path"
| "one_of_holds re_search [] actual = False"
| "one_of_holds re_search (opt # opts) actual =
     ((if is_mapping opt then ok (evaluate re_search opt actual [])
       else (case actual of None \<Rightarrow> False | Some v \<Rightarrow> same v opt))
      \<or> one_of_holds re_search opts actual)"
| "apply_operator re_search name a actual path =
     (if name = ''one_of'' then
        (case a of JArr opts \<Rightarrow> leaf_result name a actual path (one_of_holds re_search opts actual) | _ \<Rightarrow> 0)
      else if name \<in> set leaf_operators then
        leaf_result name a actual path (leaf_holds re_search name a actual)
      else if name = ''all_of'' then
        (case a of JArr bs \<Rightarrow> sum_list (evaluate_branches re_search bs actual path) | _ \<Rightarrow> 0)
      else if name = ''any_of'' then
        (case a of
           JArr bs \<Rightarrow>
             if list_ex ok (evaluate_branches re_search bs actual path) then passed 1
             else fail_with path ''any_of'' a actual (msg_none_matched path (length bs))
         | _ \<Rightarrow> 0)
      else if name = ''not'' then
        (if ok (evaluate re_search a actual path)
         then fail_with path ''not'' a actual (msg_should_not path a)
         else passed 1)
      else
        (case a of
           JArr xs \<Rightarrow>
             (case positional_target xs actual path of
                Inl r \<Rightarrow> r | Inr ys \<Rightarrow> evaluate_elements re_search 0 xs ys path)
         | _ \<Rightarrow>
             (case actual of
                Some (JArr ys) \<Rightarrow>
                  sum_list (map (\<lambda>(i, y). evaluate re_search a (Some y) (join_path path (at_index i)))
                    (List.enumerate 0 ys))
              | _ \<Rightarrow> fail_with path ''items'' a actual (msg_not_items path))))"
  by pat_completeness auto

termination
  by (relation "measure (\<lambda>c. case c of
      Inl (Inl (_, a, _, _)) \<Rightarrow> 2 * size a
    | Inl (Inr (Inl (_, d, _, _))) \<Rightarrow> 2 * size_list (size_prod (\<lambda>_. 0) size) d
    | Inl (Inr (Inr (_, _, xs, _, _))) \<Rightarrow> 2 * size_list size xs
    | Inr (Inl (_, bs, _, _)) \<Rightarrow> 2 * size_list size bs
    | Inr (Inr (Inl (_, opts, _))) \<Rightarrow> 2 * size_list size opts
    | Inr (Inr (Inr (_, _, a, _, _))) \<Rightarrow> 2 * size a + 1)") simp_all

declare apply_operator.simps [simp del]

text \<open>The operators, one equation each.\<close>

named_theorems operator_simps \<open>what each operator does with an argument it accepts\<close>

lemma operator_cases:
  assumes "k \<in> set operators"
  obtains "k = ''one_of''" | "k \<in> set leaf_operators" "k \<noteq> ''one_of''" | "k = ''all_of''"
    | "k = ''any_of''" | "k = ''not''" | "k = ''items''"
  using assms by (auto simp: operators_def combinators_def extension_operators_def)

lemma not_leaf [simp]:
  "''all_of'' \<notin> set leaf_operators" "''any_of'' \<notin> set leaf_operators"
  "''not'' \<notin> set leaf_operators" "''items'' \<notin> set leaf_operators"
  by (simp_all add: leaf_operators_def)

lemma apply_one_of [operator_simps]:
  "apply_operator re ''one_of'' (JArr opts) v path =
     leaf_result ''one_of'' (JArr opts) v path (one_of_holds re opts v)"
  by (simp add: apply_operator.simps)

lemma apply_leaf [operator_simps]:
  "k \<in> set leaf_operators \<Longrightarrow> k \<noteq> ''one_of'' \<Longrightarrow>
   apply_operator re k a v path = leaf_result k a v path (leaf_holds re k a v)"
  by (simp add: apply_operator.simps)

lemma apply_all_of [operator_simps]:
  "apply_operator re ''all_of'' (JArr bs) v path = sum_list (evaluate_branches re bs v path)"
  by (simp add: apply_operator.simps)

lemma apply_any_of [operator_simps]:
  "apply_operator re ''any_of'' (JArr bs) v path =
     (if list_ex ok (evaluate_branches re bs v path) then passed 1
      else fail_with path ''any_of'' (JArr bs) v (msg_none_matched path (length bs)))"
  by (simp add: apply_operator.simps)

lemma apply_not [operator_simps]:
  "apply_operator re ''not'' a v path =
     (if ok (evaluate re a v path) then fail_with path ''not'' a v (msg_should_not path a)
      else passed 1)"
  by (simp add: apply_operator.simps)

lemma apply_items_list [operator_simps]:
  "apply_operator re ''items'' (JArr xs) v path =
     (case positional_target xs v path of
        Inl r \<Rightarrow> r | Inr ys \<Rightarrow> evaluate_elements re 0 xs ys path)"
  by (simp add: apply_operator.simps)

lemma apply_items_map [operator_simps]:
  "is_mapping a \<Longrightarrow> apply_operator re ''items'' a v path =
     (case v of
        Some (JArr ys) \<Rightarrow>
          sum_list (map (\<lambda>(i, y). evaluate re a (Some y) (join_path path (at_index i)))
            (List.enumerate 0 ys))
      | _ \<Rightarrow> fail_with path ''items'' a v (msg_not_items path))"
  by (cases a; hypsubst) (simp_all add: apply_operator.simps del: evaluate.simps)

end
