(* ===== verification/Expectations.thy ===== *)
theory Expectations
  imports Assertions
begin

section \<open>Expect blocks, collections and until conditions (acts/assertions.py)\<close>

text \<open>
  What the runner asks of the assertion language: bodies, headers looked up without regard to
  case, error blocks, the three quantifiers over a wildcard path, named assertions, and the
  \<open>repeat.until\<close> conditions with their own small grammar.
\<close>

subsection \<open>Bodies, status, headers and errors\<close>

definition evaluate_body ::
  "(string \<Rightarrow> string \<Rightarrow> bool) \<Rightarrow> (string \<times> json) list \<Rightarrow> json option \<Rightarrow> string \<Rightarrow> assertion_result" where
  "evaluate_body re_search body actual path = evaluate_map re_search body actual path"

definition evaluate_status ::
  "(string \<Rightarrow> string \<Rightarrow> bool) \<Rightarrow> json \<Rightarrow> json option \<Rightarrow> string \<Rightarrow> assertion_result" where
  "evaluate_status re_search status actual path = evaluate re_search status actual path"

text \<open>\<open>_FoldedHeaders\<close>: a dict of lower-cased names, a later duplicate replacing an earlier one.\<close>

definition folded_headers :: "(string, string) dict option \<Rightarrow> json" where
  "folded_headers actual = JHeaders (fold (\<lambda>(k, v) d. AList.update (lower k) (JStr v) d)
     (case actual of None \<Rightarrow> [] | Some hs \<Rightarrow> hs) [])"

definition evaluate_headers ::
  "(string \<Rightarrow> string \<Rightarrow> bool) \<Rightarrow> (string \<times> json) list \<Rightarrow> (string, string) dict option \<Rightarrow> string \<Rightarrow>
   assertion_result" where
  "evaluate_headers re_search headers actual path =
     evaluate_map re_search headers (Some (folded_headers actual)) path"

record expect_error =
  ee_error_type :: "json option"
  ee_message :: "json option"
  ee_details :: "json option"

definition error_fields :: "expect_error \<Rightarrow> (string \<times> json option) list" where
  "error_fields e = [(''error_type'', ee_error_type e), (''message'', ee_message e),
     (''details'', ee_details e)]"

definition evaluate_error ::
  "(string \<Rightarrow> string \<Rightarrow> bool) \<Rightarrow> expect_error \<Rightarrow> (string, json) dict \<Rightarrow> string \<Rightarrow> assertion_result" where
  "evaluate_error re_search expected observed path =
     sum_list (map (\<lambda>(name, a). case a of
         None \<Rightarrow> 0
       | Some asn \<Rightarrow> evaluate re_search asn (map_of observed name) (join_path path name))
       (error_fields expected))"

subsection \<open>Collections and named assertions\<close>

record collection_match =
  cm_path :: string
  cm_match :: "(string \<times> json) list"

definition msg_mode :: "string \<Rightarrow> string" where
  "msg_mode mode = ''unknown collection mode '' @ repr_str mode"

definition msg_no_elements :: "string \<Rightarrow> string \<Rightarrow> string" where
  "msg_no_elements path mode =
     path @ '' matched no elements, so `'' @ mode @ ''` checked nothing''"

definition msg_any :: "nat \<Rightarrow> string \<Rightarrow> string" where
  "msg_any n path = ''none of the '' @ show_nat n @ '' element(s) at '' @ path @ '' matched''"

definition msg_none :: "string list \<Rightarrow> nat \<Rightarrow> string \<Rightarrow> string" where
  "msg_none hits n path =
     show_nat (length hits) @ '' of '' @ show_nat n @ '' element(s) at '' @ path @
     '' matched but should not have ('' @ join_with '', '' hits @ '')''"

text \<open>The verdict of a mode on the outcomes of the elements reached, each at its path.\<close>

definition collection_verdict ::
  "string \<Rightarrow> string \<Rightarrow> collection_match \<Rightarrow> (string \<times> assertion_result) list \<Rightarrow> assertion_result" where
  "collection_verdict mode base cm outcomes =
     (let hits = map fst (filter (\<lambda>(w, r). ok r) outcomes);
          n = sum_list (map (\<lambda>(w, r). checks r) outcomes);
          fs = concat (map (\<lambda>(w, r). failures r) outcomes)
      in if mode = ''all'' then (if fs \<noteq> [] then AssertionResult fs n else passed n)
         else if mode = ''any'' then
           (if hits \<noteq> [] then passed n
            else fail_with base ''any'' (JObj (cm_match cm)) None (msg_any (length outcomes) (cm_path cm)))
         else if hits \<noteq> [] then
           fail_with base ''none'' (JObj (cm_match cm)) (Some (JArr (map JStr hits)))
             (msg_none hits (length outcomes) (cm_path cm))
         else passed n)"

definition evaluate_collection ::
  "(string \<Rightarrow> string \<Rightarrow> bool) \<Rightarrow> collection_match \<Rightarrow> string \<Rightarrow> json option \<Rightarrow> string \<Rightarrow>
   assertion_result result" where
  "evaluate_collection re_search cm mode source path =
     (if mode \<notin> {''any'', ''all'', ''none''} then Raise (ValueError (msg_mode mode))
      else rbind (read_path_all source (cm_path cm)) (\<lambda>reached.
        let base = (if path = [] then cm_path cm else join_path path (cm_path cm)) in
        Ok (if reached = [] then
              (if mode = ''none'' then passed 1
               else fail_with base mode (JObj (cm_match cm)) None (msg_no_elements (cm_path cm) mode))
            else collection_verdict mode base cm
              (map (\<lambda>(w, v). (w, evaluate_map re_search (cm_match cm) v (join_path path w))) reached))))"

record named_assertion =
  na_id :: "string option"
  na_description :: "string option"
  na_source :: string
  na_path :: "string option"
  na_match :: "json option"
  na_any :: "collection_match option"
  na_all :: "collection_match option"
  na_none :: "collection_match option"

definition msg_no_check :: "string option \<Rightarrow> string" where
  "msg_no_check i = ''named assertion '' @ (case i of None \<Rightarrow> ''None'' | Some s \<Rightarrow> repr_str s) @
     '' has no check''"

definition evaluate_named ::
  "(string \<Rightarrow> string \<Rightarrow> bool) \<Rightarrow> named_assertion \<Rightarrow> json option \<Rightarrow> string \<Rightarrow> assertion_result result" where
  "evaluate_named re_search a source path =
     (let root0 = (if path \<noteq> [] then path else case na_id a of None \<Rightarrow> [] | Some i \<Rightarrow> i);
          narrowed = (case na_path a of
              None \<Rightarrow> Ok (source, root0)
            | Some [] \<Rightarrow> Ok (source, root0)
            | Some p \<Rightarrow> rbind (read_path source p) (\<lambda>v. Ok (v, join_path root0 p)))
      in rbind narrowed (\<lambda>(v, root). case na_match a of
           Some m \<Rightarrow> Ok (evaluate re_search m v root)
         | None \<Rightarrow>
            (case na_any a of Some cm \<Rightarrow> evaluate_collection re_search cm ''any'' v root
             | None \<Rightarrow> (case na_all a of Some cm \<Rightarrow> evaluate_collection re_search cm ''all'' v root
               | None \<Rightarrow> (case na_none a of Some cm \<Rightarrow> evaluate_collection re_search cm ''none'' v root
                 | None \<Rightarrow> Raise (ValueError (msg_no_check (na_id a))))))))"

subsection \<open>Literals of an until condition\<close>

text \<open>\<open>int(text)\<close> and \<open>float(text)\<close>: digits may be grouped by single underscores.\<close>

definition skip_underscore :: "string \<Rightarrow> string" where
  "skip_underscore s = (case s of
     u # d # ds \<Rightarrow> if u = CHR 0x5F \<and> ascii_digit d then d # ds else s | _ \<Rightarrow> s)"

lemma skip_underscore_length: "length (skip_underscore s) \<le> length s"
  by (simp add: skip_underscore_def split: list.split)

function digit_run :: "string \<Rightarrow> string \<times> string" where
  "digit_run [] = ([], [])"
| "digit_run (c # cs) =
     (if ascii_digit c then
        (let (ds, rest) = digit_run (skip_underscore cs) in (c # ds, rest))
      else ([], c # cs))"
  by pat_completeness auto
termination
  by (relation "measure length") (auto simp: less_Suc_eq_le skip_underscore_length)

definition split_sign :: "string \<Rightarrow> int \<times> string" where
  "split_sign s = (case s of
     c # cs \<Rightarrow> if c = CHR 0x2D then (-1, cs) else if c = CHR 0x2B then (1, cs) else (1, s)
   | [] \<Rightarrow> (1, s))"

definition int_literal :: "string \<Rightarrow> int option" where
  "int_literal s = (let (sgn, t) = split_sign s; (ds, rest) = digit_run t in
     if ds \<noteq> [] \<and> rest = [] then Some (sgn * int (read_digits ds)) else None)"

text \<open>The exponent of a float literal: nothing, or an e with a signed number to the end.\<close>

definition exponent_literal :: "string \<Rightarrow> int option" where
  "exponent_literal s = (case s of
     [] \<Rightarrow> Some 0
   | c # cs \<Rightarrow> if c = CHR 0x65 \<or> c = CHR 0x45 then int_literal cs else None)"

text \<open>The float of a text: \<open>None\<close> if it is none, \<open>Some None\<close> if it is an infinity or nan.\<close>

definition float_literal :: "string \<Rightarrow> json option option" where
  "float_literal s = (let (sgn, t) = split_sign s in
     if lower t \<in> {''inf'', ''infinity'', ''nan''} then Some None
     else (let (whole, r1) = digit_run t;
               (frac, r2) = (case r1 of c # cs \<Rightarrow> if c = CHR 0x2E then digit_run cs else ([], r1)
                             | [] \<Rightarrow> ([], r1))
           in if whole = [] \<and> frac = [] then None
              else case exponent_literal r2 of
                None \<Rightarrow> None
              | Some e \<Rightarrow> Some (Some (JFloat (sgn * int (read_digits (whole @ frac)))
                  (e - int (length frac))))))"

text \<open>
  \<open>_literal\<close>: an operand of an until condition. \<open>None\<close> stands for an infinity or a nan, which
  is equal to no value of a response.
\<close>

definition quoted :: "string \<Rightarrow> bool" where
  "quoted s \<longleftrightarrow> 2 \<le> length s \<and> hd s = last s \<and> (hd s = CHR 0x27 \<or> hd s = CHR 0x22)"

definition until_literal :: "string \<Rightarrow> json option" where
  "until_literal token = (let s = py_strip token in
     if quoted s then Some (JStr (butlast (tl s)))
     else if s = ''true'' then Some (JBool True)
     else if s = ''false'' then Some (JBool False)
     else if s = ''null'' \<or> s = ''none'' then Some JNull
     else case int_literal s of
       Some i \<Rightarrow> Some (JInt i)
     | None \<Rightarrow> (case float_literal s of Some v \<Rightarrow> v | None \<Rightarrow> Some (JStr s)))"

subsection \<open>The grammar of an until condition\<close>

datatype until_test =
    UntilEq bool string   \<comment> \<open>True for ==, False for !=, with the operand's text\<close>
  | UntilIn string        \<comment> \<open>the text between the brackets\<close>

definition path_char :: "char \<Rightarrow> bool" where
  "path_char c = (\<not> py_isspace c \<and> c \<noteq> CHR 0x3D \<and> c \<noteq> CHR 0x21)"

definition newline :: char where "newline = CHR 0x0A"

text \<open>\<open>\s*(.+?)\s*$\<close>: an operand of at least one character on one line.\<close>

definition match_operand :: "string \<Rightarrow> string option" where
  "match_operand s = (let t = py_strip s in
     if t \<noteq> [] then (if newline \<in> set t then None else Some t)
     else if list_ex (\<lambda>c. c \<noteq> newline) s then Some [] else None)"

text \<open>\<open>in\s*\[(.*)\]\s*$\<close>.\<close>

definition match_in :: "string \<Rightarrow> string option" where
  "match_in s =
     (if starts_with s ''in'' then
        (case lstrip (drop 2 s) of
           c # cs \<Rightarrow>
             (let r = rstrip cs in
              if c = CHR 0x5B \<and> r \<noteq> [] \<and> last r = CHR 0x5D \<and> newline \<notin> set (butlast r)
              then Some (butlast r) else None)
         | [] \<Rightarrow> None)
      else None)"

definition match_test :: "string \<Rightarrow> until_test option" where
  "match_test s =
     (let t = lstrip s;
          operand = (if starts_with t ''=='' then map_option (UntilEq True) (match_operand (drop 2 t))
                     else if starts_with t ''!='' then map_option (UntilEq False) (match_operand (drop 2 t))
                     else None)
      in case operand of Some u \<Rightarrow> Some u | None \<Rightarrow> map_option UntilIn (match_in t))"

text \<open>The path is the longest prefix of path characters after which the rest matches.\<close>

fun match_from :: "string \<Rightarrow> nat \<Rightarrow> (string \<times> until_test) option" where
  "match_from s 0 = None"
| "match_from s (Suc k) = (case match_test (drop (Suc k) s) of
     Some u \<Rightarrow> Some (take (Suc k) s, u)
   | None \<Rightarrow> match_from s k)"

definition match_until :: "string \<Rightarrow> (string \<times> until_test) option" where
  "match_until expression = (let s = lstrip expression in
     match_from s (length (takeWhile path_char s)))"

definition msg_until :: "string \<Rightarrow> string" where
  "msg_until e = ''cannot parse until expression '' @ repr_str e @
     ''; expected `path == value`, `path != value` or `path in [a, b]`''"

definition msg_until_empty :: "string \<Rightarrow> string" where
  "msg_until_empty e = ''until expression '' @ repr_str e @ '' has an empty list''"

definition same_literal :: "json option \<Rightarrow> json option \<Rightarrow> bool" where
  "same_literal actual lit = (case (actual, lit) of (Some v, Some l) \<Rightarrow> same v l | _ \<Rightarrow> False)"

definition until_options :: "string \<Rightarrow> json option list" where
  "until_options body = map until_literal (filter (\<lambda>t. py_strip t \<noteq> []) (split_on '','' body))"

definition evaluate_until :: "string \<Rightarrow> json option \<Rightarrow> bool result" where
  "evaluate_until expression response = (case match_until expression of
     None \<Rightarrow> Raise (UntilError (msg_until expression))
   | Some (path, test) \<Rightarrow> rbind (read_path response path) (\<lambda>actual. case test of
       UntilIn body \<Rightarrow>
         (if until_options body = [] then Raise (UntilError (msg_until_empty expression))
          else Ok (list_ex (same_literal actual) (until_options body)))
     | UntilEq positive operand \<Rightarrow>
         (let equal = same_literal actual (until_literal operand)
          in Ok (if positive then equal else \<not> equal))))"

end
