(* ===== verification/AssertionLaws.thy ===== *)
theory AssertionLaws
  imports Expectations
begin

section \<open>What the assertion language means\<close>

text \<open>
  The abstract meaning of an assertion, a predicate on values without paths, messages or
  counts, and the proof that evaluation decides it. Then the invariant on counts and
  failures, the three quantifiers, case-folded headers and until conditions.
\<close>

subsection \<open>The meaning of an assertion\<close>

lemma size_member_json: "(k, b) \<in> set d \<Longrightarrow> size b < size_list (size_prod (\<lambda>_. 0) size) d"
  by (induction d) auto

lemma size_element_json: "x \<in> set xs \<Longrightarrow> size (x :: json) < size_list size xs"
  by (induction xs) auto

lemma size_zip_json: "(x, y) \<in> set (zip xs ys) \<Longrightarrow> size (x :: json) < size_list size xs"
  by (meson set_zip_leftD size_element_json)

function (sequential) sat :: "(string \<Rightarrow> string \<Rightarrow> bool) \<Rightarrow> json \<Rightarrow> json option \<Rightarrow> bool"
  and sat_operator :: "(string \<Rightarrow> string \<Rightarrow> bool) \<Rightarrow> string \<Rightarrow> json \<Rightarrow> json option \<Rightarrow> bool" where
  "sat re (JObj d) v = list_all (\<lambda>(k, b).
     if k \<in> set operators \<and> accepts k b then sat_operator re k b v else sat re b (member v k)) d"
| "sat re (JHeaders d) v = list_all (\<lambda>(k, b).
     if k \<in> set operators \<and> accepts k b then sat_operator re k b v else sat re b (member v k)) d"
| "sat re (JArr xs) v = (case v of
     Some (JArr ys) \<Rightarrow> length xs \<le> length ys \<and> list_all (\<lambda>(b, y). sat re b (Some y)) (zip xs ys)
   | _ \<Rightarrow> False)"
| "sat re a v = (case v of None \<Rightarrow> False | Some w \<Rightarrow> same w a)"
| "sat_operator re k b v =
     (if k = ''one_of'' then
        (case (b, v) of
           (JArr opts, Some w) \<Rightarrow> list_ex (\<lambda>c. if is_mapping c then sat re c v else same w c) opts
         | _ \<Rightarrow> False)
      else if k \<in> set leaf_operators then
        (v \<noteq> None \<or> tolerates_missing k) \<and> leaf_holds re k b v
      else if k = ''all_of'' then (case b of JArr bs \<Rightarrow> list_all (\<lambda>c. sat re c v) bs | _ \<Rightarrow> False)
      else if k = ''any_of'' then (case b of JArr bs \<Rightarrow> list_ex (\<lambda>c. sat re c v) bs | _ \<Rightarrow> False)
      else if k = ''not'' then \<not> sat re b v
      else (case v of
          Some (JArr ys) \<Rightarrow>
            (case b of
               JArr xs \<Rightarrow> length xs \<le> length ys \<and> list_all (\<lambda>(c, y). sat re c (Some y)) (zip xs ys)
             | _ \<Rightarrow> list_all (\<lambda>y. sat re b (Some y)) ys)
        | _ \<Rightarrow> False))"
  by pat_completeness auto
termination
  by (relation "measure (\<lambda>c. case c of
      Inl (_, a, _) \<Rightarrow> 2 * size a | Inr (_, _, b, _) \<Rightarrow> 2 * size b + 1)")
    (auto dest!: size_member_json size_element_json size_zip_json)

declare sat_operator.simps [simp del]

named_theorems sat_simps \<open>the meaning of each operator\<close>

lemma sat_one_of [sat_simps]:
  "sat_operator re ''one_of'' (JArr opts) v \<longleftrightarrow> (case v of None \<Rightarrow> False
   | Some w \<Rightarrow> list_ex (\<lambda>c. if is_mapping c then sat re c v else same w c) opts)"
  by (simp add: sat_operator.simps split: option.splits)

lemma sat_leaf [sat_simps]:
  "k \<in> set leaf_operators \<Longrightarrow> k \<noteq> ''one_of'' \<Longrightarrow> sat_operator re k b v \<longleftrightarrow>
     (v \<noteq> None \<or> tolerates_missing k) \<and> leaf_holds re k b v"
  by (simp add: sat_operator.simps)

lemma sat_all_of [sat_simps]:
  "sat_operator re ''all_of'' (JArr bs) v \<longleftrightarrow> (\<forall>b \<in> set bs. sat re b v)"
  by (simp add: sat_operator.simps list_all_iff)

lemma sat_any_of [sat_simps]:
  "sat_operator re ''any_of'' (JArr bs) v \<longleftrightarrow> (\<exists>b \<in> set bs. sat re b v)"
  by (simp add: sat_operator.simps list_ex_iff)

lemma sat_not [sat_simps]: "sat_operator re ''not'' b v \<longleftrightarrow> \<not> sat re b v"
  by (simp add: sat_operator.simps)

lemma sat_items_list [sat_simps]:
  "sat_operator re ''items'' (JArr xs) v \<longleftrightarrow> sat re (JArr xs) v"
  by (simp add: sat_operator.simps split: option.splits json.splits)

lemma sat_items_map [sat_simps]:
  "is_mapping b \<Longrightarrow> sat_operator re ''items'' b v \<longleftrightarrow>
     (\<exists>ys. v = Some (JArr ys) \<and> (\<forall>y \<in> set ys. sat re b (Some y)))"
  by (cases b) (auto simp: sat_operator.simps list_all_iff simp del: sat.simps
      split: option.splits json.splits)

lemma ok_plus [simp]: "ok (a + b) \<longleftrightarrow> ok a \<and> ok b"
  by (simp add: ok_def result_sum_defs)

lemma ok_zero [simp]: "ok 0"
  by (simp add: ok_def result_sum_defs)

lemma ok_fail [simp]: "\<not> ok (fail_with p n e a m)"
  by (simp add: ok_def fail_with_def)

lemma ok_passed [simp]: "ok (passed n)"
  by (simp add: ok_def passed_def)

lemma ok_sum_list: "ok (sum_list rs) \<longleftrightarrow> list_all ok rs"
  by (induction rs) auto

lemma ok_leaf_result:
  "ok (leaf_result name a v path h) \<longleftrightarrow> (v \<noteq> None \<or> tolerates_missing name) \<and> h"
  by (simp add: leaf_result_def)

lemma accepts_shape:
  "accepts ''one_of'' a \<Longrightarrow> \<exists>xs. a = JArr xs"
  "accepts ''all_of'' a \<Longrightarrow> \<exists>xs. a = JArr xs \<and> xs \<noteq> []"
  "accepts ''any_of'' a \<Longrightarrow> \<exists>xs. a = JArr xs \<and> xs \<noteq> []"
  "accepts ''items'' a \<Longrightarrow> (\<exists>xs. a = JArr xs) \<or> is_mapping a"
  by (cases a; simp add: accepts_def leaf_accepts_def leaf_operators_def)+

text \<open>A positional list that gets past its guard.\<close>

lemma positional_target_Inr:
  "positional_target xs v path = Inr ys \<longleftrightarrow> v = Some (JArr ys) \<and> length xs \<le> length ys"
  by (auto simp: positional_target_def split: option.splits json.splits if_splits)

lemma positional_target_Inl: "positional_target xs v path = Inl r \<Longrightarrow> \<not> ok r"
  by (auto simp: positional_target_def split: option.splits json.splits if_splits)

lemma positional_target_cases:
  obtains (fails) r where "positional_target xs v path = Inl r" "\<not> ok r"
      "\<nexists>ys. v = Some (JArr ys) \<and> length xs \<le> length ys"
    | (fits) ys where "positional_target xs v path = Inr ys" "v = Some (JArr ys)"
      "length xs \<le> length ys"
proof (cases "positional_target xs v path")
  case (Inl r)
  moreover have "\<nexists>ys. v = Some (JArr ys) \<and> length xs \<le> length ys"
    using Inl positional_target_Inr [of xs v path] by auto
  ultimately show ?thesis using positional_target_Inl [OF Inl] fails by blast
next
  case (Inr ys)
  with positional_target_Inr [of xs v path ys] show ?thesis using fits by blast
qed

lemma evaluation_decides_meaning:
  "ok (evaluate re a v path) \<longleftrightarrow> sat re a v"
  "ok (evaluate_map re d v path) \<longleftrightarrow> sat re (JObj d) v"
  "length xs \<le> length ys \<Longrightarrow> ok (evaluate_elements re i xs ys path) \<longleftrightarrow>
     list_all (\<lambda>(b, y). sat re b (Some y)) (zip xs ys)"
  "list_all2 (\<lambda>r b. ok r \<longleftrightarrow> sat re b v) (evaluate_branches re bs v path) bs"
  "one_of_holds re opts v \<longleftrightarrow>
     list_ex (\<lambda>c. if is_mapping c then sat re c v
       else (case v of None \<Rightarrow> False | Some w \<Rightarrow> same w c)) opts"
  "k \<in> set operators \<Longrightarrow> accepts k b \<Longrightarrow>
     ok (apply_operator re k b v path) \<longleftrightarrow> sat_operator re k b v"
proof (induction re a v path and re d v path and re i xs ys path and re bs v path and re opts v
    and re k b v path rule: evaluate_evaluate_map_evaluate_elements_evaluate_branches_one_of_holds_apply_operator.induct)
  case (1 re a v path)
  show ?case
  proof (cases a)
    case (JArr xs)
    show ?thesis
    proof (cases rule: positional_target_cases [of xs v path])
      case (fails r)
      then show ?thesis by (auto simp: JArr split: option.splits json.splits)
    next
      case (fits ys)
      with 1(1) [OF JArr fits(1) fits(3)] show ?thesis by (simp add: JArr)
    qed
  next
    case (JObj d)
    then show ?thesis using 1(2) by simp
  next
    case (JHeaders d)
    then show ?thesis using 1(3) by simp
  qed (auto simp: evaluate_exact_def split: option.splits)
next
  case (10 re k b v path)
  from 10(13) show ?case
  proof (cases rule: operator_cases)
    case 1
    with 10(14) obtain opts where b: "b = JArr opts" using accepts_shape(1) by blast
    show ?thesis using 10(1) [OF 1 b]
      by (cases v) (simp_all add: 1 b operator_simps sat_simps ok_leaf_result tolerates_missing_def)
  next
    case 2
    then show ?thesis by (simp add: operator_simps sat_simps ok_leaf_result)
  next
    case 3
    with 10(14) obtain bs where b: "b = JArr bs" using accepts_shape(2) by blast
    have "list_all2 (\<lambda>r b. ok r = sat re b v) (evaluate_branches re bs v path) bs"
      using 3 b by (intro 10(2)) simp_all
    then show ?thesis
      using list_all2_quantifiers(1) [of ok "\<lambda>b. sat re b v"]
      by (simp add: 3 b operator_simps sat_simps ok_sum_list list_all_iff)
  next
    case 4
    with 10(14) obtain bs where b: "b = JArr bs" using accepts_shape(3) by blast
    have "list_all2 (\<lambda>r b. ok r = sat re b v) (evaluate_branches re bs v path) bs"
      using 4 b by (intro 10(3)) simp_all
    then show ?thesis
      using list_all2_quantifiers(2) [of ok "\<lambda>b. sat re b v"]
      by (simp add: 4 b operator_simps sat_simps list_ex_iff)
  next
    case 5
    have "ok (evaluate re b v path) = sat re b v" using 5 by (intro 10(4)) simp_all
    then show ?thesis by (simp add: 5 operator_simps sat_simps)
  next
    case 6
    from 10(14) 6 consider xs where "b = JArr xs" | "is_mapping b" using accepts_shape(4) by blast
    then show ?thesis
    proof cases
      case (1 xs)
      show ?thesis
      proof (cases rule: positional_target_cases [of xs v path])
        case (fails r)
        then show ?thesis
          by (auto simp: 1 6 operator_simps sat_simps split: option.splits json.splits)
      next
        case (fits ys)
        have "ok (evaluate_elements re 0 xs ys path) =
            list_all (\<lambda>(b, y). sat re b (Some y)) (zip xs ys)"
          using 6 1 fits by (intro 10(10)) simp_all
        with fits show ?thesis by (simp add: 1 6 operator_simps sat_simps)
      qed
    next
      case 2
      have each: "ok (evaluate re b (Some y) (join_path path (at_index i))) = sat re b (Some y)"
        if "v = Some (JArr ys)" "(i, y) \<in> set (List.enumerate 0 ys)" for ys i y
        using 2 6 that 10(11) [of _ _ ys "(i, y)" i y] 10(12) [of _ _ ys "(i, y)" i y]
        by (cases b) simp_all
      show ?thesis
      proof (cases "\<exists>ys. v = Some (JArr ys)")
        case True
        then obtain ys where v: "v = Some (JArr ys)" by blast
        have "ok (apply_operator re k b v path) \<longleftrightarrow>
            (\<forall>(i, y) \<in> set (List.enumerate 0 ys). sat re b (Some y))"
          using each [OF v] by (auto simp: 6 2 v operator_simps ok_sum_list list_all_iff)
        also have "\<dots> \<longleftrightarrow> (\<forall>y \<in> set ys. sat re b (Some y))"
          by (rule ball_enumerate)
        finally show ?thesis by (simp add: 6 2 v sat_simps)
      next
        case False
        then show ?thesis
          by (auto simp: 6 2 operator_simps sat_simps split: option.splits json.splits)
      qed
    qed
  qed
qed (simp_all)

subsection \<open>Failures are counted\<close>

text \<open>Every failure is one of the checks: a result with no checks has no failures.\<close>

definition counted :: "assertion_result \<Rightarrow> bool" where
  "counted r \<longleftrightarrow> length (failures r) \<le> checks r"

lemma counted_plus: "counted a \<Longrightarrow> counted b \<Longrightarrow> counted (a + b)"
  by (simp add: counted_def result_sum_defs)

lemma counted_zero [simp]: "counted 0"
  by (simp add: counted_def result_sum_defs)

lemma counted_fail [simp]: "counted (fail_with p n e a m)"
  by (simp add: counted_def fail_with_def)

lemma counted_passed [simp]: "counted (passed n)"
  by (simp add: counted_def passed_def)

lemma counted_leaf [simp]: "counted (leaf_result name a v path h)"
  by (simp add: leaf_result_def)

lemma counted_sum: "list_all counted rs \<Longrightarrow> counted (sum_list rs)"
  by (induction rs) (auto intro: counted_plus)

lemma counted_positional: "positional_target xs v path = Inl r \<Longrightarrow> counted r"
  by (auto simp: positional_target_def split: option.splits json.splits if_splits)

lemma evaluation_counted:
  "counted (evaluate re a v path)"
  "counted (evaluate_map re d v path)"
  "counted (evaluate_elements re i xs ys path)"
  "list_all counted (evaluate_branches re bs v path)"
  "one_of_holds re opts v = one_of_holds re opts v"
  "counted (apply_operator re k b v path)"
proof (induction re a v path and re d v path and re i xs ys path and re bs v path and re opts v
    and re k b v path rule: evaluate_evaluate_map_evaluate_elements_evaluate_branches_one_of_holds_apply_operator.induct)
  case (1 re a v path)
  show ?case
  proof (cases a)
    case (JArr xs)
    then show ?thesis using 1(1) [OF JArr] counted_positional
      by (auto split: sum.splits)
  qed (use 1(2,3) in \<open>auto simp: evaluate_exact_def split: option.splits\<close>)
next
  case (3 re key a d v path)
  then show ?case by (auto intro: counted_plus)
next
  case (4 re i a xs y ys path)
  then show ?case by (auto intro: counted_plus)
next
  case (10 re k b v path)
  show ?case
  proof (cases "k \<in> set leaf_operators")
    case True
    then show ?thesis by (cases b) (simp_all add: apply_operator.simps)
  next
    case leaf: False
    then have no: "k \<noteq> ''one_of''" by (auto simp: leaf_operators_def)
    note IH = 10(2) [OF no leaf] 10(4) [OF no leaf] 10(10) [OF no leaf]
    have items: "counted (sum_list (map (\<lambda>(i, y). evaluate re b (Some y) (join_path path (at_index i)))
        (List.enumerate 0 ys)))"
      if k123: "k \<noteq> ''all_of''" "k \<noteq> ''any_of''" "k \<noteq> ''not''" and v: "v = Some (JArr ys)"
        and "\<nexists>xs. b = JArr xs" for ys
    proof (rule counted_sum)
      have "counted (evaluate re b (Some y) (join_path path (at_index i)))"
        if m: "(i, y) \<in> set (List.enumerate 0 ys)" for i y
      proof (cases b)
        case (JArr xs)
        with \<open>\<nexists>xs. b = JArr xs\<close> show ?thesis by blast
      next
        case JNull
        show ?thesis by (rule 10(5) [OF no leaf k123 JNull v refl m refl])
      next
        case (JBool x)
        show ?thesis by (rule 10(6) [OF no leaf k123 JBool v refl m refl])
      next
        case (JInt x)
        show ?thesis by (rule 10(7) [OF no leaf k123 JInt v refl m refl])
      next
        case (JFloat x y)
        show ?thesis by (rule 10(8) [OF no leaf k123 JFloat v refl m refl])
      next
        case (JStr x)
        show ?thesis by (rule 10(9) [OF no leaf k123 JStr v refl m refl])
      next
        case (JObj x)
        show ?thesis by (rule 10(11) [OF no leaf k123 JObj v refl m refl])
      next
        case (JHeaders x)
        show ?thesis by (rule 10(12) [OF no leaf k123 JHeaders v refl m refl])
      qed
      then show "list_all counted (map (\<lambda>(i, y). evaluate re b (Some y) (join_path path (at_index i)))
          (List.enumerate 0 ys))"
        by (auto simp: list_all_iff)
    qed
    show ?thesis
    proof (cases "k = ''all_of'' \<or> k = ''any_of'' \<or> k = ''not''")
      case True
      then show ?thesis using no leaf IH(1,2)
        by (cases b) (auto simp: apply_operator.simps intro: counted_sum)
    next
      case False
      show ?thesis
      proof (cases "\<exists>xs. b = JArr xs")
        case True
        then obtain xs where b: "b = JArr xs" by blast
        with False no leaf IH(3) counted_positional show ?thesis
          by (auto simp: apply_operator.simps split: sum.splits)
      next
        case neq: False
        have "apply_operator re k b v path = (case v of
                Some (JArr ys) \<Rightarrow>
                  sum_list (map (\<lambda>(i, y). evaluate re b (Some y) (join_path path (at_index i)))
                    (List.enumerate 0 ys))
              | _ \<Rightarrow> fail_with path ''items'' b v (msg_not_items path))"
          using neq False no leaf by (cases b; hypsubst) (simp_all add: apply_operator.simps del: evaluate.simps)
        with items neq False show ?thesis by (auto split: option.splits json.splits)
      qed
    qed
  qed
qed auto

subsection \<open>Collections\<close>

lemma hits_iff:
  "map fst (filter (\<lambda>(w, r). ok r) outcomes) \<noteq> [] \<longleftrightarrow> (\<exists>r \<in> snd ` set outcomes. ok r)"
  by (induction outcomes) auto

lemma no_failures_iff:
  "concat (map (\<lambda>(w, r). failures r) outcomes) = [] \<longleftrightarrow> (\<forall>r \<in> snd ` set outcomes. ok r)"
  by (auto simp: ok_def)

lemma collection_meaning:
  assumes "read_path_all source (cm_path cm) = Ok reached"
    and "mode \<in> {''any'', ''all'', ''none''}"
  shows "\<exists>r. evaluate_collection re cm mode source path = Ok r \<and>
    (ok r \<longleftrightarrow>
      (if mode = ''all'' then reached \<noteq> [] \<and> (\<forall>(w, v) \<in> set reached. sat re (JObj (cm_match cm)) v)
       else if mode = ''any'' then \<exists>(w, v) \<in> set reached. sat re (JObj (cm_match cm)) v
       else \<not> (\<exists>(w, v) \<in> set reached. sat re (JObj (cm_match cm)) v)))"
proof (cases "reached = []")
  case True
  with assms show ?thesis by (auto simp: evaluate_collection_def Let_def)
next
  case False
  define outcomes where
    "outcomes = map (\<lambda>(w, v). (w, evaluate_map re (cm_match cm) v (join_path path w))) reached"
  have oks: "snd ` set outcomes = (\<lambda>(w, v). evaluate_map re (cm_match cm) v (join_path path w)) ` set reached"
    by (force simp: outcomes_def)
  have ex: "(\<exists>r \<in> snd ` set outcomes. ok r) \<longleftrightarrow> (\<exists>(w, v) \<in> set reached. sat re (JObj (cm_match cm)) v)"
    and all: "(\<forall>r \<in> snd ` set outcomes. ok r) \<longleftrightarrow> (\<forall>(w, v) \<in> set reached. sat re (JObj (cm_match cm)) v)"
    unfolding oks by (simp_all add: evaluation_decides_meaning(2) case_prod_unfold del: sat.simps)
  define base where "base = (if path = [] then cm_path cm else join_path path (cm_path cm))"
  have "evaluate_collection re cm mode source path = Ok (collection_verdict mode base cm outcomes)"
    using assms False by (auto simp: evaluate_collection_def Let_def outcomes_def base_def)
  moreover have "ok (collection_verdict mode base cm outcomes) \<longleftrightarrow>
      (if mode = ''all'' then \<forall>r \<in> snd ` set outcomes. ok r
       else if mode = ''any'' then \<exists>r \<in> snd ` set outcomes. ok r
       else \<not> (\<exists>r \<in> snd ` set outcomes. ok r))"
    unfolding collection_verdict_def Let_def no_failures_iff hits_iff
    using no_failures_iff [of outcomes] by (auto simp: ok_def [of "AssertionResult _ _"])
  ultimately show ?thesis unfolding ex all using False by auto
qed

subsection \<open>Headers\<close>

lemma fold_update_lower:
  "map_of (fold (\<lambda>(k, v) d. AList.update (lower k) (JStr v) d) hs d) name =
     (case map_of (rev (map (\<lambda>(k, v). (lower k, JStr v)) hs)) name of
        None \<Rightarrow> map_of d name | Some v \<Rightarrow> Some v)"
  by (induction hs arbitrary: d rule: rev_induct) (auto split: option.splits)

text \<open>The value of a header: the last one sent under a name that differs in case only.\<close>

definition header_value :: "(string, string) dict \<Rightarrow> string \<Rightarrow> json option" where
  "header_value hs name = map_of (rev (map (\<lambda>(k, v). (lower k, JStr v)) hs)) (lower name)"

lemma folded_lookup:
  "mapping_get (folded_headers actual) name =
     (case actual of None \<Rightarrow> None | Some hs \<Rightarrow> header_value hs name)"
  by (auto simp: folded_headers_def header_value_def fold_update_lower split: option.splits)

lemma headers_meaning:
  assumes "\<forall>(k, a) \<in> set headers. k \<notin> set operators"
  shows "ok (evaluate_headers re headers actual path) \<longleftrightarrow>
    (\<forall>(k, a) \<in> set headers. sat re a (case actual of None \<Rightarrow> None | Some hs \<Rightarrow> header_value hs k))"
  using assms unfolding evaluate_headers_def evaluation_decides_meaning(2)
  by (auto simp: list_all_iff member_def folded_lookup)

subsection \<open>Until conditions\<close>

lemma takeWhile_path:
  "list_all path_char p \<Longrightarrow> takeWhile path_char (p @ CHR 0x20 # rest) = p"
proof -
  have "\<not> path_char (CHR 0x20)" by (simp add: path_char_def py_isspace_def code_of_def Let_def)
  then show "list_all path_char p \<Longrightarrow> takeWhile path_char (p @ CHR 0x20 # rest) = p"
    by (simp add: takeWhile_append list_all_iff)
qed

lemma lstrip_path: "p \<noteq> [] \<Longrightarrow> list_all path_char p \<Longrightarrow> lstrip (p @ rest) = p @ rest"
  by (cases p) (auto simp: path_char_def)

lemma match_until_written:
  assumes "p \<noteq> []" "list_all path_char p" "match_test (CHR 0x20 # rest) = Some u"
  shows "match_until (p @ CHR 0x20 # rest) = Some (p, u)"
proof -
  obtain k where k: "length p = Suc k" using assms(1) by (cases p) auto
  then have "drop (Suc k) (p @ CHR 0x20 # rest) = CHR 0x20 # rest" "take (Suc k) (p @ CHR 0x20 # rest) = p"
    by simp_all
  with assms(3) have "match_from (p @ CHR 0x20 # rest) (Suc k) = Some (p, u)" by simp
  then show ?thesis
    by (simp only: match_until_def lstrip_path [OF assms(1,2)] takeWhile_path [OF assms(2)] Let_def k)
qed

definition clean_operand :: "string \<Rightarrow> bool" where
  "clean_operand t \<longleftrightarrow> t \<noteq> [] \<and> py_strip t = t \<and> newline \<notin> set t"

lemma lstrip_space: "lstrip (CHR 0x20 # s) = lstrip s"
  by (simp add: lstrip_def py_isspace_def code_of_def Let_def)

lemma match_operand_space: "clean_operand t \<Longrightarrow> match_operand (CHR 0x20 # t) = Some t"
  by (simp add: match_operand_def clean_operand_def py_strip_def lstrip_space)

lemma match_test_eq: "clean_operand t \<Longrightarrow> match_test ('' == '' @ t) = Some (UntilEq True t)"
  by (simp add: match_test_def lstrip_space starts_with_def match_operand_space not_space_bracket
      lstrip_Cons py_isspace_def code_of_def)

lemma match_test_neq: "clean_operand t \<Longrightarrow> match_test ('' != '' @ t) = Some (UntilEq False t)"
  by (simp add: match_test_def lstrip_space starts_with_def match_operand_space
      lstrip_Cons py_isspace_def code_of_def)

lemma rstrip_bracket: "rstrip (s @ '']'') = s @ '']''"
  by (simp add: rstrip_def not_space_bracket)

lemma match_test_in: "newline \<notin> set body \<Longrightarrow> match_test ('' in ['' @ body @ '']'') = Some (UntilIn body)"
  by (simp add: match_test_def lstrip_space starts_with_def match_in_def rstrip_bracket
      lstrip_Cons py_isspace_def code_of_def)

subsection \<open>Properties\<close>

text \<open>
  C7: The evaluator decides the meaning of an assertion: whether a tree of operators, field
  descents and positional lists passes on a value is its recursive meaning on that value,
  in which \<open>not\<close> is negation, \<open>all_of\<close> and \<open>any_of\<close> are the quantifiers and an operator name with
  an argument that does not fit it is a field. The path only locates failures.
\<close>

theorem evaluate_decides_meaning:
  "ok (evaluate re a v path) \<longleftrightarrow> sat re a v"
  by (rule evaluation_decides_meaning(1))

text \<open>
  Every failure of an assertion tree is one of the checks counted, so a result without
  checks has no failures and asserted nothing.
\<close>

theorem failures_are_counted:
  "length (failures (evaluate re a v path)) \<le> checks (evaluate re a v path) \<and>
   length (failures (evaluate_headers re hs actual path)) \<le> checks (evaluate_headers re hs actual path)"
  using evaluation_counted(1) [of re a v path]
    evaluation_counted(2) [of re hs "Some (folded_headers actual)" path]
  by (simp add: counted_def evaluate_headers_def)

text \<open>
  Over a wildcard path, \<open>all\<close> passes when something was reached and everything reached
  satisfies the match, \<open>any\<close> when something reached does, \<open>none\<close> when nothing does: with nothing
  reached \<open>any\<close> and \<open>all\<close> fail and \<open>none\<close> passes.
\<close>

theorem collection_quantifiers:
  assumes "read_path_all source (cm_path cm) = Ok reached"
    and "mode \<in> {''any'', ''all'', ''none''}"
  shows "\<exists>r. evaluate_collection re cm mode source path = Ok r \<and>
    (ok r \<longleftrightarrow>
      (if mode = ''all'' then reached \<noteq> [] \<and> (\<forall>(w, v) \<in> set reached. sat re (JObj (cm_match cm)) v)
       else if mode = ''any'' then \<exists>(w, v) \<in> set reached. sat re (JObj (cm_match cm)) v
       else \<not> (\<exists>(w, v) \<in> set reached. sat re (JObj (cm_match cm)) v)))"
  using assms by (rule collection_meaning)

theorem collection_quantifiers_witness:
  "\<exists>r. evaluate_collection (\<lambda>_ _. False) \<lparr>cm_path = ''xs[*]'', cm_match = [(''type'', JStr ''string'')]\<rparr>
     ''all'' (Some (JObj [(''xs'', JArr [])])) [] = Ok r \<and> \<not> ok r"
proof -
  have "read_path_all (Some (JObj [(''xs'', JArr [])]))
      (cm_path \<lparr>cm_path = ''xs[*]'', cm_match = [(''type'', JStr ''string'')]\<rparr>) = Ok []"
    by code_simp
  from collection_quantifiers [OF this, of "''all''" "\<lambda>_ _. False" "[]"] show ?thesis by auto
qed

text \<open>
  A header block without operators at its top level passes exactly when each declared
  header's assertion holds of the last value the response carries under that name in any
  case; a response with no headers at all fails every assertion that needs one.
\<close>

theorem headers_ignore_case:
  assumes "\<forall>(k, a) \<in> set headers. k \<notin> set operators"
  shows "ok (evaluate_headers re headers actual path) \<longleftrightarrow>
    (\<forall>(k, a) \<in> set headers. sat re a (case actual of None \<Rightarrow> None | Some hs \<Rightarrow> header_value hs k))"
  using assms by (rule headers_meaning)

theorem headers_ignore_case_witness:
  "ok (evaluate_headers (\<lambda>_ _. False) [(''Content-Type'', JStr ''text/plain'')]
     (Some [(''content-TYPE'', ''text/plain'')]) ''headers'')"
proof -
  have "\<forall>(k, a) \<in> set [(''Content-Type'', JStr ''text/plain'')]. k \<notin> set operators" by code_simp
  moreover have "header_value [(''content-TYPE'', ''text/plain'')] ''Content-Type'' =
      Some (JStr ''text/plain'')"
    by code_simp
  ultimately show ?thesis
    using headers_ignore_case [of "[(''Content-Type'', JStr ''text/plain'')]" "\<lambda>_ _. False"
        "Some [(''content-TYPE'', ''text/plain'')]" "''headers''"]
    by (simp add: same_def)
qed

text \<open>
  The written forms \<open>path == value\<close>, \<open>path != value\<close> and \<open>path in [list]\<close> parse to their
  parts, and the condition they state is equality with the literal, its negation, and
  membership. In particular a path that reads nothing makes \<open>!=\<close> true, not false: the poll
  stops on a field that is not there yet.
\<close>

theorem until_forms:
  assumes "p \<noteq> []" "list_all path_char p" "clean_operand t" "read_path response p = Ok actual"
  shows "evaluate_until (p @ '' == '' @ t) response = Ok (same_literal actual (until_literal t)) \<and>
    evaluate_until (p @ '' != '' @ t) response = Ok (\<not> same_literal actual (until_literal t)) \<and>
    (actual = None \<longrightarrow> evaluate_until (p @ '' != '' @ t) response = Ok True) \<and>
    (\<forall>body. newline \<notin> set body \<and> until_options body \<noteq> [] \<longrightarrow>
      evaluate_until (p @ '' in ['' @ body @ '']'') response =
        Ok (list_ex (same_literal actual) (until_options body)))"
proof -
  have "match_until (p @ '' in ['' @ body @ '']'') = Some (p, UntilIn body)" if "newline \<notin> set body" for body
    using match_until_written [OF assms(1,2)] match_test_in [OF that] by simp
  moreover
  have "match_until (p @ '' == '' @ t) = Some (p, UntilEq True t)"
    "match_until (p @ '' != '' @ t) = Some (p, UntilEq False t)"
    using match_until_written [OF assms(1,2)] match_test_eq [OF assms(3)] match_test_neq [OF assms(3)]
    by simp_all
  ultimately show ?thesis using assms(4) by (simp add: evaluate_until_def Let_def same_literal_def)
qed

theorem until_forms_witness:
  "evaluate_until (''status.state'' @ '' != '' @ ''TASK_STATE_WORKING'') (Some (JObj [])) = Ok True"
proof -
  have "list_all path_char ''status.state''" "clean_operand ''TASK_STATE_WORKING''"
    "read_path (Some (JObj [])) ''status.state'' = Ok None" by code_simp+
  from until_forms [OF _ this] show ?thesis by (simp add: same_literal_def)
qed

end
