(* ===== verification/Streaming.thy ===== *)
theory Streaming
  imports AssertionLaws Graphs
begin

section \<open>Streaming assertions (acts/streaming.py)\<close>

text \<open>
  Events split into their oneof arm and payload, the view an assertion sees, the ordering of
  task states and the assertions over a whole stream. The ordering check looks at neighbours
  only; the main lemma is that it decides the constraint on all pairs of states.
\<close>

subsection \<open>Events\<close>

definition discriminators :: "(string \<times> string) list" where
  "discriminators =
     [(''task'', ''task''), (''message'', ''message''), (''status_update'', ''status_update''),
      (''statusUpdate'', ''status_update''), (''artifact_update'', ''artifact_update''),
      (''artifactUpdate'', ''artifact_update'')]"

definition event_kinds :: "string set" where "event_kinds = snd ` set discriminators"

definition submitted :: string where "submitted = ''TASK_STATE_SUBMITTED''"

definition terminal_states :: "string list" where
  "terminal_states = [''TASK_STATE_COMPLETED'', ''TASK_STATE_FAILED'', ''TASK_STATE_CANCELED'',
     ''TASK_STATE_REJECTED'']"

record streamed_event =
  ev_index :: nat
  ev_kind :: "string option"
  ev_payload :: json
  ev_raw :: json

definition view :: "streamed_event \<Rightarrow> json" where
  "view ev = (case ev_kind ev of
     None \<Rightarrow> ev_payload ev
   | Some kind \<Rightarrow>
       if is_mapping (ev_payload ev)
       then JObj (AList.update kind (ev_payload ev) (items_of (ev_payload ev)))
       else ev_payload ev)"

definition event_state :: "streamed_event \<Rightarrow> string option" where
  "event_state ev = (case mapping_get (ev_payload ev) ''status'' of
     None \<Rightarrow> None
   | Some status \<Rightarrow>
       (case mapping_get status ''state'' of
          Some (JStr s) \<Rightarrow> Some s
        | _ \<Rightarrow> None))"

definition normalize :: "json \<Rightarrow> nat \<Rightarrow> streamed_event" where
  "normalize data index =
     (let whole = \<lparr>ev_index = index, ev_kind = None, ev_payload = data, ev_raw = data\<rparr> in
      if is_mapping data then
        (case items_of data of
           [(key, v)] \<Rightarrow>
             (case map_of discriminators key of
                Some kind \<Rightarrow> \<lparr>ev_index = index, ev_kind = Some kind, ev_payload = v, ev_raw = data\<rparr>
              | None \<Rightarrow> whole)
         | _ \<Rightarrow> whole)
      else whole)"

subsection \<open>Ordering\<close>

definition event_path :: "nat \<Rightarrow> string" where "event_path i = ''events'' @ at_index i"

definition msg_back_to_submitted :: "nat \<Rightarrow> string \<Rightarrow> nat \<Rightarrow> string" where
  "msg_back_to_submitted i previous j =
     ''event '' @ show_nat i @ '' moves back to '' @ submitted @ '' from '' @ previous @
     '' at event '' @ show_nat j @ ''; it is only an initial state''"

definition msg_after_terminal :: "nat \<Rightarrow> string \<Rightarrow> string \<Rightarrow> nat \<Rightarrow> string" where
  "msg_after_terminal i state previous j =
     ''event '' @ show_nat i @ '' is '' @ state @ '' after terminal '' @ previous @
     '' at event '' @ show_nat j"

definition transition_result :: "string \<Rightarrow> nat \<Rightarrow> string \<Rightarrow> nat \<Rightarrow> assertion_result" where
  "transition_result previous j state i =
     (let path = event_path i @ ''.status.state'' in
      if state = submitted then
        fail_with path ''ordering'' (JStr (''not '' @ submitted)) (Some (JStr state))
          (msg_back_to_submitted i previous j)
      else if previous \<in> set terminal_states then
        fail_with path ''ordering'' (JStr ''no event after a terminal state'') (Some (JStr state))
          (msg_after_terminal i state previous j)
      else 0)"

fun ordering_loop :: "(string \<times> nat) option \<Rightarrow> streamed_event list \<Rightarrow> assertion_result" where
  "ordering_loop previous [] = 0"
| "ordering_loop previous (ev # evs) = (case event_state ev of
     None \<Rightarrow> ordering_loop previous evs
   | Some state \<Rightarrow>
       (case previous of
          None \<Rightarrow> passed 1
        | Some (p, j) \<Rightarrow>
            if state = p then 0 else transition_result p j state (ev_index ev) + passed 1)
       + ordering_loop (Some (state, ev_index ev)) evs)"

definition check_ordering :: "streamed_event list \<Rightarrow> assertion_result" where
  "check_ordering events = ordering_loop None events"

subsection \<open>Assertions over events and streams\<close>

datatype event_match = EXACT_POSITION | ANY_POSITION

text \<open>\<open>ea_body\<close>: the extras of the model, without its three controls.\<close>

record event_assertion =
  ea_description :: "string option"
  ea_match :: "event_match option"
  ea_index :: "nat option"
  ea_body :: "(string \<times> json) list"

definition msg_no_event :: "string \<Rightarrow> nat \<Rightarrow> nat \<Rightarrow> string" where
  "msg_no_event label i n = label @ '': no event at index '' @ show_nat i @
     ''; the stream had '' @ show_nat n"

definition msg_no_match :: "string \<Rightarrow> nat \<Rightarrow> string" where
  "msg_no_match label n = label @ '': no event among the '' @ show_nat n @ '' received matched''"

definition event_matches ::
  "(string \<Rightarrow> string \<Rightarrow> bool) \<Rightarrow> (string \<times> json) list \<Rightarrow> streamed_event \<Rightarrow> bool" where
  "event_matches re body ev = ok (evaluate re (JObj body) (Some (view ev)) [])"

text \<open>The event at a fixed place, or the failure that there is none.\<close>

definition evaluate_at ::
  "(string \<Rightarrow> string \<Rightarrow> bool) \<Rightarrow> string \<Rightarrow> string \<Rightarrow> (string \<times> json) list \<Rightarrow> nat \<Rightarrow>
   streamed_event list \<Rightarrow> assertion_result" where
  "evaluate_at re oper label body i events =
     (if i < length events
      then evaluate re (JObj body) (Some (view (events ! i))) (event_path i)
      else fail_with (event_path i) oper (JObj body) (Some JNull)
             (msg_no_event label i (length events)))"

definition evaluate_event_assertion ::
  "(string \<Rightarrow> string \<Rightarrow> bool) \<Rightarrow> event_assertion \<Rightarrow> nat \<Rightarrow> streamed_event list \<Rightarrow> assertion_result" where
  "evaluate_event_assertion re a position events =
     (let body = ea_body a;
          label = (case ea_description a of None \<Rightarrow> event_path position
                   | Some d \<Rightarrow> if d = [] then event_path position else d)
      in if body = [] then 0
         else case ea_index a of
           Some i \<Rightarrow> evaluate_at re ''index'' label body i events
         | None \<Rightarrow>
            if ea_match a = Some ANY_POSITION then
              (if list_ex (event_matches re body) events then passed 1
               else fail_with ''events[*]'' ''any_position'' (JObj body) (Some JNull)
                      (msg_no_match label (length events)))
            else evaluate_at re ''exact_position'' label body position events)"

record stream_assertions =
  sa_min_count :: "nat option"
  sa_max_count :: "nat option"
  sa_timeout_ms :: "nat option"
  sa_monotonic :: bool
  sa_events :: "event_assertion list option"
  sa_final_event :: "(string \<times> json) list option"
  sa_each_event :: "(string \<times> json) list option"

definition show_opt_nat :: "nat option \<Rightarrow> string" where
  "show_opt_nat n = (case n of None \<Rightarrow> ''None'' | Some k \<Rightarrow> show_nat k)"

definition timeout_result :: "'a stream_assertions_scheme \<Rightarrow> nat \<Rightarrow> assertion_result" where
  "timeout_result e n = fail_with ''stream'' ''timeout_ms''
     (JStr (''completion within '' @ show_opt_nat (sa_timeout_ms e) @ ''ms''))
     (Some (JStr (show_nat n @ '' event(s), stream still open'')))
     (''stream did not complete within '' @ show_opt_nat (sa_timeout_ms e) @ ''ms; '' @ show_nat n @
      '' event(s) received'')"

definition min_count_result :: "nat \<Rightarrow> nat \<Rightarrow> assertion_result" where
  "min_count_result k n =
     (if n < k then fail_with ''stream'' ''min_count'' (JInt (int k)) (Some (JInt (int n)))
        (''expected at least '' @ show_nat k @ '' event(s), got '' @ show_nat n)
      else passed 1)"

definition max_count_result :: "nat \<Rightarrow> nat \<Rightarrow> assertion_result" where
  "max_count_result k n =
     (if n > k then fail_with ''stream'' ''max_count'' (JInt (int k)) (Some (JInt (int n)))
        (''expected at most '' @ show_nat k @ '' event(s), got '' @ show_nat n)
      else passed 1)"

definition final_event_result ::
  "(string \<Rightarrow> string \<Rightarrow> bool) \<Rightarrow> (string \<times> json) list \<Rightarrow> streamed_event list \<Rightarrow> assertion_result" where
  "final_event_result re body events =
     (if events = [] then fail_with ''final_event'' ''final_event'' (JObj body) (Some JNull)
        ''expected a final event, but the stream produced none''
      else evaluate re (JObj body) (Some (view (last events))) ''final_event'')"

definition each_event_result ::
  "(string \<Rightarrow> string \<Rightarrow> bool) \<Rightarrow> (string \<times> json) list \<Rightarrow> streamed_event list \<Rightarrow> assertion_result" where
  "each_event_result re body events =
     (if events = [] then fail_with ''each_event'' ''each_event'' (JObj body) (Some JNull)
        ''expected every event to match, but the stream produced none''
      else sum_list (map (\<lambda>ev. evaluate re (JObj body) (Some (view ev))
             (''each_event'' @ at_index (ev_index ev))) events))"

definition when_some :: "'a option \<Rightarrow> ('a \<Rightarrow> assertion_result) \<Rightarrow> assertion_result" where
  "when_some x f = (case x of None \<Rightarrow> 0 | Some y \<Rightarrow> f y)"

definition evaluate_stream ::
  "(string \<Rightarrow> string \<Rightarrow> bool) \<Rightarrow> 'a stream_assertions_scheme \<Rightarrow> streamed_event list \<Rightarrow> bool \<Rightarrow> assertion_result" where
  "evaluate_stream re expect events timed_out =
     (if timed_out then timeout_result expect (length events) else 0)
     + when_some (sa_min_count expect) (\<lambda>k. min_count_result k (length events))
     + when_some (sa_max_count expect) (\<lambda>k. max_count_result k (length events))
     + (if sa_monotonic expect then check_ordering events else 0)
     + when_some (sa_events expect) (\<lambda>as. sum_list (map (\<lambda>(position, a).
         evaluate_event_assertion re a position events) (List.enumerate 0 as)))
     + when_some (sa_final_event expect) (\<lambda>body. final_event_result re body events)
     + when_some (sa_each_event expect) (\<lambda>body. each_event_result re body events)"

subsection \<open>What the ordering check decides\<close>

definition event_states :: "streamed_event list \<Rightarrow> string list" where
  "event_states events = List.map_filter event_state events"

definition may_follow :: "string \<Rightarrow> string \<Rightarrow> bool" where
  "may_follow s t \<longleftrightarrow> s = t \<or> t \<noteq> submitted \<and> s \<notin> set terminal_states"

lemma ok_transition:
  "state \<noteq> p \<Longrightarrow> ok (transition_result p j state i) \<longleftrightarrow> may_follow p state"
  by (simp add: transition_result_def may_follow_def Let_def)

lemma ordering_loop_ok:
  "ok (ordering_loop previous evs) \<longleftrightarrow>
   successively may_follow ((case previous of None \<Rightarrow> [] | Some (p, j) \<Rightarrow> [p]) @ event_states evs)"
proof (induction previous evs rule: ordering_loop.induct)
  case (1 previous)
  then show ?case by (auto simp: event_states_def List.map_filter_simps split: option.splits)
next
  case (2 previous ev evs)
  show ?case
  proof (cases "event_state ev")
    case None
    with 2(1) show ?thesis by (simp add: event_states_def List.map_filter_simps)
  next
    case (Some state)
    have st: "event_states (ev # evs) = state # event_states evs"
      using Some by (simp add: event_states_def List.map_filter_simps)
    have IH: "ok (ordering_loop (Some (state, ev_index ev)) evs) \<longleftrightarrow>
        successively may_follow (state # event_states evs)"
      using 2(2) [OF Some] by simp
    show ?thesis
    proof (cases previous)
      case None
      with Some IH st show ?thesis by simp
    next
      case (Some q)
      obtain p j where q: "q = (p, j)" by (cases q)
      have "successively may_follow (p # state # event_states evs) \<longleftrightarrow>
          may_follow p state \<and> successively may_follow (state # event_states evs)" by simp
      with \<open>event_state ev = Some state\<close> Some q IH st ok_transition [of state p j "ev_index ev"]
      show ?thesis by (auto simp: may_follow_def)
    qed
  qed
qed

lemma transp_may_follow: "transp may_follow"
  by (auto simp: transp_def may_follow_def)

lemma check_ordering_ok: "ok (check_ordering events) \<longleftrightarrow> sorted_wrt may_follow (event_states events)"
  using ordering_loop_ok [of None events] successively_conv_sorted_wrt [OF transp_may_follow]
  by (simp add: check_ordering_def)

subsection \<open>What a stream has to be\<close>

definition event_sat ::
  "(string \<Rightarrow> string \<Rightarrow> bool) \<Rightarrow> event_assertion \<Rightarrow> nat \<Rightarrow> streamed_event list \<Rightarrow> bool" where
  "event_sat re a position events =
     (let holds = (\<lambda>ev. sat re (JObj (ea_body a)) (Some (view ev)));
          at = (\<lambda>i. i < length events \<and> holds (events ! i))
      in ea_body a = [] \<or>
         (case ea_index a of
            Some i \<Rightarrow> at i
          | None \<Rightarrow> if ea_match a = Some ANY_POSITION then \<exists>ev \<in> set events. holds ev
                    else at position))"

lemma ok_evaluate_at:
  "ok (evaluate_at re oper label body i events) \<longleftrightarrow>
   i < length events \<and> sat re (JObj body) (Some (view (events ! i)))"
  by (simp add: evaluate_at_def evaluation_decides_meaning(1) del: sat.simps evaluate.simps)

lemma event_assertion_ok: "ok (evaluate_event_assertion re a position events) \<longleftrightarrow> event_sat re a position events"
proof -
  have "list_ex (event_matches re body) events \<longleftrightarrow>
      (\<exists>ev \<in> set events. sat re (JObj body) (Some (view ev)))" for body
    by (simp add: list_ex_iff event_matches_def evaluation_decides_meaning(1) del: sat.simps evaluate.simps)
  then show ?thesis
    by (simp add: evaluate_event_assertion_def event_sat_def Let_def ok_evaluate_at
        del: sat.simps split: option.split)
qed

lemma ok_when_some: "ok (when_some x f) \<longleftrightarrow> (case x of None \<Rightarrow> True | Some y \<Rightarrow> ok (f y))"
  by (simp add: when_some_def split: option.split)

lemma final_event_ok:
  "ok (final_event_result re body events) \<longleftrightarrow>
   events \<noteq> [] \<and> sat re (JObj body) (Some (view (last events)))"
  by (simp add: final_event_result_def evaluation_decides_meaning(1) del: sat.simps evaluate.simps)

lemma each_event_ok:
  "ok (each_event_result re body events) \<longleftrightarrow>
   events \<noteq> [] \<and> (\<forall>ev \<in> set events. sat re (JObj body) (Some (view ev)))"
  by (simp add: each_event_result_def ok_sum_list list_all_iff evaluation_decides_meaning(1)
      del: sat.simps evaluate.simps)

definition stream_sat ::
  "(string \<Rightarrow> string \<Rightarrow> bool) \<Rightarrow> 'a stream_assertions_scheme \<Rightarrow> streamed_event list \<Rightarrow> bool" where
  "stream_sat re e events \<longleftrightarrow>
     (\<forall>k. sa_min_count e = Some k \<longrightarrow> k \<le> length events) \<and>
     (\<forall>k. sa_max_count e = Some k \<longrightarrow> length events \<le> k) \<and>
     (sa_monotonic e \<longrightarrow> sorted_wrt may_follow (event_states events)) \<and>
     (\<forall>as. sa_events e = Some as \<longrightarrow> (\<forall>i < length as. event_sat re (as ! i) i events)) \<and>
     (\<forall>body. sa_final_event e = Some body \<longrightarrow>
        events \<noteq> [] \<and> sat re (JObj body) (Some (view (last events)))) \<and>
     (\<forall>body. sa_each_event e = Some body \<longrightarrow>
        events \<noteq> [] \<and> (\<forall>ev \<in> set events. sat re (JObj body) (Some (view ev))))"

lemma enumerate_all_nth:
  "list_all (\<lambda>(i, x). P i x) (List.enumerate 0 xs) \<longleftrightarrow> (\<forall>i < length xs. P i (xs ! i))"
  by (simp add: list_all_length nth_enumerate_eq)

lemma stream_ok: "ok (evaluate_stream re e events timed_out) \<longleftrightarrow> \<not> timed_out \<and> stream_sat re e events"
proof -
  have ev: "ok (sum_list (map (\<lambda>(i, a). evaluate_event_assertion re a i events) (List.enumerate 0 as)))
      \<longleftrightarrow> (\<forall>i < length as. event_sat re (as ! i) i events)" for as
    using enumerate_all_nth [of "\<lambda>i a. event_sat re a i events" as]
    by (simp add: ok_sum_list list_all_iff event_assertion_ok case_prod_unfold)
  have counts: "ok (min_count_result k n) \<longleftrightarrow> k \<le> n" "ok (max_count_result k n) \<longleftrightarrow> n \<le> k" for k n
    by (auto simp: min_count_result_def max_count_result_def)
  show ?thesis
    unfolding evaluate_stream_def ok_plus ok_when_some stream_sat_def ev counts final_event_ok each_event_ok
    by (auto simp: check_ordering_ok timeout_result_def simp del: sat.simps split: option.splits)
qed

subsection \<open>Properties\<close>

text \<open>
  C27: The ordering check, which compares each state with the one before it, passes exactly
  when the whole sequence of states is legal: no state before a SUBMITTED is anything but
  SUBMITTED, and every state after a terminal one is that same state.
\<close>

theorem ordering_constrains_all_pairs:
  "ok (check_ordering events) \<longleftrightarrow>
   (\<forall>i j. i < j \<longrightarrow> j < length (event_states events) \<longrightarrow>
     (event_states events ! j = submitted \<longrightarrow> event_states events ! i = submitted) \<and>
     (event_states events ! i \<in> set terminal_states \<longrightarrow>
       event_states events ! j = event_states events ! i))"
proof -
  have "may_follow s t \<longleftrightarrow>
      (t = submitted \<longrightarrow> s = submitted) \<and> (s \<in> set terminal_states \<longrightarrow> t = s)" for s t
    by (auto simp: may_follow_def)
  then show ?thesis unfolding check_ordering_ok sorted_wrt_iff_nth_less by simp
qed

definition state_event :: "nat \<Rightarrow> string \<Rightarrow> streamed_event" where
  "state_event i s = normalize
     (JObj [(''statusUpdate'', JObj [(''status'', JObj [(''state'', JStr s)])])]) i"

theorem ordering_constrains_all_pairs_witness:
  "\<not> ok (check_ordering [state_event 0 ''TASK_STATE_COMPLETED'', state_event 1 ''TASK_STATE_WORKING''])"
proof -
  have s: "event_states [state_event 0 ''TASK_STATE_COMPLETED'', state_event 1 ''TASK_STATE_WORKING''] =
      [''TASK_STATE_COMPLETED'', ''TASK_STATE_WORKING'']"
    by code_simp
  show ?thesis
  proof
    assume "ok (check_ordering [state_event 0 ''TASK_STATE_COMPLETED'', state_event 1 ''TASK_STATE_WORKING''])"
    from this [unfolded ordering_constrains_all_pairs s, THEN spec, THEN spec, of 0 1]
    show False by (simp add: terminal_states_def)
  qed
qed

text \<open>
  A stream's assertions pass exactly when collection was not cut short and the events
  meet every declared constraint: the counts, the state ordering, each event assertion at its
  place or anywhere, and the final and each event, which fail on a stream without events.
\<close>

theorem stream_verdict:
  "ok (evaluate_stream re e events timed_out) \<longleftrightarrow> \<not> timed_out \<and> stream_sat re e events"
  by (rule stream_ok)

text \<open>
  The ordering check sees only events that carry a state: an artifact update or a message
  after a terminal state passes it.
\<close>

theorem ordering_ignores_stateless_events:
  "event_state ev = None \<Longrightarrow> ok (check_ordering (evs @ [ev])) = ok (check_ordering evs)"
  by (simp add: check_ordering_ok event_states_def List.map_filter_def)

theorem ordering_ignores_stateless_events_witness:
  "ok (check_ordering ([state_event 0 ''TASK_STATE_COMPLETED''] @
     [normalize (JObj [(''artifactUpdate'', JObj [])]) 1]))"
proof -
  have "event_state (normalize (JObj [(''artifactUpdate'', JObj [])]) 1) = None"
    "ok (check_ordering [state_event 0 ''TASK_STATE_COMPLETED''])" by code_simp+
  then show ?thesis using ordering_ignores_stateless_events by blast
qed

end
