(* ===== verification/Schema.thy ===== *)
theory Schema
  imports Streaming
begin

section \<open>ACTS documents and their validation (acts/schema.py)\<close>

text \<open>
  The models of a conformance document and the validators that reject what no runner could
  execute. Each pydantic model is a record, each \<open>model_validator\<close> a definition that raises its
  \<open>ValueError\<close>; the field types and the forbidden extra keys are pydantic's own part. A field
  of type Any whose None means it was left out is an option.
\<close>

subsection \<open>Enumerations\<close>

datatype level = MUST | SHOULD | MAY

datatype transport_binding = B_JSONRPC | B_GRPC | B_REST

fun binding_value :: "transport_binding \<Rightarrow> string" where
  "binding_value B_JSONRPC = ''jsonrpc''"
| "binding_value B_GRPC = ''grpc''"
| "binding_value B_REST = ''rest''"

datatype operation =
    SEND_MESSAGE | SEND_STREAMING_MESSAGE | GET_TASK | LIST_TASKS | CANCEL_TASK
  | SUBSCRIBE_TO_TASK | GET_AGENT_CARD | GET_EXTENDED_AGENT_CARD | CREATE_PUSH_CONFIG
  | GET_PUSH_CONFIG | LIST_PUSH_CONFIGS | DELETE_PUSH_CONFIG

fun operation_value :: "operation \<Rightarrow> string" where
  "operation_value SEND_MESSAGE = ''send_message''"
| "operation_value SEND_STREAMING_MESSAGE = ''send_streaming_message''"
| "operation_value GET_TASK = ''get_task''"
| "operation_value LIST_TASKS = ''list_tasks''"
| "operation_value CANCEL_TASK = ''cancel_task''"
| "operation_value SUBSCRIBE_TO_TASK = ''subscribe_to_task''"
| "operation_value GET_AGENT_CARD = ''get_agent_card''"
| "operation_value GET_EXTENDED_AGENT_CARD = ''get_extended_agent_card''"
| "operation_value CREATE_PUSH_CONFIG = ''create_push_config''"
| "operation_value GET_PUSH_CONFIG = ''get_push_config''"
| "operation_value LIST_PUSH_CONFIGS = ''list_push_configs''"
| "operation_value DELETE_PUSH_CONFIG = ''delete_push_config''"

definition error_type_names :: "string list" where
  "error_type_names =
     [''TaskNotFoundError'', ''TaskNotCancelableError'', ''PushNotificationNotSupportedError'',
      ''UnsupportedOperationError'', ''ContentTypeNotSupportedError'',
      ''InvalidAgentResponseError'', ''ExtendedAgentCardNotConfiguredError'',
      ''ExtensionSupportRequiredError'', ''VersionNotSupportedError'', ''JSONParseError'',
      ''InvalidRequestError'', ''MethodNotFoundError'', ''InvalidParamsError'', ''InternalError'']"

datatype runner_requirement =
    WEBHOOK_ENDPOINT | CONCURRENT_STREAMS | STREAM_DISCONNECT | AUTH_CREDENTIALS | HEADER_INSPECTION

fun requirement_value :: "runner_requirement \<Rightarrow> string" where
  "requirement_value WEBHOOK_ENDPOINT = ''webhook_endpoint''"
| "requirement_value CONCURRENT_STREAMS = ''concurrent_streams''"
| "requirement_value STREAM_DISCONNECT = ''stream_disconnect''"
| "requirement_value AUTH_CREDENTIALS = ''auth_credentials''"
| "requirement_value HEADER_INSPECTION = ''header_inspection''"

datatype backoff = BACKOFF_NONE | BACKOFF_LINEAR | BACKOFF_EXPONENTIAL

datatype step_kind = K_OPERATION | K_RAW | K_CLIENT | K_WEBHOOK | K_ASSERTION

fun kind_value :: "step_kind \<Rightarrow> string" where
  "kind_value K_OPERATION = ''operation''"
| "kind_value K_RAW = ''raw''"
| "kind_value K_CLIENT = ''client''"
| "kind_value K_WEBHOOK = ''webhook''"
| "kind_value K_ASSERTION = ''assertion''"

subsection \<open>Models\<close>

type_synonym tree = "(string \<times> json) list"

record preconditions =
  pc_capabilities :: "tree option"
  pc_authentication :: "bool option"
  pc_skills :: "tree list option"
  pc_transport :: "transport_binding list option"
  pc_extensions :: "string list option"

record inline_assertion =
  ia_source :: string
  ia_any :: "collection_match option"
  ia_all :: "collection_match option"
  ia_none :: "collection_match option"

record raw_block =
  rb_method :: string
  rb_path :: string
  rb_headers :: "(string, string) dict option"
  rb_body :: "json option"
  rb_body_raw :: "string option"

record client_response_block =
  cr_operation :: operation
  cr_wire_payload :: json

record repeat_block =
  rp_until :: string
  rp_max_attempts :: "nat option"
  rp_delay_ms :: "nat option"
  rp_backoff :: "backoff option"

record expect_block =
  eb_status :: "json option"
  eb_headers :: "tree option"
  eb_body :: "tree option"

record stream_plan = stream_assertions +
  sp_description :: "string option"
  sp_disconnect_after :: "nat option"

record expect_stream = stream_assertions +
  es_streams :: "stream_plan list option"

record expect_webhook =
  ew_task_id :: string
  ew_min_count :: nat
  ew_timeout_ms :: nat
  ew_each_event :: "tree option"
  ew_final_event :: "tree option"
  ew_headers :: "tree option"
  ew_token :: "json option"

record step =
  st_id :: string
  st_operation :: "operation option"
  st_raw :: "raw_block option"
  st_client_response :: "client_response_block option"
  st_expect_webhook :: "expect_webhook option"
  st_assertion :: "inline_assertion option"
  st_params :: "tree option"
  st_expect :: "expect_block option"
  st_expect_error :: "expect_error option"
  st_expect_stream :: "expect_stream option"
  st_expect_parsed :: "tree option"
  st_capture :: "(string, string) dict option"
  st_assertions :: "named_assertion list option"
  st_repeat :: "repeat_block option"
  st_delay_ms :: "nat option"

record acts_test =
  t_id :: string
  t_name :: string
  t_level :: level
  t_transport :: "transport_binding list option"
  t_preconditions :: "preconditions option"
  t_requires_behaviors :: "string list option"
  t_runner_requirements :: "runner_requirement list option"
  t_steps :: "step list"
  t_assertions :: "named_assertion list option"

record suite =
  su_id :: string
  su_name :: string
  su_tests :: "acts_test list"

record acts_document =
  ad_acts_version :: string
  ad_spec_version :: string
  ad_variables :: "(string, string) dict option"
  ad_include :: "string list option"
  ad_suites :: "suite list option"

subsection \<open>Small accessors\<close>

definition or_empty :: "'a list option \<Rightarrow> 'a list" where
  "or_empty x = (case x of None \<Rightarrow> [] | Some xs \<Rightarrow> xs)"

definition step_kind_of :: "step \<Rightarrow> step_kind" where
  "step_kind_of s =
     (if st_operation s \<noteq> None then K_OPERATION
      else if st_raw s \<noteq> None then K_RAW
      else if st_client_response s \<noteq> None then K_CLIENT
      else if st_expect_webhook s \<noteq> None then K_WEBHOOK
      else K_ASSERTION)"

definition behaviors :: "acts_test \<Rightarrow> string list" where
  "behaviors t = or_empty (t_requires_behaviors t)"

definition applies_to :: "acts_test \<Rightarrow> transport_binding \<Rightarrow> bool" where
  "applies_to t b = (or_empty (t_transport t) = [] \<or> b \<in> set (or_empty (t_transport t)))"

definition stream_plans :: "step \<Rightarrow> stream_plan list" where
  "stream_plans s = (case st_expect_stream s of None \<Rightarrow> [] | Some e \<Rightarrow> or_empty (es_streams e))"

subsection \<open>Validators\<close>

definition invalid :: "string \<Rightarrow> unit result" where "invalid m = Raise (ValueError m)"
definition valid :: "unit result" where "valid = Ok ()"

definition name_repr :: "string list \<Rightarrow> string" where
  "name_repr xs = py_repr (JArr (map JStr xs))"

text \<open>The names of the fields that are set, in the order they are asked for.\<close>

definition given :: "(string \<times> bool) list \<Rightarrow> string list" where
  "given fs = map fst (filter snd fs)"

definition check_named_assertion :: "named_assertion \<Rightarrow> unit result" where
  "check_named_assertion a =
     (let g = given [(''match'', na_match a \<noteq> None), (''any'', na_any a \<noteq> None),
                     (''all'', na_all a \<noteq> None), (''none'', na_none a \<noteq> None)]
      in if g = [] then invalid
           ''needs one of `match`, `any`, `all` or `none`; without one it asserts nothing''
         else if length g > 1 then invalid
           (''set only one of `match`, `any`, `all`, `none`; got '' @ name_repr g)
         else valid)"

definition check_inline_assertion :: "inline_assertion \<Rightarrow> unit result" where
  "check_inline_assertion a =
     (let g = given [(''any'', ia_any a \<noteq> None), (''all'', ia_all a \<noteq> None), (''none'', ia_none a \<noteq> None)]
      in if g = [] then invalid ''needs one of `any`, `all` or `none`''
         else if length g > 1 then invalid
           (''set only one of `any`, `all`, `none`; got '' @ name_repr g)
         else valid)"

definition check_raw_block :: "raw_block \<Rightarrow> unit result" where
  "check_raw_block r =
     (if rb_body r \<noteq> None \<and> rb_body_raw r \<noteq> None
      then invalid ''set either `body` or `body_raw`, not both'' else valid)"

definition check_expect_error :: "expect_error \<Rightarrow> unit result" where
  "check_expect_error e = (case ee_error_type e of
     Some (JStr n) \<Rightarrow>
       if n \<notin> set error_type_names then invalid
         (''unknown error_type '' @ repr_str n @ ''; expected one of '' @
          name_repr (str_sort error_type_names) @ '' or an assertion object'')
       else valid
   | _ \<Rightarrow> valid)"

definition literal_error_type :: "expect_error \<Rightarrow> string option" where
  "literal_error_type e = (case ee_error_type e of Some (JStr n) \<Rightarrow> Some n | _ \<Rightarrow> None)"

definition check_stream_counts :: "'a stream_assertions_scheme \<Rightarrow> unit result" where
  "check_stream_counts e = (case (sa_min_count e, sa_max_count e) of
     (Some lo, Some hi) \<Rightarrow>
       if lo > hi then invalid (''min_count ('' @ show_nat lo @ '') exceeds max_count ('' @
         show_nat hi @ ''); no stream can satisfy both'') else valid
   | _ \<Rightarrow> valid)"

definition check_stream_plan :: "stream_plan \<Rightarrow> unit result" where
  "check_stream_plan p =
     (if sa_timeout_ms p \<noteq> None then invalid
        (''`timeout_ms` bounds the step, not one stream of it; the '' @
         ''streams of a set are read under a single deadline'')
      else case sp_disconnect_after p of
        None \<Rightarrow> valid
      | Some d \<Rightarrow>
          (case sa_max_count p of
             Some m \<Rightarrow> invalid (''disconnect_after ('' @ show_nat d @ '') cuts the stream short, so max_count ('' @
                show_nat m @ '') can never be exceeded and asserts nothing'')
           | None \<Rightarrow>
              (case sa_min_count p of
                 Some k \<Rightarrow>
                   if k > d then invalid (''min_count ('' @ show_nat k @ '') exceeds disconnect_after ('' @
                     show_nat d @ ''); the runner stops reading before that many events can arrive'')
                   else valid
               | None \<Rightarrow> valid)))"

definition step_kinds_present :: "step \<Rightarrow> string list" where
  "step_kinds_present s = given
     [(''operation'', st_operation s \<noteq> None), (''raw'', st_raw s \<noteq> None),
      (''client_response'', st_client_response s \<noteq> None),
      (''expect_webhook'', st_expect_webhook s \<noteq> None), (''assertion'', st_assertion s \<noteq> None)]"

definition exactly_one_kind :: "step \<Rightarrow> unit result" where
  "exactly_one_kind s =
     (let present = step_kinds_present s in
      if present = [] then invalid
        (''a step needs one of `operation`, `raw`, `client_response`, '' @
         ''`expect_webhook` or `assertion`'')
      else if length present > 1 then invalid
        (''a step has exactly one kind; got '' @ name_repr present)
      else valid)"

text \<open>The fields about the reply to a request, of which a kind without one may set none.\<close>

definition reply_fields :: "step \<Rightarrow> (string \<times> bool) list" where
  "reply_fields s =
     [(''expect'', st_expect s \<noteq> None), (''expect_error'', st_expect_error s \<noteq> None),
      (''expect_stream'', st_expect_stream s \<noteq> None), (''capture'', st_capture s \<noteq> None),
      (''repeat'', st_repeat s \<noteq> None)]"

definition check_no_reply_fields :: "string \<Rightarrow> step \<Rightarrow> unit result" where
  "check_no_reply_fields why s = (case given (reply_fields s) of
     [] \<Rightarrow> valid | n # _ \<Rightarrow> invalid (''`'' @ n @ ''` '' @ why))"

definition why_client :: string where
  "why_client = ''belongs to a step that talks to the SUT; a client_response step sends nothing''"

definition why_webhook :: string where
  "why_webhook = ''asserts on a reply to a request the runner made; a webhook step reads what the '' @
     ''SUT delivered out of band and has no reply to assert on''"

definition why_assertion :: string where
  "why_assertion = ''belongs to a step that talks to the SUT; an assertion step only re-checks captured values''"

definition andthen :: "unit result \<Rightarrow> unit result \<Rightarrow> unit result" where
  "andthen a b = rbind a (\<lambda>_. b)"

definition expects_body :: "step \<Rightarrow> bool" where
  "expects_body s = (case st_expect s of None \<Rightarrow> False | Some e \<Rightarrow> eb_body e \<noteq> None)"

lemma expects_body_iff: "expects_body s \<longleftrightarrow> (\<exists>e. st_expect s = Some e \<and> eb_body e \<noteq> None)"
  by (simp add: expects_body_def split: option.splits)

definition fields_match_the_kind :: "step \<Rightarrow> unit result" where
  "fields_match_the_kind s = (let kind = step_kind_of s in
     andthen (if kind \<noteq> K_OPERATION \<and> st_params s \<noteq> None
              then invalid (''`params` belongs to an operation step, not a '' @ kind_value kind @ '' step'')
              else valid)
    (andthen (if kind \<noteq> K_CLIENT \<and> st_expect_parsed s \<noteq> None
              then invalid (''`expect_parsed` belongs to a client_response step; use `expect` for a '' @
                ''response from the SUT'')
              else valid)
    (andthen (if kind = K_CLIENT then
                (if st_expect_parsed s = None
                 then invalid (''a client_response step needs `expect_parsed` '' @ em_dash @
                   '' without it the payload is parsed and nothing is asserted'')
                 else check_no_reply_fields why_client s)
              else valid)
    (andthen (if kind = K_WEBHOOK then check_no_reply_fields why_webhook s else valid)
    (andthen (if kind = K_ASSERTION then check_no_reply_fields why_assertion s else valid)
    (andthen (if expects_body s \<and> st_expect_error s \<noteq> None
              then invalid (''set either `expect.body` or `expect_error`, not both '' @ em_dash @
                '' a call cannot both return a body and fail'')
              else valid)
    (andthen (if st_expect_error s \<noteq> None \<and> st_expect_stream s \<noteq> None
              then invalid ''set either `expect_error` or `expect_stream`, not both'' else valid)
    (andthen (if or_empty (st_capture s) \<noteq> [] \<and> length (stream_plans s) > 1
              then invalid (''`capture` reads one response, and this step opens '' @
                show_nat (length (stream_plans s)) @
                '' streams; which of them a value came from would be decided by arrival order'')
              else valid)
             (if st_repeat s \<noteq> None \<and> kind \<noteq> K_OPERATION
              then invalid (''`repeat` re-dispatches an operation; not valid on a '' @ kind_value kind @ '' step'')
              else valid)))))))))"

text \<open>The nested models of a step, validated before the step itself.\<close>

definition check_option :: "('a \<Rightarrow> unit result) \<Rightarrow> 'a option \<Rightarrow> unit result" where
  "check_option f x = (case x of None \<Rightarrow> valid | Some y \<Rightarrow> f y)"

definition check_all :: "('a \<Rightarrow> unit result) \<Rightarrow> 'a list \<Rightarrow> unit result" where
  "check_all f xs = rbind (traverse f xs) (\<lambda>_. valid)"

definition check_expect_stream :: "expect_stream \<Rightarrow> unit result" where
  "check_expect_stream e =
     andthen (check_all (\<lambda>p. andthen (check_stream_counts p) (check_stream_plan p)) (or_empty (es_streams e)))
       (check_stream_counts e)"

definition check_parts :: "step \<Rightarrow> unit result" where
  "check_parts s =
     andthen (check_option check_raw_block (st_raw s))
    (andthen (check_option check_inline_assertion (st_assertion s))
    (andthen (check_option check_expect_error (st_expect_error s))
    (andthen (check_option check_expect_stream (st_expect_stream s))
             (check_all check_named_assertion (or_empty (st_assertions s))))))"

definition check_step :: "step \<Rightarrow> unit result" where
  "check_step s = andthen (check_parts s) (andthen (exactly_one_kind s) (fields_match_the_kind s))"

text \<open>The first name that repeats an earlier one.\<close>

definition step_ids_are_unique :: "acts_test \<Rightarrow> unit result" where
  "step_ids_are_unique t = (case first_duplicate {} (map st_id (t_steps t)) of
     None \<Rightarrow> valid
   | Some i \<Rightarrow> invalid (''duplicate step id '' @ repr_str i @ ''; capture references like {{'' @ i @
       ''.x}} would be ambiguous''))"

definition raw_only_tests_name_a_transport :: "acts_test \<Rightarrow> unit result" where
  "raw_only_tests_name_a_transport t =
     (if t_steps t = [] \<or> or_empty (t_transport t) \<noteq> [] then valid
      else if list_all (\<lambda>s. step_kind_of s = K_RAW) (t_steps t) then invalid
        (''a test whose steps are all raw must declare `transport`; raw requests are '' @
         ''binding-specific and would fail against the others'')
      else valid)"

definition features_used :: "step \<Rightarrow> (runner_requirement \<times> bool \<times> string) list" where
  "features_used s = (let plans = stream_plans s in
     [(WEBHOOK_ENDPOINT, step_kind_of s = K_WEBHOOK, ''reads what the SUT delivered out of band''),
      (CONCURRENT_STREAMS, length plans > 1, ''opens '' @ show_nat (length plans) @ '' streams at once''),
      (STREAM_DISCONNECT, list_ex (\<lambda>p. sp_disconnect_after p \<noteq> None) plans, ''disconnects mid-stream'')])"

definition undeclared_feature ::
  "runner_requirement list \<Rightarrow> step \<Rightarrow> (string \<times> runner_requirement \<times> string) option" where
  "undeclared_feature declared s =
     (case filter (\<lambda>(r, used, f). used \<and> r \<notin> set declared) (features_used s) of
        [] \<Rightarrow> None | (r, _, f) # _ \<Rightarrow> Some (st_id s, r, f))"

definition declares_the_runner_features_it_uses :: "acts_test \<Rightarrow> unit result" where
  "declares_the_runner_features_it_uses t =
     (case List.map_filter (undeclared_feature (or_empty (t_runner_requirements t))) (t_steps t) of
        [] \<Rightarrow> valid
      | (i, r, f) # _ \<Rightarrow> invalid (''step '' @ repr_str i @ '' '' @ f @
          '', so the test must declare `runner_requirements: ['' @ requirement_value r @
          '']` '' @ em_dash @ '' a runner without it has to skip rather than run something weaker''))"

definition check_test :: "acts_test \<Rightarrow> unit result" where
  "check_test t =
     andthen (check_all check_step (t_steps t))
    (andthen (check_all check_named_assertion (or_empty (t_assertions t)))
    (andthen (step_ids_are_unique t)
    (andthen (raw_only_tests_name_a_transport t) (declares_the_runner_features_it_uses t))))"

definition test_ids_are_unique :: "suite \<Rightarrow> unit result" where
  "test_ids_are_unique s = (case first_duplicate {} (map t_id (su_tests s)) of
     None \<Rightarrow> valid
   | Some i \<Rightarrow> invalid (''duplicate test id '' @ repr_str i @ '' in suite '' @ repr_str (su_id s)))"

definition declares_something :: "acts_document \<Rightarrow> unit result" where
  "declares_something d =
     (if or_empty (ad_include d) = [] \<and> or_empty (ad_suites d) = [] then invalid
        ''needs `include` or `suites`; a document with neither contributes no tests''
      else valid)"

definition suite_ids_are_unique :: "acts_document \<Rightarrow> unit result" where
  "suite_ids_are_unique d = (case first_duplicate {} (map su_id (or_empty (ad_suites d))) of
     None \<Rightarrow> valid
   | Some i \<Rightarrow> invalid (''duplicate suite id '' @ repr_str i))"

definition check_suite :: "suite \<Rightarrow> unit result" where
  "check_suite s = andthen (check_all check_test (su_tests s)) (test_ids_are_unique s)"

definition check_document :: "acts_document \<Rightarrow> unit result" where
  "check_document d =
     andthen (check_all check_suite (or_empty (ad_suites d)))
    (andthen (declares_something d) (suite_ids_are_unique d))"

definition is_acts_document :: "json \<Rightarrow> bool" where
  "is_acts_document raw = (case raw of JObj d \<Rightarrow> map_of d ''acts_version'' \<noteq> None | _ \<Rightarrow> False)"

subsection \<open>What validation guarantees\<close>

lemma andthen_Ok [simp]: "andthen a b = Ok () \<longleftrightarrow> a = Ok () \<and> b = Ok ()"
  by (simp add: andthen_def rbind_eq_Ok)

lemma invalid_Ok [simp]: "invalid m \<noteq> Ok ()"
  by (simp add: invalid_def)

lemma valid_Ok [simp]: "valid = Ok ()"
  by (simp add: valid_def)

lemma check_all_Ok: "check_all f xs = Ok () \<longleftrightarrow> (\<forall>x \<in> set xs. f x = Ok ())"
  using traverse_ex_Ok [of f xs] by (auto simp: check_all_def rbind_eq_Ok)

lemma length_given: "length (given fs) = length (filter snd fs)"
  by (simp add: given_def)

lemma exactly_one_kind_iff:
  "exactly_one_kind s = Ok () \<longleftrightarrow> length (step_kinds_present s) = 1"
  by (cases "step_kinds_present s") (auto simp: exactly_one_kind_def Let_def)

lemma given_Nil: "given fs = [] \<longleftrightarrow> (\<forall>(n, b) \<in> set fs. \<not> b)"
  by (auto simp: given_def filter_empty_conv)

lemma no_reply_fields_iff:
  "check_no_reply_fields why s = Ok () \<longleftrightarrow>
     st_expect s = None \<and> st_expect_error s = None \<and> st_expect_stream s = None \<and>
     st_capture s = None \<and> st_repeat s = None"
proof -
  have "check_no_reply_fields why s = Ok () \<longleftrightarrow> given (reply_fields s) = []"
    by (simp add: check_no_reply_fields_def split: list.split)
  then show ?thesis by (auto simp: given_Nil reply_fields_def)
qed

lemma map_filter_Nil: "List.map_filter f xs = [] \<longleftrightarrow> (\<forall>x \<in> set xs. f x = None)"
  by (auto simp: List.map_filter_def filter_empty_conv)

lemma undeclared_feature_None:
  "undeclared_feature declared s = None \<longleftrightarrow>
     (step_kind_of s = K_WEBHOOK \<longrightarrow> WEBHOOK_ENDPOINT \<in> set declared) \<and>
     (length (stream_plans s) > 1 \<longrightarrow> CONCURRENT_STREAMS \<in> set declared) \<and>
     ((\<exists>p \<in> set (stream_plans s). sp_disconnect_after p \<noteq> None) \<longrightarrow> STREAM_DISCONNECT \<in> set declared)"
  by (auto simp: undeclared_feature_def features_used_def Let_def list_ex_iff split: list.splits if_splits)

lemma features_declared_iff:
  "declares_the_runner_features_it_uses t = Ok () \<longleftrightarrow>
     (\<forall>s \<in> set (t_steps t). undeclared_feature (or_empty (t_runner_requirements t)) s = None)"
proof -
  have "declares_the_runner_features_it_uses t = Ok () \<longleftrightarrow>
      List.map_filter (undeclared_feature (or_empty (t_runner_requirements t))) (t_steps t) = []"
    by (simp add: declares_the_runner_features_it_uses_def split: list.split)
  then show ?thesis by (simp add: map_filter_Nil)
qed

definition reply_free :: "step \<Rightarrow> bool" where
  "reply_free s \<longleftrightarrow> st_expect s = None \<and> st_expect_error s = None \<and> st_expect_stream s = None \<and>
     st_capture s = None \<and> st_repeat s = None"

lemma if_valid_iff: "(if b then invalid m else valid) = Ok () \<longleftrightarrow> \<not> b"
  by simp

text \<open>What a step that passes its validators looks like, beside its nested models.\<close>

definition coherent_step :: "step \<Rightarrow> bool" where
  "coherent_step s \<longleftrightarrow> check_parts s = Ok () \<and>
     length (step_kinds_present s) = 1 \<and>
     (step_kind_of s \<noteq> K_OPERATION \<longrightarrow> st_params s = None \<and> st_repeat s = None) \<and>
     (st_expect_parsed s \<noteq> None \<longleftrightarrow> step_kind_of s = K_CLIENT) \<and>
     (step_kind_of s \<in> {K_CLIENT, K_WEBHOOK, K_ASSERTION} \<longrightarrow> reply_free s) \<and>
     (st_expect_error s \<noteq> None \<longrightarrow> st_expect_stream s = None \<and>
        (\<forall>e. st_expect s = Some e \<longrightarrow> eb_body e = None)) \<and>
     (length (stream_plans s) > 1 \<longrightarrow> or_empty (st_capture s) = [])"

lemma check_step_iff: "check_step s = Ok () \<longleftrightarrow> coherent_step s"
proof -
  have client: "(if step_kind_of s = K_CLIENT then
                (if st_expect_parsed s = None
                 then invalid (''a client_response step needs `expect_parsed` '' @ em_dash @
                   '' without it the payload is parsed and nothing is asserted'')
                 else check_no_reply_fields why_client s)
              else valid) = Ok () \<longleftrightarrow>
      (step_kind_of s = K_CLIENT \<longrightarrow> st_expect_parsed s \<noteq> None \<and> reply_free s)"
    by (auto simp: no_reply_fields_iff reply_free_def)
  have other: "(if step_kind_of s = k then check_no_reply_fields why s else valid) = Ok () \<longleftrightarrow>
      (step_kind_of s = k \<longrightarrow> reply_free s)" for k why
    by (simp add: no_reply_fields_iff reply_free_def)
  show ?thesis
    unfolding check_step_def fields_match_the_kind_def Let_def andthen_Ok exactly_one_kind_iff client other
      expects_body_iff
      if_valid_iff coherent_step_def
    by (cases "st_expect_error s"; cases "step_kind_of s"; simp; argo)
qed

lemma check_test_iff:
  "check_test t = Ok () \<longleftrightarrow>
     (\<forall>s \<in> set (t_steps t). coherent_step s \<and>
        undeclared_feature (or_empty (t_runner_requirements t)) s = None) \<and>
     (\<forall>a \<in> set (or_empty (t_assertions t)). check_named_assertion a = Ok ()) \<and>
     distinct (map st_id (t_steps t)) \<and>
     (t_steps t \<noteq> [] \<and> (\<forall>s \<in> set (t_steps t). step_kind_of s = K_RAW) \<longrightarrow> or_empty (t_transport t) \<noteq> [])"
proof -
  have ids: "step_ids_are_unique t = Ok () \<longleftrightarrow> distinct (map st_id (t_steps t))"
    using first_duplicate_None [of "{}" "map st_id (t_steps t)"]
    by (auto simp: step_ids_are_unique_def split: option.split)
  have raw: "raw_only_tests_name_a_transport t = Ok () \<longleftrightarrow>
      (t_steps t \<noteq> [] \<and> (\<forall>s \<in> set (t_steps t). step_kind_of s = K_RAW) \<longrightarrow> or_empty (t_transport t) \<noteq> [])"
    by (auto simp: raw_only_tests_name_a_transport_def list_all_iff)
  show ?thesis
    unfolding check_test_def andthen_Ok check_all_Ok check_step_iff ids raw features_declared_iff by auto
qed

subsection \<open>Properties\<close>


definition empty_step :: "string \<Rightarrow> step" where
  "empty_step i = \<lparr>st_id = i, st_operation = None, st_raw = None, st_client_response = None,
     st_expect_webhook = None, st_assertion = None, st_params = None, st_expect = None,
     st_expect_error = None, st_expect_stream = None, st_expect_parsed = None, st_capture = None,
     st_assertions = None, st_repeat = None, st_delay_ms = None\<rparr>"

definition plain_test :: "string \<Rightarrow> step list \<Rightarrow> acts_test" where
  "plain_test i steps = \<lparr>t_id = i, t_name = i, t_level = MUST, t_transport = None,
     t_preconditions = None, t_requires_behaviors = None, t_runner_requirements = None,
     t_steps = steps, t_assertions = None\<rparr>"


end
