(* ===== verification/RunnerCore.thy ===== *)
theory RunnerCore
  imports Schema
begin

section \<open>The runner's data and its gates (acts/runner.py)\<close>

text \<open>
  Outcomes and results, the runner's configuration, and the decisions made before a test
  runs: whether it is skipped, cannot be evaluated, or fails for a behaviour the SUT does not
  declare. The services of a run (the dispatcher of one binding, the sleep) are functions on an
  abstract world \<open>'w\<close>, the SUT and the network, since they are I/O; the durations of results
  are left out, and the clock, in milliseconds, is read only where a webhook step waits. The
  streams of a set are opened together: a service is given their deadline and how many events
  each is read for, and answers with what each delivers. \<open>r_unclosable\<close> is the type name of a
  dispatcher's streams that have no \<open>aclose\<close>. \<open>r_webhook_fuel\<close> bounds the model's polls. \<open>known_capabilities\<close> are the fields of the generated
  \<open>AgentCapabilities\<close> message. Agent cards whose members have other JSON types than the card's
  own schema gives them, on which Python's \<open>.get\<close> raises, are outside the model.
\<close>

subsection \<open>Outcomes and results\<close>

datatype outcome = PASS | FAIL | SKIP | ERROR

record failure_detail =
  fd_message :: string
  fd_step_id :: "string option"
  fd_expected :: "string option"
  fd_actual :: "string option"
  fd_assertion_path :: "string option"

definition plain_detail :: "string \<Rightarrow> string option \<Rightarrow> failure_detail" where
  "plain_detail message step_id = \<lparr>fd_message = message, fd_step_id = step_id, fd_expected = None,
     fd_actual = None, fd_assertion_path = None\<rparr>"

definition from_assertion :: "failure \<Rightarrow> string option \<Rightarrow> failure_detail" where
  "from_assertion f step_id = (let d = map_of (as_detail f) in
     \<lparr>fd_message = the (d ''message''), fd_step_id = step_id, fd_expected = d ''expected'',
      fd_actual = d ''actual'', fd_assertion_path = d ''assertion_path''\<rparr>)"

definition detail_as_json :: "failure_detail \<Rightarrow> (string, string) dict" where
  "detail_as_json f = (''message'', fd_message f) #
     List.map_filter (\<lambda>(n, v). map_option (Pair n) v)
       [(''step_id'', fd_step_id f), (''expected'', fd_expected f), (''actual'', fd_actual f),
        (''assertion_path'', fd_assertion_path f)]"

record step_result =
  sr_id :: string
  sr_result :: outcome
  sr_failure :: "failure_detail option"
  sr_attempts :: nat
  sr_checks :: nat

record test_result =
  tr_id :: string
  tr_name :: string
  tr_level :: level
  tr_result :: outcome
  tr_skip_reason :: "string option"
  tr_configuration :: "string option"
  tr_failure :: "failure_detail option"
  tr_steps :: "step_result list"

subsection \<open>Replies\<close>

record wire_error =
  we_message :: string
  we_error_type :: "string option"
  we_jsonrpc_code :: "int option"
  we_status :: "string option"
  we_reason :: "string option"
  we_details :: "json list"

record wire_response =
  wr_status :: int
  wr_payload :: json
  wr_error :: "wire_error option"
  wr_headers :: "(string, string) dict"

record stream_event =
  se_index :: nat
  se_data :: json
  se_status :: "int option"

text \<open>
  What reading a stream up to its deadline gives: the events that arrive, and whether it then
  is closed, still open, refused with a reply in place of a stream, or broken off.
\<close>

datatype stream_end =
    Closed | StillOpen | Refused string wire_response | Broken py_exn

type_synonym stream_source = "stream_event list \<times> stream_end"

text \<open>What the runner's own webhook receiver holds of one delivery.\<close>

record notification =
  nt_event :: "tree option"
  nt_headers :: "(string, string) dict option"
  nt_token :: "json option"

subsection \<open>The runner\<close>

record 'w runner =
  r_binding :: transport_binding
  r_variables :: tree
  r_env :: "(string, string) dict"
  r_spec_version :: string
  r_agent_card :: "json option"
  r_sut_behaviors :: "string list option"
  r_capabilities :: "runner_requirement list"
  r_known_capabilities :: "string list"
  r_stream_timeout_ms :: nat
  r_re_search :: "string \<Rightarrow> string \<Rightarrow> bool"
  r_new_uuid :: "nat \<Rightarrow> string"
  r_dispatch :: "operation \<Rightarrow> tree \<Rightarrow> (string, string) dict \<Rightarrow> 'w \<Rightarrow> wire_response result \<times> 'w"
  r_dispatch_raw :: "raw_block \<Rightarrow> (string, string) dict \<Rightarrow> 'w \<Rightarrow> wire_response result \<times> 'w"
  r_streams :: "operation \<Rightarrow> tree \<Rightarrow> (string, string) dict \<Rightarrow> nat \<Rightarrow> nat option list \<Rightarrow> 'w \<Rightarrow>
    (nat \<Rightarrow> stream_source) \<times> 'w"
  r_streams_raw :: "raw_block \<Rightarrow> (string, string) dict \<Rightarrow> nat \<Rightarrow> nat option list \<Rightarrow> 'w \<Rightarrow>
    (nat \<Rightarrow> stream_source) \<times> 'w"
  r_unclosable :: "string option"
  r_read_webhook :: "(string \<Rightarrow> 'w \<Rightarrow> notification list \<times> 'w) option"
  r_webhook_fuel :: nat
  r_clock :: "'w \<Rightarrow> nat"
  r_sleep :: "nat \<Rightarrow> 'w \<Rightarrow> 'w"

record 'w run_state =
  rs_scope :: scope
  rs_world :: 'w

type_synonym ('w, 'a) run = "('w run_state, 'a) state_result"

definition default_max_attempts :: nat where "default_max_attempts = 10"
definition default_delay_ms :: nat where "default_delay_ms = 1000"
definition default_stream_timeout_ms :: nat where "default_stream_timeout_ms = 30000"
definition version_header :: string where "version_header = ''A2A-Version''"
definition client_parse_behavior :: string where "client_parse_behavior = ''tck-client-parse''"

definition executable_kinds :: "step_kind list" where
  "executable_kinds = [K_OPERATION, K_RAW, K_CLIENT, K_WEBHOOK]"

text \<open>\<open>_delay_seconds\<close>, in milliseconds.\<close>

definition delay_after :: "nat \<Rightarrow> nat \<Rightarrow> backoff \<Rightarrow> nat" where
  "delay_after base_ms attempt b = (case b of
     BACKOFF_LINEAR \<Rightarrow> base_ms * attempt
   | BACKOFF_EXPONENTIAL \<Rightarrow> base_ms * 2 ^ (attempt - 1)
   | BACKOFF_NONE \<Rightarrow> base_ms)"

subsection \<open>Skips\<close>

definition unsatisfiable :: string where
  "unsatisfiable = ''PRECONDITION CANNOT BE SATISFIED: ''"

definition unsatisfiable_skips :: "test_result list \<Rightarrow> test_result list" where
  "unsatisfiable_skips results = filter (\<lambda>r. tr_result r = SKIP \<and>
     starts_with (case tr_skip_reason r of None \<Rightarrow> [] | Some s \<Rightarrow> s) unsatisfiable) results"

text \<open>\<open>", ".join(sorted(set))\<close>.\<close>

definition sorted_names :: "string list \<Rightarrow> string" where
  "sorted_names xs = join_with '', '' (str_sort (remdups xs))"

definition get_or :: "json \<Rightarrow> string \<Rightarrow> json \<Rightarrow> json" where
  "get_or v key d = (case mapping_get v key of None \<Rightarrow> d | Some x \<Rightarrow> x)"

text \<open>\<open>v.get(key) or []\<close>, as the list it is.\<close>

definition list_at :: "json \<Rightarrow> string \<Rightarrow> json list" where
  "list_at v key = (case mapping_get v key of Some (JArr xs) \<Rightarrow> xs | _ \<Rightarrow> [])"

definition msg_not_a_capability :: "string list \<Rightarrow> string \<Rightarrow> string" where
  "msg_not_a_capability known name =
     unsatisfiable @ repr_str name @ '' is not a capability A2A defines ('' @ sorted_names known @
     ''), so no agent card can advertise it''"

definition msg_capability :: "string \<Rightarrow> json \<Rightarrow> json \<Rightarrow> string" where
  "msg_capability name actual expected =
     ''agent card capability '' @ name @ ''='' @ py_repr actual @ '', needs '' @ py_repr expected"

fun unmet_capability :: "string list \<Rightarrow> json \<Rightarrow> tree \<Rightarrow> string option" where
  "unmet_capability known advertised [] = None"
| "unmet_capability known advertised ((name, expected) # rest) =
     (if name \<notin> set known then Some (msg_not_a_capability known name)
      else let actual = get_or advertised name (JBool False) in
        case expected of
          JBool b \<Rightarrow>
            if truthy actual \<noteq> b then Some (msg_capability name (JBool (truthy actual)) expected)
            else unmet_capability known advertised rest
        | _ \<Rightarrow>
            if \<not> py_eq actual expected then Some (msg_capability name actual expected)
            else unmet_capability known advertised rest)"

definition requires_auth :: "json \<Rightarrow> bool" where
  "requires_auth agent = (truthy (get_or agent ''securitySchemes'' JNull) \<and>
     truthy (get_or agent ''securityRequirements'' JNull))"

definition bool_repr :: "bool \<Rightarrow> string" where "bool_repr b = py_repr (JBool b)"

definition unmet_authentication :: "json \<Rightarrow> preconditions \<Rightarrow> string option" where
  "unmet_authentication agent p = (case pc_authentication p of
     None \<Rightarrow> None
   | Some want \<Rightarrow>
       if requires_auth agent \<noteq> want
       then Some (''agent card authentication='' @ bool_repr (requires_auth agent) @ '', needs '' @ bool_repr want)
       else None)"

definition string_members :: "json list \<Rightarrow> string \<Rightarrow> string list" where
  "string_members xs key = List.map_filter (\<lambda>x. case mapping_get x key of Some (JStr s) \<Rightarrow> Some s | _ \<Rightarrow> None) xs"

definition unmet_skills :: "json \<Rightarrow> preconditions \<Rightarrow> string option" where
  "unmet_skills agent p =
     (let wanted = string_members (map JObj (or_empty (pc_skills p))) ''id'';
          have_ids = string_members (list_at agent ''skills'') ''id'';
          absent = filter (\<lambda>w. w \<notin> set have_ids) wanted
      in if absent \<noteq> [] then Some (''agent card lacks skill(s) '' @ sorted_names absent) else None)"

definition unmet_transport :: "json \<Rightarrow> preconditions \<Rightarrow> string option" where
  "unmet_transport agent p =
     (let wanted = map binding_value (or_empty (pc_transport p));
          have_bindings = map (\<lambda>i. lower (py_str (get_or i ''protocolBinding'' (JStr []))))
            (list_at agent ''supportedInterfaces'')
      in if wanted \<noteq> [] \<and> set wanted \<inter> set have_bindings = {}
         then Some (''agent card advertises no binding among '' @ sorted_names wanted) else None)"

definition unmet_extensions :: "json \<Rightarrow> preconditions \<Rightarrow> string option" where
  "unmet_extensions advertised p =
     (let have_uris = string_members (list_at advertised ''extensions'') ''uri'';
          absent = filter (\<lambda>w. w \<notin> set have_uris) (or_empty (pc_extensions p))
      in if absent \<noteq> [] then Some (''agent card lacks extension(s) '' @ sorted_names absent) else None)"

text \<open>The first of several reasons.\<close>

fun first_of :: "string option list \<Rightarrow> string option" where
  "first_of [] = None"
| "first_of (Some m # rest) = Some m"
| "first_of (None # rest) = first_of rest"

definition msg_no_card :: "string \<Rightarrow> string" where
  "msg_no_card i = i @ '' declares preconditions but no agent card is available to evaluate them against''"

definition unmet_precondition :: "'w runner \<Rightarrow> acts_test \<Rightarrow> string option result" where
  "unmet_precondition r t = (case t_preconditions t of
     None \<Rightarrow> Ok None
   | Some p \<Rightarrow>
       (case r_agent_card r of
          None \<Rightarrow> Raise (RunError (msg_no_card (t_id t)))
        | Some agent \<Rightarrow>
            let caps = get_or agent ''capabilities'' (JObj []);
                advertised = (if truthy caps then caps else JObj [])
            in Ok (first_of
                 [unmet_capability (r_known_capabilities r) advertised (or_empty (pc_capabilities p)),
                  unmet_authentication agent p, unmet_skills agent p, unmet_transport agent p,
                  unmet_extensions advertised p])))"

definition msg_targets :: "acts_test \<Rightarrow> transport_binding \<Rightarrow> string" where
  "msg_targets t b = ''targets '' @ join_with '', '' (map binding_value (or_empty (t_transport t))) @
     ''; this runner speaks '' @ binding_value b"

definition deferred_kinds :: "acts_test \<Rightarrow> string list" where
  "deferred_kinds t = map kind_value (filter (\<lambda>k. k \<notin> set executable_kinds) (map step_kind_of (t_steps t)))"

definition missing_requirements :: "'w runner \<Rightarrow> acts_test \<Rightarrow> string list" where
  "missing_requirements r t = map requirement_value
     (filter (\<lambda>q. q \<notin> set (r_capabilities r)) (or_empty (t_runner_requirements t)))"

definition skip_reason :: "'w runner \<Rightarrow> acts_test \<Rightarrow> string option result" where
  "skip_reason r t =
     (if \<not> applies_to t (r_binding r) then Ok (Some (msg_targets t (r_binding r)))
      else if deferred_kinds t \<noteq> [] then
        Ok (Some (''contains '' @ sorted_names (deferred_kinds t) @ '' step(s); not yet supported''))
      else if missing_requirements r t \<noteq> [] then
        Ok (Some (''runner does not provide '' @ sorted_names (missing_requirements r t)))
      else unmet_precondition r t)"

definition missing_behaviors :: "'w runner \<Rightarrow> acts_test \<Rightarrow> string list" where
  "missing_behaviors r t = (case r_sut_behaviors r of
     None \<Rightarrow> [] | Some declared \<Rightarrow> filter (\<lambda>b. b \<notin> set declared) (behaviors t))"

definition behavior_gap :: "'w runner \<Rightarrow> acts_test \<Rightarrow> string option" where
  "behavior_gap r t =
     (if missing_behaviors r t = [] then None
      else Some (''SUT does not declare behavior(s) '' @ sorted_names (missing_behaviors r t) @
        ''; the test cannot be satisfied without them''))"

subsection \<open>Verdicts over a run\<close>

definition count_results :: "test_result list \<Rightarrow> level \<Rightarrow> outcome \<Rightarrow> nat" where
  "count_results results l out = length (filter (\<lambda>r. tr_level r = l \<and> tr_result r = out) results)"

definition all_levels :: "level list" where "all_levels = [MUST, SHOULD, MAY]"
definition all_outcomes :: "outcome list" where "all_outcomes = [PASS, FAIL, SKIP, ERROR]"

text \<open>\<open>summarize\<close>: a table over every level and outcome, one increment per result.\<close>

definition zero_tally :: "(level, (outcome, nat) dict) dict" where
  "zero_tally = map (\<lambda>l. (l, dict_from_keys all_outcomes 0)) all_levels"

definition tally_one ::
  "test_result \<Rightarrow> (level, (outcome, nat) dict) dict \<Rightarrow> (level, (outcome, nat) dict) dict" where
  "tally_one r tally = (let row = dict_lookup tally (tr_level r) [] in
     AList.update (tr_level r)
       (AList.update (tr_result r) (dict_lookup row (tr_result r) 0 + 1) row) tally)"

definition summarize :: "test_result list \<Rightarrow> (level, (outcome, nat) dict) dict" where
  "summarize results = fold tally_one results zero_tally"

definition is_conformant :: "test_result list \<Rightarrow> bool" where
  "is_conformant results =
     (\<not> list_ex (\<lambda>r. tr_level r = MUST \<and> tr_result r \<in> {FAIL, ERROR}) results)"

definition tally_at :: "(level, (outcome, nat) dict) dict \<Rightarrow> level \<Rightarrow> outcome \<Rightarrow> nat" where
  "tally_at tally l out = dict_lookup (dict_lookup tally l []) out 0"

lemma tally_one_at:
  "tally_at (tally_one r tally) l out =
     tally_at tally l out + (if tr_level r = l \<and> tr_result r = out then 1 else 0)"
  by (auto simp: tally_at_def tally_one_def Let_def)

lemma tally_zero: "tally_at zero_tally l out = 0"
  by (cases l) (simp_all add: tally_at_def zero_tally_def all_levels_def dict_lookup_def)

lemma summarize_counts: "tally_at (summarize results) l out = count_results results l out"
proof -
  have "tally_at (fold tally_one results tally) l out = tally_at tally l out + count_results results l out" for tally
    by (induction results arbitrary: tally) (auto simp: tally_one_at count_results_def)
  then show ?thesis by (simp add: summarize_def tally_zero)
qed

lemma conformant_iff_counts:
  "is_conformant results \<longleftrightarrow> count_results results MUST FAIL = 0 \<and> count_results results MUST ERROR = 0"
  by (auto simp: is_conformant_def count_results_def list_ex_iff filter_empty_conv)

end
