(* ===== verification/WireMap.thy ===== *)
theory WireMap
  imports Schema
begin

section \<open>The wire tables (acts/wire_map.py)\<close>

text \<open>
  The one table that binds the abstract operations and error names of a conformance document
  to JSON-RPC, gRPC and REST. An operation is looked up by its constructor; an error type is its
  name. The lemmas show that the reverse lookups invert the forward ones, that the HTTP column
  is the gRPC column transcoded, and that filling a REST path uses up exactly its parameters.
\<close>

subsection \<open>Operations\<close>

record operation_binding =
  ob_jsonrpc_method :: string
  ob_grpc_method :: string
  ob_rest_method :: string
  ob_rest_path :: string
  ob_streaming :: bool
  ob_http_only :: bool
  ob_grpc_request :: string
  ob_grpc_response :: string

text \<open>A row whose method has one name on both RPC bindings.\<close>

definition rpc_row ::
  "string \<Rightarrow> string \<Rightarrow> string \<Rightarrow> bool \<Rightarrow> string \<Rightarrow> string \<Rightarrow> operation_binding" where
  "rpc_row name verb path streaming request response =
     \<lparr>ob_jsonrpc_method = name, ob_grpc_method = name, ob_rest_method = verb, ob_rest_path = path,
      ob_streaming = streaming, ob_http_only = False, ob_grpc_request = request,
      ob_grpc_response = response\<rparr>"

definition well_known_agent_card_path :: string where
  "well_known_agent_card_path = ''/.well-known/agent-card.json''"

definition push_config_path :: string where
  "push_config_path = ''/tasks/{taskId}/pushNotificationConfigs''"

fun binding_for_operation :: "operation \<Rightarrow> operation_binding" where
  "binding_for_operation SEND_MESSAGE =
     rpc_row ''SendMessage'' ''POST'' ''/message:send'' False ''SendMessageRequest'' ''SendMessageResponse''"
| "binding_for_operation SEND_STREAMING_MESSAGE =
     rpc_row ''SendStreamingMessage'' ''POST'' ''/message:stream'' True
       ''SendMessageRequest'' ''StreamResponse''"
| "binding_for_operation GET_TASK =
     rpc_row ''GetTask'' ''GET'' ''/tasks/{id}'' False ''GetTaskRequest'' ''Task''"
| "binding_for_operation LIST_TASKS =
     rpc_row ''ListTasks'' ''GET'' ''/tasks'' False ''ListTasksRequest'' ''ListTasksResponse''"
| "binding_for_operation CANCEL_TASK =
     rpc_row ''CancelTask'' ''POST'' ''/tasks/{id}:cancel'' False ''CancelTaskRequest'' ''Task''"
| "binding_for_operation SUBSCRIBE_TO_TASK =
     rpc_row ''SubscribeToTask'' ''POST'' ''/tasks/{id}:subscribe'' True
       ''SubscribeToTaskRequest'' ''StreamResponse''"
| "binding_for_operation GET_AGENT_CARD =
     \<lparr>ob_jsonrpc_method = [], ob_grpc_method = [], ob_rest_method = ''GET'',
      ob_rest_path = well_known_agent_card_path, ob_streaming = False, ob_http_only = True,
      ob_grpc_request = [], ob_grpc_response = []\<rparr>"
| "binding_for_operation GET_EXTENDED_AGENT_CARD =
     rpc_row ''GetExtendedAgentCard'' ''GET'' ''/extendedAgentCard'' False
       ''GetExtendedAgentCardRequest'' ''AgentCard''"
| "binding_for_operation CREATE_PUSH_CONFIG =
     rpc_row ''CreateTaskPushNotificationConfig'' ''POST'' push_config_path False
       ''TaskPushNotificationConfig'' ''TaskPushNotificationConfig''"
| "binding_for_operation GET_PUSH_CONFIG =
     rpc_row ''GetTaskPushNotificationConfig'' ''GET'' (push_config_path @ ''/{id}'') False
       ''GetTaskPushNotificationConfigRequest'' ''TaskPushNotificationConfig''"
| "binding_for_operation LIST_PUSH_CONFIGS =
     rpc_row ''ListTaskPushNotificationConfigs'' ''GET'' push_config_path False
       ''ListTaskPushNotificationConfigsRequest'' ''ListTaskPushNotificationConfigsResponse''"
| "binding_for_operation DELETE_PUSH_CONFIG =
     rpc_row ''DeleteTaskPushNotificationConfig'' ''DELETE'' (push_config_path @ ''/{id}'') False
       ''DeleteTaskPushNotificationConfigRequest'' ''google.protobuf.Empty''"

definition resolve_operation :: "operation \<Rightarrow> tree option \<Rightarrow> operation" where
  "resolve_operation oper params =
     (if oper = GET_AGENT_CARD \<and>
         (case map_of (or_empty params) ''extended'' of None \<Rightarrow> False | Some v \<Rightarrow> truthy v)
      then GET_EXTENDED_AGENT_CARD else oper)"

subsection \<open>Paths\<close>

text \<open>\<open>findall\<close> of \<open>_PLACEHOLDER_RE\<close>, a brace pair around word characters. The templates are ASCII.\<close>

definition word_char :: "char \<Rightarrow> bool" where
  "word_char c = (let n = code_of c in
     48 \<le> n \<and> n \<le> 57 \<or> 65 \<le> n \<and> n \<le> 90 \<or> n = 95 \<or> 97 \<le> n \<and> n \<le> 122)"

fun placeholders :: "string \<Rightarrow> string list" where
  "placeholders [] = []"
| "placeholders (c # cs) =
     (if c = CHR 0x7B \<and> takeWhile word_char cs \<noteq> [] \<and> starts_with (dropWhile word_char cs) ''}''
      then takeWhile word_char cs # placeholders cs
      else placeholders cs)"

definition path_params :: "operation_binding \<Rightarrow> string list" where
  "path_params b = placeholders (ob_rest_path b)"

definition hole :: "string \<Rightarrow> string" where "hole name = ''{'' @ name @ ''}''"

definition msg_path_param :: "string \<Rightarrow> string \<Rightarrow> tree \<Rightarrow> string" where
  "msg_path_param path name remaining =
     path @ '' needs param '' @ repr_str name @ ''; got '' @ name_list remaining"

fun fill_loop :: "string \<Rightarrow> string list \<Rightarrow> string \<Rightarrow> tree \<Rightarrow> (string \<times> tree) result" where
  "fill_loop template [] path remaining = Ok (path, remaining)"
| "fill_loop template (name # names) path remaining =
     (case map_of remaining name of
        None \<Rightarrow> Raise (KeyError (msg_path_param template name remaining))
      | Some v \<Rightarrow>
          fill_loop template names (py_replace (hole name) (py_str v) path)
            (AList.delete name remaining))"

definition format_rest_path :: "operation_binding \<Rightarrow> tree \<Rightarrow> (string \<times> tree) result" where
  "format_rest_path b params = fill_loop (ob_rest_path b) (path_params b) (ob_rest_path b) params"

subsection \<open>Errors\<close>

record error_binding =
  er_jsonrpc_code :: int
  er_grpc_status :: "string option"
  er_http_status :: "int option"
  er_reason :: "string option"

definition a2a_error :: "int \<Rightarrow> string \<Rightarrow> int \<Rightarrow> string \<Rightarrow> error_binding" where
  "a2a_error code status http reason = \<lparr>er_jsonrpc_code = code, er_grpc_status = Some status,
     er_http_status = Some http, er_reason = Some reason\<rparr>"

definition jsonrpc_error :: "int \<Rightarrow> error_binding" where
  "jsonrpc_error code = \<lparr>er_jsonrpc_code = code, er_grpc_status = None, er_http_status = None,
     er_reason = None\<rparr>"

definition error_table :: "(string, error_binding) dict" where
  "error_table =
     [(''TaskNotFoundError'', a2a_error (- 32001) ''NOT_FOUND'' 404 ''TASK_NOT_FOUND''),
      (''TaskNotCancelableError'', a2a_error (- 32002) ''FAILED_PRECONDITION'' 400 ''TASK_NOT_CANCELABLE''),
      (''PushNotificationNotSupportedError'',
         a2a_error (- 32003) ''FAILED_PRECONDITION'' 400 ''PUSH_NOTIFICATION_NOT_SUPPORTED''),
      (''UnsupportedOperationError'', a2a_error (- 32004) ''FAILED_PRECONDITION'' 400 ''UNSUPPORTED_OPERATION''),
      (''ContentTypeNotSupportedError'',
         a2a_error (- 32005) ''INVALID_ARGUMENT'' 400 ''CONTENT_TYPE_NOT_SUPPORTED''),
      (''InvalidAgentResponseError'', a2a_error (- 32006) ''INTERNAL'' 500 ''INVALID_AGENT_RESPONSE''),
      (''ExtendedAgentCardNotConfiguredError'',
         a2a_error (- 32007) ''FAILED_PRECONDITION'' 400 ''EXTENDED_AGENT_CARD_NOT_CONFIGURED''),
      (''ExtensionSupportRequiredError'',
         a2a_error (- 32008) ''FAILED_PRECONDITION'' 400 ''EXTENSION_SUPPORT_REQUIRED''),
      (''VersionNotSupportedError'', a2a_error (- 32009) ''FAILED_PRECONDITION'' 400 ''VERSION_NOT_SUPPORTED''),
      (''JSONParseError'', jsonrpc_error (- 32700)),
      (''InvalidRequestError'', jsonrpc_error (- 32600)),
      (''MethodNotFoundError'', jsonrpc_error (- 32601)),
      (''InvalidParamsError'', jsonrpc_error (- 32602)),
      (''InternalError'', jsonrpc_error (- 32603))]"

definition binding_for_error :: "string \<Rightarrow> error_binding option" where
  "binding_for_error name = map_of error_table name"

definition by_jsonrpc_code :: "(int, string) dict" where
  "by_jsonrpc_code = dict_merge [] (map (\<lambda>(e, b). (er_jsonrpc_code b, e)) error_table)"

definition by_reason :: "(string, string) dict" where
  "by_reason = dict_merge []
     (List.map_filter (\<lambda>(e, b). map_option (\<lambda>r. (r, e)) (er_reason b)) error_table)"

definition error_for_jsonrpc_code :: "int \<Rightarrow> string option" where
  "error_for_jsonrpc_code code = map_of by_jsonrpc_code code"

definition error_for_reason :: "string \<Rightarrow> string option" where
  "error_for_reason reason = map_of by_reason reason"

definition grpc_status_to_http :: "(string, int) dict" where
  "grpc_status_to_http =
     [(''OK'', 200), (''CANCELLED'', 499), (''UNKNOWN'', 500), (''INVALID_ARGUMENT'', 400),
      (''DEADLINE_EXCEEDED'', 504), (''NOT_FOUND'', 404), (''ALREADY_EXISTS'', 409),
      (''PERMISSION_DENIED'', 403), (''RESOURCE_EXHAUSTED'', 429), (''FAILED_PRECONDITION'', 400),
      (''ABORTED'', 409), (''OUT_OF_RANGE'', 400), (''UNIMPLEMENTED'', 501), (''INTERNAL'', 500),
      (''UNAVAILABLE'', 503), (''DATA_LOSS'', 500), (''UNAUTHENTICATED'', 401)]"

definition http_status_for_grpc :: "string \<Rightarrow> int" where
  "http_status_for_grpc status = dict_lookup grpc_status_to_http status 500"

definition errors_sharing_http_status :: "int \<Rightarrow> string list" where
  "errors_sharing_http_status status =
     map fst (filter (\<lambda>(e, b). er_http_status b = Some status) error_table)"

subsection \<open>The reverse lookups\<close>

text \<open>A table whose values are distinct is inverted by the dictionary of its flipped pairs.\<close>

lemma map_of_flip:
  assumes "distinct (map fst xs)" "distinct (map f xs)"
  shows "map_of (rev (map (\<lambda>p. (f p, fst p)) xs)) c = Some e \<longleftrightarrow> (\<exists>b. map_of xs e = Some b \<and> f (e, b) = c)"
proof -
  have "map_of (rev (map (\<lambda>p. (f p, fst p)) xs)) c = Some e \<longleftrightarrow> (c, e) \<in> set (map (\<lambda>p. (f p, fst p)) xs)"
    using assms(2) by (subst map_of_eq_Some_iff) (auto simp: rev_map [symmetric] comp_def)
  also have "\<dots> \<longleftrightarrow> (\<exists>b. (e, b) \<in> set xs \<and> f (e, b) = c)"
    by (auto simp: image_iff)
  finally show ?thesis using assms(1) by simp
qed

lemma map_of_dict_merge_Nil: "map_of (dict_merge [] d) k = map_of (rev d) k"
  by (simp add: map_of_dict_merge split: option.splits)

lemma error_table_keys: "map fst error_table = error_type_names"
  by (simp add: error_table_def error_type_names_def)

lemma error_for_jsonrpc_code_iff:
  "error_for_jsonrpc_code code = Some e \<longleftrightarrow>
     (\<exists>b. binding_for_error e = Some b \<and> er_jsonrpc_code b = code)"
proof -
  have "distinct (map fst error_table)" "distinct (map (\<lambda>p. er_jsonrpc_code (snd p)) error_table)"
    by (simp add: error_table_keys error_type_names_def, code_simp)
  from map_of_flip [OF this, of code e] show ?thesis
    by (simp add: error_for_jsonrpc_code_def by_jsonrpc_code_def map_of_dict_merge_Nil
        binding_for_error_def case_prod_unfold)
qed

lemma error_for_reason_iff:
  "error_for_reason reason = Some e \<longleftrightarrow>
     (\<exists>b. binding_for_error e = Some b \<and> er_reason b = Some reason)"
proof -
  let ?rs = "List.map_filter (\<lambda>(e, b). map_option (\<lambda>r. (r, e)) (er_reason b)) error_table"
  have d: "distinct (map fst error_table)" by (simp add: error_table_keys error_type_names_def)
  have "distinct (map fst ?rs)" by code_simp
  then have "map_of (rev ?rs) reason = Some e \<longleftrightarrow> (reason, e) \<in> set ?rs"
    by (subst map_of_eq_Some_iff) (simp_all add: rev_map [symmetric])
  also have "\<dots> \<longleftrightarrow> (\<exists>b. (e, b) \<in> set error_table \<and> er_reason b = Some reason)"
    by (force simp: List.map_filter_def)
  finally show ?thesis
    using d by (simp add: error_for_reason_def by_reason_def map_of_dict_merge_Nil binding_for_error_def)
qed

lemma error_row_cases:
  assumes "binding_for_error e = Some b"
  shows "er_http_status b = map_option http_status_for_grpc (er_grpc_status b)"
proof -
  have "list_all (\<lambda>(e, b). er_http_status b = map_option http_status_for_grpc (er_grpc_status b)) error_table"
    by code_simp
  moreover have "(e, b) \<in> set error_table"
    using assms by (simp add: binding_for_error_def map_of_SomeD)
  ultimately show ?thesis by (auto simp: list_all_iff)
qed

subsection \<open>Filled paths\<close>

text \<open>What a template says: each brace pair replaced by the value of its name.\<close>

function filled :: "(string \<Rightarrow> string) \<Rightarrow> string \<Rightarrow> string" where
  "filled f [] = []"
| "filled f (c # cs) =
     (if c = CHR 0x7B
      then f (takeWhile word_char cs) @ filled f (drop 1 (dropWhile word_char cs))
      else c # filled f cs)"
  by pat_completeness auto
termination
  by (relation "measure (\<lambda>(_, s). length s)") (auto simp: le_imp_less_Suc length_dropWhile_le le_diff_conv le_SucI)

lemma py_replace_other:
  "c \<noteq> CHR 0x7B \<Longrightarrow> py_replace (hole n) v (c # s) = c # py_replace (hole n) v s"
  by (simp add: hole_def starts_with_def)

lemma py_replace_hole: "py_replace (hole n) v (hole n @ s) = v @ py_replace (hole n) v s"
  by (simp add: hole_def starts_with_def)

lemma py_replace_append:
  "(\<forall>c \<in> set p. no_brace c) \<Longrightarrow> py_replace (hole n) v (p @ s) = p @ py_replace (hole n) v s"
  by (induction p) (simp_all add: py_replace_other no_brace_def del: py_replace.simps(2))

definition brace_free :: "json \<Rightarrow> bool" where
  "brace_free v = (\<forall>c \<in> set (py_str v). no_brace c)"

lemma keys_delete: "fst ` set (AList.delete k d) = fst ` set d - {k}"
  using arg_cong [OF AList.delete_keys [of k d], of set] by simp

lemma fill_loop_returns:
  "distinct names \<Longrightarrow>
     (\<exists>path rest. fill_loop t names path0 params = Ok (path, rest)) \<longleftrightarrow> set names \<subseteq> fst ` set params"
proof (induction names arbitrary: path0 params)
  case (Cons n ns)
  show ?case
  proof (cases "map_of params n")
    case None
    then have "n \<notin> fst ` set params" by (simp add: map_of_eq_None_iff)
    then show ?thesis by (simp add: None)
  next
    case (Some v)
    then have "n \<in> fst ` set params" by (metis domI dom_map_of_conv_image_fst)
    moreover have "fill_loop t (n # ns) path0 params =
        fill_loop t ns (py_replace (hole n) (py_str v) path0) (AList.delete n params)"
      by (simp add: Some)
    ultimately show ?thesis
      using Cons.IH [of "py_replace (hole n) (py_str v) path0" "AList.delete n params"] Cons.prems
      by (simp add: keys_delete) blast
  qed
qed simp

lemma fill_loop_error:
  "fill_loop t names path0 params = Raise e \<Longrightarrow> \<exists>n m. n \<in> set names \<and> e = KeyError (msg_path_param t n m)"
  by (induction names arbitrary: path0 params) (auto split: option.splits, blast)

lemma fill_loop_rest:
  "fill_loop t names path0 params = Ok (path, rest) \<Longrightarrow>
     rest = filter (\<lambda>(k, v). k \<notin> set names) params"
proof (induction names arbitrary: path0 params)
  case (Cons n ns)
  then have "rest = filter (\<lambda>(k, v). k \<notin> set ns) (AList.delete n params)"
    by (auto split: option.splits)
  then show ?case by (auto simp: AList.delete_eq intro: filter_cong)
qed (simp add: case_prod_unfold)

text \<open>The shapes of the templates: no placeholder, one, or two.\<close>

lemma py_replace_id: "(\<forall>c \<in> set p. no_brace c) \<Longrightarrow> py_replace (hole n) v p = p"
  using py_replace_append [of p n v "[]"] by simp

lemma filled_append: "(\<forall>c \<in> set p. no_brace c) \<Longrightarrow> filled f (p @ s) = p @ filled f s"
  by (induction p) (simp_all add: no_brace_def)

lemma filled_hole:
  "(\<forall>c \<in> set n. word_char c) \<Longrightarrow> filled f (hole n @ s) = f n @ filled f s"
  by (simp add: hole_def takeWhile_append dropWhile_append word_char_def code_of_def)

definition table_params :: "operation \<Rightarrow> string list" where
  "table_params oper =
     (if oper \<in> {GET_TASK, CANCEL_TASK, SUBSCRIBE_TO_TASK} then [''id'']
      else if oper \<in> {CREATE_PUSH_CONFIG, LIST_PUSH_CONFIGS} then [''taskId'']
      else if oper \<in> {GET_PUSH_CONFIG, DELETE_PUSH_CONFIG} then [''taskId'', ''id''] else [])"

lemma path_params_table: "path_params (binding_for_operation oper) = table_params oper"
  by (cases oper; hypsubst; code_simp)

lemma distinct_path_params: "distinct (path_params (binding_for_operation oper))"
  by (simp add: path_params_table table_params_def)

text \<open>A template taken apart: the text before, between and after its placeholders.\<close>

lemma filled_none:
  "(\<forall>c \<in> set p. no_brace c) \<Longrightarrow> filled f p = p"
  using filled_append [of p f "[]"] by simp

lemma fill_one:
  assumes "\<forall>c \<in> set p. no_brace c" "\<forall>c \<in> set s. no_brace c" "\<forall>c \<in> set n. word_char c"
    and "fill_loop t [n] (p @ hole n @ s) params = Ok (path, rest)"
  shows "path = filled (\<lambda>n. py_str (the (map_of params n))) (p @ hole n @ s)"
  using assms
  by (auto simp: py_replace_append py_replace_hole py_replace_id filled_append filled_hole filled_none
      split: option.splits)

lemma fill_two:
  assumes "\<forall>c \<in> set p. no_brace c" "\<forall>c \<in> set q. no_brace c"
    and "\<forall>c \<in> set n. word_char c" "\<forall>c \<in> set m. word_char c" "n \<noteq> m" "\<forall>c \<in> set m. no_brace c"
    and "\<And>v. py_replace (hole n) v (hole m) = hole m"
    and "fill_loop t [n, m] (p @ hole n @ q @ hole m) params = Ok (path, rest)"
    and "\<forall>v. map_of params n = Some v \<longrightarrow> brace_free v"
  shows "path = filled (\<lambda>n. py_str (the (map_of params n))) (p @ hole n @ q @ hole m)"
proof -
  obtain v w where v: "map_of params n = Some v" and w: "map_of params m = Some w"
    using assms(5,8) by (auto split: option.splits)
  have "py_replace (hole m) (py_str w) (p @ py_str v @ q @ hole m) = p @ py_str v @ q @ py_str w"
    using assms(1,2,9) v py_replace_hole [of m "py_str w" "[]"]
    by (simp add: py_replace_append brace_free_def)
  moreover have "filled (\<lambda>n. py_str (the (map_of params n))) (p @ hole n @ q @ hole m) =
      p @ py_str v @ q @ py_str w"
    using assms(1-4) filled_hole [of m _ "[]"] by (simp add: filled_append filled_hole v w)
  ultimately show ?thesis
    using assms(1,2,5,7,8) by (simp add: v w py_replace_append py_replace_hole)
qed

lemma rest_paths:
  "ob_rest_path (binding_for_operation oper) =
     (case oper of
        GET_TASK \<Rightarrow> ''/tasks/'' @ hole ''id'' @ []
      | CANCEL_TASK \<Rightarrow> ''/tasks/'' @ hole ''id'' @ '':cancel''
      | SUBSCRIBE_TO_TASK \<Rightarrow> ''/tasks/'' @ hole ''id'' @ '':subscribe''
      | CREATE_PUSH_CONFIG \<Rightarrow> ''/tasks/'' @ hole ''taskId'' @ ''/pushNotificationConfigs''
      | LIST_PUSH_CONFIGS \<Rightarrow> ''/tasks/'' @ hole ''taskId'' @ ''/pushNotificationConfigs''
      | GET_PUSH_CONFIG \<Rightarrow> ''/tasks/'' @ hole ''taskId'' @ ''/pushNotificationConfigs/'' @ hole ''id''
      | DELETE_PUSH_CONFIG \<Rightarrow> ''/tasks/'' @ hole ''taskId'' @ ''/pushNotificationConfigs/'' @ hole ''id''
      | SEND_MESSAGE \<Rightarrow> ''/message:send'' | SEND_STREAMING_MESSAGE \<Rightarrow> ''/message:stream''
      | LIST_TASKS \<Rightarrow> ''/tasks'' | GET_AGENT_CARD \<Rightarrow> well_known_agent_card_path
      | GET_EXTENDED_AGENT_CARD \<Rightarrow> ''/extendedAgentCard'')"
  by (cases oper) (simp_all add: rpc_row_def push_config_path_def hole_def)

lemma template_chars:
  "\<forall>c \<in> set ''/tasks/''. no_brace c" "\<forall>c \<in> set '':cancel''. no_brace c"
  "\<forall>c \<in> set '':subscribe''. no_brace c" "\<forall>c \<in> set ''/pushNotificationConfigs''. no_brace c"
  "\<forall>c \<in> set ''/pushNotificationConfigs/''. no_brace c" "\<forall>c \<in> set ''/message:send''. no_brace c"
  "\<forall>c \<in> set ''/message:stream''. no_brace c" "\<forall>c \<in> set ''/tasks''. no_brace c"
  "\<forall>c \<in> set well_known_agent_card_path. no_brace c" "\<forall>c \<in> set ''/extendedAgentCard''. no_brace c"
  "\<forall>c \<in> set ''id''. word_char c" "\<forall>c \<in> set ''taskId''. word_char c" "\<forall>c \<in> set ''id''. no_brace c"
  "\<forall>c \<in> set []. no_brace c"
  by code_simp+

lemma filled_path:
  assumes "format_rest_path (binding_for_operation oper) params = Ok (path, rest)"
    and "\<forall>n \<in> set (path_params (binding_for_operation oper)). \<forall>v. map_of params n = Some v \<longrightarrow> brace_free v"
  shows "path = filled (\<lambda>n. py_str (the (map_of params n))) (ob_rest_path (binding_for_operation oper))"
proof -
  let ?t = "ob_rest_path (binding_for_operation oper)" and ?ns = "path_params (binding_for_operation oper)"
  note ch = template_chars
  have t: "table_params GET_TASK = [''id'']" "table_params CANCEL_TASK = [''id'']"
    "table_params SUBSCRIBE_TO_TASK = [''id'']" "table_params CREATE_PUSH_CONFIG = [''taskId'']"
    "table_params LIST_PUSH_CONFIGS = [''taskId'']" "table_params GET_PUSH_CONFIG = [''taskId'', ''id'']"
    "table_params DELETE_PUSH_CONFIG = [''taskId'', ''id'']" "table_params SEND_MESSAGE = []"
    "table_params SEND_STREAMING_MESSAGE = []" "table_params LIST_TASKS = []"
    "table_params GET_AGENT_CARD = []" "table_params GET_EXTENDED_AGENT_CARD = []"
    by (simp_all add: table_params_def)
  have l: "fill_loop ?t ?ns ?t params = Ok (path, rest)"
    using assms(1) by (simp only: format_rest_path_def)
  have none: ?thesis if "\<forall>c \<in> set ?t. no_brace c" "?ns = []"
    using l filled_none [OF that(1)] by (simp add: that(2))
  have one: ?thesis if "\<forall>c \<in> set p. no_brace c" "\<forall>c \<in> set s. no_brace c" "\<forall>c \<in> set n. word_char c"
    "?t = p @ hole n @ s" "?ns = [n]" for p n s
    using fill_one [OF that(1-3)] l unfolding that(4,5) by metis
  have two: ?thesis if tt: "?t = ''/tasks/'' @ hole ''taskId'' @ ''/pushNotificationConfigs/'' @ hole ''id''"
    and nn: "?ns = [''taskId'', ''id'']"
  proof -
    have h: "py_replace (hole ''taskId'') v (hole ''id'') = hole ''id''" for v
      by (simp add: hole_def starts_with_def)
    have "''taskId'' \<noteq> ''id''" by simp
    from fill_two [OF ch(1) ch(5) ch(12) ch(11) this ch(13) h l [unfolded tt nn]] assms(2)
    show ?thesis unfolding tt nn by (metis list.set_intros(1))
  qed
  show ?thesis
  proof (cases oper)
    case SEND_MESSAGE
    show ?thesis by (rule none, unfold SEND_MESSAGE rest_paths operation.case path_params_table t) (rule template_chars refl)+
  next
    case SEND_STREAMING_MESSAGE
    show ?thesis by (rule none, unfold SEND_STREAMING_MESSAGE rest_paths operation.case path_params_table t) (rule template_chars refl)+
  next
    case GET_TASK
    show ?thesis by (rule one [OF ch(1) ch(14) ch(11)]) (simp_all only: GET_TASK rest_paths path_params_table t ch operation.case)
  next
    case LIST_TASKS
    show ?thesis by (rule none, unfold LIST_TASKS rest_paths operation.case path_params_table t) (rule template_chars refl)+
  next
    case CANCEL_TASK
    show ?thesis by (rule one [OF ch(1) ch(2) ch(11)]) (simp_all only: CANCEL_TASK rest_paths path_params_table t ch operation.case)
  next
    case SUBSCRIBE_TO_TASK
    show ?thesis by (rule one [OF ch(1) ch(3) ch(11)]) (simp_all only: SUBSCRIBE_TO_TASK rest_paths path_params_table t ch operation.case)
  next
    case GET_AGENT_CARD
    show ?thesis by (rule none, unfold GET_AGENT_CARD rest_paths operation.case path_params_table t) (rule template_chars refl)+
  next
    case GET_EXTENDED_AGENT_CARD
    show ?thesis by (rule none, unfold GET_EXTENDED_AGENT_CARD rest_paths operation.case path_params_table t) (rule template_chars refl)+
  next
    case CREATE_PUSH_CONFIG
    show ?thesis by (rule one [OF ch(1) ch(4) ch(12)]) (simp_all only: CREATE_PUSH_CONFIG rest_paths path_params_table t ch operation.case)
  next
    case GET_PUSH_CONFIG
    show ?thesis by (rule two) (simp_all only: GET_PUSH_CONFIG rest_paths path_params_table t ch operation.case)
  next
    case LIST_PUSH_CONFIGS
    show ?thesis by (rule one [OF ch(1) ch(4) ch(12)]) (simp_all only: LIST_PUSH_CONFIGS rest_paths path_params_table t ch operation.case)
  next
    case DELETE_PUSH_CONFIG
    show ?thesis by (rule two) (simp_all only: DELETE_PUSH_CONFIG rest_paths path_params_table t ch operation.case)
  qed
qed

text \<open>
  An operation finds its path exactly when every placeholder of its template is a
  parameter, and a missing one is a KeyError; the parameters the path used are gone from what is
  sent in the body and the others are kept in order; and when no value holds a brace the path is
  the template with each placeholder replaced by its value.
\<close>

theorem rest_path_uses_its_params:
  "case format_rest_path (binding_for_operation oper) params of
     Inl e \<Rightarrow> \<not> set (path_params (binding_for_operation oper)) \<subseteq> fst ` set params \<and>
       (\<exists>n m. n \<in> set (path_params (binding_for_operation oper)) \<and>
          e = KeyError (msg_path_param (ob_rest_path (binding_for_operation oper)) n m))
   | Inr (path, rest) \<Rightarrow> set (path_params (binding_for_operation oper)) \<subseteq> fst ` set params \<and>
       rest = filter (\<lambda>(k, v). k \<notin> set (path_params (binding_for_operation oper))) params \<and>
       ((\<forall>n \<in> set (path_params (binding_for_operation oper)). \<forall>v. map_of params n = Some v \<longrightarrow> brace_free v)
          \<longrightarrow> path = filled (\<lambda>n. py_str (the (map_of params n)))
                (ob_rest_path (binding_for_operation oper)))"
proof (cases "format_rest_path (binding_for_operation oper) params")
  case (Inl e)
  then have l: "fill_loop (ob_rest_path (binding_for_operation oper))
      (path_params (binding_for_operation oper)) (ob_rest_path (binding_for_operation oper)) params = Raise e"
    by (simp only: format_rest_path_def)
  then have "\<not> (\<exists>path rest. fill_loop (ob_rest_path (binding_for_operation oper))
      (path_params (binding_for_operation oper)) (ob_rest_path (binding_for_operation oper)) params =
      Ok (path, rest))"
    by simp
  then have "\<not> set (path_params (binding_for_operation oper)) \<subseteq> fst ` set params"
    by (simp only: fill_loop_returns [OF distinct_path_params] not_False_eq_True)
  with Inl fill_loop_error [OF l] show ?thesis by (simp only: sum.case simp_thms)
next
  case (Inr r)
  obtain path rest where r: "r = (path, rest)" by (cases r)
  from Inr have l: "fill_loop (ob_rest_path (binding_for_operation oper))
      (path_params (binding_for_operation oper)) (ob_rest_path (binding_for_operation oper)) params =
      Ok (path, rest)"
    by (simp only: format_rest_path_def r)
  then have "set (path_params (binding_for_operation oper)) \<subseteq> fst ` set params"
    using fill_loop_returns [OF distinct_path_params] by blast
  with fill_loop_rest [OF l] filled_path [OF Inr [unfolded r]] show ?thesis
    unfolding Inr r sum.case prod.case by (intro conjI impI)
qed

lemma rest_path_uses_its_params_witness:
  "format_rest_path (binding_for_operation CANCEL_TASK) [(''id'', JStr ''t1''), (''x'', JNull)]
     = Ok (''/tasks/t1:cancel'', [(''x'', JNull)]) \<and>
   ''/tasks/t1:cancel'' =
     filled (\<lambda>n. py_str (the (map_of [(''id'', JStr ''t1''), (''x'', JNull)] n)))
       (ob_rest_path (binding_for_operation CANCEL_TASK))"
proof -
  have c: "format_rest_path (binding_for_operation CANCEL_TASK) [(''id'', JStr ''t1''), (''x'', JNull)]
     = Ok (''/tasks/t1:cancel'', [(''x'', JNull)])"
    by code_simp
  have "brace_free (JStr ''t1'')" by code_simp
  moreover have "path_params (binding_for_operation CANCEL_TASK) = [''id'']" by code_simp
  ultimately have "\<forall>n \<in> set (path_params (binding_for_operation CANCEL_TASK)). \<forall>v.
      map_of [(''id'', JStr ''t1''), (''x'', JNull)] n = Some v \<longrightarrow> brace_free v"
    by simp
  with rest_path_uses_its_params [of CANCEL_TASK "[(''id'', JStr ''t1''), (''x'', JNull)]"] c show ?thesis
    by (simp only: sum.case prod.case simp_thms)
qed

text \<open>
  The reverse lookups of the error table invert it: a JSON-RPC code or an ErrorInfo reason
  names an error exactly when that error's row carries it, so the code alone identifies any error
  and the reason any error A2A defines itself, and the HTTP column is always the gRPC column
  transcoded. An HTTP status does not identify an error.
\<close>

theorem error_names_round_trip:
  "(error_for_jsonrpc_code code = Some e \<longleftrightarrow>
      (\<exists>b. binding_for_error e = Some b \<and> er_jsonrpc_code b = code)) \<and>
   (error_for_reason reason = Some e \<longleftrightarrow>
      (\<exists>b. binding_for_error e = Some b \<and> er_reason b = Some reason)) \<and>
   (binding_for_error e \<noteq> None \<longleftrightarrow> e \<in> set error_type_names) \<and>
   (\<forall>b. binding_for_error e = Some b \<longrightarrow>
      er_http_status b = map_option http_status_for_grpc (er_grpc_status b)) \<and>
   length (errors_sharing_http_status 400) = 7"
proof -
  have "binding_for_error e \<noteq> None \<longleftrightarrow> e \<in> set error_type_names"
    using arg_cong [OF error_table_keys, of set]
    by (metis binding_for_error_def map_of_eq_None_iff set_map)
  moreover have "length (errors_sharing_http_status 400) = 7"
    by (simp add: errors_sharing_http_status_def error_table_def a2a_error_def jsonrpc_error_def)
  ultimately show ?thesis
    by (simp add: error_for_jsonrpc_code_iff error_for_reason_iff error_row_cases)
qed

lemma error_names_round_trip_witness:
  "binding_for_error ''InternalError'' = Some (jsonrpc_error (- 32603)) \<and>
   error_for_jsonrpc_code (- 32603) = Some ''InternalError'' \<and>
   er_http_status (jsonrpc_error (- 32603)) = None"
proof -
  have b: "binding_for_error ''InternalError'' = Some (jsonrpc_error (- 32603))"
    by (simp add: binding_for_error_def error_table_def)
  with error_names_round_trip [of "- 32603" "''InternalError''" "[]"] show ?thesis
    by (simp add: jsonrpc_error_def)
qed

end
