(* ===== verification/Params.thy ===== *)
theory Params
  imports Schema
begin

section \<open>Reshaping abstract params (acts/dispatcher/params.py)\<close>

text \<open>
  \<open>adapt\<close> moves the parameters a test writes beside the message, or nested, to where the A2A
  request message has them. A dict is its items; \<open>pop\<close> is \<^const>\<open>AList.delete\<close>.
\<close>

definition set_default :: "string \<Rightarrow> json \<Rightarrow> tree \<Rightarrow> tree" where
  "set_default k v d = (case map_of d k of None \<Rightarrow> AList.update k v d | Some _ \<Rightarrow> d)"

definition message_scoped_params :: "string list" where
  "message_scoped_params = [''taskId'', ''contextId'']"

definition nested_push_config_param :: string where
  "nested_push_config_param = ''pushNotificationConfig''"

definition operation_selecting_param :: string where
  "operation_selecting_param = ''extended''"

definition fold_one :: "string \<Rightarrow> tree \<times> tree \<Rightarrow> tree \<times> tree" where
  "fold_one name = (\<lambda>(params, folded). case map_of params name of
     None \<Rightarrow> (params, folded)
   | Some v \<Rightarrow> (AList.delete name params, set_default name v folded))"

definition fold_into_message :: "tree \<Rightarrow> tree" where
  "fold_into_message params = (case map_of params ''message'' of
     Some (JObj m) \<Rightarrow>
       (let (ps, folded) = fold fold_one message_scoped_params (params, m)
        in AList.update ''message'' (JObj folded) ps)
   | _ \<Rightarrow> params)"

definition flatten_push_config :: "tree \<Rightarrow> tree" where
  "flatten_push_config params =
     (let ps = AList.delete nested_push_config_param params in
      case map_of params nested_push_config_param of
        Some (JObj n) \<Rightarrow> fold (\<lambda>(k, v). set_default k v) n ps
      | _ \<Rightarrow> ps)"

definition adapt :: "operation \<Rightarrow> tree \<Rightarrow> tree" where
  "adapt oper params =
     (if oper \<in> {SEND_MESSAGE, SEND_STREAMING_MESSAGE} then fold_into_message params
      else if oper = CREATE_PUSH_CONFIG then flatten_push_config params
      else if oper = GET_EXTENDED_AGENT_CARD then AList.delete operation_selecting_param params
      else params)"

subsection \<open>Where the values end up\<close>

lemma set_default_lookup:
  "map_of (set_default k v d) k' = (if k' = k \<and> map_of d k = None then Some v else map_of d k')"
  by (simp add: set_default_def split: option.split)

lemma delete_lookup: "map_of (AList.delete k d) k' = (if k' = k then None else map_of d k')"
  by (simp add: AList.delete_conv')

definition folded_message :: "tree \<Rightarrow> tree \<Rightarrow> tree" where
  "folded_message params m = snd (fold fold_one message_scoped_params (params, m))"

lemma folded_message_lookup:
  "map_of (folded_message params m) k = (case map_of m k of
     Some v \<Rightarrow> Some v
   | None \<Rightarrow> if k \<in> set message_scoped_params then map_of params k else None)"
  by (auto simp: folded_message_def message_scoped_params_def fold_one_def set_default_lookup
      delete_lookup split: option.splits)

lemma fold_into_message_lookup:
  "map_of params ''message'' = Some (JObj m) \<Longrightarrow>
     map_of (fold_into_message params) k =
       (if k = ''message'' then Some (JObj (folded_message params m))
        else if k \<in> set message_scoped_params then None else map_of params k)"
  by (auto simp: fold_into_message_def folded_message_def message_scoped_params_def fold_one_def
      delete_lookup split: option.splits prod.splits)

lemma fold_set_default_lookup:
  "map_of (fold (\<lambda>(k, v). set_default k v) n d) k =
     (case map_of d k of Some v \<Rightarrow> Some v | None \<Rightarrow> map_of n k)"
proof (induction n arbitrary: d)
  case (Cons p n)
  then show ?case by (cases p) (auto simp: set_default_lookup split: option.splits)
qed (simp split: option.split)

lemma flatten_push_config_lookup:
  "map_of (flatten_push_config params) k =
     (if k = nested_push_config_param
      then (case map_of params k of Some (JObj n) \<Rightarrow> map_of n k | _ \<Rightarrow> None)
      else case map_of params k of
        Some v \<Rightarrow> Some v
      | None \<Rightarrow> (case map_of params nested_push_config_param of Some (JObj n) \<Rightarrow> map_of n k | _ \<Rightarrow> None))"
  by (auto simp: flatten_push_config_def Let_def fold_set_default_lookup delete_lookup
      split: option.splits json.splits)

text \<open>
  Reshaping a request is mechanical. A task or context id written beside an object message
  moves into it, where a value the message already has wins, and every other parameter stays; a
  request whose message is no object is left as it is; a nested push configuration is lifted to
  the top level, where a value already there wins; asking for the extended card loses the flag
  that selected it; and no other operation is touched.
\<close>

theorem adapt_moves_values:
  "map_of (adapt oper params) k =
    (if oper \<in> {SEND_MESSAGE, SEND_STREAMING_MESSAGE} then
       (case map_of params ''message'' of
          Some (JObj m) \<Rightarrow>
            if k = ''message'' then Some (JObj (folded_message params m))
            else if k \<in> {''taskId'', ''contextId''} then None else map_of params k
        | _ \<Rightarrow> map_of params k)
     else if oper = CREATE_PUSH_CONFIG then
       (let nested = (case map_of params ''pushNotificationConfig'' of Some (JObj n) \<Rightarrow> map_of n | _ \<Rightarrow> Map.empty)
        in if k = ''pushNotificationConfig'' then nested k
           else case map_of params k of Some v \<Rightarrow> Some v | None \<Rightarrow> nested k)
     else if oper = GET_EXTENDED_AGENT_CARD \<and> k = ''extended'' then None
     else map_of params k) \<and>
   (\<forall>m. map_of (folded_message params m) k = (case map_of m k of
      Some v \<Rightarrow> Some v
    | None \<Rightarrow> if k \<in> {''taskId'', ''contextId''} then map_of params k else None))"
proof -
  have s: "set message_scoped_params = {''taskId'', ''contextId''}"
    by (simp add: message_scoped_params_def)
  have send: "map_of (fold_into_message params) k =
      (case map_of params ''message'' of
          Some (JObj m) \<Rightarrow>
            if k = ''message'' then Some (JObj (folded_message params m))
            else if k \<in> {''taskId'', ''contextId''} then None else map_of params k
        | _ \<Rightarrow> map_of params k)"
  proof (cases "\<exists>m. map_of params ''message'' = Some (JObj m)")
    case True
    then obtain m where "map_of params ''message'' = Some (JObj m)" by blast
    from fold_into_message_lookup [OF this] this show ?thesis by (simp add: s)
  next
    case False
    then show ?thesis by (auto simp: fold_into_message_def split: option.splits json.splits)
  qed
  have push: "map_of (flatten_push_config params) k =
      (let nested = (case map_of params ''pushNotificationConfig'' of Some (JObj n) \<Rightarrow> map_of n | _ \<Rightarrow> Map.empty)
        in if k = ''pushNotificationConfig'' then nested k
           else case map_of params k of Some v \<Rightarrow> Some v | None \<Rightarrow> nested k)"
    by (auto simp: flatten_push_config_lookup nested_push_config_param_def Let_def
        split: option.splits json.splits)
  show ?thesis
    by (simp only: adapt_def send push folded_message_lookup s delete_lookup operation_selecting_param_def
        if_distrib [where f = map_of] if_distribR split: if_split) auto
qed

end
