(* ===== verification/RunnerSteps.thy ===== *)
theory RunnerSteps
  imports RunnerCore WireMap Params
begin

section \<open>Running steps (acts/runner.py)\<close>

text \<open>
  The runner's methods over a state of the test's scope and the world: preparing a request,
  polling, reading replies and streams, and evaluating what a step expects. A Python exception
  is the left value of the result; each \<open>try\<close> of the source is a \<^const>\<open>st_catch\<close> that hands
  on what it does not name, so an exception the source does not catch is the value of the run.
\<close>

subsection \<open>Effects\<close>

definition on_scope :: "(scope, 'a) state_result \<Rightarrow> ('w, 'a) run" where
  "on_scope m s = (case m (rs_scope s) of (x, sc) \<Rightarrow> (x, s\<lparr>rs_scope := sc\<rparr>))"

definition request :: "('w \<Rightarrow> 'a result \<times> 'w) \<Rightarrow> ('w, 'a) run" where
  "request f s = (case f (rs_world s) of (x, w) \<Rightarrow> (x, s\<lparr>rs_world := w\<rparr>))"

definition observe :: "('w \<Rightarrow> 'a \<times> 'w) \<Rightarrow> ('w, 'a) run" where
  "observe f s = (case f (rs_world s) of (x, w) \<Rightarrow> (Ok x, s\<lparr>rs_world := w\<rparr>))"

definition pause :: "'w runner \<Rightarrow> nat \<Rightarrow> ('w, unit) run" where
  "pause r ms = observe (\<lambda>w. ((), r_sleep r ms w))"

definition note_response :: "string \<Rightarrow> json \<Rightarrow> ('w, unit) run" where
  "note_response step_id v = on_scope (\<lambda>sc. (Ok (), record_response step_id v sc))"

definition draw_uuid :: "'w runner \<Rightarrow> ('w, string) run" where
  "draw_uuid r = on_scope (\<lambda>sc. (Ok (r_new_uuid r (drawn sc)), sc\<lparr>drawn := drawn sc + 1\<rparr>))"

definition resolve_in :: "'w runner \<Rightarrow> json \<Rightarrow> ('w, json) run" where
  "resolve_in r v = on_scope (substitute (r_new_uuid r) v)"

definition resolve_tree :: "'w runner \<Rightarrow> tree \<Rightarrow> ('w, tree) run" where
  "resolve_tree r d = on_scope (substitute_members (r_new_uuid r) d)"

definition catch_unresolved :: "('w, 'a) run \<Rightarrow> (string \<Rightarrow> ('w, 'a) run) \<Rightarrow> ('w, 'a) run" where
  "catch_unresolved m h = st_catch m (\<lambda>e. case e of UnresolvedVariable t \<Rightarrow> h t | _ \<Rightarrow> st_raise e)"

text \<open>\<open>except (UnresolvedVariable, PathError)\<close>.\<close>

definition catch_inputs :: "('w, 'a) run \<Rightarrow> (string \<Rightarrow> ('w, 'a) run) \<Rightarrow> ('w, 'a) run" where
  "catch_inputs m h = st_catch m (\<lambda>e. case e of
     UnresolvedVariable t \<Rightarrow> h t | PathError t \<Rightarrow> h t | _ \<Rightarrow> st_raise e)"

definition catch_until :: "('w, 'a) run \<Rightarrow> (string \<Rightarrow> ('w, 'a) run) \<Rightarrow> ('w, 'a) run" where
  "catch_until m h = st_catch m (\<lambda>e. case e of UntilError t \<Rightarrow> h t | _ \<Rightarrow> st_raise e)"

subsection \<open>Step results\<close>

definition step_outcome ::
  "step \<Rightarrow> outcome \<Rightarrow> failure_detail option \<Rightarrow> nat \<Rightarrow> nat \<Rightarrow> step_result" where
  "step_outcome s out failure attempts n =
     \<lparr>sr_id = st_id s, sr_result = out, sr_failure = failure, sr_attempts = attempts, sr_checks = n\<rparr>"

definition step_says :: "step \<Rightarrow> outcome \<Rightarrow> nat \<Rightarrow> string \<Rightarrow> ('w, step_result) run" where
  "step_says s out attempts message =
     st_return (step_outcome s out (Some (plain_detail message (Some (st_id s)))) attempts 0)"

definition assertion_failed :: "string \<Rightarrow> json \<Rightarrow> json \<Rightarrow> assertion_result" where
  "assertion_failed message expected actual = fail_with [] ''outcome'' expected (Some actual) message"

subsection \<open>Models resolved through their dump\<close>

text \<open>
  \<open>_resolved\<close>: a model becomes its dict without the fields that are None, the dict is
  substituted, and the result is validated again. A field of type Any that has become None is
  left out.
\<close>

definition dumped :: "(string \<times> json option) list \<Rightarrow> tree" where
  "dumped fs = List.map_filter (\<lambda>(n, v). map_option (Pair n) v) fs"

definition any_field :: "string \<Rightarrow> tree \<Rightarrow> json option" where
  "any_field n d = (case map_of d n of Some JNull \<Rightarrow> None | v \<Rightarrow> v)"

definition str_field :: "string \<Rightarrow> tree \<Rightarrow> string option result" where
  "str_field n d = (case any_field n d of
     None \<Rightarrow> Ok None | Some (JStr t) \<Rightarrow> Ok (Some t) | _ \<Rightarrow> Raise (ValidationError n))"

definition need :: "string \<Rightarrow> 'a option \<Rightarrow> 'a result" where
  "need n v = (case v of None \<Rightarrow> Raise (ValidationError n) | Some x \<Rightarrow> Ok x)"

definition string_values :: "string \<Rightarrow> tree \<Rightarrow> (string, string) dict result" where
  "string_values n d = traverse (\<lambda>(k, v). case v of
     JStr t \<Rightarrow> Ok (k, t) | _ \<Rightarrow> Raise (ValidationError n)) d"

definition string_dict_field :: "string \<Rightarrow> tree \<Rightarrow> (string, string) dict option result" where
  "string_dict_field n d = (case any_field n d of
     None \<Rightarrow> Ok None
   | Some (JObj m) \<Rightarrow> rbind (string_values n m) (\<lambda>m'. Ok (Some m'))
   | _ \<Rightarrow> Raise (ValidationError n))"

definition dump_raw :: "raw_block \<Rightarrow> tree" where
  "dump_raw b = dumped [(''method'', Some (JStr (rb_method b))), (''path'', Some (JStr (rb_path b))),
     (''headers'', map_option (\<lambda>hs. JObj (map (\<lambda>(k, v). (k, JStr v)) hs)) (rb_headers b)),
     (''body'', rb_body b), (''body_raw'', map_option JStr (rb_body_raw b))]"

definition load_raw :: "tree \<Rightarrow> raw_block result" where
  "load_raw d =
     rbind (rbind (str_field ''method'' d) (need ''method'')) (\<lambda>m.
     rbind (rbind (str_field ''path'' d) (need ''path'')) (\<lambda>p.
     rbind (string_dict_field ''headers'' d) (\<lambda>hs.
     rbind (str_field ''body_raw'' d) (\<lambda>raw.
       let b = \<lparr>rb_method = m, rb_path = p, rb_headers = hs, rb_body = any_field ''body'' d,
                rb_body_raw = raw\<rparr>
       in rbind (check_raw_block b) (\<lambda>_. Ok b)))))"

definition resolved_raw :: "'w runner \<Rightarrow> raw_block \<Rightarrow> ('w, raw_block) run" where
  "resolved_raw r b = st_bind (resolve_tree r (dump_raw b)) (\<lambda>d. st_lift (load_raw d))"

definition dump_error :: "expect_error \<Rightarrow> tree" where "dump_error e = dumped (error_fields e)"

definition reread_error :: "tree \<Rightarrow> expect_error result" where
  "reread_error d =
     (let e = \<lparr>ee_error_type = any_field ''error_type'' d, ee_message = any_field ''message'' d,
               ee_details = any_field ''details'' d\<rparr>
      in rbind (check_expect_error e) (\<lambda>_. Ok e))"

definition resolved_error :: "'w runner \<Rightarrow> expect_error \<Rightarrow> ('w, expect_error) run" where
  "resolved_error r e = st_bind (resolve_tree r (dump_error e)) (\<lambda>d. st_lift (reread_error d))"

definition dump_collection :: "collection_match \<Rightarrow> json" where
  "dump_collection c = JObj [(''path'', JStr (cm_path c)), (''match'', JObj (cm_match c))]"

definition load_collection :: "string \<Rightarrow> tree \<Rightarrow> collection_match option result" where
  "load_collection n d = (case any_field n d of
     None \<Rightarrow> Ok None
   | Some (JObj c) \<Rightarrow>
       rbind (rbind (str_field ''path'' c) (need ''path'')) (\<lambda>p.
         (case map_of c ''match'' of
            Some (JObj m) \<Rightarrow> Ok (Some \<lparr>cm_path = p, cm_match = m\<rparr>)
          | _ \<Rightarrow> Raise (ValidationError ''match'')))
   | _ \<Rightarrow> Raise (ValidationError n))"

text \<open>The dump of a named assertion with its \<open>source\<close> held back.\<close>

definition dump_named :: "named_assertion \<Rightarrow> tree" where
  "dump_named a = dumped [(''id'', map_option JStr (na_id a)),
     (''description'', map_option JStr (na_description a)), (''path'', map_option JStr (na_path a)),
     (''match'', na_match a), (''any'', map_option dump_collection (na_any a)),
     (''all'', map_option dump_collection (na_all a)), (''none'', map_option dump_collection (na_none a))]"

definition load_named :: "string \<Rightarrow> tree \<Rightarrow> named_assertion result" where
  "load_named source d =
     rbind (str_field ''id'' d) (\<lambda>i. rbind (str_field ''description'' d) (\<lambda>ds.
     rbind (str_field ''path'' d) (\<lambda>p. rbind (load_collection ''any'' d) (\<lambda>a.
     rbind (load_collection ''all'' d) (\<lambda>al. rbind (load_collection ''none'' d) (\<lambda>no.
       let n = \<lparr>na_id = i, na_description = ds, na_source = source, na_path = p,
                na_match = any_field ''match'' d, na_any = a, na_all = al, na_none = no\<rparr>
       in rbind (check_named_assertion n) (\<lambda>_. Ok n)))))))"

definition resolved_named :: "'w runner \<Rightarrow> named_assertion \<Rightarrow> ('w, named_assertion) run" where
  "resolved_named r a = st_bind (resolve_tree r (dump_named a)) (\<lambda>d. st_lift (load_named (na_source a) d))"

subsection \<open>Errors as assertion targets\<close>

definition observed_error :: "wire_error \<Rightarrow> tree" where
  "observed_error e =
     [(''message'', JStr (we_message e))] @
     (case we_error_type e of None \<Rightarrow> [] | Some t \<Rightarrow> [(''error_type'', JStr t)]) @
     (case we_jsonrpc_code e of None \<Rightarrow> [] | Some c \<Rightarrow> [(''code'', JInt c)]) @
     [(''details'', JArr (we_details e))]"

definition unnamed_error_hint :: "wire_error \<Rightarrow> string option" where
  "unnamed_error_hint e =
     (if we_error_type e \<noteq> None then None
      else case we_reason e of
        Some (c # cs) \<Rightarrow> Some (''ErrorInfo.reason '' @ repr_str (c # cs))
      | _ \<Rightarrow> (case we_jsonrpc_code e of
          Some n \<Rightarrow> Some (''JSON-RPC code '' @ show_int n)
        | None \<Rightarrow> (case we_status e of
            Some (c # cs) \<Rightarrow> Some (''gRPC status '' @ c # cs)
          | _ \<Rightarrow> None)))"

definition explained :: "string \<Rightarrow> failure \<Rightarrow> failure" where
  "explained hint f =
     (if ends_with (f_path f) ''error_type''
      then f\<lparr>f_message := f_message f @ '' '' @ em_dash @ '' the SUT returned '' @ hint @
             '', which is not an A2A error name''\<rparr>
      else f)"

definition explain_unnamed :: "assertion_result \<Rightarrow> wire_error \<Rightarrow> assertion_result" where
  "explain_unnamed res e = (case unnamed_error_hint e of
     None \<Rightarrow> res
   | Some hint \<Rightarrow>
       if ok res then res
       else AssertionResult (map (explained hint) (failures res)) (checks res))"

definition error_name :: "wire_error \<Rightarrow> string" where
  "error_name e = (case we_error_type e of None \<Rightarrow> ''an unnamed error'' | Some t \<Rightarrow> t)"

subsection \<open>Requests\<close>

definition call_headers :: "'w runner \<Rightarrow> (string, string) dict" where
  "call_headers r = [(version_header, r_spec_version r)]"

definition raw_headers :: "(string, string) dict" where "raw_headers = []"

definition ensure_message_id :: "'w runner \<Rightarrow> tree \<Rightarrow> ('w, tree) run" where
  "ensure_message_id r params = (case map_of params ''message'' of
     Some (JObj m) \<Rightarrow>
       if truthy (get_or (JObj m) ''messageId'' JNull) then st_return params
       else st_bind (draw_uuid r) (\<lambda>u. st_return
              (AList.update ''message'' (JObj (AList.update ''messageId'' (JStr u) m)) params))
   | _ \<Rightarrow> st_return params)"

definition prepare_params :: "'w runner \<Rightarrow> step \<Rightarrow> ('w, tree) run" where
  "prepare_params r s =
     st_bind (resolve_tree r (or_empty (st_params s))) (\<lambda>d.
       ensure_message_id r (case st_operation s of None \<Rightarrow> d | Some oper \<Rightarrow> adapt oper d))"

text \<open>An \<open>until\<close> that substitution turned into something other than a string matches no pattern.\<close>

definition until_holds :: "json \<Rightarrow> json \<Rightarrow> bool result" where
  "until_holds until payload = (case until of
     JStr e \<Rightarrow> evaluate_until e (Some payload)
   | _ \<Rightarrow> Raise (TypeError ''expected string or bytes-like object''))"

text \<open>The attempts of a poll, with \<open>k\<close> more allowed after this one.\<close>

fun poll_loop ::
  "'w runner \<Rightarrow> operation \<Rightarrow> tree \<Rightarrow> json \<Rightarrow> nat \<Rightarrow> backoff \<Rightarrow> nat \<Rightarrow> nat \<Rightarrow>
   ('w, wire_response \<times> nat \<times> bool) run" where
  "poll_loop r oper params until delay b attempt k =
     st_bind (request (r_dispatch r oper params (call_headers r))) (\<lambda>resp.
     st_bind (st_lift (until_holds until (wr_payload resp))) (\<lambda>holds.
       if holds then st_return (resp, attempt, True)
       else (case k of
          0 \<Rightarrow> st_return (resp, attempt, False)
        | Suc k' \<Rightarrow> st_bind (pause r (delay_after delay attempt b)) (\<lambda>_.
            poll_loop r oper params until delay b (attempt + 1) k'))))"

declare poll_loop.simps [simp del]

text \<open>\<open>repeat.max_attempts or DEFAULT_MAX_ATTEMPTS\<close>, which is at least one.\<close>

definition max_attempts_of :: "repeat_block \<Rightarrow> nat" where
  "max_attempts_of rep = (case rp_max_attempts rep of
     None \<Rightarrow> default_max_attempts | Some n \<Rightarrow> if n = 0 then default_max_attempts else n)"

definition delay_of :: "repeat_block \<Rightarrow> nat" where
  "delay_of rep = (case rp_delay_ms rep of None \<Rightarrow> default_delay_ms | Some n \<Rightarrow> n)"

definition backoff_of :: "repeat_block \<Rightarrow> backoff" where
  "backoff_of rep = (case rp_backoff rep of None \<Rightarrow> BACKOFF_NONE | Some b \<Rightarrow> b)"

definition dispatch_step ::
  "'w runner \<Rightarrow> step \<Rightarrow> operation \<Rightarrow> tree \<Rightarrow> json option \<Rightarrow> ('w, wire_response \<times> nat \<times> bool) run" where
  "dispatch_step r s oper params until = (case (st_repeat s, until) of
     (Some rep, Some u) \<Rightarrow>
       poll_loop r oper params u (delay_of rep) (backoff_of rep) 1 (max_attempts_of rep - 1)
   | _ \<Rightarrow> st_bind (request (r_dispatch r oper params (call_headers r)))
            (\<lambda>resp. st_return (resp, 1, True)))"

end
