(* ===== verification/RunnerTests.thy ===== *)
theory RunnerTests
  imports RunnerSteps
begin

section \<open>Steps, tests and suites (acts/runner.py)\<close>

text \<open>
  What a reply means for a step, the four kinds of step the runner executes, and the loops over
  a test's steps and a suite's tests.
\<close>

subsection \<open>Expectations on a reply\<close>

definition status_part :: "'w runner \<Rightarrow> expect_block \<Rightarrow> wire_response \<Rightarrow> ('w, assertion_result) run" where
  "status_part r eb resp = (case eb_status eb of
     None \<Rightarrow> st_return 0
   | Some a \<Rightarrow> st_bind (resolve_in r a) (\<lambda>v. st_return
       (evaluate_status (r_re_search r) v (Some (JInt (wr_status resp))) ''status'')))"

definition headers_part :: "'w runner \<Rightarrow> expect_block \<Rightarrow> wire_response \<Rightarrow> ('w, assertion_result) run" where
  "headers_part r eb resp = (case eb_headers eb of
     None \<Rightarrow> st_return 0
   | Some hs \<Rightarrow> st_bind (resolve_tree r hs) (\<lambda>d. st_return
       (evaluate_headers (r_re_search r) d (Some (wr_headers resp)) ''headers'')))"

definition msg_no_body :: "wire_error \<Rightarrow> string" where
  "msg_no_body e = ''expected a response body, got error '' @ error_name e @ '': '' @ we_message e"

text \<open>The block's result, added to \<open>before\<close>, or the one failure that replaces it all.\<close>

definition expect_part ::
  "'w runner \<Rightarrow> step \<Rightarrow> wire_response \<Rightarrow> assertion_result \<Rightarrow> expect_block \<Rightarrow> ('w, assertion_result) run" where
  "expect_part r s resp before eb =
     st_bind (status_part r eb resp) (\<lambda>a. st_bind (headers_part r eb resp) (\<lambda>b.
       (case eb_body eb of
          None \<Rightarrow> st_return (before + a + b)
        | Some body \<Rightarrow>
            (case (wr_error resp, step_kind_of s = K_RAW) of
               (Some e, False) \<Rightarrow> st_return (assertion_failed (msg_no_body e)
                 (JStr ''a successful response'') (JStr (error_name e)))
             | _ \<Rightarrow> st_bind (resolve_tree r body) (\<lambda>d. st_return
                 (before + a + b + evaluate_body (r_re_search r) d (Some (wr_payload resp)) ''body''))))))"

definition error_part ::
  "'w runner \<Rightarrow> expect_error \<Rightarrow> wire_error \<Rightarrow> ('w, assertion_result) run" where
  "error_part r ee e = st_bind (resolved_error r ee) (\<lambda>x. st_return
     (explain_unnamed (evaluate_error (r_re_search r) x (observed_error e) ''error'') e))"

definition evaluate_expect ::
  "'w runner \<Rightarrow> step \<Rightarrow> wire_response \<Rightarrow> assertion_result \<Rightarrow> ('w, assertion_result) run" where
  "evaluate_expect r s resp before = (case st_expect s of
     None \<Rightarrow> st_return before | Some eb \<Rightarrow> expect_part r s resp before eb)"

definition evaluate_outcome :: "'w runner \<Rightarrow> step \<Rightarrow> wire_response \<Rightarrow> ('w, assertion_result) run" where
  "evaluate_outcome r s resp = (case st_expect_error s of
     None \<Rightarrow> evaluate_expect r s resp 0
   | Some ee \<Rightarrow>
       (case wr_error resp of
          None \<Rightarrow> st_return (assertion_failed ''expected an error, but the call succeeded'' (JStr ''an error'')
            (JStr (''HTTP '' @ show_int (wr_status resp))))
        | Some e \<Rightarrow> st_bind (error_part r ee e) (evaluate_expect r s resp)))"

subsection \<open>Named assertions and captures\<close>

text \<open>A source that cannot be resolved ends the list; anything else that is raised is not caught.\<close>

fun evaluate_named_list ::
  "'w runner \<Rightarrow> string option \<Rightarrow> named_assertion list \<Rightarrow> ('w, failure_detail option) run" where
  "evaluate_named_list r step_id [] = st_return None"
| "evaluate_named_list r step_id (a # as) =
     st_bind (catch_unresolved (st_bind (resolve_in r (JStr (na_source a))) (\<lambda>v. st_return (Inr v)))
                (\<lambda>m. st_return (Inl m)))
       (\<lambda>src. case src of
          Inl m \<Rightarrow> st_return (Some (plain_detail m step_id))
        | Inr v \<Rightarrow> st_bind (resolved_named r a) (\<lambda>n.
            st_bind (st_lift (evaluate_named (r_re_search r) n (Some v) [])) (\<lambda>res.
              (case first_failure res of
                 Some f \<Rightarrow> st_return (Some (from_assertion f step_id))
               | None \<Rightarrow> evaluate_named_list r step_id as))))"

definition capture_step :: "step \<Rightarrow> json \<Rightarrow> ('w, string option) run" where
  "capture_step s response =
     (if or_empty (st_capture s) = [] then st_return None
      else catch_unresolved
        (st_bind (on_scope (capture (st_id s) (or_empty (st_capture s)) (Some response)))
           (\<lambda>_. st_return None))
        (\<lambda>m. st_return (Some m)))"

definition finish :: "'w runner \<Rightarrow> step \<Rightarrow> assertion_result \<Rightarrow> nat \<Rightarrow> ('w, step_result) run" where
  "finish r s res attempts = (case first_failure res of
     Some f \<Rightarrow> st_return
       (step_outcome s FAIL (Some (from_assertion f (Some (st_id s)))) attempts (checks res))
   | None \<Rightarrow> st_bind (evaluate_named_list r (Some (st_id s)) (or_empty (st_assertions s))) (\<lambda>named.
       (case named of
          Some d \<Rightarrow> st_return (step_outcome s FAIL (Some d) attempts (checks res))
        | None \<Rightarrow> st_return (step_outcome s PASS None attempts (checks res)))))"

subsection \<open>Unary steps\<close>

text \<open>What follows a reply: it is recorded, captured from, and held against the expectations.\<close>

definition conclude :: "'w runner \<Rightarrow> step \<Rightarrow> wire_response \<Rightarrow> nat \<Rightarrow> ('w, step_result) run" where
  "conclude r s resp attempts =
     st_bind (note_response (st_id s) (wr_payload resp)) (\<lambda>_.
     st_bind (capture_step s (wr_payload resp)) (\<lambda>missed.
       (case missed of
          Some m \<Rightarrow> step_says s FAIL attempts m
        | None \<Rightarrow> st_bind (evaluate_outcome r s resp) (\<lambda>res. finish r s res attempts))))"

definition msg_exhausted :: "nat \<Rightarrow> string \<Rightarrow> string" where
  "msg_exhausted n until = ''polled '' @ show_nat n @ '' time(s) and `'' @ until @ ''` never became true''"

definition run_raw :: "'w runner \<Rightarrow> step \<Rightarrow> raw_block \<Rightarrow> ('w, step_result) run" where
  "run_raw r s b =
     st_bind (catch_inputs (st_bind (resolved_raw r b) (\<lambda>x. st_return (Inr x))) (\<lambda>m. st_return (Inl m)))
       (\<lambda>p. case p of
          Inl m \<Rightarrow> step_says s ERROR 1 m
        | Inr raw \<Rightarrow> st_bind (request (r_dispatch_raw r raw raw_headers)) (\<lambda>resp. conclude r s resp 1))"

definition resolved_until :: "'w runner \<Rightarrow> step \<Rightarrow> ('w, json option) run" where
  "resolved_until r s = (case st_repeat s of
     None \<Rightarrow> st_return None
   | Some rep \<Rightarrow> st_bind (resolve_in r (JStr (rp_until rep))) (\<lambda>u. st_return (Some u)))"

definition run_call :: "'w runner \<Rightarrow> step \<Rightarrow> operation \<Rightarrow> ('w, step_result) run" where
  "run_call r s oper =
     st_bind (catch_inputs
        (st_bind (prepare_params r s) (\<lambda>params. st_bind (resolved_until r s) (\<lambda>u. st_return (Inr (params, u)))))
        (\<lambda>m. st_return (Inl m)))
       (\<lambda>p. case p of
          Inl m \<Rightarrow> step_says s ERROR 1 m
        | Inr (params, u) \<Rightarrow>
            st_bind (catch_until (st_bind (dispatch_step r s oper params u) (\<lambda>x. st_return (Inr x)))
                       (\<lambda>m. st_return (Inl m)))
              (\<lambda>q. case q of
                 Inl m \<Rightarrow> step_says s ERROR 1 m
               | Inr (resp, attempts, converged) \<Rightarrow>
                   if converged then conclude r s resp attempts
                   else step_says s FAIL attempts (msg_exhausted attempts
                          (case st_repeat s of None \<Rightarrow> [] | Some rep \<Rightarrow> rp_until rep))))"

text \<open>A step of neither kind is one \<open>skip_reason\<close> keeps from running; its lookup has no row.\<close>

definition run_unary_step :: "'w runner \<Rightarrow> step \<Rightarrow> ('w, step_result) run" where
  "run_unary_step r s = (case (st_operation s, st_raw s) of
     (Some oper, _) \<Rightarrow> run_call r s oper
   | (None, Some b) \<Rightarrow> run_raw r s b
   | (None, None) \<Rightarrow> st_raise (KeyError ''None''))"

subsection \<open>Client steps\<close>

definition attribute_error :: "json \<Rightarrow> string \<Rightarrow> py_exn" where
  "attribute_error v name = AttributeError (repr_str (type_name v) @ '' object has no attribute '' @ repr_str name)"

text \<open>\<open>v.get(key) or ()\<close>, as what a loop goes through.\<close>

definition each_of :: "json \<Rightarrow> string \<Rightarrow> json list result" where
  "each_of v key =
     (if is_mapping v then
        (let x = get_or v key JNull in if truthy x then iterate x else Ok [])
      else Raise (attribute_error v ''get''))"

fun data_part :: "json list \<Rightarrow> json option" where
  "data_part [] = None"
| "data_part (part # parts) = (case mapping_get part ''data'' of
     Some v \<Rightarrow> if is_mapping v then Some v else data_part parts
   | None \<Rightarrow> data_part parts)"

fun artifact_data :: "json list \<Rightarrow> json option result" where
  "artifact_data [] = Ok None"
| "artifact_data (a # as) =
     rbind (each_of (if truthy a then a else JObj []) ''parts'') (\<lambda>parts.
       (case data_part parts of Some v \<Rightarrow> Ok (Some v) | None \<Rightarrow> artifact_data as))"

definition parsed_from :: "json \<Rightarrow> json option result" where
  "parsed_from payload =
     (if \<not> is_mapping payload then Ok None
      else let task = get_or payload ''task'' payload in
        if \<not> is_mapping task then Ok None
        else rbind (each_of task ''artifacts'') artifact_data)"

definition client_params :: "client_response_block \<Rightarrow> string \<Rightarrow> json \<Rightarrow> tree" where
  "client_params b u payload =
     [(''message'', JObj [(''role'', JStr ''ROLE_USER''), (''messageId'', JStr u),
        (''parts'', JArr [JObj [(''text'', JStr client_parse_behavior)],
           JObj [(''data'', JObj [(''operation'', JStr (operation_value (cr_operation b))),
             (''wire_payload'', payload)])]])])]"

definition msg_not_parsed :: "wire_error \<Rightarrow> string" where
  "msg_not_parsed e = ''the SUT could not parse the payload: '' @ error_name e @ '': '' @ we_message e"

definition msg_no_parse :: string where
  "msg_no_parse = ''the SUT returned no parsed payload; it may not implement '' @ client_parse_behavior"

definition run_client_step :: "'w runner \<Rightarrow> step \<Rightarrow> client_response_block \<Rightarrow> ('w, step_result) run" where
  "run_client_step r s b =
     st_bind (draw_uuid r) (\<lambda>u. st_bind (resolve_in r (cr_wire_payload b)) (\<lambda>payload.
     st_bind (request (r_dispatch r SEND_MESSAGE (client_params b u payload) (call_headers r))) (\<lambda>resp.
       (case wr_error resp of
          Some e \<Rightarrow> step_says s FAIL 1 (msg_not_parsed e)
        | None \<Rightarrow> st_bind (st_lift (parsed_from (wr_payload resp))) (\<lambda>p. (case p of
            None \<Rightarrow> step_says s FAIL 1 msg_no_parse
          | Some v \<Rightarrow> st_bind (note_response (st_id s) v) (\<lambda>_. (case st_expect_parsed s of
              None \<Rightarrow> st_raise (attribute_error JNull ''items'')
            | Some d \<Rightarrow> st_bind (resolve_tree r d) (\<lambda>d'.
                finish r s (evaluate_body (r_re_search r) d' (Some v) ''parsed'') 1)))))))))"

end
