(* ===== verification/RunnerStreams.thy ===== *)
theory RunnerStreams
  imports RunnerTests
begin

section \<open>Streaming and webhook steps (acts/runner.py)\<close>

text \<open>
  Reading the streams of a step under one deadline, what they say of it, and the polling of the
  runner's own webhook receiver.
\<close>

subsection \<open>Collecting a stream\<close>

definition declared_timeout :: "expect_stream option \<Rightarrow> nat option" where
  "declared_timeout block = (case block of None \<Rightarrow> None | Some e \<Rightarrow> sa_timeout_ms e)"

text \<open>\<open>_declared_timeout_ms(expect) or self.stream_timeout_ms\<close>: a declared zero declares nothing.\<close>

definition declares_timeout :: "expect_stream option \<Rightarrow> bool" where
  "declares_timeout block = (case declared_timeout block of None \<Rightarrow> False | Some n \<Rightarrow> n \<noteq> 0)"

definition stream_deadline :: "'w runner \<Rightarrow> expect_stream option \<Rightarrow> nat" where
  "stream_deadline r block = (case declared_timeout block of
     None \<Rightarrow> r_stream_timeout_ms r | Some n \<Rightarrow> if n = 0 then r_stream_timeout_ms r else n)"

definition event_limit :: "expect_stream option \<Rightarrow> nat option \<Rightarrow> nat option" where
  "event_limit block disconnect =
     (let bound = (case block of None \<Rightarrow> None | Some e \<Rightarrow> map_option Suc (sa_max_count e)) in
      case disconnect of None \<Rightarrow> bound
      | Some d \<Rightarrow> Some (case bound of None \<Rightarrow> d | Some l \<Rightarrow> min l d))"

text \<open>The events \<open>pump\<close> appends, and whether it broke off at the limit.\<close>

fun pump :: "nat option \<Rightarrow> nat \<Rightarrow> stream_event list \<Rightarrow> streamed_event list \<times> bool" where
  "pump limit n [] = ([], False)"
| "pump limit n (e # es) =
     (let (evs, cut) = (case limit of
            Some l \<Rightarrow> if l \<le> n + 1 then ([], True) else pump limit (n + 1) es
          | None \<Rightarrow> pump limit (n + 1) es)
      in (normalize (se_data e) (se_index e) # evs, cut))"

fun first_status :: "stream_event list \<Rightarrow> int option" where
  "first_status [] = None"
| "first_status (e # es) = (case se_status e of None \<Rightarrow> first_status es | Some c \<Rightarrow> Some c)"

datatype stream_exn = NotOpened string wire_response | Failed py_exn

fun raised_by :: "stream_exn \<Rightarrow> py_exn" where
  "raised_by (NotOpened m resp) = MalformedResponse m"
| "raised_by (Failed e) = e"

type_synonym collected = "streamed_event list \<times> int option \<times> bool"

definition msg_unclosable :: "string \<Rightarrow> string" where
  "msg_unclosable name = name @ '' cannot be closed, so this binding cannot disconnect mid-stream''"

text \<open>\<open>_hang_up\<close>, which raises only where a disconnect is asked for and cannot be had.\<close>

definition hang_up :: "'w runner \<Rightarrow> bool \<Rightarrow> collected \<Rightarrow> stream_exn + collected" where
  "hang_up r required c = (case r_unclosable r of
     Some name \<Rightarrow> if required then Inl (Failed (DispatchError (msg_unclosable name))) else Inr c
   | None \<Rightarrow> Inr c)"

definition collect ::
  "'w runner \<Rightarrow> expect_stream option \<Rightarrow> nat option \<Rightarrow> stream_source \<Rightarrow> stream_exn + collected" where
  "collect r block disconnect source =
     (let (events, cut) = pump (event_limit block disconnect) 0 (fst source);
          status = first_status (take (length events) (fst source));
          leave = (\<lambda>timed_out. hang_up r (disconnect \<noteq> None) (events, status, timed_out))
      in if cut then leave False
         else case snd source of
             Closed \<Rightarrow> leave False
           | StillOpen \<Rightarrow> leave True
           | Refused m resp \<Rightarrow> Inl (NotOpened m resp)
           | Broken e \<Rightarrow> Inl (Failed e))"

subsection \<open>Streaming steps\<close>

definition stream_label :: "nat \<Rightarrow> nat \<Rightarrow> string" where
  "stream_label index amount =
     (if amount = 1 then [] else ''stream '' @ show_nat index @ '' of '' @ show_nat amount @ '' '')"

definition plan_name :: "stream_plan option \<Rightarrow> nat \<Rightarrow> string" where
  "plan_name plan index =
     (let d = (case plan of None \<Rightarrow> [] | Some p \<Rightarrow> (case sp_description p of None \<Rightarrow> [] | Some t \<Rightarrow> t))
      in if d = [] then ''stream '' @ show_nat index else d)"

definition within_stream :: "assertion_result \<Rightarrow> nat \<Rightarrow> stream_plan option \<Rightarrow> assertion_result" where
  "within_stream res index plan =
     (if ok res then res
      else AssertionResult (map (\<lambda>f. f\<lparr>f_path := ''streams'' @ at_index index @ ''.'' @ f_path f,
             f_message := plan_name plan index @ '': '' @ f_message f\<rparr>) (failures res)) (checks res))"

datatype stream_request = StreamRaw raw_block | StreamCall operation tree

definition stream_opener :: "'w runner \<Rightarrow> step \<Rightarrow> ('w, stream_request) run" where
  "stream_opener r s = (case (st_operation s, st_raw s) of
     (None, Some b) \<Rightarrow> st_bind (resolved_raw r b) (\<lambda>raw. st_return (StreamRaw raw))
   | (Some oper, _) \<Rightarrow> st_bind (prepare_params r s) (\<lambda>d. st_return (StreamCall oper d))
   | (None, None) \<Rightarrow> st_raise (KeyError ''None''))"

fun open_streams ::
  "'w runner \<Rightarrow> stream_request \<Rightarrow> nat \<Rightarrow> nat option list \<Rightarrow> ('w, nat \<Rightarrow> stream_source) run" where
  "open_streams r (StreamRaw raw) deadline limits = observe (r_streams_raw r raw raw_headers deadline limits)"
| "open_streams r (StreamCall oper d) deadline limits =
     observe (r_streams r oper d (call_headers r) deadline limits)"

definition plans_of :: "step \<Rightarrow> stream_plan option list" where
  "plans_of s = (if stream_plans s = [] then [None] else map Some (stream_plans s))"

definition disconnect_of :: "stream_plan option \<Rightarrow> nat option" where
  "disconnect_of plan = (case plan of None \<Rightarrow> None | Some p \<Rightarrow> sp_disconnect_after p)"

definition msg_still_open :: "'w runner \<Rightarrow> nat \<Rightarrow> nat \<Rightarrow> nat \<Rightarrow> string" where
  "msg_still_open r index amount n =
     stream_label index amount @ ''still open after '' @ show_nat (r_stream_timeout_ms r) @
     ''ms and the step declares no `timeout_ms`; stopped reading at '' @ show_nat n @ '' event(s)''"

definition stream_status_part ::
  "'w runner \<Rightarrow> step \<Rightarrow> int option \<Rightarrow> nat \<Rightarrow> ('w, assertion_result) run" where
  "stream_status_part r s status n = (case st_expect s of
     None \<Rightarrow> st_return 0
   | Some eb \<Rightarrow> (case eb_status eb of
       None \<Rightarrow> st_return 0
     | Some a \<Rightarrow> st_bind (resolve_in r a) (\<lambda>v. st_return (case status of
         None \<Rightarrow> assertion_failed (''expected a status, but the stream produced no observable one ('' @
           show_nat n @ '' event(s); gRPC has no HTTP status)'') v JNull
       | Some c \<Rightarrow> evaluate_status (r_re_search r) v (Some (JInt c)) ''status''))))"

definition opened_part :: "'w runner \<Rightarrow> step \<Rightarrow> streamed_event list \<Rightarrow> bool \<Rightarrow> assertion_result" where
  "opened_part r s events timed_out = (case st_expect_stream s of
     Some block \<Rightarrow> evaluate_stream (r_re_search r) block events timed_out
   | None \<Rightarrow>
       if st_expect_error s = None then 0
       else assertion_failed (''expected an error, but the stream opened and produced '' @
              show_nat (length events) @ '' event(s)'') (JStr ''an error'')
              (JStr (show_nat (length events) @ '' event(s)'')))"

definition one_stream ::
  "'w runner \<Rightarrow> step \<Rightarrow> nat \<Rightarrow> nat \<times> stream_plan option \<times> collected \<Rightarrow> ('w, assertion_result) run" where
  "one_stream r s amount = (\<lambda>(index, plan, events, status, timed_out).
     st_bind (stream_status_part r s status (length events)) (\<lambda>st.
       let one = opened_part r s events timed_out
             + when_some plan (\<lambda>p. evaluate_stream (r_re_search r) p events False) + st
       in st_return (if amount = 1 then one else within_stream one index plan)))"

definition stream_refusal :: "'w runner \<Rightarrow> step \<Rightarrow> stream_exn \<Rightarrow> ('w, step_result) run" where
  "stream_refusal r s x = (case (x, st_expect_error s) of
     (NotOpened m resp, Some ee) \<Rightarrow> st_bind (resolved_error r ee) (\<lambda>e. finish r s (case wr_error resp of
         Some we \<Rightarrow> explain_unnamed (evaluate_error (r_re_search r) e (observed_error we) ''error'') we
       | None \<Rightarrow> evaluate_error (r_re_search r) e [(''message'', JStr m)] ''error'') 1)
   | (Failed (DispatchError m), Some ee) \<Rightarrow> st_bind (resolved_error r ee) (\<lambda>e.
       finish r s (evaluate_error (r_re_search r) e [(''message'', JStr m)] ''error'') 1)
   | (Failed (MalformedResponse m), Some ee) \<Rightarrow> st_bind (resolved_error r ee) (\<lambda>e.
       finish r s (evaluate_error (r_re_search r) e [(''message'', JStr m)] ''error'') 1)
   | _ \<Rightarrow> st_raise (raised_by x))"

text \<open>The first exception of the gathered results, or all of what was collected.\<close>

fun gathered :: "(stream_exn + collected) list \<Rightarrow> stream_exn + collected list" where
  "gathered [] = Inr []"
| "gathered (Inl x # rest) = Inl x"
| "gathered (Inr c # rest) = (case gathered rest of Inl x \<Rightarrow> Inl x | Inr cs \<Rightarrow> Inr (c # cs))"

definition overrun :: "expect_stream option \<Rightarrow> collected list \<Rightarrow> (nat \<times> nat) option" where
  "overrun block cs =
     (case filter (\<lambda>(i, events, status, timed_out). timed_out \<and> \<not> declares_timeout block)
             (List.enumerate 0 cs) of
        [] \<Rightarrow> None | (i, events, _) # _ \<Rightarrow> Some (i, length events))"

definition judge_streams ::
  "'w runner \<Rightarrow> step \<Rightarrow> stream_plan option list \<Rightarrow> collected list \<Rightarrow> ('w, step_result) run" where
  "judge_streams r s plans cs =
     (let payloads = JArr (case cs of [] \<Rightarrow> [] | (events, _) # _ \<Rightarrow> map ev_payload events) in
      st_bind (note_response (st_id s) payloads) (\<lambda>_.
      st_bind (capture_step s payloads) (\<lambda>missed. (case missed of
          Some m \<Rightarrow> step_says s FAIL 1 m
        | None \<Rightarrow>
            st_bind (st_traverse (one_stream r s (length plans)) (List.enumerate 0 (zip plans cs)))
              (\<lambda>rs. finish r s (sum_list rs) 1)))))"

definition run_streaming_step :: "'w runner \<Rightarrow> step \<Rightarrow> ('w, step_result) run" where
  "run_streaming_step r s =
     (if st_repeat s \<noteq> None then step_says s ERROR 1 ''`repeat` cannot re-dispatch a streaming step''
      else st_bind (catch_inputs (st_bind (stream_opener r s) (\<lambda>q. st_return (Inr q)))
                      (\<lambda>m. st_return (Inl m))) (\<lambda>o'. case o' of
          Inl m \<Rightarrow> step_says s ERROR 1 m
        | Inr q \<Rightarrow>
            (let block = st_expect_stream s; plans = plans_of s in
             st_bind (open_streams r q (stream_deadline r block)
                        (map (\<lambda>p. event_limit block (disconnect_of p)) plans)) (\<lambda>sources.
               (case gathered (map (\<lambda>(i, p). collect r block (disconnect_of p) (sources i))
                         (List.enumerate 0 plans)) of
                  Inl x \<Rightarrow> stream_refusal r s x
                | Inr cs \<Rightarrow> (case overrun block cs of
                    Some (i, n) \<Rightarrow> step_says s ERROR 1 (msg_still_open r i (length plans) n)
                  | None \<Rightarrow> judge_streams r s plans cs))))))"

subsection \<open>Webhook steps\<close>

definition webhook_poll_ms :: nat where "webhook_poll_ms = 250"

text \<open>The \<open>while True\<close> of the source; each unit of fuel is one turn.\<close>

fun poll_webhook ::
  "'w runner \<Rightarrow> (string \<Rightarrow> 'w \<Rightarrow> notification list \<times> 'w) \<Rightarrow> string \<Rightarrow> nat \<Rightarrow> nat \<Rightarrow> nat \<Rightarrow>
   ('w, notification list) run" where
  "poll_webhook r read task_id min_count deadline 0 = st_raise OutOfFuel"
| "poll_webhook r read task_id min_count deadline (Suc fuel) =
     st_bind (observe (read task_id)) (\<lambda>delivered.
     st_bind (observe (\<lambda>w. (r_clock r w, w))) (\<lambda>now.
       if min_count \<le> length delivered \<or> deadline \<le> now then st_return delivered
       else st_bind (pause r webhook_poll_ms) (\<lambda>_. poll_webhook r read task_id min_count deadline fuel)))"

text \<open>Checks in their order, stopping at the first that fails.\<close>

fun webhook_checks ::
  "step \<Rightarrow> nat \<Rightarrow> ('w, assertion_result) run list \<Rightarrow> ('w, step_result + nat) run" where
  "webhook_checks s n [] = st_return (Inr n)"
| "webhook_checks s n (m # ms) = st_bind m (\<lambda>res. (case first_failure res of
     Some f \<Rightarrow> st_return (Inl
       (step_outcome s FAIL (Some (from_assertion f (Some (st_id s)))) 1 (n + checks res)))
   | None \<Rightarrow> webhook_checks s (n + checks res) ms))"

definition event_check :: "'w runner \<Rightarrow> tree \<Rightarrow> string \<Rightarrow> nat \<times> tree \<Rightarrow> ('w, assertion_result) run" where
  "event_check r body name = (\<lambda>(i, event). st_bind (resolve_tree r body) (\<lambda>d. st_return
     (evaluate_body (r_re_search r) d (Some (JObj event)) (''webhook.'' @ name @ at_index i))))"

definition delivered_headers_check :: "'w runner \<Rightarrow> tree \<Rightarrow> nat \<times> notification \<Rightarrow> ('w, assertion_result) run" where
  "delivered_headers_check r hs = (\<lambda>(i, n). st_bind (resolve_tree r hs) (\<lambda>d. st_return
     (evaluate_headers (r_re_search r) d (Some (or_empty (nt_headers n))) (''webhook.headers'' @ at_index i))))"

definition token_check :: "'w runner \<Rightarrow> json \<Rightarrow> nat \<times> notification \<Rightarrow> ('w, assertion_result) run" where
  "token_check r token = (\<lambda>(i, n). st_bind (resolve_in r token) (\<lambda>t. st_return
     (evaluate_body (r_re_search r) [(''token'', t)]
        (Some (JObj [(''token'', case nt_token n of None \<Rightarrow> JNull | Some v \<Rightarrow> v)]))
        (''webhook.token'' @ at_index i))))"

definition delivery_checks ::
  "'w runner \<Rightarrow> expect_webhook \<Rightarrow> notification list \<Rightarrow> ('w, assertion_result) run list" where
  "delivery_checks r b delivered =
     (let events = map (\<lambda>n. or_empty (nt_event n)) delivered in
      (case ew_each_event b of None \<Rightarrow> []
       | Some d \<Rightarrow> map (event_check r d ''each_event'') (List.enumerate 0 events)) @
      (case ew_final_event b of None \<Rightarrow> [] | Some d \<Rightarrow> [event_check r d ''final_event'' (0, last events)]) @
      (case ew_headers b of None \<Rightarrow> []
       | Some hs \<Rightarrow> map (delivered_headers_check r hs) (List.enumerate 0 delivered)) @
      (case ew_token b of None \<Rightarrow> [] | Some t \<Rightarrow> map (token_check r t) (List.enumerate 0 delivered)))"

definition msg_no_receiver :: "step \<Rightarrow> string" where
  "msg_no_receiver s = st_id s @ '' reads delivered notifications but no webhook receiver is wired; '' @
     ''this runner offers `webhook_endpoint` without one, so the gate that should have skipped the '' @
     ''test passed it through''"

definition too_few :: "step \<Rightarrow> expect_webhook \<Rightarrow> string \<Rightarrow> nat \<Rightarrow> step_result" where
  "too_few s b task_id n = step_outcome s FAIL (Some
     \<lparr>fd_message = ''the SUT delivered '' @ show_nat n @ '' notification(s) for task '' @ task_id @
        '' in '' @ show_nat (ew_timeout_ms b) @ ''ms; the test needs '' @ show_nat (ew_min_count b),
      fd_step_id = Some (st_id s), fd_expected = Some (show_nat (ew_min_count b)),
      fd_actual = Some (show_nat n), fd_assertion_path = Some ''webhook.min_count''\<rparr>) 1 1"

definition judge_deliveries ::
  "'w runner \<Rightarrow> step \<Rightarrow> expect_webhook \<Rightarrow> notification list \<Rightarrow> ('w, step_result) run" where
  "judge_deliveries r s b delivered =
     (if delivered = [] then st_raise (IndexError ''list index out of range'')
      else st_bind (note_response (st_id s) (JObj (or_empty (nt_event (last delivered))))) (\<lambda>_.
        st_bind (webhook_checks s 1 (delivery_checks r b delivered)) (\<lambda>c. (case c of
          Inl sr \<Rightarrow> st_return sr
        | Inr n \<Rightarrow> st_bind (evaluate_named_list r (Some (st_id s)) (or_empty (st_assertions s))) (\<lambda>named.
            (case named of
               Some d \<Rightarrow> st_return (step_outcome s FAIL (Some d) 1 n)
             | None \<Rightarrow> st_return (step_outcome s PASS None 1 n)))))))"

definition run_webhook_step :: "'w runner \<Rightarrow> step \<Rightarrow> expect_webhook \<Rightarrow> ('w, step_result) run" where
  "run_webhook_step r s b = (case r_read_webhook r of
     None \<Rightarrow> step_says s ERROR 1 (msg_no_receiver s)
   | Some read \<Rightarrow>
       st_bind (catch_inputs (st_bind (resolve_in r (JStr (ew_task_id b))) (\<lambda>v. st_return (Inr v)))
                  (\<lambda>m. st_return (Inl m))) (\<lambda>t. (case t of
          Inl m \<Rightarrow> step_says s ERROR 1 m
        | Inr v \<Rightarrow>
            st_bind (observe (\<lambda>w. (r_clock r w, w))) (\<lambda>start.
            st_bind (poll_webhook r read (py_str v) (ew_min_count b) (start + ew_timeout_ms b) (r_webhook_fuel r))
              (\<lambda>delivered.
                 if length delivered < ew_min_count b
                 then st_return (too_few s b (py_str v) (length delivered))
                 else judge_deliveries r s b delivered)))))"

end
