(* ===== verification/RunnerSuite.thy ===== *)
theory RunnerSuite
  imports RunnerStreams
begin

section \<open>Running tests and suites (acts/runner.py)\<close>

text \<open>
  \<open>_run_step\<close>, \<open>run_test\<close> and \<open>run_suite\<close>. A test's scope is new; what passes from one test to the
  next is the world and the number of uuids drawn, which are the state of these definitions.
\<close>

subsection \<open>Steps\<close>

definition is_streaming :: "step \<Rightarrow> bool" where
  "is_streaming s =
     (if st_expect_stream s \<noteq> None then True
      else case st_operation s of None \<Rightarrow> False | Some oper \<Rightarrow> ob_streaming (binding_for_operation oper))"

definition run_step_body :: "'w runner \<Rightarrow> step \<Rightarrow> ('w, step_result) run" where
  "run_step_body r s =
     (case (step_kind_of s, st_client_response s, st_expect_webhook s) of
        (K_CLIENT, Some b, _) \<Rightarrow> run_client_step r s b
      | (K_WEBHOOK, _, Some b) \<Rightarrow> run_webhook_step r s b
      | _ \<Rightarrow> if is_streaming s then run_streaming_step r s else run_unary_step r s)"

definition dispatch_verdict :: "step \<Rightarrow> py_exn \<Rightarrow> ('w, step_result) run" where
  "dispatch_verdict s e = (case e of
     MalformedResponse m \<Rightarrow> step_says s FAIL 1 m
   | DispatchError m \<Rightarrow> step_says s ERROR 1 m
   | _ \<Rightarrow> st_raise e)"

definition delay_before :: "'w runner \<Rightarrow> step \<Rightarrow> ('w, unit) run" where
  "delay_before r s = (case st_delay_ms s of
     None \<Rightarrow> st_return () | Some n \<Rightarrow> if n = 0 then st_return () else pause r n)"

definition run_step :: "'w runner \<Rightarrow> step \<Rightarrow> ('w, step_result) run" where
  "run_step r s = st_bind (delay_before r s) (\<lambda>_. st_catch (run_step_body r s) (dispatch_verdict s))"

text \<open>The results of the steps that ran: every one, or up to the first that did not pass.\<close>

fun run_until_failure :: "('a \<Rightarrow> ('w, step_result) run) \<Rightarrow> 'a list \<Rightarrow> ('w, step_result list) run" where
  "run_until_failure exec [] = st_return []"
| "run_until_failure exec (s # ss) = st_bind (exec s) (\<lambda>sr.
     if sr_result sr \<noteq> PASS then st_return [sr]
     else st_bind (run_until_failure exec ss) (\<lambda>srs. st_return (sr # srs)))"

definition run_steps :: "'w runner \<Rightarrow> step list \<Rightarrow> ('w, step_result list) run" where
  "run_steps r ss = run_until_failure (run_step r) ss"

subsection \<open>Tests\<close>

definition plain_result :: "acts_test \<Rightarrow> outcome \<Rightarrow> test_result" where
  "plain_result t out = \<lparr>tr_id = t_id t, tr_name = t_name t, tr_level = t_level t, tr_result = out,
     tr_skip_reason = None, tr_configuration = None, tr_failure = None, tr_steps = []\<rparr>"

definition failed_test :: "acts_test \<Rightarrow> outcome \<Rightarrow> failure_detail \<Rightarrow> step_result list \<Rightarrow> test_result" where
  "failed_test t out d srs = (plain_result t out)\<lparr>tr_failure := Some d, tr_steps := srs\<rparr>"

definition conclude_test :: "'w runner \<Rightarrow> acts_test \<Rightarrow> step_result list \<Rightarrow> ('w, test_result) run" where
  "conclude_test r t srs =
     (case find (\<lambda>sr. sr_result sr \<noteq> PASS) srs of
        Some sr \<Rightarrow> st_return ((plain_result t (sr_result sr))\<lparr>tr_failure := sr_failure sr, tr_steps := srs\<rparr>)
      | None \<Rightarrow> st_bind (evaluate_named_list r None (or_empty (t_assertions t))) (\<lambda>named.
          (case named of
             Some d \<Rightarrow> st_return (failed_test t FAIL d srs)
           | None \<Rightarrow> st_return ((plain_result t PASS)\<lparr>tr_steps := srs\<rparr>))))"

definition run_test_body :: "'w runner \<Rightarrow> acts_test \<Rightarrow> ('w, test_result) run" where
  "run_test_body r t = st_bind (run_steps r (t_steps t)) (conclude_test r t)"

definition fresh_scope :: "'w runner \<Rightarrow> tree \<Rightarrow> nat \<Rightarrow> scope" where
  "fresh_scope r vs n = (new_scope (dict_merge vs (r_variables r)) (r_env r))\<lparr>drawn := n\<rparr>"

definition in_fresh_scope ::
  "'w runner \<Rightarrow> tree \<Rightarrow> ('w, 'a) run \<Rightarrow> ('w \<times> nat, 'a) state_result" where
  "in_fresh_scope r vs m = (\<lambda>(w, n). (case m \<lparr>rs_scope = fresh_scope r vs n, rs_world = w\<rparr> of
     (x, s) \<Rightarrow> (x, (rs_world s, drawn (rs_scope s)))))"

definition run_test :: "'w runner \<Rightarrow> tree \<Rightarrow> acts_test \<Rightarrow> ('w \<times> nat, test_result) state_result" where
  "run_test r vs t = (case skip_reason r t of
     Inl (RunError m) \<Rightarrow> st_return (failed_test t ERROR (plain_detail m None) [])
   | Inl e \<Rightarrow> st_raise e
   | Inr (Some why) \<Rightarrow> st_return ((plain_result t SKIP)\<lparr>tr_skip_reason := Some why\<rparr>)
   | Inr None \<Rightarrow>
       (case behavior_gap r t of
          Some gap \<Rightarrow> st_return (failed_test t FAIL (plain_detail gap None) [])
        | None \<Rightarrow> in_fresh_scope r vs (run_test_body r t)))"

subsection \<open>Suites\<close>

text \<open>Of a loaded suite the runner reads its variables and its tests in order.\<close>

definition document_variables :: "'w runner \<Rightarrow> (string, string) dict \<Rightarrow> tree" where
  "document_variables r vs = dict_merge (map (\<lambda>(k, v). (k, JStr v)) vs) (r_variables r)"

definition run_suite ::
  "'w runner \<Rightarrow> (string, string) dict \<Rightarrow> acts_test list \<Rightarrow> ('w \<times> nat, test_result list) state_result" where
  "run_suite r vs tests = st_traverse (run_test r (document_variables r vs)) tests"

end
