(* ===== verification/RunnerLaws.thy ===== *)
theory RunnerLaws
  imports RunnerSuite AssertionLaws
begin

section \<open>What the runner guarantees\<close>

text \<open>
  Every result of a step is about that step, has a failure exactly when it did not pass and is
  never a skip; the loop over steps stops at the first that does not pass; polls stay within
  their attempts; gates come before any request; and what the source's handlers do not name
  leaves the suite.
\<close>

subsection \<open>What a computation can yield\<close>

definition yields :: "('a \<Rightarrow> bool) \<Rightarrow> ('s, 'a) state_result \<Rightarrow> bool" where
  "yields P m \<longleftrightarrow> (\<forall>s x s'. m s = (Ok x, s') \<longrightarrow> P x)"

named_theorems yields_intros \<open>results of the runner's computations\<close>

lemma yieldsD: "yields P m \<Longrightarrow> m s = (Ok x, s') \<Longrightarrow> P x"
  unfolding yields_def by blast

lemma yields_return [yields_intros]: "P x \<Longrightarrow> yields P (st_return x)"
  by (simp add: yields_def st_return_def)

lemma yields_raise [yields_intros]: "yields P (st_raise e)"
  by (simp add: yields_def st_raise_def)

lemma yields_bind [yields_intros]: "(\<And>x. yields P (f x)) \<Longrightarrow> yields P (st_bind m f)"
  by (auto simp: yields_def st_bind_eq_Ok)

lemma yields_bind_dep:
  "yields Q m \<Longrightarrow> (\<And>x. Q x \<Longrightarrow> yields P (f x)) \<Longrightarrow> yields P (st_bind m f)"
  unfolding yields_def st_bind_eq_Ok by blast

lemma yields_catch: "yields P m \<Longrightarrow> (\<And>e. yields P (h e)) \<Longrightarrow> yields P (st_catch m h)"
  by (auto simp: yields_def st_catch_def split: prod.splits sum.splits)

text \<open>A result that is about step \<open>s\<close>.\<close>

definition about :: "step \<Rightarrow> step_result \<Rightarrow> bool" where
  "about s sr \<longleftrightarrow> sr_id sr = st_id s \<and> sr_result sr \<noteq> SKIP \<and> (sr_result sr = PASS \<longleftrightarrow> sr_failure sr = None)"

lemma about_outcome [simp]:
  "about s (step_outcome s out d n c) \<longleftrightarrow> out \<noteq> SKIP \<and> (out = PASS \<longleftrightarrow> d = None)"
  by (simp add: about_def step_outcome_def)

lemma says_about [yields_intros]: "out \<in> {FAIL, ERROR} \<Longrightarrow> yields (about s) (step_says s out n m)"
  by (auto simp: step_says_def intro!: yields_return)

lemma finish_about [yields_intros]: "yields (about s) (finish r s res n)"
  by (auto simp: finish_def split: option.splits intro!: yields_intros)

lemma conclude_about [yields_intros]: "yields (about s) (conclude r s resp n)"
  by (auto simp: conclude_def split: option.splits intro!: yields_intros)

lemma run_raw_about [yields_intros]: "yields (about s) (run_raw r s b)"
  by (auto simp: run_raw_def split: sum.splits intro!: yields_intros)

lemma run_call_about [yields_intros]: "yields (about s) (run_call r s oper)"
  by (auto simp: run_call_def split: sum.splits prod.splits if_splits intro!: yields_intros)

lemma run_unary_about [yields_intros]: "yields (about s) (run_unary_step r s)"
  by (auto simp: run_unary_step_def split: option.splits prod.splits intro!: yields_intros)

lemma run_client_about [yields_intros]: "yields (about s) (run_client_step r s b)"
  by (auto simp: run_client_step_def split: option.splits intro!: yields_intros)

lemma refusal_about [yields_intros]: "yields (about s) (stream_refusal r s x)"
proof (cases x)
  case (NotOpened m resp)
  then show ?thesis
    by (cases "st_expect_error s") (simp_all add: stream_refusal_def yields_intros)
next
  case (Failed e)
  then show ?thesis
    by (cases e; cases "st_expect_error s") (simp_all add: stream_refusal_def yields_intros)
qed

lemma judge_streams_about [yields_intros]: "yields (about s) (judge_streams r s plans cs)"
  by (auto simp: judge_streams_def Let_def split: option.splits intro!: yields_intros)

lemma run_streaming_about [yields_intros]: "yields (about s) (run_streaming_step r s)"
  by (auto simp: run_streaming_step_def Let_def split: sum.splits option.splits intro!: yields_intros)

lemma webhook_checks_about: "yields (\<lambda>c. \<forall>sr. c = Inl sr \<longrightarrow> about s sr) (webhook_checks s n ms)"
  by (induction ms arbitrary: n) (auto split: option.splits intro!: yields_intros)

lemma judge_deliveries_about [yields_intros]: "yields (about s) (judge_deliveries r s b delivered)"
proof (cases "delivered = []")
  case False
  show ?thesis
    unfolding judge_deliveries_def if_not_P [OF False]
    by (rule yields_bind, rule yields_bind_dep [OF webhook_checks_about])
       (auto split: sum.splits option.splits intro!: yields_intros)
qed (simp add: judge_deliveries_def yields_raise)

lemma run_webhook_about [yields_intros]: "yields (about s) (run_webhook_step r s b)"
  by (auto simp: run_webhook_step_def too_few_def split: option.splits sum.splits intro!: yields_intros)

lemma dispatch_verdict_about [yields_intros]: "yields (about s) (dispatch_verdict s e)"
  by (cases e) (auto simp: dispatch_verdict_def intro!: yields_intros)

lemma run_step_about: "yields (about s) (run_step r s)"
  unfolding run_step_def
  by (intro yields_bind yields_catch yields_intros)
     (auto simp: run_step_body_def split: step_kind.splits option.splits intro!: yields_intros)

subsection \<open>The loop over steps\<close>

text \<open>
  What the loop asks of the execution of one step, and what it then says of the list of results:
  they are those of a prefix of the steps, and only the last may have failed.
\<close>

locale step_execution =
  fixes exec :: "step \<Rightarrow> ('w, step_result) run"
  assumes exec_about: "yields (about s) (exec s)"
begin

lemma results_of_a_prefix:
  assumes "run_until_failure exec ss st = (Ok srs, st')"
  shows "list_all2 about (take (length srs) ss) srs"
    and "length srs \<le> length ss"
    and "\<forall>sr \<in> set (butlast srs). sr_result sr = PASS"
    and "length srs < length ss \<Longrightarrow> srs \<noteq> [] \<and> sr_result (last srs) \<noteq> PASS"
proof -
  have "list_all2 about (take (length srs) ss) srs \<and> length srs \<le> length ss \<and>
      (\<forall>sr \<in> set (butlast srs). sr_result sr = PASS) \<and>
      (length srs < length ss \<longrightarrow> srs \<noteq> [] \<and> sr_result (last srs) \<noteq> PASS)"
    using assms
  proof (induction ss arbitrary: st st' srs)
    case (Cons s ss)
    then obtain sr st1 where e: "exec s st = (Ok sr, st1)"
      and rest: "(if sr_result sr \<noteq> PASS then st_return [sr]
        else st_bind (run_until_failure exec ss) (\<lambda>srs. st_return (sr # srs))) st1 = (Ok srs, st')"
      by (auto simp: st_bind_eq_Ok)
    have a: "about s sr" using yieldsD [OF exec_about e] .
    show ?case
    proof (cases "sr_result sr = PASS")
      case True
      then obtain srs' where r: "run_until_failure exec ss st1 = (Ok srs', st')" "srs = sr # srs'"
        using rest by (auto simp: st_bind_eq_Ok st_return_apply)
      from Cons.IH [OF r(1)] r(2) True a show ?thesis by auto
    next
      case False
      with rest a show ?thesis by (auto simp: st_return_apply)
    qed
  qed (simp add: st_return_apply)
  then show "list_all2 about (take (length srs) ss) srs" "length srs \<le> length ss"
    "\<forall>sr \<in> set (butlast srs). sr_result sr = PASS"
    "length srs < length ss \<Longrightarrow> srs \<noteq> [] \<and> sr_result (last srs) \<noteq> PASS"
    by auto
qed

end

interpretation steps: step_execution "run_step r" for r
  by unfold_locales (rule run_step_about)

subsection \<open>A test's verdict\<close>

definition verdict_of :: "test_result \<Rightarrow> bool" where
  "verdict_of tr \<longleftrightarrow>
     (if \<forall>sr \<in> set (tr_steps tr). sr_result sr = PASS
      then tr_result tr = PASS \<and> tr_failure tr = None \<or> tr_result tr = FAIL \<and> tr_failure tr \<noteq> None
      else tr_result tr = sr_result (last (tr_steps tr)) \<and> tr_failure tr = sr_failure (last (tr_steps tr)) \<and>
           tr_result tr \<noteq> SKIP \<and> tr_failure tr \<noteq> None)"

lemma find_last:
  assumes "\<forall>x \<in> set (butlast xs). P x" "find (\<lambda>x. \<not> P x) xs = Some y"
  shows "xs \<noteq> [] \<and> y = last xs \<and> \<not> P y"
proof -
  from assms(2) have y: "y \<in> set xs" "\<not> P y" by (auto simp: find_Some_iff)
  then have ne: "xs \<noteq> []" by auto
  then have "set xs = insert (last xs) (set (butlast xs))"
    by (metis append_butlast_last_id list.simps(15) rotate1.simps(2) set_rotate1)
  with y ne assms(1) show ?thesis by blast
qed

lemma conclude_test_passed:
  assumes "\<forall>sr \<in> set srs. sr_result sr = PASS" "conclude_test r t srs st = (Ok tr, st')"
  shows "tr_steps tr = srs \<and>
    (tr_result tr = PASS \<and> tr_failure tr = None \<or> tr_result tr = FAIL \<and> tr_failure tr \<noteq> None)"
proof -
  have "find (\<lambda>sr. sr_result sr \<noteq> PASS) srs = None" using assms(1) by (simp add: find_None_iff)
  note c = assms(2) [unfolded conclude_test_def this option.case st_bind_eq_Ok]
  then obtain named st1 where "(case named of
      Some d \<Rightarrow> st_return (failed_test t FAIL d srs)
    | None \<Rightarrow> st_return ((plain_result t PASS)\<lparr>tr_steps := srs\<rparr>)) st1 = (Ok tr, st')"
    by blast
  then show ?thesis
    by (cases named) (auto simp: st_return_apply failed_test_def plain_result_def)
qed

lemma conclude_test_failed:
  assumes "find (\<lambda>sr. sr_result sr \<noteq> PASS) srs = Some sr" "conclude_test r t srs st = (Ok tr, st')"
  shows "tr_steps tr = srs \<and> tr_result tr = sr_result sr \<and> tr_failure tr = sr_failure sr"
  using assms(2) unfolding conclude_test_def assms(1)
  by (auto simp: st_return_apply plain_result_def)

lemma run_test_body_verdict:
  assumes "run_test_body r t st = (Ok tr, st')"
  shows "list_all2 about (take (length (tr_steps tr)) (t_steps t)) (tr_steps tr) \<and>
     (\<forall>sr \<in> set (butlast (tr_steps tr)). sr_result sr = PASS) \<and>
     (length (tr_steps tr) < length (t_steps t) \<longrightarrow> tr_result tr \<noteq> PASS) \<and> verdict_of tr"
proof -
  obtain srs st1 where ss: "run_until_failure (run_step r) (t_steps t) st = (Ok srs, st1)"
    and rest: "conclude_test r t srs st1 = (Ok tr, st')"
    using assms unfolding run_test_body_def run_steps_def st_bind_eq_Ok by blast
  note pre = steps.results_of_a_prefix [OF ss]
  show ?thesis
  proof (cases "find (\<lambda>sr. sr_result sr \<noteq> PASS) srs")
    case None
    then have every: "\<forall>sr \<in> set srs. sr_result sr = PASS" by (simp add: find_None_iff)
    have "\<not> length srs < length (t_steps t)" using every pre(4) last_in_set by blast
    with conclude_test_passed [OF every rest] pre(1-3) every show ?thesis
      unfolding verdict_of_def by simp
  next
    case (Some sr)
    from find_last [OF pre(3) Some] have l: "srs \<noteq> []" "sr = last srs" "sr_result (last srs) \<noteq> PASS"
      by auto
    obtain s where "about s (last srs)"
      using pre(1) last_in_set [OF l(1)] by (metis list_all2_conv_all_nth in_set_conv_nth)
    moreover have "\<not> (\<forall>x \<in> set srs. sr_result x = PASS)" using l last_in_set by blast
    ultimately show ?thesis
      using conclude_test_failed [OF Some rest] pre(1-3) l(2,3)
      unfolding verdict_of_def by (simp only: if_False about_def) simp
  qed
qed

lemma run_test_gated:
  "skip_reason r t \<noteq> Ok None \<or> behavior_gap r t \<noteq> None \<Longrightarrow> snd (run_test r vs t st) = st"
  by (auto simp: run_test_def st_return_apply st_raise_def split: sum.splits option.splits py_exn.splits)

subsection \<open>When a test runs\<close>

definition capability_met :: "string list \<Rightarrow> json \<Rightarrow> string \<times> json \<Rightarrow> bool" where
  "capability_met known advertised = (\<lambda>(name, expected). name \<in> set known \<and>
     (case expected of
        JBool b \<Rightarrow> truthy (get_or advertised name (JBool False)) = b
      | _ \<Rightarrow> py_eq (get_or advertised name (JBool False)) expected))"

lemma unmet_capability_None:
  "unmet_capability known advertised cs = None \<longleftrightarrow> (\<forall>c \<in> set cs. capability_met known advertised c)"
proof (induction cs)
  case (Cons c cs)
  then show ?case
    by (cases c; cases "snd c") (auto simp: capability_met_def Let_def)
qed simp

definition meets :: "'w runner \<Rightarrow> json \<Rightarrow> preconditions \<Rightarrow> bool" where
  "meets r agent p \<longleftrightarrow>
     (let caps = get_or agent ''capabilities'' (JObj []);
          advertised = (if truthy caps then caps else JObj [])
      in (\<forall>c \<in> set (or_empty (pc_capabilities p)). capability_met (r_known_capabilities r) advertised c) \<and>
         (\<forall>want. pc_authentication p = Some want \<longrightarrow> requires_auth agent = want) \<and>
         set (string_members (map JObj (or_empty (pc_skills p))) ''id'') \<subseteq>
           set (string_members (list_at agent ''skills'') ''id'') \<and>
         (or_empty (pc_transport p) = [] \<or>
           (\<exists>b \<in> set (or_empty (pc_transport p)). \<exists>i \<in> set (list_at agent ''supportedInterfaces'').
              lower (py_str (get_or i ''protocolBinding'' (JStr []))) = binding_value b)) \<and>
         set (or_empty (pc_extensions p)) \<subseteq> set (string_members (list_at advertised ''extensions'') ''uri''))"

lemma first_of_None: "first_of xs = None \<longleftrightarrow> (\<forall>x \<in> set xs. x = None)"
  by (induction xs rule: first_of.induct) auto

lemma unmet_parts:
  "unmet_authentication agent p = None \<longleftrightarrow> (\<forall>want. pc_authentication p = Some want \<longrightarrow> requires_auth agent = want)"
  "unmet_skills agent p = None \<longleftrightarrow>
     set (string_members (map JObj (or_empty (pc_skills p))) ''id'') \<subseteq>
     set (string_members (list_at agent ''skills'') ''id'')"
  "unmet_extensions advertised p = None \<longleftrightarrow>
     set (or_empty (pc_extensions p)) \<subseteq> set (string_members (list_at advertised ''extensions'') ''uri'')"
  by (auto simp: unmet_authentication_def unmet_skills_def unmet_extensions_def Let_def
      filter_empty_conv split: option.splits)

lemma unmet_transport_None:
  "unmet_transport agent p = None \<longleftrightarrow>
     (or_empty (pc_transport p) = [] \<or>
       (\<exists>b \<in> set (or_empty (pc_transport p)). \<exists>i \<in> set (list_at agent ''supportedInterfaces'').
          lower (py_str (get_or i ''protocolBinding'' (JStr []))) = binding_value b))"
  by (force simp: unmet_transport_def Let_def)

lemma precondition_met:
  "unmet_precondition r t = Ok None \<longleftrightarrow>
     (\<forall>p. t_preconditions t = Some p \<longrightarrow> (\<exists>agent. r_agent_card r = Some agent \<and> meets r agent p))"
  by (auto simp: unmet_precondition_def meets_def Let_def first_of_None unmet_capability_None
      unmet_parts unmet_transport_None split: option.splits)

lemma deferred_kinds_Nil:
  "deferred_kinds t = [] \<longleftrightarrow> (\<forall>s \<in> set (t_steps t). step_kind_of s \<noteq> K_ASSERTION)"
proof -
  have "k \<in> set executable_kinds \<longleftrightarrow> k \<noteq> K_ASSERTION" for k
    by (cases k) (simp_all add: executable_kinds_def)
  then show ?thesis by (auto simp: deferred_kinds_def filter_empty_conv)
qed

lemma missing_requirements_Nil:
  "missing_requirements r t = [] \<longleftrightarrow> set (or_empty (t_runner_requirements t)) \<subseteq> set (r_capabilities r)"
  by (auto simp: missing_requirements_def filter_empty_conv)

lemma skip_reason_None:
  "skip_reason r t = Ok None \<longleftrightarrow>
     applies_to t (r_binding r) \<and> (\<forall>s \<in> set (t_steps t). step_kind_of s \<noteq> K_ASSERTION) \<and>
     set (or_empty (t_runner_requirements t)) \<subseteq> set (r_capabilities r) \<and>
     (\<forall>p. t_preconditions t = Some p \<longrightarrow> (\<exists>agent. r_agent_card r = Some agent \<and> meets r agent p))"
  by (simp add: skip_reason_def precondition_met missing_requirements_Nil [symmetric]
      deferred_kinds_Nil [symmetric])

lemma behavior_gap_None:
  "behavior_gap r t = None \<longleftrightarrow>
     (\<forall>declared. r_sut_behaviors r = Some declared \<longrightarrow> set (behaviors t) \<subseteq> set declared)"
  by (auto simp: behavior_gap_def missing_behaviors_def filter_empty_conv split: option.splits)

end
