(* ===== verification/RunnerClaims.thy ===== *)
theory RunnerClaims
  imports RunnerLaws
begin

section \<open>Claims about the runner\<close>

text \<open>
  The properties of a run, with a small deterministic SUT they are tried on: its world counts
  the requests it was sent and the milliseconds that were slept.
\<close>

subsection \<open>A SUT to try them on\<close>

definition reply :: "json \<Rightarrow> wire_response" where
  "reply v = \<lparr>wr_status = 200, wr_payload = v, wr_error = None, wr_headers = []\<rparr>"

type_synonym demo_world = "nat \<times> nat"

definition demo_runner :: "json \<Rightarrow> demo_world runner" where
  "demo_runner answer =
     \<lparr>r_binding = B_JSONRPC, r_variables = [], r_env = [], r_spec_version = ''1.0'',
      r_agent_card = None, r_sut_behaviors = None, r_capabilities = [], r_known_capabilities = [],
      r_stream_timeout_ms = default_stream_timeout_ms, r_re_search = (\<lambda>p s. contains s p),
      r_new_uuid = show_nat,
      r_dispatch = (\<lambda>oper d hs (c, t). (Ok (reply answer), (Suc c, t))),
      r_dispatch_raw = (\<lambda>b hs (c, t). (Ok (reply answer), (Suc c, t))),
      r_streams = (\<lambda>oper d hs n ls w. (\<lambda>i. ([], Closed), w)),
      r_streams_raw = (\<lambda>b hs n ls w. (\<lambda>i. ([], Closed), w)),
      r_unclosable = None,
      r_read_webhook = Some (\<lambda>i w. ([], w)), r_webhook_fuel = 3, r_clock = snd,
      r_sleep = (\<lambda>ms (c, t). (c, t + ms))\<rparr>"

definition call_step :: "string \<Rightarrow> operation \<Rightarrow> step" where
  "call_step i oper = (empty_step i)\<lparr>st_operation := Some oper\<rparr>"

subsection \<open>Polling\<close>

lemma poll_loop_unfold:
  assumes "poll_loop r oper d until base b attempt k st = (Ok (resp, n, converged), st')"
  obtains w resp1 h where "r_dispatch r oper d (call_headers r) (rs_world st) = (Ok resp1, w)"
    "until_holds until (wr_payload resp1) = Ok h"
    "if h then (resp, n, converged) = (resp1, attempt, True) \<and> st' = st\<lparr>rs_world := w\<rparr>
     else case k of
       0 \<Rightarrow> (resp, n, converged) = (resp1, attempt, False) \<and> st' = st\<lparr>rs_world := w\<rparr>
     | Suc k' \<Rightarrow> poll_loop r oper d until base b (attempt + 1) k'
          (st\<lparr>rs_world := r_sleep r (delay_after base attempt b) w\<rparr>) = (Ok (resp, n, converged), st')"
proof -
  note p = assms [unfolded poll_loop.simps [of r oper d until base b attempt k] st_bind_eq_Ok]
  then obtain resp1 st1 h st2 where q: "request (r_dispatch r oper d (call_headers r)) st = (Ok resp1, st1)"
    "st_lift (until_holds until (wr_payload resp1)) st1 = (Ok h, st2)"
    "(if h then st_return (resp1, attempt, True)
      else (case k of
          0 \<Rightarrow> st_return (resp1, attempt, False)
        | Suc k' \<Rightarrow> st_bind (pause r (delay_after base attempt b)) (\<lambda>_.
            poll_loop r oper d until base b (attempt + 1) k'))) st2 = (Ok (resp, n, converged), st')"
    by blast
  obtain w where w: "r_dispatch r oper d (call_headers r) (rs_world st) = (Ok resp1, w)"
    "st1 = st\<lparr>rs_world := w\<rparr>"
    using q(1) by (auto simp: request_def split: prod.splits)
  have h: "until_holds until (wr_payload resp1) = Ok h" "st2 = st1"
    using q(2) by (auto simp: st_lift_def)
  show ?thesis
  proof (rule that [OF w(1) h(1)])
    show "if h then (resp, n, converged) = (resp1, attempt, True) \<and> st' = st\<lparr>rs_world := w\<rparr>
      else case k of
       0 \<Rightarrow> (resp, n, converged) = (resp1, attempt, False) \<and> st' = st\<lparr>rs_world := w\<rparr>
     | Suc k' \<Rightarrow> poll_loop r oper d until base b (attempt + 1) k'
          (st\<lparr>rs_world := r_sleep r (delay_after base attempt b) w\<rparr>) = (Ok (resp, n, converged), st')"
      using q(3) unfolding h(2) w(2)
      by (cases h; cases k) (auto simp: st_return_apply st_bind_def pause_def observe_def)
  qed
qed

lemma poll_loop_apply:
  assumes "r_dispatch r oper d (call_headers r) (rs_world st) = (Ok resp, w)"
    and "until_holds until (wr_payload resp) = Ok h"
  shows "poll_loop r oper d until base b attempt k st =
    (if h then (Ok (resp, attempt, True), st\<lparr>rs_world := w\<rparr>)
     else case k of
       0 \<Rightarrow> (Ok (resp, attempt, False), st\<lparr>rs_world := w\<rparr>)
     | Suc k' \<Rightarrow> poll_loop r oper d until base b (attempt + 1) k'
          (st\<lparr>rs_world := r_sleep r (delay_after base attempt b) w\<rparr>))"
  using assms
  by (subst poll_loop.simps, cases h; cases k)
     (simp_all add: st_bind_def request_def st_lift_def st_return_apply pause_def observe_def)

text \<open>What a poll waits in all when it makes \<open>n\<close> attempts.\<close>

definition waited :: "nat \<Rightarrow> backoff \<Rightarrow> nat \<Rightarrow> nat \<Rightarrow> nat" where
  "waited base b first n = sum_list (map (\<lambda>i. delay_after base i b) [first..<n])"

lemma poll_loop_correct:
  fixes sent slept :: "'w \<Rightarrow> nat"
  assumes "\<And>o' d hs w. sent (snd (r_dispatch r o' d hs w)) = Suc (sent w)"
    and "\<And>o' d hs w. slept (snd (r_dispatch r o' d hs w)) = slept w"
    and "\<And>ms w. sent (r_sleep r ms w) = sent w" and "\<And>ms w. slept (r_sleep r ms w) = slept w + ms"
    and "poll_loop r oper d until base b attempt k st = (Ok (resp, n, converged), st')"
  shows "attempt \<le> n \<and> n \<le> attempt + k \<and> until_holds until (wr_payload resp) = Ok converged \<and>
    (\<not> converged \<longrightarrow> n = attempt + k) \<and>
    sent (rs_world st') = sent (rs_world st) + (n + 1 - attempt) \<and>
    slept (rs_world st') = slept (rs_world st) + waited base b attempt n"
  using assms(5)
proof (induction k arbitrary: attempt st)
  case 0
  obtain w resp1 h where w: "r_dispatch r oper d (call_headers r) (rs_world st) = (Ok resp1, w)"
    and h: "until_holds until (wr_payload resp1) = Ok h"
    and c: "if h then (resp, n, converged) = (resp1, attempt, True) \<and> st' = st\<lparr>rs_world := w\<rparr>
     else case 0 of
       0 \<Rightarrow> (resp, n, converged) = (resp1, attempt, False) \<and> st' = st\<lparr>rs_world := w\<rparr>
     | Suc k' \<Rightarrow> poll_loop r oper d until base b (attempt + 1) k'
          (st\<lparr>rs_world := r_sleep r (delay_after base attempt b) w\<rparr>) = (Ok (resp, n, converged), st')"
    by (rule poll_loop_unfold [OF 0])
  then have "(resp, n, converged) = (resp1, attempt, h) \<and> st' = st\<lparr>rs_world := w\<rparr>"
    by (cases h) simp_all
  with h assms(1,2) [of oper d "call_headers r" "rs_world st", unfolded w] show ?case
    by (simp add: waited_def)
next
  case (Suc k)
  obtain w resp1 h where
    w: "r_dispatch r oper d (call_headers r) (rs_world st) = (Ok resp1, w)"
    and h: "until_holds until (wr_payload resp1) = Ok h"
    and c: "if h then (resp, n, converged) = (resp1, attempt, True) \<and> st' = st\<lparr>rs_world := w\<rparr>
     else case Suc k of
       0 \<Rightarrow> (resp, n, converged) = (resp1, attempt, False) \<and> st' = st\<lparr>rs_world := w\<rparr>
     | Suc k' \<Rightarrow> poll_loop r oper d until base b (attempt + 1) k'
          (st\<lparr>rs_world := r_sleep r (delay_after base attempt b) w\<rparr>) = (Ok (resp, n, converged), st')"
    by (rule poll_loop_unfold [OF Suc.prems])
  note one = assms(1,2) [of oper d "call_headers r" "rs_world st", unfolded w]
  show ?case
  proof (cases h)
    case True
    with c h one show ?thesis by (simp add: waited_def)
  next
    case False
    with c have "poll_loop r oper d until base b (attempt + 1) k
        (st\<lparr>rs_world := r_sleep r (delay_after base attempt b) w\<rparr>) = (Ok (resp, n, converged), st')"
      by simp
    from Suc.IH [OF this] one show ?thesis
      by (auto simp: assms(3,4) waited_def upt_conv_Cons [of attempt n])
  qed
qed

lemma waited_closed:
  "waited base BACKOFF_NONE 1 n = base * (n - 1)"
  "waited base BACKOFF_EXPONENTIAL 1 n = base * (2 ^ (n - 1) - 1)"
  "2 * waited base BACKOFF_LINEAR 1 n = base * (n * (n - 1))"
proof -
  have "waited base BACKOFF_NONE 1 (Suc m) = base * m" for m
    by (induction m) (simp_all add: waited_def delay_after_def)
  moreover have "waited base BACKOFF_EXPONENTIAL 1 (Suc m) + base = base * 2 ^ m" for m
    by (induction m) (simp_all add: waited_def delay_after_def)
  then have "waited base BACKOFF_EXPONENTIAL 1 (Suc m) = base * (2 ^ m - 1)" for m
    by (metis diff_mult_distrib2 add_diff_cancel_right' mult.right_neutral)
  moreover have "2 * waited base BACKOFF_LINEAR 1 (Suc m) = base * (Suc m * m)" for m
    by (induction m) (simp_all add: waited_def delay_after_def algebra_simps)
  ultimately show "waited base BACKOFF_NONE 1 n = base * (n - 1)"
    "waited base BACKOFF_EXPONENTIAL 1 n = base * (2 ^ (n - 1) - 1)"
    "2 * waited base BACKOFF_LINEAR 1 n = base * (n * (n - 1))"
    by (cases n; simp add: waited_def)+
qed

subsection \<open>Waiting for deliveries\<close>

lemma poll_webhook_turn:
  assumes "read i (rs_world st) = (delivered, w)"
  shows "poll_webhook r read i k deadline (Suc fuel) st =
    (if k \<le> length delivered \<or> deadline \<le> r_clock r w then (Ok delivered, st\<lparr>rs_world := w\<rparr>)
     else poll_webhook r read i k deadline fuel (st\<lparr>rs_world := r_sleep r webhook_poll_ms w\<rparr>))"
  by (simp add: st_bind_def observe_def assms st_return_apply pause_def)

declare poll_webhook.simps [simp del]

lemma poll_webhook_ends:
  assumes "\<And>i w. r_clock r w \<le> r_clock r (snd (read i w))"
    and "\<And>w. r_clock r w < r_clock r (r_sleep r webhook_poll_ms w)"
    and "deadline \<le> r_clock r (rs_world st) + fuel"
  shows "\<exists>delivered st'. poll_webhook r read i k deadline (Suc fuel) st = (Ok delivered, st') \<and>
    (k \<le> length delivered \<or> deadline \<le> r_clock r (rs_world st'))"
  using assms(3)
proof (induction fuel arbitrary: st)
  case (0 st)
  obtain delivered w where rd: "read i (rs_world st) = (delivered, w)" by fastforce
  with assms(1) [of "rs_world st" i] 0 have "deadline \<le> r_clock r w" by simp
  then show ?case by (simp add: poll_webhook_turn [where read = read, OF rd])
next
  case (Suc fuel st)
  obtain delivered w where rd: "read i (rs_world st) = (delivered, w)" by fastforce
  show ?case
  proof (cases "k \<le> length delivered \<or> deadline \<le> r_clock r w")
    case True
    then show ?thesis by (simp add: poll_webhook_turn [where read = read, OF rd])
  next
    case False
    have "r_clock r (rs_world st) \<le> r_clock r w" using assms(1) [of "rs_world st" i] by (simp add: rd)
    with Suc.prems assms(2) [of w] have
      "deadline \<le> r_clock r (rs_world (st\<lparr>rs_world := r_sleep r webhook_poll_ms w\<rparr>)) + fuel" by simp
    from Suc.IH [OF this] False show ?thesis
      by (simp add: poll_webhook_turn [where read = read, OF rd])
  qed
qed

subsection \<open>Properties\<close>

text \<open>
  C28: a poll reports between one attempt and the number its \<open>repeat\<close> block allows, sends exactly
  as many requests as it reports attempts, has converged exactly when its condition holds of the
  reply it returns, gives up only after all its attempts, and sleeps what its backoff says:
  constant, linear or doubling, and never after the last attempt.
\<close>

theorem poll_within_its_attempts:
  fixes sent slept :: "'w \<Rightarrow> nat" and r :: "'w runner"
  assumes "\<forall>o' d hs w. sent (snd (r_dispatch r o' d hs w)) = Suc (sent w) \<and>
      slept (snd (r_dispatch r o' d hs w)) = slept w"
    and "\<forall>ms w. sent (r_sleep r ms w) = sent w \<and> slept (r_sleep r ms w) = slept w + ms"
    and "st_repeat s = Some rep" "dispatch_step r s oper d (Some u) st = (Ok (resp, n, converged), st')"
  shows "1 \<le> n \<and> n \<le> max_attempts_of rep \<and> until_holds u (wr_payload resp) = Ok converged \<and>
    (\<not> converged \<longrightarrow> n = max_attempts_of rep) \<and>
    sent (rs_world st') = sent (rs_world st) + n \<and>
    slept (rs_world st') = slept (rs_world st) +
      (case backoff_of rep of
         BACKOFF_NONE \<Rightarrow> delay_of rep * (n - 1)
       | BACKOFF_LINEAR \<Rightarrow> delay_of rep * (n * (n - 1)) div 2
       | BACKOFF_EXPONENTIAL \<Rightarrow> delay_of rep * (2 ^ (n - 1) - 1))"
proof -
  have m: "1 \<le> max_attempts_of rep"
    by (simp add: max_attempts_of_def default_max_attempts_def split: option.splits)
  have "poll_loop r oper d u (delay_of rep) (backoff_of rep) 1 (max_attempts_of rep - 1) st =
      (Ok (resp, n, converged), st')"
    using assms(4) by (simp add: dispatch_step_def assms(3))
  from poll_loop_correct [where sent = sent and slept = slept, OF _ _ _ _ this] assms(1,2)
  have *: "1 \<le> n \<and> n \<le> 1 + (max_attempts_of rep - 1) \<and> until_holds u (wr_payload resp) = Ok converged \<and>
    (\<not> converged \<longrightarrow> n = 1 + (max_attempts_of rep - 1)) \<and>
    sent (rs_world st') = sent (rs_world st) + (n + 1 - 1) \<and>
    slept (rs_world st') = slept (rs_world st) + waited (delay_of rep) (backoff_of rep) 1 n"
    by blast
  have "waited (delay_of rep) BACKOFF_LINEAR 1 n = delay_of rep * (n * (n - 1)) div 2"
    using waited_closed(3) [of "delay_of rep" n] by simp
  with * m waited_closed(1,2) [of "delay_of rep" n] show ?thesis
    by (cases "backoff_of rep") simp_all
qed

definition polling_step :: step where
  "polling_step = (call_step ''p'' GET_TASK)\<lparr>st_repeat := Some \<lparr>rp_until = ''id == t2'',
     rp_max_attempts = Some 3, rp_delay_ms = Some 5, rp_backoff = Some BACKOFF_EXPONENTIAL\<rparr>\<rparr>"

lemma poll_within_its_attempts_witness:
  "\<exists>st'. dispatch_step (demo_runner (JObj [(''id'', JStr ''t1'')])) polling_step GET_TASK []
     (Some (JStr ''id == t2'')) \<lparr>rs_scope = new_scope [] [], rs_world = (0, 0)\<rparr> =
       (Ok (reply (JObj [(''id'', JStr ''t1'')]), 3, False), st') \<and>
     fst (rs_world st') = 3 \<and> snd (rs_world st') = 15"
proof -
  let ?v = "JObj [(''id'', JStr ''t1'')]"
  let ?r = "demo_runner ?v"
  let ?st = "\<lparr>rs_scope = new_scope [] [], rs_world = (0, 0)\<rparr> :: demo_world run_state"
  have u: "until_holds (JStr ''id == t2'') (wr_payload (reply ?v)) = Ok False" by code_simp
  have d: "r_dispatch ?r GET_TASK [] (call_headers ?r) (rs_world st) =
      (Ok (reply ?v), (Suc (fst (rs_world st)), snd (rs_world st)))" for st
    by (simp add: demo_runner_def case_prod_unfold)
  have rep: "st_repeat polling_step = Some \<lparr>rp_until = ''id == t2'',
     rp_max_attempts = Some 3, rp_delay_ms = Some 5, rp_backoff = Some BACKOFF_EXPONENTIAL\<rparr>"
    by (simp add: polling_step_def)
  obtain st' where run: "dispatch_step ?r polling_step GET_TASK [] (Some (JStr ''id == t2'')) ?st =
      (Ok (reply ?v, 3, False), st')"
    by (simp add: dispatch_step_def rep poll_loop_apply [OF d u] max_attempts_of_def numeral_2_eq_2 numeral_3_eq_3)
  from poll_within_its_attempts [where sent = fst and slept = snd, OF _ _ rep run] show ?thesis
    unfolding run by (simp add: demo_runner_def case_prod_unfold backoff_of_def delay_of_def)
qed



subsection \<open>Evaluating the demonstration runs\<close>

lemma demo_sels:
  "r_dispatch (demo_runner v) oper d hs w = (Ok (reply v), (Suc (fst w), snd w))"
  "r_new_uuid (demo_runner v) = show_nat" "r_variables (demo_runner v) = []" "r_env (demo_runner v) = []"
  by (simp_all add: demo_runner_def case_prod_unfold)

lemma reply_sels:
  "wr_status (reply v) = 200" "wr_payload (reply v) = v" "wr_error (reply v) = None" "wr_headers (reply v) = []"
  by (simp_all add: reply_def)

lemma plain_test_sels:
  "t_steps (plain_test i ss) = ss" "t_assertions (plain_test i ss) = None"
  "t_preconditions (plain_test i ss) = None" "t_transport (plain_test i ss) = None"
  "t_runner_requirements (plain_test i ss) = None"
  by (simp_all add: plain_test_def)

lemma empty_step_sels:
  "st_raw (empty_step i) = None" "st_client_response (empty_step i) = None"
  "st_expect_webhook (empty_step i) = None" "st_params (empty_step i) = None"
  "st_expect (empty_step i) = None" "st_expect_error (empty_step i) = None"
  "st_expect_stream (empty_step i) = None" "st_expect_parsed (empty_step i) = None"
  "st_capture (empty_step i) = None" "st_assertions (empty_step i) = None"
  "st_repeat (empty_step i) = None" "st_delay_ms (empty_step i) = None"
  "st_id (empty_step i) = i" "st_operation (empty_step i) = None"
  by (simp_all add: empty_step_def)

lemma demo_gates:
  "(\<forall>s \<in> set ss. step_kind_of s \<noteq> K_ASSERTION) \<Longrightarrow> skip_reason (demo_runner v) (plain_test i ss) = Ok None"
  "behavior_gap (demo_runner v) t = None"
  by (simp_all add: skip_reason_None behavior_gap_None applies_to_def plain_test_sels or_empty_def
      demo_runner_def)

lemma demo_scope:
  "fresh_scope (demo_runner v) [] n = (new_scope [] [])\<lparr>drawn := n\<rparr>"
  "document_variables (demo_runner v) [] = []"
  "variables (record_response i x sc) = variables sc" "drawn (record_response i x sc) = drawn sc"
  by (simp_all add: fresh_scope_def demo_sels dict_merge_def document_variables_def record_response_def
      record_capture_def split: option.splits)

lemma outcome_result: "sr_result (step_outcome s out d a c) = out"
  by (simp add: step_outcome_def)

lemmas run_eval = run_test_def st_bind_def st_return_apply in_fresh_scope_def run_test_body_def
  run_steps_def run_step_def st_catch_def run_step_body_def delay_before_def step_kind_of_def
  is_streaming_def rpc_row_def run_unary_step_def run_call_def catch_inputs_def catch_until_def
  catch_unresolved_def prepare_params_def resolve_tree_def resolve_in_def on_scope_def or_empty_def
  adapt_def ensure_message_id_def resolved_until_def dispatch_step_def request_def conclude_def
  note_response_def capture_step_def evaluate_outcome_def evaluate_expect_def expect_part_def
  status_part_def headers_part_def finish_def conclude_test_def st_lift_def st_raise_def
  dispatch_verdict_def first_failure_def result_sum_defs new_scope_def
  demo_gates plain_test_sels reply_sels demo_sels demo_scope outcome_result call_step_def empty_step_sels

definition good_step :: step where "good_step = call_step ''get'' GET_TASK"

definition unresolved_step :: step where
  "unresolved_step = (call_step ''get'' GET_TASK)\<lparr>st_expect := Some
     \<lparr>eb_status = Some (JStr ''{{limit}}''), eb_headers = None, eb_body = None\<rparr>\<rparr>"

lemma good_run:
  "run_test (demo_runner v) [] (plain_test i [good_step]) (w, n) =
     (Ok ((plain_result (plain_test i [good_step]) PASS)\<lparr>tr_steps := [step_outcome good_step PASS None 1 0]\<rparr>),
      ((Suc (fst w), snd w), n))"
  by (simp add: run_eval good_step_def)

lemma substitute_limit: "substitute u (JStr ''{{limit}}'') sc = (lookup_plain sc ''limit'', sc)"
proof -
  have "whole_reference ''{{limit}}'' = Some ''limit''" "py_strip ''limit'' = ''limit''" by code_simp+
  then show ?thesis by (simp add: resolve_def)
qed

lemma unresolved_run:
  "fst (run_test (demo_runner v) [] (plain_test i [unresolved_step]) (w, n)) =
     Raise (UnresolvedVariable (msg_undefined ''limit'' []))"
  by (simp add: run_eval unresolved_step_def substitute_limit lookup_plain_def del: substitute.simps)

definition parse_step :: step where
  "parse_step = (empty_step ''parse'')\<lparr>st_client_response :=
     Some \<lparr>cr_operation = GET_TASK, cr_wire_payload = JNull\<rparr>, st_expect_parsed := Some []\<rparr>"

definition odd_artifacts :: json where
  "odd_artifacts = JObj [(''task'', JObj [(''artifacts'', JArr [JInt 1])])]"

lemma odd_run:
  "fst (run_test (demo_runner odd_artifacts) [] (plain_test i [parse_step]) (w, n)) =
     Raise (AttributeError (repr_str ''int'' @ '' object has no attribute '' @ repr_str ''get''))"
proof -
  have "parsed_from odd_artifacts =
      Raise (AttributeError (repr_str ''int'' @ '' object has no attribute '' @ repr_str ''get''))"
    by (simp add: parsed_from_def odd_artifacts_def get_or_def each_of_def iterate_def attribute_error_def Let_def)
  then show ?thesis
    by (simp add: run_eval parse_step_def run_client_step_def draw_uuid_def)
qed

subsection \<open>Verdicts and gates\<close>

text \<open>
  C2: a test that passes its gates reports the results of its first steps in order, each about
  its own step; every step before the last passed; the test can only pass when every step ran
  and passed, and otherwise takes its outcome and its failure from the step that ended it, which
  is never a skip; and a test whose steps all passed fails only with a reason of its own.
\<close>

theorem test_stops_at_first_failure:
  assumes "skip_reason r t = Ok None" "behavior_gap r t = None"
    and "run_test r vs t w = (Ok tr, w')"
  shows "list_all2 about (take (length (tr_steps tr)) (t_steps t)) (tr_steps tr) \<and>
    (\<forall>sr \<in> set (butlast (tr_steps tr)). sr_result sr = PASS) \<and>
    (length (tr_steps tr) < length (t_steps t) \<longrightarrow> tr_result tr \<noteq> PASS) \<and> verdict_of tr"
proof -
  obtain w0 n where w: "w = (w0, n)" by (cases w)
  obtain st' where "run_test_body r t \<lparr>rs_scope = fresh_scope r vs n, rs_world = w0\<rparr> = (Ok tr, st')"
    using assms(3) unfolding w
    by (auto simp: run_test_def assms(1,2) in_fresh_scope_def split: prod.splits)
  then show ?thesis by (rule run_test_body_verdict)
qed

lemma test_stops_at_first_failure_witness:
  "\<exists>tr. run_test (demo_runner JNull) [] (plain_test ''A'' [good_step]) ((0, 0), 0) = (Ok tr, ((1, 0), 0)) \<and>
     length (tr_steps tr) = 1 \<and> verdict_of tr"
proof -
  have k: "\<forall>s \<in> set [good_step]. step_kind_of s \<noteq> K_ASSERTION"
    by (simp add: good_step_def call_step_def step_kind_of_def)
  show ?thesis
    using test_stops_at_first_failure [OF demo_gates(1) [OF k] demo_gates(2)
        good_run [of JNull "''A''" "(0, 0)" 0]] good_run [of JNull "''A''" "(0, 0)" 0]
    by simp
qed



text \<open>
  An implementation is reported conformant exactly when the summary counts no failed and no
  errored test at level MUST, every count of the summary being the number of results with that
  level and outcome; skips never count against it.
\<close>

theorem conformance_is_the_summary:
  "is_conformant results \<longleftrightarrow>
     tally_at (summarize results) MUST FAIL = 0 \<and> tally_at (summarize results) MUST ERROR = 0"
  by (simp add: summarize_counts conformant_iff_counts)

lemma second_test_aborts:
  assumes "run_test r (document_variables r vs) t st = (Ok tr, st1)"
    and "fst (run_test r (document_variables r vs) u st1) = Raise e"
  shows "fst (run_suite r vs [t, u] st) = Raise e"
proof -
  obtain st2 where "run_test r (document_variables r vs) u st1 = (Raise e, st2)"
    using assms(2) by (metis prod.collapse)
  then show ?thesis by (simp add: run_suite_def assms(1) st_bind_def)
qed

text \<open>
  A step whose expectation names a variable nobody defined, in a test the schema accepts, is
  not reported as an error of that step: the exception leaves \<open>run_step\<close>, \<open>run_test\<close> and
  \<open>run_suite\<close>, and the results of the tests that already ran are lost with it.
\<close>

theorem unresolved_expectation_aborts_suite:
  "check_test (plain_test ''B'' [unresolved_step]) = Ok () \<and>
   fst (run_suite (demo_runner v) [] [plain_test ''A'' [good_step]] (w, n)) =
     Ok [(plain_result (plain_test ''A'' [good_step]) PASS)\<lparr>tr_steps := [step_outcome good_step PASS None 1 0]\<rparr>] \<and>
   fst (run_suite (demo_runner v) [] [plain_test ''A'' [good_step], plain_test ''B'' [unresolved_step]] (w, n)) =
     Raise (UnresolvedVariable (msg_undefined ''limit'' []))"
proof (intro conjI)
  show "check_test (plain_test ''B'' [unresolved_step]) = Ok ()" by code_simp
  show "fst (run_suite (demo_runner v) [] [plain_test ''A'' [good_step]] (w, n)) =
     Ok [(plain_result (plain_test ''A'' [good_step]) PASS)\<lparr>tr_steps := [step_outcome good_step PASS None 1 0]\<rparr>]"
    by (simp add: run_suite_def demo_scope st_bind_def good_run st_return_apply)
  show "fst (run_suite (demo_runner v) [] [plain_test ''A'' [good_step], plain_test ''B'' [unresolved_step]] (w, n)) =
     Raise (UnresolvedVariable (msg_undefined ''limit'' []))"
    by (rule second_test_aborts [where r = "demo_runner v" and vs = "[]", unfolded demo_scope(2),
      OF good_run unresolved_run])
qed

text \<open>
  A SUT can end the run: a reply to a client step whose task carries an artifact that is not
  an object raises an AttributeError that no handler names, and the suite has no results.
\<close>

lemma odd_artifact_aborts_suite:
  "check_test (plain_test ''C'' [parse_step]) = Ok () \<and>
   fst (run_suite (demo_runner odd_artifacts) [] [plain_test ''A'' [good_step], plain_test ''C'' [parse_step]] (w, n)) =
     Raise (AttributeError (repr_str ''int'' @ '' object has no attribute '' @ repr_str ''get''))"
proof (intro conjI)
  show "check_test (plain_test ''C'' [parse_step]) = Ok ()" by code_simp
  show "fst (run_suite (demo_runner odd_artifacts) [] [plain_test ''A'' [good_step], plain_test ''C'' [parse_step]] (w, n)) =
     Raise (AttributeError (repr_str ''int'' @ '' object has no attribute '' @ repr_str ''get''))"
    by (rule second_test_aborts [where r = "demo_runner odd_artifacts" and vs = "[]",
      unfolded demo_scope(2), OF good_run odd_run])
qed

text \<open>
  C37: neither a broken exchange nor a malformed reply leaves a step: the first is an error of the
  step and the second a failure, so no exception of a step is of these two classes, and every
  result of a step carries its id, is not a skip, and has a failure exactly when it did not pass.
\<close>

theorem dispatch_failures_become_verdicts:
  "(case run_step r s st of
      (Inl e, st') \<Rightarrow> (\<forall>m. e \<noteq> DispatchError m \<and> e \<noteq> MalformedResponse m)
    | (Inr sr, st') \<Rightarrow> about s sr) \<and>
   (case st_bind (delay_before r s) (\<lambda>_. run_step_body r s) st of
      (Inl (DispatchError m), st') \<Rightarrow>
        run_step r s st = (Ok (step_outcome s ERROR (Some (plain_detail m (Some (st_id s)))) 1 0), st')
    | (Inl (MalformedResponse m), st') \<Rightarrow>
        run_step r s st = (Ok (step_outcome s FAIL (Some (plain_detail m (Some (st_id s)))) 1 0), st')
    | (x, st') \<Rightarrow> run_step r s st = (x, st'))"
proof -
  obtain st1 where d: "delay_before r s st = (Ok (), st1)"
    by (cases "st_delay_ms s"; cases "st_delay_ms s = Some 0")
       (auto simp: delay_before_def st_return_apply pause_def observe_def)
  obtain x st2 where b: "run_step_body r s st1 = (x, st2)" by fastforce
  have run: "run_step r s st = (case x of Inl e \<Rightarrow> dispatch_verdict s e st2 | Inr sr \<Rightarrow> (Ok sr, st2))"
    by (simp add: run_step_def st_bind_def d st_catch_def b split: sum.split)
  have "about s sr" if "run_step r s st = (Ok sr, st')" for sr st'
    using yieldsD [OF run_step_about that] .
  moreover have "\<forall>m. e \<noteq> DispatchError m \<and> e \<noteq> MalformedResponse m" if "run_step r s st = (Inl e, st')" for e st'
    using that unfolding run
    by (cases x) (auto simp: dispatch_verdict_def step_says_def st_return_apply st_raise_def split: py_exn.splits)
  moreover have "case (x, st2) of
      (Inl (DispatchError m), st') \<Rightarrow>
        run_step r s st = (Ok (step_outcome s ERROR (Some (plain_detail m (Some (st_id s)))) 1 0), st')
    | (Inl (MalformedResponse m), st') \<Rightarrow>
        run_step r s st = (Ok (step_outcome s FAIL (Some (plain_detail m (Some (st_id s)))) 1 0), st')
    | (x, st') \<Rightarrow> run_step r s st = (x, st')"
    unfolding run
    by (cases x) (auto simp: dispatch_verdict_def step_says_def st_return_apply st_raise_def split: py_exn.splits)
  moreover obtain y st3 where "run_step r s st = (y, st3)" by fastforce
  ultimately show ?thesis by (cases y) (simp_all add: st_bind_def d b)
qed

end
