(* ===== verification/Matrix.thy ===== *)
theory Matrix
  imports Topologies Json "HOL-Library.Char_ord" "HOL-Library.List_Lexorder"
    "HOL-Library.Product_Lexorder"
begin

section \<open>The version matrix (launcher/matrix.py)\<close>

text \<open>
  Which repository and ref each agent identifier stands for, read from a parsed \<open>matrix.yaml\<close>
  (a value whose mapping keys are strings). The rows are a dictionary keyed by the pair of SDK
  and line; strings and pairs are ordered as Python orders them, by code points and
  lexicographically, which is the order of the library's instances.
\<close>

subsection \<open>Rows\<close>

record matrix_entry =
  me_sdk :: string
  me_line :: string
  me_repo :: string
  me_ref :: string
  me_transports :: "string set"

type_synonym matrix = "(string \<times> string, matrix_entry) dict"

definition agent_id_of :: "string \<Rightarrow> string \<Rightarrow> string" where
  "agent_id_of sdk line = sdk @ ''_'' @ line"

definition entry_id :: "matrix_entry \<Rightarrow> string" where
  "entry_id e = agent_id_of (me_sdk e) (me_line e)"

definition supports :: "matrix_entry \<Rightarrow> string list \<Rightarrow> bool" where
  "supports e transports = (set transports \<subseteq> me_transports e)"

subsection \<open>Reading the document\<close>

definition sorted_transports :: "string list" where
  "sorted_transports = sort transport_order"

definition row_label :: "string \<Rightarrow> string \<Rightarrow> string" where
  "row_label sdk line = ''sdks.'' @ sdk @ ''.'' @ line"

definition str_items :: "json list \<Rightarrow> string list" where
  "str_items xs = List.map_filter (\<lambda>x. case x of JStr t \<Rightarrow> Some t | _ \<Rightarrow> None) xs"

definition parse_transports :: "json \<Rightarrow> string \<Rightarrow> string \<Rightarrow> string set result" where
  "parse_transports raw sdk line = (case raw of
     JNull \<Rightarrow> Ok all_transports
   | JArr xs \<Rightarrow>
       (let ts = str_items xs; unknown = sort (remdups (filter (\<lambda>t. t \<notin> all_transports) ts)) in
        if \<not> list_all is_str xs then
          Raise (MatrixError (row_label sdk line @ ''.transports: must be a list of strings''))
        else if xs = [] then
          Raise (MatrixError (row_label sdk line @ ''.transports: must not be empty; omit the key to mean all of '' @
            repr_list sorted_transports))
        else if unknown \<noteq> [] then
          Raise (MatrixError (row_label sdk line @ ''.transports: unknown transport(s) '' @ repr_list unknown @
            ''; valid: '' @ repr_list sorted_transports))
        else Ok (set ts))
   | _ \<Rightarrow> Raise (MatrixError (row_label sdk line @ ''.transports: must be a list of strings'')))"

definition get_key :: "(string \<times> json) list \<Rightarrow> string \<Rightarrow> json" where
  "get_key d k = (case map_of d k of None \<Rightarrow> JNull | Some v \<Rightarrow> v)"

definition matrix_row :: "string \<Rightarrow> string \<Rightarrow> json \<Rightarrow> matrix_entry result" where
  "matrix_row sdk line cfg = (case cfg of
     JObj c \<Rightarrow>
       (let repo = get_key c ''repo''; ref = get_key c ''ref'' in
        if \<not> truthy repo \<or> \<not> truthy ref then
          Raise (MatrixError (row_label sdk line @ '': needs both `repo` and `ref` (got repo='' @
            py_repr repo @ '', ref='' @ py_repr ref @ '')''))
        else (case (repo, ref) of
            (JStr r, JStr f) \<Rightarrow>
              rbind (parse_transports (get_key c ''transports'') sdk line) (\<lambda>ts. Ok
                \<lparr>me_sdk = sdk, me_line = line, me_repo = r, me_ref = f, me_transports = ts\<rparr>)
          | _ \<Rightarrow> Raise (MatrixError (row_label sdk line @ '': repo and ref must be strings (got repo='' @
              type_name repo @ '', ref='' @ type_name ref @ '')''))))
   | _ \<Rightarrow> Raise (MatrixError (row_label sdk line @ '': must be a mapping with repo+ref'')))"

fun add_lines :: "string \<Rightarrow> (string \<times> json) list \<Rightarrow> matrix \<Rightarrow> matrix result" where
  "add_lines sdk [] entries = Ok entries"
| "add_lines sdk ((line, cfg) # rest) entries =
     rbind (matrix_row sdk line cfg) (\<lambda>e. add_lines sdk rest (AList.update (sdk, line) e entries))"

fun add_sdks :: "(string \<times> json) list \<Rightarrow> matrix \<Rightarrow> matrix result" where
  "add_sdks [] entries = Ok entries"
| "add_sdks ((sdk, lines) # rest) entries = (case lines of
     JObj ls \<Rightarrow> rbind (add_lines sdk ls entries) (\<lambda>es. add_sdks rest es)
   | _ \<Rightarrow> Raise (MatrixError (''sdks.'' @ sdk @ '': must be a mapping of lines'')))"

definition matrix_from_dict :: "json \<Rightarrow> matrix result" where
  "matrix_from_dict data = (case data of
     JObj d \<Rightarrow> (case get_key d ''sdks'' of
         JNull \<Rightarrow> Raise (MatrixError ''matrix missing top-level `sdks:` key'')
       | JObj sdks \<Rightarrow> add_sdks sdks []
       | v \<Rightarrow> Raise (MatrixError (''`sdks:` must be a mapping; got '' @ type_name v)))
   | v \<Rightarrow> Raise (MatrixError (''matrix must be a mapping; got '' @ type_name v)))"

subsection \<open>Lookup\<close>

text \<open>
  The pattern \<open>^([a-z][a-z0-9]*)_(v[0-9]+)(?:_[0-9]+)?$\<close>. Its parts begin with characters the part
  before them cannot contain, so each part takes all it can; \<open>$\<close> also matches before a final
  newline.
\<close>

definition id_char :: "char \<Rightarrow> bool" where
  "id_char c = (97 \<le> code_of c \<and> code_of c \<le> 122 \<or> ascii_digit c)"

definition at_end :: "string \<Rightarrow> bool" where "at_end r = (r = [] \<or> r = [CHR 0x0A])"

definition all_digits_then_end :: "string \<Rightarrow> bool" where
  "all_digits_then_end r = (takeWhile ascii_digit r \<noteq> [] \<and> at_end (dropWhile ascii_digit r))"

definition match_agent_id :: "string \<Rightarrow> (string \<times> string) option" where
  "match_agent_id s =
     (let sdk = takeWhile id_char s; r1 = dropWhile id_char s;
          digits = takeWhile ascii_digit (drop 2 r1); r2 = dropWhile ascii_digit (drop 2 r1) in
      if sdk \<noteq> [] \<and> \<not> ascii_digit (hd sdk) \<and> starts_with r1 ''_v'' \<and> digits \<noteq> [] \<and>
         (at_end r2 \<or> starts_with r2 ''_'' \<and> all_digits_then_end (drop 1 r2))
      then Some (sdk, ''v'' @ digits) else None)"

definition known_ids :: "matrix \<Rightarrow> string" where
  "known_ids m = join_with '', '' (map (\<lambda>(s, ln). agent_id_of s ln) (sort (map fst m)))"

definition matrix_resolve :: "matrix \<Rightarrow> string \<Rightarrow> matrix_entry result" where
  "matrix_resolve m agent_id =
     (if agent_id = ''current'' then
        Raise (MatrixError (repr_str ''current'' @ '' is the SUT (Kind.MOUNT) and does not map through '' @
          ''matrix; callers should special-case it before calling resolve()''))
      else case match_agent_id agent_id of
        None \<Rightarrow> Raise (MatrixError (''invalid agent id '' @ repr_str agent_id @
          ''; expected <sdk>_v<num>[_<instance>]''))
      | Some (sdk, line) \<Rightarrow> (case map_of m (sdk, line) of
          Some e \<Rightarrow> Ok e
        | None \<Rightarrow> Raise (MatrixError (''unknown agent '' @ repr_str agent_id @ '' (sdk='' @ repr_str sdk @
            '', line='' @ repr_str line @ ''); matrix.yaml has: '' @ known_ids m))))"

definition matrix_entries :: "matrix \<Rightarrow> matrix_entry list" where
  "matrix_entries m = List.map_filter (map_of m) (sort (map fst m))"

definition in_matrix :: "matrix \<Rightarrow> string \<Rightarrow> bool" where
  "in_matrix m agent_id = (case matrix_resolve m agent_id of Inl (MatrixError _) \<Rightarrow> False | _ \<Rightarrow> True)"

end
