(* ===== verification/Exclusions.thy ===== *)
theory Exclusions
  imports Matrix
begin

section \<open>Known failures (scenarios/exclusions.py)\<close>

text \<open>
  The rules of \<open>known_failures.yaml\<close>. The entries are modelled once their name lists are lists of
  strings; the set of a rule's names is the source's frozenset, and \<open>sorted\<close> of it the sorted
  list of its elements.
\<close>

subsection \<open>Rules\<close>

record exclusion =
  ex_reason :: string
  ex_agents :: "string set"
  ex_transports :: "string set"
  ex_behaviors :: "string set"
  ex_sut_sdk :: "string set"
  ex_unless_sut_sdk :: "string set"
  ex_streaming :: "bool option"
  ex_issue :: "string option"

text \<open>What a rule is matched against; \<open>None in names\<close> is false.\<close>

record combination =
  cb_sdks :: "string list"
  cb_protocols :: "string list option"
  cb_behavior :: string
  cb_streaming :: bool
  cb_sut_sdk :: "string option"

definition in_names :: "string option \<Rightarrow> string set \<Rightarrow> bool" where
  "in_names x names = (case x of None \<Rightarrow> False | Some n \<Rightarrow> n \<in> names)"

definition rule_matches :: "exclusion \<Rightarrow> combination \<Rightarrow> bool" where
  "rule_matches e c =
     (if ex_agents e \<noteq> {} \<and> ex_agents e \<inter> set (cb_sdks c) = {} then False
      else if ex_transports e \<noteq> {} \<and>
        ex_transports e \<inter> set (case cb_protocols c of None \<Rightarrow> [] | Some ps \<Rightarrow> ps) = {} then False
      else if ex_behaviors e \<noteq> {} \<and> cb_behavior c \<notin> ex_behaviors e then False
      else if ex_sut_sdk e \<noteq> {} \<and> \<not> in_names (cb_sut_sdk c) (ex_sut_sdk e) then False
      else if ex_unless_sut_sdk e \<noteq> {} \<and> in_names (cb_sut_sdk c) (ex_unless_sut_sdk e) then False
      else \<not> (ex_streaming e \<noteq> None \<and> ex_streaming e \<noteq> Some (cb_streaming c)))"

text \<open>\<open>KnownFailures.find\<close>: the first rule that covers the combination.\<close>

fun find_rule :: "exclusion list \<Rightarrow> combination \<Rightarrow> exclusion option" where
  "find_rule [] c = None"
| "find_rule (e # es) c = (if rule_matches e c then Some e else find_rule es c)"

subsection \<open>Descriptions\<close>

definition slashed :: "string set \<Rightarrow> string" where
  "slashed names = join_with ''/'' (sorted_list_of_set names)"

definition streaming_word :: "bool \<Rightarrow> string" where
  "streaming_word b = (if b then ''streaming'' else ''non-streaming'')"

definition rule_scope :: "exclusion \<Rightarrow> string" where
  "rule_scope e =
     (let bits =
        (if ex_sut_sdk e \<noteq> {} then [''sut='' @ slashed (ex_sut_sdk e)] else []) @
        (if ex_unless_sut_sdk e \<noteq> {} then [''sut!='' @ slashed (ex_unless_sut_sdk e)] else []) @
        (if ex_agents e \<noteq> {} then [slashed (ex_agents e)] else []) @
        (if ex_transports e \<noteq> {} then [slashed (ex_transports e)] else []) @
        (if ex_behaviors e \<noteq> {} then [slashed (ex_behaviors e)] else []) @
        (case ex_streaming e of None \<Rightarrow> [] | Some b \<Rightarrow> [streaming_word b]);
        shown = join_with '' '' bits
      in if shown = [] then ''everything'' else shown)"

text \<open>\<open>s.split()\<close>: the words between runs of whitespace.\<close>

fun split_words :: "string \<Rightarrow> string \<Rightarrow> string list" where
  "split_words acc [] = (if acc = [] then [] else [rev acc])"
| "split_words acc (c # cs) =
     (if py_isspace c then (if acc = [] then [] else [rev acc]) @ split_words [] cs
      else split_words (c # acc) cs)"

definition one_line :: "string \<Rightarrow> string" where
  "one_line s = join_with '' '' (split_words [] s)"

definition rstrip_dots :: "string \<Rightarrow> string" where
  "rstrip_dots s = rev (dropWhile (\<lambda>c. c = CHR 0x2E) (rev s))"

definition first_sentence :: "string \<Rightarrow> string" where
  "first_sentence s = rstrip_dots (hd (split_on ''. '' (one_line s)))"

definition with_issue :: "string \<Rightarrow> string \<Rightarrow> string option \<Rightarrow> string" where
  "with_issue left right issue = (case issue of
     Some (c # cs) \<Rightarrow> '' '' @ left @ (c # cs) @ right
   | _ \<Rightarrow> [])"

definition rule_summary :: "exclusion \<Rightarrow> string" where
  "rule_summary e = rule_scope e @ '': '' @ first_sentence (ex_reason e) @ with_issue ''['' '']'' (ex_issue e)"

definition rule_describe :: "exclusion \<Rightarrow> string" where
  "rule_describe e = rule_scope e @ '': '' @ one_line (ex_reason e) @ with_issue ''('' '')'' (ex_issue e)"

subsection \<open>Loading\<close>

text \<open>An entry of the list, with the keys the loader does not know.\<close>

record raw_exclusion =
  re_reason :: json
  re_agents :: "string list option"
  re_transports :: "string list option"
  re_behaviors :: "string list option"
  re_sut_sdk :: "string list option"
  re_unless_sut_sdk :: "string list option"
  re_streaming :: "bool option"
  re_issue :: "string option"
  re_unknown :: "string list"

definition names_of :: "string list option \<Rightarrow> string set" where
  "names_of x = set (case x of None \<Rightarrow> [] | Some ns \<Rightarrow> ns)"

definition load_rule :: "string \<Rightarrow> nat \<times> raw_exclusion \<Rightarrow> exclusion result" where
  "load_rule source_name = (\<lambda>(i, r). let label = source_name @ '': exclusions['' @ show_nat i @ '']'' in
     case re_reason r of
       JStr (c # cs) \<Rightarrow>
         if re_unknown r \<noteq> [] then
           Raise (ExclusionError (label @ '' has unknown key(s) '' @ repr_list (sorted_list_of_set (set (re_unknown r)))))
         else if names_of (re_sut_sdk r) \<noteq> {} \<and> names_of (re_unless_sut_sdk r) \<noteq> {} then
           Raise (ExclusionError (label @ '' sets both `sut_sdk` and `unless_sut_sdk`; use one or the other''))
         else Ok \<lparr>ex_reason = c # cs, ex_agents = names_of (re_agents r), ex_transports = names_of (re_transports r),
           ex_behaviors = names_of (re_behaviors r), ex_sut_sdk = names_of (re_sut_sdk r),
           ex_unless_sut_sdk = names_of (re_unless_sut_sdk r), ex_streaming = re_streaming r, ex_issue = re_issue r\<rparr>
     | _ \<Rightarrow> Raise (ExclusionError (label @ '' needs a `reason`. An exclusion nobody can explain is '' @
         ''indistinguishable from lost coverage.'')))"

definition load_rules :: "string \<Rightarrow> raw_exclusion list \<Rightarrow> exclusion list result" where
  "load_rules source_name rs = traverse (load_rule source_name) (List.enumerate 0 rs)"

subsection \<open>Laws\<close>

lemma find_rule_None: "find_rule es c = None \<longleftrightarrow> (\<forall>e \<in> set es. \<not> rule_matches e c)"
  by (induction es) auto

lemma find_rule_Some: "find_rule es c = Some e \<Longrightarrow> e \<in> set es \<and> rule_matches e c"
  by (induction es) (auto split: if_splits)

text \<open>A rule is a conjunction of its set fields, and naming no agents means any.\<close>

lemma rule_matches_iff:
  "rule_matches e c \<longleftrightarrow>
     (ex_agents e = {} \<or> ex_agents e \<inter> set (cb_sdks c) \<noteq> {}) \<and>
     (ex_transports e = {} \<or> ex_transports e \<inter> set (case cb_protocols c of None \<Rightarrow> [] | Some ps \<Rightarrow> ps) \<noteq> {}) \<and>
     (ex_behaviors e = {} \<or> cb_behavior c \<in> ex_behaviors e) \<and>
     (ex_sut_sdk e = {} \<or> in_names (cb_sut_sdk c) (ex_sut_sdk e)) \<and>
     \<not> in_names (cb_sut_sdk c) (ex_unless_sut_sdk e) \<and>
     (ex_streaming e = None \<or> ex_streaming e = Some (cb_streaming c))"
  by (auto simp: rule_matches_def in_names_def split: if_splits option.splits)

end
