(* ===== verification/Scenarios.thy ===== *)
theory Scenarios
  imports Exclusions
begin

section \<open>Scenario files (scenarios/schema.py, scenarios/loader.py)\<close>

text \<open>
  The two scenario formats as records, the validator of \<open>traversal/v1\<close> with its accessors, and
  the recognition of the entries of a file. Reading one entry into its model is pydantic's and a
  parameter here.
\<close>

subsection \<open>Vocabulary\<close>

datatype tier = PR | NIGHTLY

fun tier_value :: "tier \<Rightarrow> string" where
  "tier_value PR = ''pr''"
| "tier_value NIGHTLY = ''nightly''"

datatype behavior = DO_SEND_MESSAGE | DO_PUSH_NOTIFICATION | DO_RESUBSCRIBE

fun behavior_value :: "behavior \<Rightarrow> string" where
  "behavior_value DO_SEND_MESSAGE = ''send_message''"
| "behavior_value DO_PUSH_NOTIFICATION = ''push_notification''"
| "behavior_value DO_RESUBSCRIBE = ''resubscribe''"

datatype expand = TOGETHER | PER_PEER

definition peer_placeholder :: string where "peer_placeholder = ''{peer}''"
definition traversal_v1 :: string where "traversal_v1 = ''traversal/v1''"
definition sut_id :: string where "sut_id = ''current''"

record peer_ref =
  pr_sdk :: string
  pr_line :: string
  pr_instance :: "nat option"

definition peer_agent_id :: "peer_ref \<Rightarrow> string" where
  "peer_agent_id p = (let base = agent_id_of (pr_sdk p) (pr_line p) in
     case pr_instance p of None \<Rightarrow> base | Some n \<Rightarrow> base @ ''_'' @ show_nat n)"

datatype peers = ALL_PEERS | PEERS "peer_ref list"

record roles =
  ro_peers :: peers
  ro_include_sut :: bool
  ro_include_own_lines :: bool

record traversal_scenario =
  ts_name :: string
  ts_roles :: roles
  ts_topology :: topology
  ts_tier :: tier
  ts_test_when :: "string list option"
  ts_expand :: expand
  ts_behavior :: "behavior option"
  ts_behaviors :: "behavior list option"
  ts_transports :: "transport list option"
  ts_transport_sets :: "transport list list option"
  ts_streaming :: "bool option"
  ts_streaming_variants :: "bool list option"
  ts_edges :: "string list option"
  ts_build_subtests :: bool

record legacy_scenario =
  ls_name :: string
  ls_sdks :: "string list"
  ls_behavior :: string
  ls_edges :: "string list option"
  ls_protocols :: "string list option"
  ls_streaming :: bool
  ls_build_subtests :: bool

datatype scenario = Traversal traversal_scenario | Legacy legacy_scenario

subsection \<open>The validator\<close>

definition not_both :: "string \<Rightarrow> string \<Rightarrow> string" where
  "not_both singular plural = ''set either `'' @ singular @ ''` or `'' @ plural @ ''`, not both''"

definition not_empty :: "string \<Rightarrow> string" where
  "not_empty field = ''`'' @ field @ ''` must not be empty''"

definition is_empty_list :: "'a list option \<Rightarrow> bool" where
  "is_empty_list x = (x = Some [])"

text \<open>The first complaint, in the order the validator makes them.\<close>

definition scenario_complaint :: "traversal_scenario \<Rightarrow> string option" where
  "scenario_complaint s =
     (if ts_behavior s \<noteq> None \<and> ts_behaviors s \<noteq> None then Some (not_both ''behavior'' ''behaviors'')
      else if ts_transports s \<noteq> None \<and> ts_transport_sets s \<noteq> None
        then Some (not_both ''transports'' ''transport_sets'')
      else if ts_streaming s \<noteq> None \<and> ts_streaming_variants s \<noteq> None
        then Some (not_both ''streaming'' ''streaming_variants'')
      else if ts_behavior s = None \<and> ts_behaviors s = None
        then Some ''one of `behavior` or `behaviors` is required''
      else if ts_transports s = None \<and> ts_transport_sets s = None
        then Some ''one of `transports` or `transport_sets` is required''
      else if is_empty_list (ts_behaviors s) then Some (not_empty ''behaviors'')
      else if is_empty_list (ts_transport_sets s) then Some (not_empty ''transport_sets'')
      else if is_empty_list (ts_streaming_variants s) then Some (not_empty ''streaming_variants'')
      else if is_empty_list (ts_transports s) then Some (not_empty ''transports'')
      else if (case ts_transport_sets s of None \<Rightarrow> False | Some sets \<Rightarrow> [] \<in> set sets)
        then Some ''`transport_sets` entries must not be empty''
      else None)"

definition check_scenario :: "traversal_scenario \<Rightarrow> unit result" where
  "check_scenario s = (case scenario_complaint s of None \<Rightarrow> Ok () | Some m \<Rightarrow> Raise (ValueError m))"

subsection \<open>Accessors\<close>

text \<open>
  A validated scenario has one form of each field; the accessors read it. \<open>[self.behavior]\<close> of
  a scenario without behaviors cannot be reached past the validator, and is empty here.
\<close>

definition behavior_variants :: "traversal_scenario \<Rightarrow> behavior list" where
  "behavior_variants s = (case ts_behaviors s of Some bs \<Rightarrow> bs
     | None \<Rightarrow> (case ts_behavior s of None \<Rightarrow> [] | Some b \<Rightarrow> [b]))"

definition transport_variants :: "traversal_scenario \<Rightarrow> transport list list" where
  "transport_variants s = (case ts_transport_sets s of Some sets \<Rightarrow> sets
     | None \<Rightarrow> (case ts_transports s of None \<Rightarrow> [] | Some ts \<Rightarrow> map (\<lambda>t. [t]) ts))"

definition streaming_options :: "traversal_scenario \<Rightarrow> bool list" where
  "streaming_options s = (case ts_streaming_variants s of Some bs \<Rightarrow> bs
     | None \<Rightarrow> [ts_streaming s = Some True])"

subsection \<open>Reading a file's entries\<close>

definition is_traversal_v1 :: "json \<Rightarrow> bool" where
  "is_traversal_v1 raw = (case raw of
     JObj d \<Rightarrow> map_of d ''schema'' = Some (JStr traversal_v1) | _ \<Rightarrow> False)"

definition extract_tests :: "json \<Rightarrow> json list result" where
  "extract_tests data = (case data of
     JArr xs \<Rightarrow> Ok xs
   | JObj d \<Rightarrow>
       (if is_traversal_v1 data then Ok [data]
        else case get_key d ''tests'' of
          JArr xs \<Rightarrow> Ok xs
        | _ \<Rightarrow> Raise (ScenarioFileError ''expected a top-level object with a \"tests\" array''))
   | v \<Rightarrow> Raise (ScenarioFileError (''expected a mapping or a list, got '' @ type_name v)))"

definition test_label :: "nat \<Rightarrow> string" where "test_label i = ''tests['' @ show_nat i @ '']''"

text \<open>A validation error of the models carries its rendering.\<close>

definition relabel :: "string \<Rightarrow> (string + 'a) \<Rightarrow> 'a result" where
  "relabel label r = (case r of
     Inl m \<Rightarrow> Raise (ScenarioFileError (label @ '': '' @ m)) | Inr x \<Rightarrow> Ok x)"

definition parse_one ::
  "((string \<times> json) list \<Rightarrow> string + traversal_scenario) \<Rightarrow> ((string \<times> json) list \<Rightarrow> string + legacy_scenario) \<Rightarrow>
   (string \<times> json) list \<Rightarrow> string \<Rightarrow> scenario result" where
  "parse_one v1 legacy raw label =
     (if is_traversal_v1 (JObj raw) then rbind (relabel label (v1 raw)) (\<lambda>s. Ok (Traversal s))
      else case map_of raw ''schema'' of
        Some v \<Rightarrow> Raise (ScenarioFileError (label @ '': unknown schema '' @ py_repr v @
          ''; expected \"traversal/v1\" or no schema key for the legacy format''))
      | None \<Rightarrow> rbind (relabel label (legacy raw)) (\<lambda>s. Ok (Legacy s)))"

definition parse_tests ::
  "((string \<times> json) list \<Rightarrow> string + traversal_scenario) \<Rightarrow> ((string \<times> json) list \<Rightarrow> string + legacy_scenario) \<Rightarrow>
   json \<Rightarrow> scenario list result" where
  "parse_tests v1 legacy data = rbind (extract_tests data) (\<lambda>raws.
     traverse (\<lambda>(i, raw). case raw of
         JObj d \<Rightarrow> parse_one v1 legacy d (test_label i)
       | _ \<Rightarrow> Raise (ScenarioFileError (test_label i @ '' must be a mapping''))) (List.enumerate 0 raws))"

subsection \<open>Laws\<close>

text \<open>What the validator lets through has at least one variant on every axis.\<close>

lemma checked_variants:
  assumes "check_scenario s = Ok ()"
  shows "behavior_variants s \<noteq> []" "transport_variants s \<noteq> []" "streaming_options s \<noteq> []"
    and "[] \<notin> set (transport_variants s)"
  using assms
  by (auto simp: check_scenario_def scenario_complaint_def behavior_variants_def transport_variants_def
      streaming_options_def is_empty_list_def split: option.splits if_splits)

end
