(* ===== verification/Trimming.thy ===== *)
theory Trimming
  imports Topologies
begin

section \<open>Losing agents: the contract the resolver and the runner share\<close>

text \<open>
  Both the resolver, when a known failure removes a peer, and the runner, when a peer does not
  start, ask \<open>restrict_to_available\<close> what is left of a scenario. The locale states what they rely
  on; it is interpreted on the function of \<open>scenarios/topology.py\<close>.
\<close>

abbreviation left_in :: "string set \<Rightarrow> string list \<Rightarrow> string list" where
  "left_in usable sdks \<equiv> filter (\<lambda>s. s \<in> usable) sdks"

locale trimming =
  fixes restrict :: "string list \<Rightarrow> 't option \<Rightarrow> 'e option \<Rightarrow> string set \<Rightarrow> nat \<Rightarrow>
      (string list \<times> 'e option) option result"
    and shape :: "'t \<Rightarrow> nat \<Rightarrow> 'e option result"
    and least :: nat
  assumes too_small: "length (left_in u sdks) < m \<Longrightarrow> restrict sdks t es u m = Ok None"
    and rebuilt: "m \<le> length (left_in u sdks) \<Longrightarrow> restrict sdks (Some s) es u m =
      rbind (shape s (length (left_in u sdks))) (\<lambda>es'. Ok (Some (left_in u sdks, es')))"
    and complete: "m \<le> length (left_in u sdks) \<Longrightarrow>
      restrict sdks None None u m = Ok (Some (left_in u sdks, None))"
    and positional: "\<not> set sdks \<subseteq> u \<Longrightarrow> restrict sdks None (Some e) u m = Ok None"
    and intact: "set sdks \<subseteq> u \<Longrightarrow> m \<le> length sdks \<Longrightarrow> restrict sdks None es u m = Ok (Some (sdks, es))"
    and shaped: "least \<le> n \<Longrightarrow> \<exists>es. shape s n = Ok es"
begin

lemma cases_of:
  "restrict sdks t es u m =
    (if length (left_in u sdks) < m then Ok None
     else case t of
       Some s \<Rightarrow> rbind (shape s (length (left_in u sdks))) (\<lambda>es'. Ok (Some (left_in u sdks, es')))
     | None \<Rightarrow> if set sdks \<subseteq> u \<or> es = None then Ok (Some (left_in u sdks, es)) else Ok None)"
proof (cases "length (left_in u sdks) < m")
  case True
  then show ?thesis by (simp add: too_small)
next
  case False
  then have m: "m \<le> length (left_in u sdks)" by simp
  show ?thesis
  proof (cases t)
    case None
    show ?thesis
    proof (cases "set sdks \<subseteq> u")
      case True
      then have "left_in u sdks = sdks" by (simp add: filter_id_conv subset_code(1))
      with True None m show ?thesis by (simp add: intact)
    next
      case f: False
      with None m show ?thesis by (cases es) (auto simp: complete positional)
    qed
  next
    case (Some s)
    with m show ?thesis by (simp add: rebuilt)
  qed
qed

lemma survivors: "restrict sdks t es u m = Ok (Some (kept, es')) \<Longrightarrow> kept = left_in u sdks \<and> m \<le> length kept"
  by (auto simp: cases_of rbind_eq_Ok split: if_splits option.splits)

lemma answers:
  assumes "least \<le> m"
  shows "\<exists>r. restrict sdks t es u m = Ok r"
proof (cases "length (left_in u sdks) < m \<or> t = None")
  case True
  then show ?thesis by (auto simp: cases_of)
next
  case False
  then obtain s where s: "t = Some s" "\<not> length (left_in u sdks) < m" by auto
  with assms obtain e where "shape s (length (left_in u sdks)) = Ok e" using shaped by (meson le_trans not_less)
  with s show ?thesis by (simp add: cases_of)
qed

lemma lost_stays_lost: "restrict sdks t es u m = Ok None \<Longrightarrow> v \<subseteq> u \<Longrightarrow> restrict sdks t es v m = Ok None"
proof -
  assume a: "restrict sdks t es u m = Ok None" "v \<subseteq> u"
  have "left_in v sdks = left_in v (left_in u sdks)" using a(2) by (auto intro: filter_cong)
  then have "length (left_in v sdks) \<le> length (left_in u sdks)" by (metis length_filter_le)
  with a show ?thesis
    by (auto simp: cases_of rbind_eq_Ok not_less split: if_splits option.splits)
qed

text \<open>Losing agents in two steps is losing them at once.\<close>

lemma in_two_steps:
  assumes "restrict sdks t es u m = Ok (Some (kept, es'))"
  shows "restrict kept t es' v m = restrict sdks t es (u \<inter> v) m"
proof -
  have k: "kept = left_in u sdks" using survivors [OF assms] by simp
  have l: "left_in v kept = left_in (u \<inter> v) sdks" by (simp add: k conj_commute)
  show ?thesis
  proof (cases t)
    case (Some s)
    then show ?thesis by (simp add: cases_of l)
  next
    case None
    then have e: "es' = es" "set sdks \<subseteq> u \<or> es = None" using assms
      by (auto simp: cases_of split: if_splits)
    have "set kept \<subseteq> v \<or> es = None \<longleftrightarrow> set sdks \<subseteq> u \<inter> v \<or> es = None"
      using e(2) k by auto
    with None show ?thesis by (simp add: cases_of [of kept] cases_of [of sdks] l e(1))
  qed
qed

end

interpretation agents: trimming restrict_to_available topology_to_edges min_nodes
proof
  fix u :: "string set" and sdks :: "string list" and m and t :: "topology option" and es :: "string list option"
  show "length (left_in u sdks) < m \<Longrightarrow> restrict_to_available sdks t es u m = Ok None"
    by (simp add: restrict_to_available_def Let_def)
next
  fix u :: "string set" and sdks :: "string list" and m and t :: topology and es :: "string list option"
  show "m \<le> length (left_in u sdks) \<Longrightarrow> restrict_to_available sdks (Some t) es u m =
      rbind (topology_to_edges t (length (left_in u sdks))) (\<lambda>es'. Ok (Some (left_in u sdks, es')))"
    by (simp add: restrict_to_available_def Let_def)
next
  fix u :: "string set" and sdks :: "string list" and m
  show "m \<le> length (left_in u sdks) \<Longrightarrow>
      restrict_to_available sdks None None u m = Ok (Some (left_in u sdks, None))"
    by (simp add: restrict_to_available_def Let_def)
next
  fix u :: "string set" and sdks es :: "string list" and m
  assume "\<not> set sdks \<subseteq> u"
  then have "length (left_in u sdks) < length sdks" by (metis length_filter_less subsetI)
  then show "restrict_to_available sdks None (Some es) u m = Ok None"
    by (simp add: restrict_to_available_def Let_def)
next
  fix u :: "string set" and sdks :: "string list" and m and es :: "string list option"
  assume "set sdks \<subseteq> u" "m \<le> length sdks"
  moreover have "left_in u sdks = sdks" using calculation(1) by (simp add: filter_id_conv subset_code(1))
  ultimately show "restrict_to_available sdks None es u m = Ok (Some (sdks, es))"
    by (simp add: restrict_to_available_def Let_def)
qed (rule topology_to_edges_Ok)

end
