(* ===== verification/Resolver.thy ===== *)
theory Resolver
  imports Scenarios Trimming
begin

section \<open>Binding roles to agents (scenarios/resolver.py)\<close>

text \<open>
  From scenarios and the matrix to executable scenarios: the variants of a scenario, the groups of
  agents each runs as, the peers a known failure removes, and the report of what was resolved,
  left out and cut down. An exception ends the resolution, so the lists the source fills as it
  goes are put together from those of the parts.
\<close>

subsection \<open>What comes out\<close>

record resolved_scenario =
  rv_name :: string
  rv_sdks :: "string list"
  rv_behavior :: string
  rv_edges :: "string list option"
  rv_protocols :: "string list option"
  rv_streaming :: bool
  rv_build_subtests :: bool
  rv_tier :: string
  rv_topology :: "topology option"

record resolution_report =
  rr_scenarios :: "resolved_scenario list"
  rr_skipped :: "(string \<times> string) list"
  rr_trimmed :: "(string \<times> string \<times> string) list"

definition joined :: "resolution_report list \<Rightarrow> resolution_report" where
  "joined rs = \<lparr>rr_scenarios = concat (map rr_scenarios rs), rr_skipped = concat (map rr_skipped rs),
     rr_trimmed = concat (map rr_trimmed rs)\<rparr>"

definition min_agents :: nat where "min_agents = 2"

definition from_legacy :: "legacy_scenario \<Rightarrow> resolved_scenario" where
  "from_legacy l = \<lparr>rv_name = ls_name l, rv_sdks = ls_sdks l, rv_behavior = ls_behavior l,
     rv_edges = ls_edges l, rv_protocols = ls_protocols l, rv_streaming = ls_streaming l,
     rv_build_subtests = ls_build_subtests l, rv_tier = tier_value NIGHTLY, rv_topology = None\<rparr>"

definition test_when_gap :: "traversal_scenario \<Rightarrow> string option \<Rightarrow> string option" where
  "test_when_gap s sut_sdk = (case (ts_test_when s, sut_sdk) of
     (Some sdks, Some sut) \<Rightarrow>
       if sut \<in> set sdks then None
       else Some (''test_when.sut_sdk is '' @ repr_list sdks @ '', SUT is '' @ repr_str sut)
   | _ \<Rightarrow> None)"

subsection \<open>Peers and groups\<close>

definition intersect :: "matrix \<Rightarrow> string \<Rightarrow> transport list \<Rightarrow> transport list" where
  "intersect m agent_id transports = (case matrix_resolve m agent_id of
     Inl _ \<Rightarrow> transports
   | Inr e \<Rightarrow> filter (\<lambda>t. transport_value t \<in> me_transports e) transports)"

definition can_speak :: "matrix \<Rightarrow> string \<Rightarrow> transport list \<Rightarrow> bool" where
  "can_speak m agent_id transports = (length (intersect m agent_id transports) = length transports)"

definition own_lines ::
  "traversal_scenario \<Rightarrow> matrix \<Rightarrow> transport list \<Rightarrow> string option \<Rightarrow> string list \<Rightarrow> string list" where
  "own_lines s m transports sut_sdk exclude =
     (if \<not> ro_include_own_lines (ts_roles s) \<or> sut_sdk = None then []
      else map entry_id (filter (\<lambda>e. Some (me_sdk e) = sut_sdk \<and> entry_id e \<notin> set exclude \<and>
             (ts_expand s = PER_PEER \<or> supports e (map transport_value transports))) (matrix_entries m)))"

definition named_peer :: "traversal_scenario \<Rightarrow> matrix \<Rightarrow> peer_ref \<Rightarrow> string result" where
  "named_peer s m p = (case matrix_resolve m (peer_agent_id p) of
     Inl (MatrixError e) \<Rightarrow> Raise (ResolutionError (repr_str (ts_name s) @ '': '' @ e))
   | Inl e \<Rightarrow> Raise e
   | Inr _ \<Rightarrow> Ok (peer_agent_id p))"

definition peer_ids ::
  "traversal_scenario \<Rightarrow> matrix \<Rightarrow> transport list \<Rightarrow> string option \<Rightarrow> string list result" where
  "peer_ids s m transports sut_sdk = (case ro_peers (ts_roles s) of
     ALL_PEERS \<Rightarrow>
       Ok (map entry_id (if ts_expand s = PER_PEER then matrix_entries m
             else filter (\<lambda>e. supports e (map transport_value transports)) (matrix_entries m)))
   | PEERS ps \<Rightarrow> rbind (traverse (named_peer s m) ps) (\<lambda>ids.
       Ok (ids @ own_lines s m transports sut_sdk ids)))"

type_synonym group = "string list \<times> transport list \<times> string option"

definition peer_group :: "matrix \<Rightarrow> transport list \<Rightarrow> string list \<Rightarrow> string \<Rightarrow> group option" where
  "peer_group m transports sut peer =
     (let usable = intersect m peer transports in
      if usable = [] then None else Some (sut @ [peer], usable, Some peer))"

definition groups_of ::
  "traversal_scenario \<Rightarrow> matrix \<Rightarrow> transport list \<Rightarrow> string option \<Rightarrow> group list result" where
  "groups_of s m transports sut_sdk = rbind (peer_ids s m transports sut_sdk) (\<lambda>ps.
     let sut = (if ro_include_sut (ts_roles s) then [sut_id] else []) in
     Ok (if ts_expand s = TOGETHER
         then [(sut @ filter (\<lambda>p. can_speak m p transports) ps, transports, None)]
         else List.map_filter (peer_group m transports sut) ps))"

subsection \<open>Names\<close>

definition multi_axes :: "traversal_scenario \<Rightarrow> string set" where
  "multi_axes s =
     (if length (behavior_variants s) > 1 then {''behavior''} else {}) \<union>
     (if length (transport_variants s) > 1 then {''transports''} else {}) \<union>
     (if length (streaming_options s) > 1 then {''streaming''} else {})"

definition labelled :: "string \<Rightarrow> string option \<Rightarrow> string" where
  "labelled base label = (case label of
     None \<Rightarrow> base
   | Some p \<Rightarrow> if contains base peer_placeholder then py_replace peer_placeholder p base
               else base @ '' - '' @ p)"

definition variant_name ::
  "traversal_scenario \<Rightarrow> behavior \<Rightarrow> transport list \<Rightarrow> bool \<Rightarrow> string set \<Rightarrow> string option \<Rightarrow> string" where
  "variant_name s b transports streaming multi label = join_with '' - ''
     ([labelled (ts_name s) label] @
      (if ''behavior'' \<in> multi then [behavior_value b] else []) @
      (if ''transports'' \<in> multi then [join_with ''+'' (map transport_value transports)] else []) @
      (if ''streaming'' \<in> multi then [streaming_word streaming] else []))"

subsection \<open>Exclusions\<close>

definition pair_rule ::
  "exclusion list \<Rightarrow> transport list \<Rightarrow> behavior \<Rightarrow> bool \<Rightarrow> string option \<Rightarrow> string \<Rightarrow> exclusion option" where
  "pair_rule known transports b streaming sut_sdk agent = find_rule known
     \<lparr>cb_sdks = [sut_id, agent], cb_protocols = Some (map transport_value transports),
      cb_behavior = behavior_value b, cb_streaming = streaming, cb_sut_sdk = sut_sdk\<rparr>"

definition agent_rule ::
  "exclusion list \<Rightarrow> transport list \<Rightarrow> behavior \<Rightarrow> bool \<Rightarrow> string option \<Rightarrow> string \<Rightarrow> exclusion option" where
  "agent_rule known transports b streaming sut_sdk agent =
     (if agent = sut_id then None else pair_rule known transports b streaming sut_sdk agent)"

definition apply_exclusions ::
  "string list \<Rightarrow> exclusion list \<Rightarrow> transport list \<Rightarrow> behavior \<Rightarrow> bool \<Rightarrow> string option \<Rightarrow>
   string list \<times> (string \<times> exclusion) list" where
  "apply_exclusions sdks known transports b streaming sut_sdk =
     (let rule = agent_rule known transports b streaming sut_sdk in
      (filter (\<lambda>a. rule a = None) sdks, List.map_filter (\<lambda>a. map_option (Pair a) (rule a)) sdks))"

subsection \<open>Expansion\<close>

type_synonym variant = "behavior \<times> transport list \<times> bool"

definition variants :: "traversal_scenario \<Rightarrow> variant list" where
  "variants s = [(b, ts, st). b \<leftarrow> behavior_variants s, ts \<leftarrow> transport_variants s, st \<leftarrow> streaming_options s]"

definition shape_of :: "traversal_scenario \<Rightarrow> topology option" where
  "shape_of s = (if ts_edges s \<noteq> None then None else Some (ts_topology s))"

definition msg_few_agents :: "traversal_scenario \<Rightarrow> string list \<Rightarrow> transport list \<Rightarrow> string" where
  "msg_few_agents s sdks transports = repr_str (ts_name s) @ '': resolves to '' @ show_nat (length sdks) @
     '' agent(s) ('' @ repr_list sdks @ '') for transports '' @ repr_list (map transport_value transports) @
     ''; a traversal needs at least '' @ show_nat min_agents @
     ''. Check the peer list against matrix.yaml transports.''"

definition why_skipped :: "(string \<times> exclusion) list \<Rightarrow> string" where
  "why_skipped dropped = ''known failure '' @ em_dash @ '' '' @
     join_with ''; '' (map (\<lambda>(a, e). a @ '' '' @ em_dash @ '' '' @ rule_summary e) dropped)"

definition executable :: "traversal_scenario \<Rightarrow> string \<Rightarrow> variant \<Rightarrow> transport list \<Rightarrow>
    string list \<times> string list option \<Rightarrow> resolved_scenario" where
  "executable s name v used final = (case v of (b, ts, streaming) \<Rightarrow>
     \<lparr>rv_name = name, rv_sdks = fst final, rv_behavior = behavior_value b, rv_edges = snd final,
      rv_protocols = Some (map transport_value used), rv_streaming = streaming,
      rv_build_subtests = ts_build_subtests s, rv_tier = tier_value (ts_tier s),
      rv_topology = shape_of s\<rparr>)"

definition group_name :: "traversal_scenario \<Rightarrow> variant \<Rightarrow> group \<Rightarrow> string" where
  "group_name s v g = (case (v, g) of ((b, ts, streaming), (sdks, used, label)) \<Rightarrow>
     variant_name s b used streaming (multi_axes s) label)"

definition resolve_group ::
  "traversal_scenario \<Rightarrow> exclusion list \<Rightarrow> string option \<Rightarrow> variant \<Rightarrow> group \<Rightarrow> resolution_report result" where
  "resolve_group s known sut_sdk v g = (case (v, g) of ((b, ts, streaming), (sdks, used, label)) \<Rightarrow>
     if length sdks < min_agents then Raise (ResolutionError (msg_few_agents s sdks ts))
     else
       let name = group_name s v g;
           (kept, dropped) = apply_exclusions sdks known used b streaming sut_sdk
       in rbind (restrict_to_available sdks (shape_of s) (ts_edges s) (set kept) min_agents) (\<lambda>restricted.
            case restricted of
              None \<Rightarrow>
                if dropped \<noteq> []
                then Ok \<lparr>rr_scenarios = [], rr_skipped = [(name, why_skipped dropped)], rr_trimmed = []\<rparr>
                else Raise (TypeError ''cannot unpack non-iterable NoneType object'')
            | Some final \<Rightarrow>
                Ok \<lparr>rr_scenarios = [executable s name v used final], rr_skipped = [],
                    rr_trimmed = map (\<lambda>(a, e). (name, a, rule_summary e)) dropped\<rparr>))"

definition expand_variant ::
  "traversal_scenario \<Rightarrow> matrix \<Rightarrow> exclusion list \<Rightarrow> string option \<Rightarrow> variant \<Rightarrow> resolution_report result" where
  "expand_variant s m known sut_sdk v = (case v of (b, ts, streaming) \<Rightarrow>
     rbind (groups_of s m ts sut_sdk) (\<lambda>gs.
     rbind (traverse (resolve_group s known sut_sdk v) gs) (\<lambda>rs. Ok (joined rs))))"

definition expand_scenario ::
  "traversal_scenario \<Rightarrow> matrix \<Rightarrow> exclusion list \<Rightarrow> string option \<Rightarrow> resolution_report result" where
  "expand_scenario s m known sut_sdk =
     rbind (traverse (expand_variant s m known sut_sdk) (variants s)) (\<lambda>rs. Ok (joined rs))"

definition resolve_one ::
  "matrix \<Rightarrow> exclusion list \<Rightarrow> string option \<Rightarrow> scenario \<Rightarrow> resolution_report result" where
  "resolve_one m known sut_sdk sc = (case sc of
     Legacy l \<Rightarrow> Ok \<lparr>rr_scenarios = [from_legacy l], rr_skipped = [], rr_trimmed = []\<rparr>
   | Traversal s \<Rightarrow> (case test_when_gap s sut_sdk of
       Some why \<Rightarrow> Ok \<lparr>rr_scenarios = [], rr_skipped = [(ts_name s, why)], rr_trimmed = []\<rparr>
     | None \<Rightarrow> expand_scenario s m known sut_sdk))"

definition msg_duplicate_name :: "string \<Rightarrow> string" where
  "msg_duplicate_name n = ''duplicate scenario name '' @ repr_str n @ ''. Results are keyed by name, so one '' @
     ''would overwrite the other and the run would silently test less than it reports.''"

definition resolve_all ::
  "scenario list \<Rightarrow> matrix \<Rightarrow> string option \<Rightarrow> exclusion list \<Rightarrow> resolution_report result" where
  "resolve_all scenarios m sut_sdk known =
     rbind (traverse (resolve_one m known sut_sdk) scenarios) (\<lambda>rs.
       let report = joined rs in
       case first_duplicate {} (map rv_name (rr_scenarios report)) of
         Some n \<Rightarrow> Raise (ResolutionError (msg_duplicate_name n))
       | None \<Rightarrow> Ok report)"

end
