(* ===== verification/ResolverLaws.thy ===== *)
theory ResolverLaws
  imports Resolver
begin

section \<open>Laws of the resolver\<close>

text \<open>
  Two views of a resolution: an account of the names, in which every planned run of every
  scenario is either resolved or reported as skipped, and the conditions every resolved scenario
  meets. Both are first proved of one group and carried through the joined reports.
\<close>

subsection \<open>Joined reports\<close>

text \<open>The names a scenario is to be reported under: one for every variant and group.\<close>

definition planned_names :: "matrix \<Rightarrow> string option \<Rightarrow> scenario \<Rightarrow> string list" where
  "planned_names m sut_sdk sc = (case sc of
     Legacy l \<Rightarrow> [ls_name l]
   | Traversal s \<Rightarrow> (case test_when_gap s sut_sdk of
       Some why \<Rightarrow> [ts_name s]
     | None \<Rightarrow> concat (map (\<lambda>v. case groups_of s m (fst (snd v)) sut_sdk of
           Inl e \<Rightarrow> [] | Inr gs \<Rightarrow> map (group_name s v) gs) (variants s))))"

definition accounts :: "resolution_report \<Rightarrow> string list \<Rightarrow> bool" where
  "accounts r names \<longleftrightarrow>
     mset (map rv_name (rr_scenarios r)) + mset (map fst (rr_skipped r)) = mset names \<and>
     fst ` set (rr_trimmed r) \<subseteq> rv_name ` set (rr_scenarios r)"

lemma joined_simps [simp]:
  "rr_scenarios (joined rs) = concat (map rr_scenarios rs)"
  "rr_skipped (joined rs) = concat (map rr_skipped rs)"
  "rr_trimmed (joined rs) = concat (map rr_trimmed rs)"
  by (simp_all add: joined_def)

lemma accounts_joined:
  "list_all2 accounts rs nss \<Longrightarrow> accounts (joined rs) (concat nss)"
proof (induction rs nss rule: list_all2_induct)
  case Nil
  show ?case by (simp add: accounts_def joined_def)
next
  case (Cons r rs ns nss)
  have eq: "mset (map rv_name (rr_scenarios r)) + mset (map fst (rr_skipped r)) = mset ns"
    "mset (map rv_name (rr_scenarios (joined rs))) + mset (map fst (rr_skipped (joined rs))) = mset (concat nss)"
    using Cons(1,3) unfolding accounts_def by blast+
  have parts: "mset (map rv_name (rr_scenarios (joined (r # rs)))) =
      mset (map rv_name (rr_scenarios r)) + mset (map rv_name (rr_scenarios (joined rs)))"
    "mset (map fst (rr_skipped (joined (r # rs)))) = mset (map fst (rr_skipped r)) + mset (map fst (rr_skipped (joined rs)))"
    "mset (concat (ns # nss)) = mset ns + mset (concat nss)"
    by simp_all
  have "mset (map rv_name (rr_scenarios (joined (r # rs)))) + mset (map fst (rr_skipped (joined (r # rs)))) =
      mset (concat (ns # nss))"
    unfolding parts eq [symmetric] by (simp only: union_ac)
  moreover have "fst ` set (rr_trimmed r) \<subseteq> rv_name ` set (rr_scenarios r)"
    "fst ` set (rr_trimmed (joined rs)) \<subseteq> rv_name ` set (rr_scenarios (joined rs))"
    using Cons(1,3) unfolding accounts_def by blast+
  then have "fst ` set (rr_trimmed (joined (r # rs))) \<subseteq> rv_name ` set (rr_scenarios (joined (r # rs)))"
    unfolding joined_simps list.map concat.simps set_append image_Un by (rule Un_mono)
  ultimately show ?case unfolding accounts_def by (rule conjI)
qed

lemma accounts_traverse:
  assumes "traverse f xs = Ok rs" and "\<And>x r. x \<in> set xs \<Longrightarrow> f x = Ok r \<Longrightarrow> accounts r (g x)"
  shows "accounts (joined rs) (concat (map g xs))"
proof -
  have "list_all2 (\<lambda>x r. accounts r (g x)) xs rs"
    using assms unfolding traverse_Ok_iff by (auto elim: list_all2_mono simp: list.rel_mono_strong)
  then have "list_all2 accounts rs (map g xs)"
    by (simp add: list_all2_conv_all_nth)
  then show ?thesis by (rule accounts_joined)
qed

lemma scenarios_traverse:
  assumes "traverse f xs = Ok rs" "sc \<in> set (rr_scenarios (joined rs))"
  obtains x r where "x \<in> set xs" "f x = Ok r" "sc \<in> set (rr_scenarios r)"
proof -
  from assms(2) obtain r where "r \<in> set rs" "sc \<in> set (rr_scenarios r)" by auto
  moreover from this(1) obtain x where "x \<in> set xs" "f x = Ok r"
    using traverse_Ok_member [OF assms(1)] by blast
  ultimately show ?thesis using that by blast
qed

subsection \<open>One group\<close>

lemma dropped_Nil_iff:
  "snd (apply_exclusions sdks known ts b st sut) = [] \<longleftrightarrow>
     (\<forall>a \<in> set sdks. agent_rule known ts b st sut a = None)"
  by (induction sdks) (auto simp: apply_exclusions_def Let_def List.map_filter_def)

lemma kept_set:
  "set (fst (apply_exclusions sdks known ts b st sut)) = {a \<in> set sdks. agent_rule known ts b st sut a = None}"
  by (auto simp: apply_exclusions_def Let_def)

text \<open>Without a dropped agent nothing is restricted away, so the last branch cannot be reached.\<close>

lemma intact_without_drops:
  assumes "min_agents \<le> length sdks" "set sdks \<subseteq> kept"
  shows "restrict_to_available sdks t es kept min_agents \<noteq> Ok None"
proof -
  have "left_in kept sdks = sdks" using assms(2) by (simp add: filter_id_conv subset_code(1))
  with assms show ?thesis
    by (auto simp: agents.cases_of rbind_eq_Ok split: option.splits)
qed

text \<open>The conditions a resolved scenario meets, whatever scenario it comes from.\<close>

definition speaks :: "matrix \<Rightarrow> string \<Rightarrow> string \<Rightarrow> bool" where
  "speaks m agent p = (case matrix_resolve m agent of Inl e \<Rightarrow> True | Inr e \<Rightarrow> p \<in> me_transports e)"

definition no_known_failure :: "exclusion list \<Rightarrow> string option \<Rightarrow> resolved_scenario \<Rightarrow> string \<Rightarrow> bool" where
  "no_known_failure known sut_sdk sc agent \<longleftrightarrow> find_rule known
     \<lparr>cb_sdks = [sut_id, agent], cb_protocols = rv_protocols sc, cb_behavior = rv_behavior sc,
      cb_streaming = rv_streaming sc, cb_sut_sdk = sut_sdk\<rparr> = None"

definition graph_of :: "traversal_scenario \<Rightarrow> resolved_scenario \<Rightarrow> bool" where
  "graph_of s sc \<longleftrightarrow> (case ts_edges s of
     Some es \<Rightarrow> rv_edges sc = Some es \<and> rv_topology sc = None
   | None \<Rightarrow> rv_topology sc = Some (ts_topology s) \<and>
       topology_to_edges (ts_topology s) (length (rv_sdks sc)) = Ok (rv_edges sc))"

definition can_run ::
  "matrix \<Rightarrow> exclusion list \<Rightarrow> string option \<Rightarrow> traversal_scenario \<Rightarrow> resolved_scenario \<Rightarrow> bool" where
  "can_run m known sut_sdk s sc \<longleftrightarrow>
     min_agents \<le> length (rv_sdks sc) \<and> graph_of s sc \<and>
     (\<forall>a \<in> set (rv_sdks sc). a \<noteq> sut_id \<longrightarrow>
        no_known_failure known sut_sdk sc a \<and> (\<forall>p \<in> set (case rv_protocols sc of None \<Rightarrow> [] | Some ps \<Rightarrow> ps). speaks m a p))"

lemma resolve_group_cases:
  assumes "resolve_group s known sut_sdk (b, ts, st) (sdks, used, label) = Ok r"
  obtains (skipped) why where
      "r = \<lparr>rr_scenarios = [], rr_skipped = [(group_name s (b, ts, st) (sdks, used, label), why)], rr_trimmed = []\<rparr>"
    | (resolved) final dropped where
      "min_agents \<le> length sdks"
      "restrict_to_available sdks (shape_of s) (ts_edges s)
         (set (fst (apply_exclusions sdks known used b st sut_sdk))) min_agents = Ok (Some final)"
      "r = \<lparr>rr_scenarios = [executable s (group_name s (b, ts, st) (sdks, used, label)) (b, ts, st) used final],
         rr_skipped = [], rr_trimmed = map (\<lambda>(a, e). (group_name s (b, ts, st) (sdks, used, label), a, rule_summary e)) dropped\<rparr>"
proof -
  obtain kept dropped where k: "apply_exclusions sdks known used b st sut_sdk = (kept, dropped)" by fastforce
  have n: "\<not> length sdks < min_agents" using assms by (auto simp: resolve_group_def)
  then obtain restricted where q:
    "restrict_to_available sdks (shape_of s) (ts_edges s) (set kept) min_agents = Ok restricted"
    using assms k by (auto simp: resolve_group_def Let_def rbind_eq_Ok)
  show ?thesis
  proof (cases restricted)
    case None
    with assms k n q show ?thesis
      by (auto simp: resolve_group_def Let_def split: if_splits intro: that(1))
  next
    case (Some final)
    with assms k n q show ?thesis
      by (intro that(2)) (auto simp: resolve_group_def Let_def)
  qed
qed

lemma resolve_group_accounts:
  assumes "resolve_group s known sut_sdk v g = Ok r"
  shows "accounts r [group_name s v g]"
proof -
  obtain b ts st sdks used label where v: "v = (b, ts, st)" "g = (sdks, used, label)" by (cases v; cases g) auto
  from assms [unfolded v] show ?thesis
    by (cases rule: resolve_group_cases) (auto simp: accounts_def v executable_def)
qed

text \<open>A group with two agents always has an answer: the resolver raises for no other reason.\<close>

lemma resolve_group_total:
  assumes "min_agents \<le> length (fst g)"
  shows "\<exists>r. resolve_group s known sut_sdk v g = Ok r"
proof -
  obtain b ts st sdks used label where v: "v = (b, ts, st)" "g = (sdks, used, label)" by (cases v; cases g) auto
  obtain kept dropped where k: "apply_exclusions sdks known used b st sut_sdk = (kept, dropped)" by fastforce
  obtain res where r: "restrict_to_available sdks (shape_of s) (ts_edges s) (set kept) min_agents = Ok res"
    using agents.answers [of min_agents] by (metis min_agents_def min_nodes_def order_refl)
  have "res \<noteq> None" if "dropped = []"
  proof -
    have "set sdks \<subseteq> set kept" using that k dropped_Nil_iff [of sdks known used b st sut_sdk]
        kept_set [of sdks known used b st sut_sdk] by auto
    with r assms v show ?thesis using intact_without_drops by (metis fst_conv)
  qed
  then show ?thesis using assms r k unfolding v
    by (auto simp: resolve_group_def Let_def split: option.splits)
qed

subsection \<open>Groups\<close>

lemma speaks_intersect: "t \<in> set (intersect m a ts) \<Longrightarrow> speaks m a (transport_value t)"
  by (auto simp: intersect_def speaks_def split: sum.splits)

lemma can_speak_all: "can_speak m a ts \<Longrightarrow> t \<in> set ts \<Longrightarrow> speaks m a (transport_value t)"
proof -
  assume a: "can_speak m a ts" "t \<in> set ts"
  have "filter P ts = ts" if "length (filter P ts) = length ts" for P :: "transport \<Rightarrow> bool"
    using that by (metis filter_True length_filter_less less_irrefl)
  with a(1) have "intersect m a ts = ts"
    unfolding can_speak_def intersect_def by (cases "matrix_resolve m a") simp_all
  with a(2) show ?thesis using speaks_intersect by metis
qed

lemma groups_speak:
  assumes "groups_of s m ts sut_sdk = Ok gs" "(sdks, used, label) \<in> set gs"
    and "a \<in> set sdks" "a \<noteq> sut_id" "t \<in> set used"
  shows "speaks m a (transport_value t)"
proof -
  obtain ps where "peer_ids s m ts sut_sdk = Ok ps" using assms(1) by (auto simp: groups_of_def rbind_eq_Ok)
  with assms(1,2) have "ts_expand s = TOGETHER \<and> used = ts \<and>
        set sdks \<subseteq> {sut_id} \<union> {p. can_speak m p ts} \<or>
      (\<exists>p. used = intersect m p ts \<and> set sdks \<subseteq> {sut_id, p})"
    by (fastforce simp: groups_of_def Let_def peer_group_def map_filter_def split: if_splits)
  with assms(3-5) show ?thesis
    using can_speak_all speaks_intersect by fastforce
qed

lemma group_can_run:
  assumes "groups_of s m ts sut_sdk = Ok gs" "(sdks, used, label) \<in> set gs"
    and "resolve_group s known sut_sdk (b, ts, st) (sdks, used, label) = Ok r" "sc \<in> set (rr_scenarios r)"
  shows "can_run m known sut_sdk s sc"
  using assms(3)
proof (cases rule: resolve_group_cases)
  case (skipped why)
  with assms(4) show ?thesis by simp
next
  case (resolved final dropped)
  obtain kept es where f: "final = (kept, es)" by (cases final)
  define rest where "rest = set (fst (apply_exclusions sdks known used b st sut_sdk))"
  note q = resolved(2) [folded rest_def, unfolded f]
  have k: "kept = left_in rest sdks" "min_agents \<le> length kept" using agents.survivors [OF q] by blast+
  have sc: "sc = executable s (group_name s (b, ts, st) (sdks, used, label)) (b, ts, st) used (kept, es)"
    using assms(4) resolved(3) f by simp
  have "graph_of s sc"
    using q k by (auto simp: sc graph_of_def executable_def shape_of_def agents.cases_of rbind_eq_Ok
        split: option.splits if_splits)
  moreover have "no_known_failure known sut_sdk sc a" if "a \<in> set kept" "a \<noteq> sut_id" for a
    using that unfolding k(1) rest_def kept_set
    by (auto simp: sc executable_def no_known_failure_def agent_rule_def pair_rule_def)
  moreover have "speaks m a (transport_value t)" if "a \<in> set kept" "a \<noteq> sut_id" "t \<in> set used" for a t
    using groups_speak [OF assms(1,2)] that k(1) by simp
  ultimately show ?thesis
    using k(2) by (auto simp: can_run_def sc executable_def)
qed

end
