(* ===== verification/Selection.thy ===== *)
theory Selection
  imports Resolver Suites
begin

section \<open>Planning and running a batch (itk_runner.py, launcher/spec.py)\<close>

text \<open>
  Launch targets and their checks, the resolution of the agents of a batch to targets, the
  decision what each scenario can still run, and the run after the cluster has started. Resolving
  a ref at its remote and executing a scenario are operations on a world that are parameters.
\<close>

subsection \<open>Launch targets\<close>

datatype kind = MOUNT | CHECKOUT

fun launch_kind_value :: "kind \<Rightarrow> string" where
  "launch_kind_value MOUNT = ''mount''"
| "launch_kind_value CHECKOUT = ''checkout''"

record target_spec =
  tg_kind :: kind
  tg_repo :: "string option"
  tg_sha :: "string option"

definition sha_char :: "char \<Rightarrow> bool" where
  "sha_char c = (ascii_digit c \<or> 97 \<le> code_of c \<and> code_of c \<le> 102)"

definition repo_char :: "char \<Rightarrow> bool" where
  "repo_char c = (id_char c \<or> 65 \<le> code_of c \<and> code_of c \<le> 90 \<or> c \<in> set ''_.-'')"

text \<open>The patterns \<open>^[0-9a-f]{40}$\<close> and \<open>^[A-Za-z0-9_.-]+/[A-Za-z0-9_.-]+$\<close>.\<close>

definition is_sha :: "string \<Rightarrow> bool" where
  "is_sha s = (list_all sha_char (take 40 s) \<and> length (take 40 s) = 40 \<and> at_end (drop 40 s))"

definition is_repo :: "string \<Rightarrow> bool" where
  "is_repo s =
     (let owner = takeWhile repo_char s; r = dropWhile repo_char s in
      owner \<noteq> [] \<and> starts_with r ''/'' \<and>
      takeWhile repo_char (drop 1 r) \<noteq> [] \<and> at_end (dropWhile repo_char (drop 1 r)))"

definition check_present :: "kind \<Rightarrow> string \<times> string option \<Rightarrow> unit result" where
  "check_present k = (\<lambda>(name, v). if v = None
     then Raise (ValueError (launch_kind_value k @ '' spec requires '' @ repr_str name)) else Ok ())"

definition check_absent :: "kind \<Rightarrow> string \<times> string option \<Rightarrow> unit result" where
  "check_absent k = (\<lambda>(name, v). if v \<noteq> None
     then Raise (ValueError (launch_kind_value k @ '' spec must not set '' @ repr_str name)) else Ok ())"

definition check_repo :: "string \<Rightarrow> unit result" where
  "check_repo r = (if is_repo r then Ok ()
     else Raise (ValueError (''invalid repo '' @ repr_str r @ '' (expected \"owner/name\")'')))"

definition check_sha :: "string \<Rightarrow> unit result" where
  "check_sha s = (if is_sha s then Ok ()
     else Raise (ValueError (''invalid sha '' @ repr_str s @ '': expected a resolved 40-hex commit; symbolic '' @
       ''refs (main, tags, short SHAs) must be resolved via git ls-remote at plan time'')))"

definition make_target :: "kind \<Rightarrow> string option \<Rightarrow> string option \<Rightarrow> target_spec result" where
  "make_target k repo sha =
     (let fields = [(''repo'', repo), (''sha'', sha)]; t = \<lparr>tg_kind = k, tg_repo = repo, tg_sha = sha\<rparr> in
      case k of
        MOUNT \<Rightarrow> rbind (traverse (check_absent k) fields) (\<lambda>_. Ok t)
      | CHECKOUT \<Rightarrow> rbind (traverse (check_present k) fields) (\<lambda>_.
          (case (repo, sha) of
             (Some r, Some s) \<Rightarrow> rbind (check_repo r) (\<lambda>_. rbind (check_sha s) (\<lambda>_. Ok t))
           | _ \<Rightarrow> Raise (ValueError []))))"

definition repo_slug :: "string \<Rightarrow> string" where "repo_slug repo = py_replace ''/'' ''_'' repo"

definition cache_slug :: "target_spec \<Rightarrow> string result" where
  "cache_slug t = (case (tg_kind t, tg_repo t, tg_sha t) of
     (CHECKOUT, Some r, Some s) \<Rightarrow> Ok (repo_slug r @ ''@'' @ s)
   | _ \<Rightarrow> Raise (ValueError (''cache_slug not defined for '' @ launch_kind_value (tg_kind t) @ '' spec'')))"

subsection \<open>Resolving the agents of a batch\<close>

text \<open>
  The loop of \<open>build_specs\<close>: its cache of resolved refs and its targets so far. \<open>resolve_ref\<close> asks
  the remote; what it does to the world includes that it was asked.
\<close>

fun build_specs_loop ::
  "matrix \<Rightarrow> (string \<Rightarrow> string \<Rightarrow> 'w \<Rightarrow> string result \<times> 'w) \<Rightarrow> string list \<Rightarrow>
   (string \<times> string, string) dict \<Rightarrow> (string, target_spec) dict \<Rightarrow>
   ('w, (string, target_spec) dict) state_result" where
  "build_specs_loop m resolve_ref [] sha_cache specs = st_return specs"
| "build_specs_loop m resolve_ref (i # ids) sha_cache specs =
     (if i = sut_id then
        st_bind (st_lift (make_target MOUNT None None)) (\<lambda>t.
          build_specs_loop m resolve_ref ids sha_cache (AList.update i t specs))
      else st_bind (st_lift (matrix_resolve m i)) (\<lambda>e.
        let key = (me_repo e, me_ref e) in
        st_bind (case map_of sha_cache key of
            Some sha \<Rightarrow> st_return sha
          | None \<Rightarrow> resolve_ref (me_repo e) (me_ref e)) (\<lambda>sha.
        st_bind (st_lift (make_target CHECKOUT (Some (me_repo e)) (Some sha))) (\<lambda>t.
          build_specs_loop m resolve_ref ids
            (if map_of sha_cache key = None then AList.update key sha sha_cache else sha_cache)
            (AList.update i t specs)))))"

definition build_specs ::
  "matrix \<Rightarrow> (string \<Rightarrow> string \<Rightarrow> 'w \<Rightarrow> string result \<times> 'w) \<Rightarrow> string list \<Rightarrow>
   ('w, (string, target_spec) dict) state_result" where
  "build_specs m resolve_ref ids = build_specs_loop m resolve_ref ids [] []"

definition batch_ids :: "resolved_scenario list \<Rightarrow> string list" where
  "batch_ids scs = sort (remdups (concat (map rv_sdks scs)))"

definition plan_batch ::
  "matrix \<Rightarrow> (string \<Rightarrow> string \<Rightarrow> 'w \<Rightarrow> string result \<times> 'w) \<Rightarrow> resolved_scenario list \<Rightarrow>
   ('w, (string, target_spec) dict) state_result" where
  "plan_batch m resolve_ref scs = build_specs m resolve_ref (batch_ids scs)"

subsection \<open>What each scenario can still run\<close>

record selection =
  sl_runnable :: "(resolved_scenario \<times> string list \<times> string list option) list"
  sl_trimmed :: "(string \<times> string list) list"
  sl_skipped :: "(string \<times> string list) list"

definition missing_agents :: "string set \<Rightarrow> resolved_scenario \<Rightarrow> string list" where
  "missing_agents started s = filter (\<lambda>i. i \<notin> started) (rv_sdks s)"

definition select_one :: "string set \<Rightarrow> resolved_scenario \<Rightarrow> selection result" where
  "select_one started s =
     (if missing_agents started s = []
      then Ok \<lparr>sl_runnable = [(s, rv_sdks s, rv_edges s)], sl_trimmed = [], sl_skipped = []\<rparr>
      else rbind (restrict_to_available (rv_sdks s) (rv_topology s) (rv_edges s) started min_nodes) (\<lambda>r.
        case r of
          None \<Rightarrow> Ok \<lparr>sl_runnable = [], sl_trimmed = [],
                       sl_skipped = [(rv_name s, missing_agents started s)]\<rparr>
        | Some (kept, es) \<Rightarrow> Ok \<lparr>sl_runnable = [(s, kept, es)],
                       sl_trimmed = [(rv_name s, missing_agents started s)], sl_skipped = []\<rparr>))"

definition select_runnable :: "resolved_scenario list \<Rightarrow> string set \<Rightarrow> selection result" where
  "select_runnable scs started = rbind (traverse (select_one started) scs) (\<lambda>ss. Ok
     \<lparr>sl_runnable = concat (map sl_runnable ss), sl_trimmed = concat (map sl_trimmed ss),
      sl_skipped = concat (map sl_skipped ss)\<rparr>)"

end
