(* ===== verification/Testlib.thy ===== *)
theory Testlib
  imports Selection
begin

section \<open>Executing a traversal (testlib.py)\<close>

text \<open>
  The request a traversal is started with, the texts read out of replies and notifications, the
  verdicts on them, and the execution of a scenario with its subtests. The exchanges with the
  first agent and the notification server, the serialisation of an instruction and the fresh ids
  are parameters; a test that outlives its deadline is one of the exchanges that raise.
\<close>

subsection \<open>Reading values\<close>

definition py_in :: "string \<Rightarrow> json \<Rightarrow> bool result" where
  "py_in k v = (case v of
     JObj d \<Rightarrow> Ok (map_of d k \<noteq> None)
   | JHeaders d \<Rightarrow> Ok (map_of d k \<noteq> None)
   | JArr xs \<Rightarrow> Ok (list_ex (\<lambda>x. x = JStr k) xs)
   | JStr s \<Rightarrow> Ok (contains s k)
   | _ \<Rightarrow> Raise (TypeError (''argument of type '' @ repr_str (type_name v) @ '' is not iterable'')))"

definition get_item :: "json \<Rightarrow> string \<Rightarrow> json result" where
  "get_item v k = (case v of
     JObj d \<Rightarrow> (case map_of d k of Some x \<Rightarrow> Ok x | None \<Rightarrow> Raise (KeyError k))
   | JArr xs \<Rightarrow> Raise (TypeError ''list indices must be integers or slices, not str'')
   | JStr s \<Rightarrow> Raise (TypeError ''string indices must be integers, not str'')
   | _ \<Rightarrow> Raise (TypeError (repr_str (type_name v) @ '' object is not subscriptable'')))"

definition dict_get :: "json \<Rightarrow> string \<Rightarrow> json result" where
  "dict_get v k = (case v of
     JObj d \<Rightarrow> Ok (get_key d k)
   | _ \<Rightarrow> Raise (AttributeError (repr_str (type_name v) @ '' object has no attribute '' @ repr_str ''get'')))"

definition str_value :: "json \<Rightarrow> string result" where
  "str_value v = (case v of
     JStr s \<Rightarrow> Ok s | _ \<Rightarrow> Raise (TypeError (''expected str instance, '' @ type_name v @ '' found'')))"

text \<open>A chain of keys, each asked for before it is followed: \<open>'a' in v and 'b' in v['a']\<close>.\<close>

fun find_path :: "json \<Rightarrow> string list \<Rightarrow> json option result" where
  "find_path v [] = Ok (Some v)"
| "find_path v (k # ks) = rbind (py_in k v) (\<lambda>there.
     if there then rbind (get_item v k) (\<lambda>w. find_path w ks) else Ok None)"

fun first_path :: "json \<Rightarrow> string list list \<Rightarrow> json option result" where
  "first_path v [] = Ok None"
| "first_path v (p # ps) = rbind (find_path v p) (\<lambda>r. if r = None then first_path v ps else Ok r)"

subsection \<open>Texts of messages\<close>

definition part_text :: "json \<Rightarrow> json list result" where
  "part_text part = rbind (find_path part [''text'']) (\<lambda>t. Ok (case t of
     Some x \<Rightarrow> if truthy x then [x] else [] | None \<Rightarrow> []))"

definition part_texts :: "json \<Rightarrow> json list result" where
  "part_texts msg = rbind (find_path msg [''parts'']) (\<lambda>ps. case ps of
     None \<Rightarrow> Ok []
   | Some v \<Rightarrow> rbind (iterate v) (\<lambda>xs. rbind (traverse part_text xs) (\<lambda>ts. Ok (concat ts))))"

definition response_message :: "json \<Rightarrow> json option result" where
  "response_message res = rbind (find_path res [''parts'']) (\<lambda>ps.
     if ps \<noteq> None then Ok (Some res)
     else first_path res [[''message''], [''status'', ''message''], [''task'', ''status'', ''message'']])"

definition response_history :: "json \<Rightarrow> json option result" where
  "response_history res = first_path res [[''history''], [''task'', ''history'']]"

definition agent_message_texts :: "json \<Rightarrow> json list result" where
  "agent_message_texts msg = rbind (dict_get msg ''role'') (\<lambda>role.
     if role = JStr ''agent'' \<or> role = JStr ''ROLE_AGENT'' then part_texts msg else Ok [])"

definition extract_response_text :: "json \<Rightarrow> string result" where
  "extract_response_text res =
     rbind (response_message res) (\<lambda>msg.
     rbind (case msg of Some m \<Rightarrow> if truthy m then part_texts m else Ok [] | None \<Rightarrow> Ok []) (\<lambda>texts.
     rbind (response_history res) (\<lambda>history.
     rbind (case history of Some h \<Rightarrow> iterate h | None \<Rightarrow> Ok []) (\<lambda>msgs.
     rbind (traverse agent_message_texts msgs) (\<lambda>more.
     rbind (traverse str_value (texts @ concat more)) (\<lambda>parts.
       Ok (py_strip (concat parts))))))))"

text \<open>The two shapes of a push notification.\<close>

definition message_texts_of_role :: "string \<Rightarrow> json \<Rightarrow> json list result" where
  "message_texts_of_role role msg =
     (if \<not> truthy msg then Ok []
      else rbind (dict_get msg ''role'') (\<lambda>r. if r = JStr role then part_texts msg else Ok []))"

definition status_message_texts :: "string \<Rightarrow> json \<Rightarrow> json list result" where
  "status_message_texts role status = (case status of
     JObj d \<Rightarrow> (case map_of d ''message'' of
         Some msg \<Rightarrow> message_texts_of_role role msg | None \<Rightarrow> Ok [])
   | _ \<Rightarrow> Ok [])"

definition read_v10_notif :: "json \<Rightarrow> json list result" where
  "read_v10_notif event = rbind (dict_get event ''statusUpdate'') (\<lambda>camel.
     rbind (if truthy camel then Ok camel else dict_get event ''status_update'') (\<lambda>update.
       case update of
         JObj d \<Rightarrow> (case map_of d ''status'' of
             Some status \<Rightarrow> status_message_texts ''ROLE_AGENT'' status | None \<Rightarrow> Ok [])
       | _ \<Rightarrow> Ok []))"

definition read_v03_notif :: "json \<Rightarrow> json list result" where
  "read_v03_notif event = rbind (dict_get event ''status'') (\<lambda>status.
     status_message_texts ''agent'' status)"

definition notif_texts :: "json \<Rightarrow> json list result" where
  "notif_texts event = rbind (read_v10_notif event) (\<lambda>ts.
     if ts \<noteq> [] then Ok ts else read_v03_notif event)"

text \<open>
  \<open>read_push_notifications\<close> of the server's answer, \<open>None\<close> when there is none with status 200.
  An exception ends the reading and keeps the texts read so far.
\<close>

fun read_notifs :: "json list \<Rightarrow> json list" where
  "read_notifs [] = []"
| "read_notifs (n # ns) = (case rbind (dict_get n ''event'') (\<lambda>e.
       notif_texts (case n of JObj d \<Rightarrow> (if map_of d ''event'' = None then JObj [] else e) | _ \<Rightarrow> e)) of
     Inl e \<Rightarrow> [] | Inr ts \<Rightarrow> ts @ read_notifs ns)"

definition read_push_notifications :: "json option \<Rightarrow> json list" where
  "read_push_notifications answer = (case answer of
     Some (JObj d) \<Rightarrow> (case map_of d ''notifications'' of
         None \<Rightarrow> [] | Some v \<Rightarrow> (case iterate v of Inl e \<Rightarrow> [] | Inr ns \<Rightarrow> read_notifs ns))
   | _ \<Rightarrow> [])"

subsection \<open>Verdicts\<close>

definition all_tokens_in :: "string \<Rightarrow> string list \<Rightarrow> bool" where
  "all_tokens_in text tokens = list_all (contains text) tokens"

definition verify_send_message :: "json \<Rightarrow> string list \<Rightarrow> bool result" where
  "verify_send_message res tokens =
     rbind (extract_response_text res) (\<lambda>text. Ok (all_tokens_in text tokens))"

text \<open>The expected tokens cut after each terminal token.\<close>

fun token_chains :: "string list \<Rightarrow> string list \<Rightarrow> string list list" where
  "token_chains current [] = (if current = [] then [] else [current])"
| "token_chains current (t # ts) =
     (if starts_with t ''traversal-completed:'' then (current @ [t]) # token_chains [] ts
      else token_chains (current @ [t]) ts)"

fun chain_states_go :: "string \<Rightarrow> string list \<Rightarrow> string list" where
  "chain_states_go current [] = []"
| "chain_states_go current (t # ts) =
     (let state = t @ [CHR 0x0A] @ current in state # chain_states_go state ts)"

definition chain_states :: "string list \<Rightarrow> string list" where
  "chain_states chain = (if chain = [] then [] else last chain # chain_states_go (last chain) (butlast chain))"

definition expected_states :: "string list \<Rightarrow> string list" where
  "expected_states tokens = concat (map chain_states (token_chains [] tokens))"

definition strike_seen :: "string \<Rightarrow> string list \<Rightarrow> string list" where
  "strike_seen text remaining =
     fold (\<lambda>state left. if contains text state then remove1 state left else left) remaining remaining"

definition verify_push_notification :: "string list \<Rightarrow> string list \<Rightarrow> bool" where
  "verify_push_notification texts tokens =
     (fold strike_seen texts (expected_states tokens) = [] \<and> all_tokens_in (concat texts) tokens)"

subsection \<open>Requests and replies\<close>

definition create_payload :: "bool \<Rightarrow> string \<Rightarrow> bool \<Rightarrow> string \<Rightarrow> string \<Rightarrow> (string \<times> json) list" where
  "create_payload is_v0 b64 streaming message_id request_id =
     (let rpc = (if is_v0 then (if streaming then ''message/stream'' else ''message/send'')
                 else if streaming then ''SendStreamingMessage'' else ''SendMessage'');
          message = (if is_v0
            then [(''role'', JStr ''user''), (''messageId'', JStr message_id),
                  (''parts'', JArr [JObj [(''kind'', JStr ''file''),
                     (''file'', JObj [(''bytes'', JStr b64), (''mimeType'', JStr ''application/x-protobuf''),
                        (''name'', JStr ''instruction.bin'')])]]),
                  (''metadata'', JObj [(''a2a/protocol_version'', JStr ''0.3'')])]
            else [(''role'', JStr ''ROLE_USER''), (''messageId'', JStr message_id),
                  (''parts'', JArr [JObj [(''raw'', JStr b64), (''mediaType'', JStr ''application/x-protobuf''),
                     (''filename'', JStr ''instruction.bin'')]])])
      in [(''jsonrpc'', JStr ''2.0''), (''method'', JStr rpc), (''params'', JObj [(''message'', JObj message)]),
          (''id'', JStr request_id)])"

definition is_v0_agent :: "string \<Rightarrow> bool" where "is_v0_agent a = contains a ''v03''"

definition rstrip_slash :: "string \<Rightarrow> string" where
  "rstrip_slash s = rev (dropWhile (\<lambda>c. c = CHR 0x2F) (rev s))"

definition target_url :: "bool \<Rightarrow> string \<Rightarrow> string \<Rightarrow> string" where
  "target_url go_or_rust_mount a base_uri =
     (let url = rstrip_slash base_uri @ ''/jsonrpc'' in
      if contains a ''go'' \<or> starts_with a ''rust_'' \<or> a = sut_id \<and> go_or_rust_mount
      then rstrip_slash url else rstrip_slash url @ ''/'')"

definition with_push_config :: "bool \<Rightarrow> string \<Rightarrow> string \<Rightarrow> (string \<times> json) list \<Rightarrow> (string \<times> json) list" where
  "with_push_config is_v0 url token payload =
     (let config = JObj [(''url'', JStr (url @ ''/notifications'')), (''token'', JStr token)];
          field = (if is_v0 then ''pushNotificationConfig'' else ''taskPushNotificationConfig'')
      in case map_of payload ''params'' of
           Some (JObj ps) \<Rightarrow> AList.update ''params''
             (JObj (AList.update ''configuration'' (JObj [(field, config)]) ps)) payload
         | _ \<Rightarrow> payload)"

definition version_headers :: "bool \<Rightarrow> (string, string) dict" where
  "version_headers is_v0 = [(''A2A-Version'', if is_v0 then ''0.3'' else ''1.0'')]"

text \<open>
  The events of a stream, \<open>None\<close> where the data is no JSON; an event that cannot be read is
  passed over. Reading ends when every expected token has been seen.
\<close>

definition event_text :: "bool \<Rightarrow> json \<Rightarrow> string result" where
  "event_text is_v0 res =
     (if is_v0 then extract_response_text res
      else rbind (read_v10_notif res) (\<lambda>ts. rbind (traverse str_value ts) (\<lambda>ss. Ok (join_with [CHR 0x0A] ss))))"

definition lines_of :: "string list \<Rightarrow> string" where "lines_of ss = join_with [CHR 0x0A] ss"

fun read_stream :: "bool \<Rightarrow> string list \<Rightarrow> string list \<Rightarrow> json option list \<Rightarrow> string list" where
  "read_stream is_v0 tokens collected [] = collected"
| "read_stream is_v0 tokens collected (ev # evs) =
     (case ev of None \<Rightarrow> read_stream is_v0 tokens collected evs
      | Some data \<Rightarrow> (case find_path data [''result''] of
          Inl e \<Rightarrow> read_stream is_v0 tokens collected evs
        | Inr None \<Rightarrow> read_stream is_v0 tokens collected evs
        | Inr (Some res) \<Rightarrow> (case event_text is_v0 res of
            Inl e \<Rightarrow> read_stream is_v0 tokens collected evs
          | Inr text \<Rightarrow>
              (let now = (if text = [] then collected else collected @ [text]) in
               if all_tokens_in (lines_of now) tokens then now
               else read_stream is_v0 tokens now evs))))"

definition stream_response :: "string list \<Rightarrow> json" where
  "stream_response collected = JObj [(''status'', JObj [(''message'', JObj [(''parts'',
     JArr [JObj [(''text'', JStr (lines_of collected))]])])])]"

definition sync_response :: "json \<Rightarrow> json result" where
  "sync_response answer = rbind (find_path answer [''error'']) (\<lambda>err. case err of
     Some e \<Rightarrow> Raise (RuntimeError (''JSON-RPC Error: '' @ py_str e))
   | None \<Rightarrow> (case answer of
       JObj d \<Rightarrow> Ok (case map_of d ''result'' of None \<Rightarrow> JObj [] | Some v \<Rightarrow> v)
     | _ \<Rightarrow> dict_get answer ''result''))"

end
