(* ===== verification/Execution.thy ===== *)
theory Execution
  imports Testlib
begin

section \<open>Running scenarios and batches (testlib.py, itk_runner.py)\<close>

text \<open>
  One traversal from its instruction to its verdict, a scenario with its subtests, and the run of
  a batch after its cluster has started. The world \<open>'w\<close> is what the exchanges change.
\<close>

subsection \<open>The harness\<close>

record 'w harness =
  h_add :: "sdk \<Rightarrow> sdk list \<Rightarrow> sdk list"
  h_transports :: "string list"
  h_serialize :: "instruction \<Rightarrow> string"
  h_uuid :: "'w \<Rightarrow> string \<times> 'w"
  h_go_or_rust_mount :: bool
  h_start_notifications :: "string \<Rightarrow> 'w \<Rightarrow> string result \<times> 'w"
  h_stop_notifications :: "string \<Rightarrow> 'w \<Rightarrow> 'w"
  h_post :: "string \<Rightarrow> (string, string) dict \<Rightarrow> json \<Rightarrow> 'w \<Rightarrow> json result \<times> 'w"
  h_stream :: "string \<Rightarrow> (string, string) dict \<Rightarrow> json \<Rightarrow> 'w \<Rightarrow> json option list result \<times> 'w"
  h_notifications :: "string \<Rightarrow> 'w \<Rightarrow> json option \<times> 'w"

definition ask :: "('w \<Rightarrow> 'a \<times> 'w) \<Rightarrow> ('w, 'a) state_result" where
  "ask f w = (case f w of (x, w') \<Rightarrow> (Ok x, w'))"

definition tell :: "('w \<Rightarrow> 'w) \<Rightarrow> ('w, unit) state_result" where "tell f w = (Ok (), f w)"

text \<open>\<open>try: ... finally: ...\<close> with a clean-up that does not raise.\<close>

definition st_finally :: "('w, 'a) state_result \<Rightarrow> ('w \<Rightarrow> 'w) \<Rightarrow> ('w, 'a) state_result" where
  "st_finally m f w = (case m w of (x, w') \<Rightarrow> (x, f w'))"

subsection \<open>One traversal\<close>

record traversal_config =
  tc_behavior :: string
  tc_protocols :: "string list option"
  tc_streaming :: bool

definition suite_config_of :: "traversal_config \<Rightarrow> string list option \<Rightarrow> string \<Rightarrow> suite_config" where
  "suite_config_of c es url = \<lparr>sc_edges = es, sc_protocols = tc_protocols c, sc_streaming = tc_streaming c,
     sc_behavior = tc_behavior c, sc_url = url\<rparr>"

definition exchange :: "'w harness \<Rightarrow> traversal_config \<Rightarrow> bool \<Rightarrow> string \<Rightarrow> json \<Rightarrow> string list \<Rightarrow>
    ('w, json) state_result" where
  "exchange h c is_v0 url payload tokens =
     (if tc_streaming c
      then st_bind (h_stream h url (version_headers is_v0) payload) (\<lambda>evs.
        st_return (stream_response (read_stream is_v0 tokens [] evs)))
      else st_bind (h_post h url (version_headers is_v0) payload) (\<lambda>answer. st_lift (sync_response answer)))"

definition judge :: "'w harness \<Rightarrow> traversal_config \<Rightarrow> string \<Rightarrow> json \<Rightarrow> string list \<Rightarrow> ('w, bool) state_result" where
  "judge h c notify_url res tokens =
     (if tc_behavior c = ''push_notification''
      then st_bind (ask (h_notifications h notify_url)) (\<lambda>answer.
        st_bind (st_lift (traverse str_value (read_push_notifications answer))) (\<lambda>texts.
          st_return (verify_push_notification texts tokens)))
      else if tc_behavior c = ''send_message'' \<or> tc_behavior c = ''resubscribe''
      then st_lift (verify_send_message res tokens)
      else st_raise (ValueError (''Unsupported behavior: '' @ tc_behavior c)))"

definition traverse_cluster ::
  "'w harness \<Rightarrow> agent_table \<Rightarrow> traversal_config \<Rightarrow> sdk list \<Rightarrow> string list option \<Rightarrow> string \<Rightarrow>
   ('w, bool) state_result" where
  "traverse_cluster h agents c sdks es notify_url =
     st_bind (st_lift (create_test_suite (h_add h) (h_transports h) sdks agents (suite_config_of c es notify_url)))
       (\<lambda>(inst, tokens).
     st_bind (st_lift (first_sdk sdks)) (\<lambda>first.
     st_bind (st_lift (card_uri agents first)) (\<lambda>base.
     st_bind (ask (h_uuid h)) (\<lambda>message_id.
     st_bind (ask (h_uuid h)) (\<lambda>request_id.
     st_bind (ask (h_uuid h)) (\<lambda>token.
       let is_v0 = is_v0_agent first;
           payload = create_payload is_v0 (h_serialize h inst) (tc_streaming c) message_id request_id;
           payload' = (if tc_behavior c = ''push_notification'' \<and> notify_url \<noteq> []
             then with_push_config is_v0 notify_url token payload else payload)
       in st_bind (exchange h c is_v0 (target_url (h_go_or_rust_mount h) first base) (JObj payload') tokens)
            (\<lambda>res. judge h c notify_url res tokens)))))))"

definition execute_single ::
  "'w harness \<Rightarrow> agent_table \<Rightarrow> traversal_config \<Rightarrow> sdk list \<Rightarrow> string list option \<Rightarrow> string \<Rightarrow>
   ('w, bool) state_result" where
  "execute_single h agents c sdks es label =
     (if tc_behavior c = ''push_notification''
      then st_bind (h_start_notifications h label) (\<lambda>url.
        st_finally (traverse_cluster h agents c sdks es url) (h_stop_notifications h url))
      else traverse_cluster h agents c sdks es [])"

text \<open>An exception of one test is that test's failure.\<close>

definition passed_or_failed :: "('w, bool) state_result \<Rightarrow> ('w, bool) state_result" where
  "passed_or_failed m = st_catch m (\<lambda>_. st_return False)"

subsection \<open>A scenario and its subtests\<close>

record test_details =
  td_passed :: bool
  td_sdks :: "sdk list"
  td_edges :: "string list option"

definition subtest_name :: "string \<Rightarrow> sdk list \<Rightarrow> sdk list \<Rightarrow> string" where
  "subtest_name label sdks sub_sdks =
     (if length sub_sdks = length sdks then label else label @ ''-sub-'' @ join_with ''-'' sub_sdks)"

definition run_named :: "'w harness \<Rightarrow> agent_table \<Rightarrow> traversal_config \<Rightarrow> string \<times> sdk list \<times> string list option \<Rightarrow>
    ('w, string \<times> test_details) state_result" where
  "run_named h agents c = (\<lambda>(name, sdks, es).
     st_bind (passed_or_failed (execute_single h agents c sdks es name)) (\<lambda>p.
       st_return (name, \<lparr>td_passed = p, td_sdks = sdks, td_edges = es\<rparr>)))"

definition execute_itk_test ::
  "'w harness \<Rightarrow> agent_table \<Rightarrow> traversal_config \<Rightarrow> sdk list \<Rightarrow> string list option \<Rightarrow> string \<Rightarrow> bool \<Rightarrow>
   ('w, (string, test_details) dict) state_result" where
  "execute_itk_test h agents c sdks es label build_subtests =
     (if \<not> build_subtests
      then st_bind (run_named h agents c (label, sdks, es)) (\<lambda>r. st_return [r])
      else st_bind (st_lift (get_valid_subgraphs (h_add h) (h_transports h) sdks agents (suite_config_of c es [])))
        (\<lambda>subgraphs.
          st_bind (st_traverse (\<lambda>(sub, sub_es). run_named h agents c (subtest_name label sdks sub, sub, sub_es)) subgraphs)
            (\<lambda>rs. st_return (dict_merge [] rs))))"

subsection \<open>A batch\<close>

record scenario_result =
  sr_passed :: bool
  sr_sdks :: "sdk list"
  sr_edges :: "string list option"
  sr_protocols :: "string list option"
  sr_behavior :: string
  sr_streaming :: bool
  sr_tier :: string

record run_report =
  ru_results :: "(string, scenario_result) dict"
  ru_dropped :: "(string, string) dict"
  ru_trimmed :: "(string \<times> string list) list"
  ru_skipped :: "(string \<times> string list) list"

text \<open>What starting an agent gave: where it listens, or the stage and the error.\<close>

type_synonym start_outcome = "agent_endpoint + (string \<times> string)"

definition started_agents :: "string list \<Rightarrow> start_outcome list \<Rightarrow> agent_table" where
  "started_agents ids outcomes =
     List.map_filter (\<lambda>(i, out). case out of Inl e \<Rightarrow> Some (i, e) | Inr _ \<Rightarrow> None) (zip ids outcomes)"

definition dropped_peers :: "string list \<Rightarrow> start_outcome list \<Rightarrow> (string, string) dict" where
  "dropped_peers ids outcomes = List.map_filter
     (\<lambda>(i, out). case out of Inl e \<Rightarrow> None | Inr (stage, err) \<Rightarrow> Some (i, stage @ '': '' @ err)) (zip ids outcomes)"

definition startup_error :: "(string, string) dict \<Rightarrow> string \<Rightarrow> py_exn" where
  "startup_error dropped why = ClusterStartupError (sort dropped) (Some why)"

definition recorded :: "resolved_scenario \<Rightarrow> test_details \<Rightarrow> scenario_result" where
  "recorded s d = \<lparr>sr_passed = td_passed d, sr_sdks = td_sdks d, sr_edges = td_edges d,
     sr_protocols = rv_protocols s, sr_behavior = rv_behavior s, sr_streaming = rv_streaming s,
     sr_tier = rv_tier s\<rparr>"

definition config_of :: "resolved_scenario \<Rightarrow> traversal_config" where
  "config_of s = \<lparr>tc_behavior = rv_behavior s, tc_protocols = rv_protocols s, tc_streaming = rv_streaming s\<rparr>"

fun run_selected ::
  "'w harness \<Rightarrow> agent_table \<Rightarrow> (resolved_scenario \<times> string list \<times> string list option) list \<Rightarrow>
   (string, scenario_result) dict \<Rightarrow> ('w, (string, scenario_result) dict) state_result" where
  "run_selected h agents [] results = st_return results"
| "run_selected h agents ((s, sdks, es) # rest) results =
     st_bind (execute_itk_test h agents (config_of s) sdks es (rv_name s) (rv_build_subtests s)) (\<lambda>raw.
       run_selected h agents rest (dict_merge results (map (\<lambda>(n, d). (n, recorded s d)) raw)))"

text \<open>\<open>_run_locked\<close> from the outcomes of \<open>start_all\<close> on.\<close>

definition run_started ::
  "'w harness \<Rightarrow> resolved_scenario list \<Rightarrow> string list \<Rightarrow> start_outcome list \<Rightarrow> ('w, run_report) state_result" where
  "run_started h scenarios ids outcomes =
     (let agents = started_agents ids outcomes; dropped = dropped_peers ids outcomes in
      if sut_id \<in> set (map fst dropped)
      then st_raise (startup_error dropped (''the code under test ('' @ repr_str sut_id @ '') failed to start''))
      else st_bind (st_lift (select_runnable scenarios (set (map fst agents)))) (\<lambda>sel.
        if sl_runnable sel = []
        then st_raise (startup_error dropped ''every scenario needed a peer that failed to start'')
        else st_bind (run_selected h agents (sl_runnable sel) []) (\<lambda>results.
          st_return \<lparr>ru_results = results, ru_dropped = dropped, ru_trimmed = sl_trimmed sel,
                     ru_skipped = sl_skipped sel\<rparr>)))"

text \<open>\<open>run_scenarios\<close> without its lock: plan, start the cluster, run.\<close>

definition run_scenarios ::
  "'w harness \<Rightarrow> matrix \<Rightarrow> (string \<Rightarrow> string \<Rightarrow> 'w \<Rightarrow> string result \<times> 'w) \<Rightarrow>
   (target_spec list \<Rightarrow> 'w \<Rightarrow> start_outcome list \<times> 'w) \<Rightarrow> ('w \<Rightarrow> 'w) \<Rightarrow>
   resolved_scenario list \<Rightarrow> ('w, run_report) state_result" where
  "run_scenarios h m resolve_ref start_all close scenarios =
     (if scenarios = [] then st_raise (ValueError ''No scenarios provided'')
      else st_bind (plan_batch m resolve_ref scenarios) (\<lambda>specs.
        st_finally (st_bind (ask (start_all (map snd specs))) (\<lambda>outcomes.
          run_started h scenarios (map fst specs) outcomes)) close))"

end
