(* ===== verification/ScenarioClaims.thy ===== *)
theory ScenarioClaims
  imports ResolverLaws Execution
begin

section \<open>Claims about scenarios and batches\<close>

text \<open>
  What the resolver and the runner of batches promise: no planned run is lost without a report,
  what is resolved can run, losing agents in two places is losing them in one, and what the
  verdict on push notifications amounts to.
\<close>

subsection \<open>The resolver\<close>

lemma accounts_singleton:
  "accounts \<lparr>rr_scenarios = [sc], rr_skipped = [], rr_trimmed = []\<rparr> [n] \<longleftrightarrow> rv_name sc = n"
  "accounts \<lparr>rr_scenarios = [], rr_skipped = [(n', why)], rr_trimmed = []\<rparr> [n] \<longleftrightarrow> n' = n"
  by (auto simp: accounts_def)

lemma expand_variant_accounts:
  assumes "expand_variant s m known sut v = Ok r"
  shows "accounts r (case groups_of s m (fst (snd v)) sut of Inl e \<Rightarrow> [] | Inr gs \<Rightarrow> map (group_name s v) gs)"
proof -
  obtain b ts st where v: "v = (b, ts, st)" by (cases v)
  obtain gs rs where g: "groups_of s m ts sut = Ok gs" "traverse (resolve_group s known sut v) gs = Ok rs" "r = joined rs"
    using assms by (auto simp: expand_variant_def v rbind_eq_Ok)
  have "accounts (joined rs) (concat (map (\<lambda>x. [group_name s v x]) gs))"
    by (rule accounts_traverse [OF g(2)]) (rule resolve_group_accounts)
  then show ?thesis by (simp add: g v)
qed

lemma resolve_one_accounts:
  assumes "resolve_one m known sut sc = Ok r"
  shows "accounts r (planned_names m sut sc)"
proof (cases sc)
  case (Legacy l)
  with assms show ?thesis by (auto simp: resolve_one_def planned_names_def accounts_singleton from_legacy_def)
next
  case (Traversal s)
  show ?thesis
  proof (cases "test_when_gap s sut")
    case (Some why)
    with assms Traversal show ?thesis
      by (auto simp: resolve_one_def planned_names_def accounts_singleton)
  next
    case None
    with assms Traversal obtain rs where
      "traverse (expand_variant s m known sut) (variants s) = Ok rs" "r = joined rs"
      by (auto simp: resolve_one_def expand_scenario_def rbind_eq_Ok)
    then show ?thesis
      unfolding planned_names_def Traversal using None
      by (auto intro: accounts_traverse expand_variant_accounts)
  qed
qed

text \<open>The resolver raises nothing but its own error.\<close>

definition only_resolution_errors :: "'a result \<Rightarrow> bool" where
  "only_resolution_errors r \<longleftrightarrow> (\<forall>e. r = Raise e \<longrightarrow> (\<exists>msg. e = ResolutionError msg))"

lemma only_resolution_errors_intros:
  "only_resolution_errors (Ok x)" "only_resolution_errors (Raise (ResolutionError msg))"
  by (simp_all add: only_resolution_errors_def)

lemma only_resolution_errors_rbind:
  "only_resolution_errors m \<Longrightarrow> (\<And>x. m = Ok x \<Longrightarrow> only_resolution_errors (f x)) \<Longrightarrow> only_resolution_errors (rbind m f)"
  by (auto simp: only_resolution_errors_def rbind_eq_Raise)

lemma only_resolution_errors_traverse:
  "(\<And>x. x \<in> set xs \<Longrightarrow> only_resolution_errors (f x)) \<Longrightarrow> only_resolution_errors (traverse f xs)"
  by (auto simp: only_resolution_errors_def dest: traverse_Raise)

lemma matrix_resolve_error: "matrix_resolve m a = Raise e \<Longrightarrow> \<exists>msg. e = MatrixError msg"
  by (auto simp: matrix_resolve_def split: if_splits option.splits prod.splits)

lemma named_peer_errors: "only_resolution_errors (named_peer s m p)"
  by (cases "matrix_resolve m (peer_agent_id p)")
    (auto simp: named_peer_def only_resolution_errors_def dest!: matrix_resolve_error)

lemma groups_of_errors: "only_resolution_errors (groups_of s m ts sut)"
  unfolding groups_of_def peer_ids_def
  by (intro only_resolution_errors_rbind)
    (auto split: peers.split intro!: only_resolution_errors_rbind only_resolution_errors_traverse
      only_resolution_errors_intros named_peer_errors simp: Let_def)

lemma resolve_group_errors: "only_resolution_errors (resolve_group s known sut v g)"
proof (cases "min_agents \<le> length (fst g)")
  case True
  then show ?thesis using resolve_group_total [OF True] by (metis only_resolution_errors_intros(1))
next
  case False
  obtain b ts st sdks used label where v: "v = (b, ts, st)" "g = (sdks, used, label)" by (cases v; cases g) auto
  with False show ?thesis by (simp add: resolve_group_def only_resolution_errors_intros)
qed

lemma resolve_one_errors: "only_resolution_errors (resolve_one m known sut sc)"
  unfolding resolve_one_def expand_scenario_def expand_variant_def
  by (auto split: scenario.split option.split prod.split
      intro!: only_resolution_errors_rbind only_resolution_errors_traverse only_resolution_errors_intros
        groups_of_errors resolve_group_errors)


lemma expanded_can_run:
  assumes "expand_scenario s m known sut = Ok r" "sc \<in> set (rr_scenarios r)"
  shows "can_run m known sut s sc"
proof -
  obtain rs where rs: "traverse (expand_variant s m known sut) (variants s) = Ok rs" "r = joined rs"
    using assms(1) by (auto simp: expand_scenario_def rbind_eq_Ok)
  from assms(2) obtain v r1 where v: "expand_variant s m known sut v = Ok r1" "sc \<in> set (rr_scenarios r1)"
    unfolding rs(2) by (rule scenarios_traverse [OF rs(1)])
  obtain b ts st where b: "v = (b, ts, st)" by (cases v)
  from v(1) obtain gs rs1 where g: "groups_of s m ts sut = Ok gs"
    "traverse (resolve_group s known sut v) gs = Ok rs1" "r1 = joined rs1"
    by (auto simp: expand_variant_def b rbind_eq_Ok)
  from v(2) obtain gr r2 where r2: "gr \<in> set gs" "resolve_group s known sut v gr = Ok r2" "sc \<in> set (rr_scenarios r2)"
    unfolding g(3) by (rule scenarios_traverse [OF g(2)])
  obtain sdks used label where gr: "gr = (sdks, used, label)" by (cases gr)
  show ?thesis by (rule group_can_run [OF g(1) r2(1,2) [unfolded gr b] r2(3)])
qed


subsection \<open>A matrix to try it on\<close>

definition demo_entry :: "string \<Rightarrow> string \<Rightarrow> string list \<Rightarrow> (string \<times> string) \<times> matrix_entry" where
  "demo_entry sdk line ts = ((sdk, line), \<lparr>me_sdk = sdk, me_line = line, me_repo = ''o/'' @ sdk, me_ref = ''main'',
     me_transports = set ts\<rparr>)"

definition demo_matrix :: matrix where
  "demo_matrix = [demo_entry ''go'' ''v03'' [''jsonrpc''], demo_entry ''python'' ''v10'' [''jsonrpc'', ''grpc''],
     demo_entry ''rust'' ''v10'' [''jsonrpc'', ''grpc'']]"

definition demo_peer :: "string \<Rightarrow> string \<Rightarrow> peer_ref" where
  "demo_peer sdk line = \<lparr>pr_sdk = sdk, pr_line = line, pr_instance = None\<rparr>"

definition demo_scenario :: "transport \<Rightarrow> string list option \<Rightarrow> traversal_scenario" where
  "demo_scenario t es =
     \<lparr>ts_name = ''ring'', ts_roles = \<lparr>ro_peers = PEERS [demo_peer ''go'' ''v03'', demo_peer ''python'' ''v10'',
        demo_peer ''rust'' ''v10''], ro_include_sut = True, ro_include_own_lines = False\<rparr>,
      ts_topology = CHAIN, ts_tier = PR, ts_test_when = None, ts_expand = TOGETHER,
      ts_behavior = Some DO_SEND_MESSAGE, ts_behaviors = None, ts_transports = Some [t],
      ts_transport_sets = None, ts_streaming = None, ts_streaming_variants = None, ts_edges = es,
      ts_build_subtests = False\<rparr>"

definition written_ring :: "string list" where "written_ring = [''0->1'', ''1->2'', ''2->0'']"

definition demo_resolved :: "transport \<Rightarrow> string list option \<Rightarrow> string list \<Rightarrow> resolved_scenario" where
  "demo_resolved t es sdks = \<lparr>rv_name = ''ring'', rv_sdks = sdks, rv_behavior = ''send_message'', rv_edges = es,
     rv_protocols = Some [transport_value t], rv_streaming = False, rv_build_subtests = False, rv_tier = ''pr'',
     rv_topology = None\<rparr>"

lemma demo_resolution:
  "resolve_all [Traversal (demo_scenario GRPC (Some written_ring))] demo_matrix None [] = Ok
    \<lparr>rr_scenarios = [demo_resolved GRPC (Some written_ring) [''current'', ''python_v10'', ''rust_v10'']],
     rr_skipped = [], rr_trimmed = []\<rparr>"
  "resolve_all [Traversal (demo_scenario JSONRPC (Some written_ring))] demo_matrix None [] = Ok
    \<lparr>rr_scenarios = [demo_resolved JSONRPC (Some written_ring) [''current'', ''go_v03'', ''python_v10'', ''rust_v10'']],
     rr_skipped = [], rr_trimmed = []\<rparr>"
  by code_simp+


text \<open>
  A peer that lacks a transport leaves the graph before the author's edges are read, so their
  positions shift: the ring of the code under test, go and python, run over gRPC with a go that
  speaks only JSON-RPC, is resolved without a word to a ring through python and rust, which
  nobody wrote.
\<close>

theorem capability_drop_rewires_edges:
  "resolve_all [Traversal (demo_scenario JSONRPC (Some written_ring))] demo_matrix None [] = Ok
     \<lparr>rr_scenarios = [demo_resolved JSONRPC (Some written_ring) [''current'', ''go_v03'', ''python_v10'', ''rust_v10'']],
      rr_skipped = [], rr_trimmed = []\<rparr> \<and>
   parse_edge_strings written_ring [''current'', ''go_v03'', ''python_v10'', ''rust_v10''] =
     Ok [(''current'', ''go_v03''), (''go_v03'', ''python_v10''), (''python_v10'', ''current'')] \<and>
   resolve_all [Traversal (demo_scenario GRPC (Some written_ring))] demo_matrix None [] = Ok
     \<lparr>rr_scenarios = [demo_resolved GRPC (Some written_ring) [''current'', ''python_v10'', ''rust_v10'']],
      rr_skipped = [], rr_trimmed = []\<rparr> \<and>
   parse_edge_strings written_ring [''current'', ''python_v10'', ''rust_v10''] =
     Ok [(''current'', ''python_v10''), (''python_v10'', ''rust_v10''), (''rust_v10'', ''current'')]"
proof (intro conjI)
  show "parse_edge_strings written_ring [''current'', ''go_v03'', ''python_v10'', ''rust_v10''] =
      Ok [(''current'', ''go_v03''), (''go_v03'', ''python_v10''), (''python_v10'', ''current'')]"
    "parse_edge_strings written_ring [''current'', ''python_v10'', ''rust_v10''] =
      Ok [(''current'', ''python_v10''), (''python_v10'', ''rust_v10''), (''rust_v10'', ''current'')]"
    by code_simp+
qed (rule demo_resolution)+

subsection \<open>Losing agents\<close>

lemma missing_Nil: "missing_agents started s = [] \<longleftrightarrow> set (rv_sdks s) \<subseteq> started"
  by (auto simp: missing_agents_def filter_empty_conv)

lemma select_one_total: "\<exists>sel. select_one started s = Ok sel"
  using agents.answers [of min_nodes "rv_sdks s" "rv_topology s" "rv_edges s" started]
  by (auto simp: select_one_def split: option.split)

text \<open>
  The runner decides as the resolver does, and it does not matter where an agent is lost. When
  the resolver has cut a scenario down to the agents a known failure leaves, what the runner then
  executes with only some of these started is what the original scenario gives when restricted
  once to the agents that are both allowed and started; and it executes nothing exactly when that
  restriction gives nothing.
\<close>

theorem losses_commute:
  assumes "restrict_to_available sdks t es allowed min_nodes = Ok (Some (rv_sdks sc, rv_edges sc))"
    and "rv_topology sc = t" "select_one started sc = Ok sel"
  shows "map snd (sl_runnable sel) =
    (case restrict_to_available sdks t es (allowed \<inter> started) min_nodes of
       Inr (Some final) \<Rightarrow> [final] | _ \<Rightarrow> [])"
proof -
  have two: "restrict_to_available (rv_sdks sc) t (rv_edges sc) started min_nodes =
      restrict_to_available sdks t es (allowed \<inter> started) min_nodes"
    using agents.in_two_steps [OF assms(1)] .
  show ?thesis
  proof (cases "missing_agents started sc = []")
    case True
    then have sub: "left_in started (rv_sdks sc) = rv_sdks sc"
      by (simp add: missing_Nil filter_id_conv subset_code(1))
    have "restrict_to_available (rv_sdks sc) t (rv_edges sc) started min_nodes = Ok (Some (rv_sdks sc, rv_edges sc))"
      using assms(1) agents.survivors [OF assms(1)] sub True
      by (auto simp: agents.cases_of missing_Nil rbind_eq_Ok split: option.splits if_splits)
    with True assms(3) show ?thesis by (auto simp add: select_one_def simp flip: two)
  next
    case False
    with assms(2,3) show ?thesis
      by (auto simp: select_one_def rbind_eq_Ok two split: option.splits)
  qed
qed

definition star_scenario :: "string list \<Rightarrow> resolved_scenario" where
  "star_scenario sdks = (demo_resolved GRPC
     (case topology_to_edges STAR (length sdks) of Inr es \<Rightarrow> es | Inl e \<Rightarrow> None) sdks)\<lparr>rv_topology := Some STAR\<rparr>"

theorem losses_commute_witness:
  "\<exists>sel. select_one {''current'', ''c''} (star_scenario [''current'', ''b'', ''c'']) = Ok sel \<and>
     map snd (sl_runnable sel) = [([''current'', ''c''], Some [''0->1'', ''1->0''])]"
proof -
  obtain sel where sel: "select_one {''current'', ''c''} (star_scenario [''current'', ''b'', ''c'']) = Ok sel"
    using select_one_total by blast
  have "restrict_to_available [''current'', ''a'', ''b'', ''c''] (Some STAR) None {''current'', ''b'', ''c''} min_nodes =
      Ok (Some (rv_sdks (star_scenario [''current'', ''b'', ''c'']), rv_edges (star_scenario [''current'', ''b'', ''c''])))"
    by code_simp
  moreover have "rv_topology (star_scenario [''current'', ''b'', ''c'']) = Some STAR" by (simp add: star_scenario_def)
  ultimately have "map snd (sl_runnable sel) =
      (case restrict_to_available [''current'', ''a'', ''b'', ''c''] (Some STAR) None
         ({''current'', ''b'', ''c''} \<inter> {''current'', ''c''}) min_nodes of Inr (Some final) \<Rightarrow> [final] | _ \<Rightarrow> [])"
    using sel by (rule losses_commute)
  also have "{''current'', ''b'', ''c''} \<inter> {''current'', ''c''} = {''current'', ''c''}" by simp
  also have "restrict_to_available [''current'', ''a'', ''b'', ''c''] (Some STAR) None {''current'', ''c''} min_nodes =
      Ok (Some ([''current'', ''c''], Some [''0->1'', ''1->0'']))" by code_simp
  finally show ?thesis using sel by (auto intro: exI [of _ sel])
qed

subsection \<open>Push notifications\<close>

lemma contains_iff: "contains s p \<longleftrightarrow> sublist p s"
proof (induction s)
  case Nil
  then show ?case by auto
next
  case (Cons c s)
  have "starts_with (c # s) p \<longleftrightarrow> prefix p (c # s)"
    by (metis append_eq_conv_conj append_take_drop_id prefix_def starts_with_def)
  with Cons show ?case by (simp add: sublist_Cons_right)
qed

lemma contains_trans: "contains s p \<Longrightarrow> contains p q \<Longrightarrow> contains s q"
  unfolding contains_iff by (rule sublist_order.order_trans)

lemma contains_concat: "contains t s \<Longrightarrow> t \<in> set texts \<Longrightarrow> contains (concat texts) s"
  unfolding contains_iff
  by (metis concat.simps(2) concat_append in_set_conv_decomp sublist_appendI sublist_order.order_trans)

lemma strike_seen_filter: "strike_seen text states = filter (\<lambda>s. \<not> contains text s) states"
proof -
  let ?f = "\<lambda>state left. if contains text state then remove1 state left else left"
  have "fold ?f xs (filter (\<lambda>s. \<not> contains text s) zs @ xs) = filter (\<lambda>s. \<not> contains text s) (zs @ xs)" for xs zs
  proof (induction xs arbitrary: zs)
    case (Cons x xs)
    show ?case using Cons [of "zs @ [x]"] by (cases "contains text x") (simp_all add: remove1_append)
  qed simp
  from this [of states "[]"] show ?thesis by (simp add: strike_seen_def)
qed

lemma strike_all: "fold strike_seen texts states = filter (\<lambda>s. \<not> (\<exists>t \<in> set texts. contains t s)) states"
  by (induction texts arbitrary: states) (auto simp: strike_seen_filter intro: filter_cong)

lemma chain_states_go_tokens: "t \<in> set ts \<Longrightarrow> \<exists>s \<in> set (chain_states_go current ts). contains s t"
proof (induction ts arbitrary: current)
  case (Cons x ts)
  have "contains (x @ [CHR 0x0A] @ current) x" unfolding contains_iff by (simp add: prefix_imp_sublist)
  with Cons show ?case by (auto simp: Let_def)
qed simp

lemma chain_states_tokens: "t \<in> set chain \<Longrightarrow> \<exists>s \<in> set (chain_states chain). contains s t"
proof -
  assume t: "t \<in> set chain"
  then have ne: "chain \<noteq> []" by auto
  with t consider "t = last chain" | "t \<in> set (butlast chain)"
    by (metis append_butlast_last_id in_set_butlastD rotate1.simps(2) set_ConsD set_rotate1)
  then show ?thesis
  proof cases
    case 1
    then show ?thesis using ne by (auto simp: chain_states_def contains_iff)
  next
    case 2
    then show ?thesis using ne chain_states_go_tokens [of t "butlast chain" "last chain"] by (auto simp: chain_states_def)
  qed
qed

lemma token_chains_set: "set (concat (token_chains current ts)) = set current \<union> set ts"
  by (induction current ts rule: token_chains.induct) auto

lemma expected_states_tokens: "t \<in> set tokens \<Longrightarrow> \<exists>s \<in> set (expected_states tokens). contains s t"
proof -
  assume "t \<in> set tokens"
  then obtain chain where "chain \<in> set (token_chains [] tokens)" "t \<in> set chain"
    using token_chains_set [of "[]" tokens] by auto
  then show ?thesis using chain_states_tokens [of t chain] by (auto simp: expected_states_def)
qed

text \<open>
  C38: a push-notification traversal passes exactly when every intermediate state it expects, of
  every chain of tokens, is in the text of one notification; the search for the tokens in all
  texts joined adds nothing, and neither does the number or the order of the notifications.
\<close>

theorem push_verdict_is_coverage:
  "verify_push_notification texts tokens \<longleftrightarrow>
    (\<forall>s \<in> set (expected_states tokens). \<exists>t \<in> set texts. contains t s)"
proof -
  have "all_tokens_in (concat texts) tokens" if cov: "\<forall>s \<in> set (expected_states tokens). \<exists>t \<in> set texts. contains t s"
    unfolding all_tokens_in_def list_all_iff
  proof
    fix t
    assume "t \<in> set tokens"
    then obtain s u where "contains s t" "u \<in> set texts" "contains u s"
      using cov expected_states_tokens by meson
    then show "contains (concat texts) t" using contains_trans contains_concat by blast
  qed
  then show ?thesis
    by (auto simp: verify_push_notification_def strike_all filter_empty_conv)
qed

theorem push_verdict_is_coverage_witness:
  "\<not> verify_push_notification [''hop'', ''traversal-completed:x''] [''hop'', ''traversal-completed:x'']"
proof -
  let ?state = "''hop'' @ [CHR 0x0A] @ ''traversal-completed:x''"
  have "?state \<in> set (expected_states [''hop'', ''traversal-completed:x''])" by code_simp
  moreover have "\<not> (\<exists>t \<in> set [''hop'', ''traversal-completed:x'']. contains t ?state)" by code_simp
  ultimately show ?thesis unfolding push_verdict_is_coverage by blast
qed

subsection \<open>Subtests\<close>

definition one_way :: "bool \<Rightarrow> resolved_scenario" where
  "one_way subtests = (demo_resolved GRPC (Some [''0->1'']) [''current'', ''a''])\<lparr>rv_build_subtests := subtests\<rparr>"

lemma one_way_suite:
  "get_valid_subgraphs add order [''current'', ''a''] agents
     \<lparr>sc_edges = Some [''0->1''], sc_protocols = Some [''grpc''], sc_streaming = False,
      sc_behavior = ''send_message'', sc_url = url\<rparr> = Ok []"
  "isl (create_test_suite add order [''current'', ''a''] agents
     \<lparr>sc_edges = Some [''0->1''], sc_protocols = Some [''grpc''], sc_streaming = False,
      sc_behavior = ''send_message'', sc_url = url\<rparr>)"
  by code_simp+

lemmas one_way_sels = one_way_def demo_resolved_def config_of_def suite_config_of_def

lemma one_way_selected:
  "select_runnable [one_way b] {''current'', ''a''} = Ok \<lparr>sl_runnable =
     [(one_way b, [''current'', ''a''], Some [''0->1''])], sl_trimmed = [], sl_skipped = []\<rparr>"
  by (simp add: select_runnable_def select_one_def missing_agents_def one_way_sels)

lemma one_way_started:
  "started_agents [''current'', ''a''] [Inl e1, Inl e2] = [(''current'', e1), (''a'', e2)]"
  "dropped_peers [''current'', ''a''] [Inl e1, Inl e2] = []"
  by (simp_all add: started_agents_def dropped_peers_def map_filter_def)

lemma one_way_executed:
  "execute_itk_test h agents (config_of (one_way b)) [''current'', ''a''] (Some [''0->1'']) label True w = (Ok [], w)"
  "execute_itk_test h agents (config_of (one_way b)) [''current'', ''a''] (Some [''0->1'']) label False w =
     (Ok [(label, \<lparr>td_passed = False, td_sdks = [''current'', ''a''], td_edges = Some [''0->1'']\<rparr>)], w)"
proof -
  show "execute_itk_test h agents (config_of (one_way b)) [''current'', ''a''] (Some [''0->1'']) label True w = (Ok [], w)"
    by (simp add: execute_itk_test_def one_way_sels one_way_suite st_bind_def st_lift_def st_return_def dict_merge_def)
  obtain e where e: "create_test_suite (h_add h) (h_transports h) [''current'', ''a''] agents
     \<lparr>sc_edges = Some [''0->1''], sc_protocols = Some [''grpc''], sc_streaming = False,
      sc_behavior = ''send_message'', sc_url = []\<rparr> = Raise e"
    using one_way_suite(2) by (metis isl_def)
  show "execute_itk_test h agents (config_of (one_way b)) [''current'', ''a''] (Some [''0->1'']) label False w =
     (Ok [(label, \<lparr>td_passed = False, td_sdks = [''current'', ''a''], td_edges = Some [''0->1'']\<rparr>)], w)"
    by (simp add: execute_itk_test_def run_named_def passed_or_failed_def execute_single_def traverse_cluster_def
        one_way_sels e st_bind_def st_lift_def st_return_def st_catch_def)
qed

text \<open>
  A scenario with subtests whose graph cannot be walked disappears from the report. Run alone
  on agents that all started it leaves no result, no trimmed and no skipped scenario, and the run
  succeeds, whereas the same scenario without subtests is reported as failed.
\<close>

theorem broken_subtests_vanish:
  "run_started h [one_way True] [''current'', ''a''] [Inl e1, Inl e2] w =
     (Ok \<lparr>ru_results = [], ru_dropped = [], ru_trimmed = [], ru_skipped = []\<rparr>, w) \<and>
   (\<exists>d. run_started h [one_way False] [''current'', ''a''] [Inl e1, Inl e2] w =
     (Ok \<lparr>ru_results = [(''ring'', d)], ru_dropped = [], ru_trimmed = [], ru_skipped = []\<rparr>, w) \<and> \<not> sr_passed d)"
proof -
  have "rv_name (one_way b) = ''ring''" "rv_build_subtests (one_way b) = b" for b by (simp_all add: one_way_sels)
  then show ?thesis
    by (simp add: run_started_def one_way_started one_way_selected one_way_executed sut_id_def st_bind_def
        st_lift_def st_return_def dict_merge_def recorded_def)
qed

end
