(* ===== verification/Cache.thy ===== *)
theory Cache
  imports Selection
begin

section \<open>The checkout cache (launcher/cache.py, launcher/errors.py)\<close>

text \<open>
  The trees, the pin files and the in-process pin counts of the cache, shared by every process of
  the host. Each operation is one step: the source runs it under the key's lock, and eviction
  passes over a key whose lock is held. The files of \<open>trees/\<close> and \<open>pins/\<close> are dictionaries;
  time is in seconds. Fetching, building and the digests of image and proto are parameters.
\<close>

subsection \<open>Errors\<close>

datatype stage = FETCH | BUILD | SPAWN | READY

fun stage_value :: "stage \<Rightarrow> string" where
  "stage_value FETCH = ''fetch''"
| "stage_value BUILD = ''build''"
| "stage_value SPAWN = ''spawn''"
| "stage_value READY = ''ready''"

definition target_label :: "string option \<Rightarrow> string option \<Rightarrow> string" where
  "target_label repo sha = (case (repo, sha) of
     (None, None) \<Rightarrow> ''mount''
   | (None, Some s) \<Rightarrow> ''?@'' @ take 12 s
   | (Some r, None) \<Rightarrow> r @ ''@?''
   | (Some r, Some s) \<Rightarrow> r @ ''@'' @ take 12 s)"

definition infra_failure ::
  "string option \<Rightarrow> string option \<Rightarrow> stage \<Rightarrow> string option \<Rightarrow> string option \<Rightarrow> py_exn" where
  "infra_failure repo sha st cause message = InfraFailure
     ((case message of Some (c # cs) \<Rightarrow> c # cs
       | _ \<Rightarrow> stage_value st @ '' failed for '' @ target_label repo sha) @
      (case cause of None \<Rightarrow> [] | Some x \<Rightarrow> '': '' @ x))"

definition permanent_error :: "string option \<Rightarrow> string option \<Rightarrow> stage \<Rightarrow> string \<Rightarrow> py_exn" where
  "permanent_error repo sha st message = PermanentError
     (stage_value st @ '' permanently failed for '' @ target_label repo sha @ '': '' @ message)"

subsection \<open>State\<close>

type_synonym pid = nat

record cached_tree =
  ct_built :: "nat option"
  ct_size :: nat

record cache =
  ca_trees :: "(string, cached_tree) dict"
  ca_pins :: "string \<Rightarrow> (pid, nat) dict"
  ca_refs :: "pid \<Rightarrow> string \<Rightarrow> nat"
  ca_alive :: "pid \<Rightarrow> bool"
  ca_now :: nat

definition cache_key :: "string \<Rightarrow> string \<Rightarrow> string \<Rightarrow> string \<Rightarrow> string" where
  "cache_key digest proto repo sha = repo_slug repo @ ''@'' @ sha @ ''@'' @ digest @ ''@'' @ proto"

definition remove_tree :: "string \<Rightarrow> cache \<Rightarrow> cache" where
  "remove_tree k s = s\<lparr>ca_trees := AList.delete k (ca_trees s)\<rparr>"

definition put_tree :: "string \<Rightarrow> cached_tree \<Rightarrow> cache \<Rightarrow> cache" where
  "put_tree k t s = s\<lparr>ca_trees := AList.update k t (ca_trees s)\<rparr>"

subsection \<open>Pins\<close>

text \<open>The count of the process; only the first pin writes the file.\<close>

definition pin :: "pid \<Rightarrow> string \<Rightarrow> cache \<Rightarrow> cache" where
  "pin p k s =
     (let n = ca_refs s p k + 1; s' = s\<lparr>ca_refs := (ca_refs s)(p := (ca_refs s p)(k := n))\<rparr> in
      if n > 1 then s'
      else s'\<lparr>ca_pins := (ca_pins s)(k := AList.update p (ca_now s) (ca_pins s k))\<rparr>)"

definition unpin :: "pid \<Rightarrow> string \<Rightarrow> cache \<Rightarrow> cache" where
  "unpin p k s =
     (let current = ca_refs s p k in
      if current = 0 then s
      else let s' = s\<lparr>ca_refs := (ca_refs s)(p := (ca_refs s p)(k := current - 1))\<rparr> in
        if current - 1 > 0 then s'
        else s'\<lparr>ca_pins := (ca_pins s)(k := AList.delete p (ca_pins s k))\<rparr>)"

definition live_pin :: "nat \<Rightarrow> cache \<Rightarrow> pid \<times> nat \<Rightarrow> bool" where
  "live_pin deadline s = (\<lambda>(p, ts). ca_alive s p \<and> ca_now s - ts < deadline)"

text \<open>\<open>_has_live_pin\<close> and its reclaiming of the pins that are not live.\<close>

definition has_live_pin :: "nat \<Rightarrow> string \<Rightarrow> cache \<Rightarrow> bool \<times> cache" where
  "has_live_pin deadline k s =
     (list_ex (live_pin deadline s) (ca_pins s k),
      s\<lparr>ca_pins := (ca_pins s)(k := filter (live_pin deadline s) (ca_pins s k))\<rparr>)"

definition clear_pins :: "string \<Rightarrow> cache \<Rightarrow> cache" where
  "clear_pins k s = s\<lparr>ca_pins := (ca_pins s)(k := [])\<rparr>"

subsection \<open>Checking out\<close>

text \<open>
  The fetcher leaves a tree in which the agent's directory is or is not there; the builder
  gives the size of what it built. A launcher error passes as it is, any other exception as an
  \<open>InfraFailure\<close> of the stage.
\<close>

definition launcher_error :: "string \<Rightarrow> string \<Rightarrow> stage \<Rightarrow> py_exn \<Rightarrow> py_exn" where
  "launcher_error repo sha st e = (case e of
     InfraFailure m \<Rightarrow> e
   | PermanentError m \<Rightarrow> e
   | _ \<Rightarrow> infra_failure (Some repo) (Some sha) st (Some (exn_text e)) None)"

definition give_up :: "pid \<Rightarrow> string \<Rightarrow> py_exn \<Rightarrow> (cache, 'a) state_result" where
  "give_up p k e s = (Raise e, unpin p k (remove_tree k s))"

definition is_built :: "cache \<Rightarrow> string \<Rightarrow> bool" where
  "is_built s k = (case map_of (ca_trees s) k of Some t \<Rightarrow> ct_built t \<noteq> None | None \<Rightarrow> False)"

definition checkout_and_build ::
  "(string \<Rightarrow> string \<Rightarrow> string) \<Rightarrow> (string \<Rightarrow> string \<Rightarrow> bool result) \<Rightarrow> (string \<Rightarrow> string \<Rightarrow> nat result) \<Rightarrow>
   pid \<Rightarrow> string \<Rightarrow> string \<Rightarrow> string \<Rightarrow> (cache, string) state_result" where
  "checkout_and_build key_of fetch build p subdir repo sha s =
     (let k = key_of repo sha; s1 = pin p k s; path = ''trees/'' @ k @ ''/'' @ subdir in
      if is_built s1 k then (Ok path, s1)
      else let s2 = remove_tree k s1 in (case fetch repo sha of
          Inl e \<Rightarrow> give_up p k (launcher_error repo sha FETCH e) s2
        | Inr False \<Rightarrow> give_up p k (infra_failure (Some repo) (Some sha) FETCH None
            (Some (''subdir '' @ repr_str subdir @ '' missing after fetch''))) s2
        | Inr True \<Rightarrow> (case build repo sha of
            Inl e \<Rightarrow> give_up p k (launcher_error repo sha BUILD e) s2
          | Inr n \<Rightarrow> (Ok path, put_tree k \<lparr>ct_built = Some (ca_now s), ct_size = n\<rparr> s2))))"

definition release :: "(string \<Rightarrow> string \<Rightarrow> string) \<Rightarrow> pid \<Rightarrow> string \<Rightarrow> string \<Rightarrow> cache \<Rightarrow> cache" where
  "release key_of p repo sha s = unpin p (key_of repo sha) s"

subsection \<open>Eviction\<close>

text \<open>Oldest first by the time of the sentinel, trees without one before all others.\<close>

definition lru_keys :: "cache \<Rightarrow> string list" where
  "lru_keys s = map snd (sort (map
     (\<lambda>(k, t). (case ct_built t of None \<Rightarrow> 0 | Some m \<Rightarrow> m, k)) (ca_trees s)))"

definition tree_size :: "cache \<Rightarrow> string \<Rightarrow> nat" where
  "tree_size s k = (case map_of (ca_trees s) k of None \<Rightarrow> 0 | Some t \<Rightarrow> ct_size t)"

definition over_age :: "nat \<Rightarrow> cache \<Rightarrow> string \<Rightarrow> bool" where
  "over_age ttl s k = (case map_of (ca_trees s) k of
     Some t \<Rightarrow> (case ct_built t of Some m \<Rightarrow> ttl < ca_now s - m | None \<Rightarrow> True)
   | None \<Rightarrow> True)"

text \<open>What happens under the lock of one key: whether the tree went, and the state after.\<close>

definition evict_key :: "nat \<Rightarrow> string \<Rightarrow> cache \<Rightarrow> bool \<times> cache" where
  "evict_key deadline k s = (case has_live_pin deadline k s of (live, s1) \<Rightarrow>
     if live then (False, s1) else (True, clear_pins k (remove_tree k s1)))"

text \<open>\<open>busy\<close> are the keys whose lock another process holds.\<close>

fun evict_loop ::
  "nat \<Rightarrow> nat \<Rightarrow> nat \<Rightarrow> (string \<Rightarrow> bool) \<Rightarrow> nat \<Rightarrow> string list \<Rightarrow> string list \<Rightarrow> cache \<Rightarrow> string list \<times> cache" where
  "evict_loop deadline budget ttl busy total_size [] evicted s = (evicted, s)"
| "evict_loop deadline budget ttl busy total_size (k # ks) evicted s =
     (if \<not> (budget < total_size \<or> over_age ttl s k) \<or> busy k
      then evict_loop deadline budget ttl busy total_size ks evicted s
      else case evict_key deadline k s of
        (True, s') \<Rightarrow> evict_loop deadline budget ttl busy (total_size - tree_size s k) ks (evicted @ [k]) s'
      | (False, s') \<Rightarrow> evict_loop deadline budget ttl busy total_size ks evicted s')"

definition evict :: "nat \<Rightarrow> nat \<Rightarrow> nat \<Rightarrow> (string \<Rightarrow> bool) \<Rightarrow> cache \<Rightarrow> string list \<times> cache" where
  "evict deadline budget ttl busy s =
     (let keys = lru_keys s in
      evict_loop deadline budget ttl busy (sum_list (map (tree_size s) keys)) keys [] s)"

subsection \<open>Steps of the processes\<close>

text \<open>
  What may happen to the cache: a process checks a commit out, releases one, dies with its pins
  on disk, is killed in the middle of a build, evicts one key, or time passes.
\<close>

definition dead :: "pid \<Rightarrow> cache \<Rightarrow> cache" where
  "dead p s = s\<lparr>ca_alive := (ca_alive s)(p := False), ca_refs := (ca_refs s)(p := (\<lambda>_. 0))\<rparr>"

inductive cache_step :: "(string \<Rightarrow> string \<Rightarrow> string) \<Rightarrow> nat \<Rightarrow> cache \<Rightarrow> cache \<Rightarrow> bool"
  for key_of :: "string \<Rightarrow> string \<Rightarrow> string" and deadline :: nat where
  checks_out: "ca_alive s p \<Longrightarrow> checkout_and_build key_of fetch build p subdir repo sha s = (x, s') \<Longrightarrow>
    cache_step key_of deadline s s'"
| releases: "ca_alive s p \<Longrightarrow> cache_step key_of deadline s (release key_of p repo sha s)"
| killed: "ca_alive s p \<Longrightarrow> \<not> is_built s k \<Longrightarrow>
    cache_step key_of deadline s (dead p (put_tree k \<lparr>ct_built = None, ct_size = n\<rparr> (pin p k s)))"
| dies: "cache_step key_of deadline s (dead p s)"
| evicts: "cache_step key_of deadline s (snd (evict_key deadline k s))"
| passes: "cache_step key_of deadline s (s\<lparr>ca_now := ca_now s + d\<rparr>)"

inductive_cases cache_stepE: "cache_step key_of deadline s s'"

text \<open>A whole \<^const>\<open>evict\<close> is a sequence of such steps, whatever the budget and the locks held.\<close>

lemma evict_loop_steps:
  "(cache_step key_of deadline)\<^sup>*\<^sup>* s (snd (evict_loop deadline budget ttl busy n ks evicted s))"
proof (induction deadline budget ttl busy n ks evicted s rule: evict_loop.induct)
  case (1 deadline budget ttl busy n evicted s)
  then show ?case by simp
next
  case (2 deadline budget ttl busy n k ks evicted s)
  show ?case
  proof (cases "\<not> (budget < n \<or> over_age ttl s k) \<or> busy k")
    case True
    with 2(1) show ?thesis by (simp only: evict_loop.simps if_True)
  next
    case False
    obtain gone s1 where e: "evict_key deadline k s = (gone, s1)" by fastforce
    then have "cache_step key_of deadline s s1" using cache_step.evicts [of key_of deadline s k] by simp
    moreover have "(cache_step key_of deadline)\<^sup>*\<^sup>* s1
        (snd (evict_loop deadline budget ttl busy n (k # ks) evicted s))"
      using 2(2,3) [OF False e [symmetric]] False e by (cases gone) simp_all
    ultimately show ?thesis by (rule converse_rtranclp_into_rtranclp)
  qed
qed

lemma evict_steps: "(cache_step key_of deadline)\<^sup>*\<^sup>* s (snd (evict deadline budget ttl busy s))"
  unfolding evict_def Let_def by (rule evict_loop_steps)

end
