(* ===== verification/CacheClaims.thy ===== *)
theory CacheClaims
  imports Cache
begin

section \<open>Claims about the checkout cache\<close>

text \<open>
  A tree a process holds survives whatever the other processes do, as long as the pin is younger
  than the run deadline: an invariant of the steps, by rule induction over a run in which the
  process keeps its pin.
\<close>

definition holds_pin :: "cache \<Rightarrow> pid \<Rightarrow> string \<Rightarrow> bool" where
  "holds_pin s p k \<longleftrightarrow> ca_alive s p \<and> 0 < ca_refs s p k"

text \<open>The runs in which \<open>p\<close> lives and goes on holding \<open>k\<close>.\<close>

inductive keeps :: "(string \<Rightarrow> string \<Rightarrow> string) \<Rightarrow> nat \<Rightarrow> pid \<Rightarrow> string \<Rightarrow> cache \<Rightarrow> cache \<Rightarrow> bool"
  for key_of deadline p k s where
  now: "keeps key_of deadline p k s s"
| later: "keeps key_of deadline p k s t \<Longrightarrow> cache_step key_of deadline t u \<Longrightarrow> holds_pin u p k \<Longrightarrow>
    keeps key_of deadline p k s u"

definition secured :: "cache \<Rightarrow> pid \<Rightarrow> string \<Rightarrow> nat \<Rightarrow> bool" where
  "secured s p k since \<longleftrightarrow> holds_pin s p k \<and> map_of (ca_pins s k) p = Some since \<and> is_built s k"

subsection \<open>The operations on pins and trees\<close>

lemma map_of_filter_first: "map_of d p = Some v \<Longrightarrow> P (p, v) \<Longrightarrow> map_of (filter P d) p = Some v"
  by (induction d) (auto split: if_splits)

lemma map_of_delete_other: "p \<noteq> q \<Longrightarrow> map_of (AList.delete q d) p = map_of d p"
  by (simp add: delete_conv')

lemma pin_facts [simp]:
  "ca_trees (pin q l s) = ca_trees s" "ca_alive (pin q l s) = ca_alive s" "ca_now (pin q l s) = ca_now s"
  by (simp_all add: pin_def Let_def)

lemma unpin_facts [simp]:
  "ca_trees (unpin q l s) = ca_trees s" "ca_alive (unpin q l s) = ca_alive s" "ca_now (unpin q l s) = ca_now s"
  by (simp_all add: unpin_def Let_def)

lemma pin_refs: "ca_refs (pin q l s) p k = (if q = p \<and> l = k then ca_refs s p k + 1 else ca_refs s p k)"
  by (simp add: pin_def Let_def)

lemma unpin_refs: "ca_refs (unpin q l s) p k = (if q = p \<and> l = k then ca_refs s p k - 1 else ca_refs s p k)"
  by (simp add: unpin_def Let_def)

lemma pin_pins:
  "map_of (ca_pins (pin q l s) k) p =
     (if q = p \<and> l = k \<and> ca_refs s p k = 0 then Some (ca_now s) else map_of (ca_pins s k) p)"
  by (auto simp: pin_def Let_def)

lemma unpin_pins:
  "q = p \<and> l = k \<longrightarrow> 1 < ca_refs s p k \<Longrightarrow> map_of (ca_pins (unpin q l s) k) p = map_of (ca_pins s k) p"
  by (cases "q = p") (auto simp: unpin_def Let_def delete_conv')

lemma built_cong: "map_of (ca_trees s) k = map_of (ca_trees t) k \<Longrightarrow> is_built s k = is_built t k"
  by (simp add: is_built_def)

lemma tree_facts [simp]:
  "ca_pins (remove_tree l s) = ca_pins s" "ca_refs (remove_tree l s) = ca_refs s"
  "ca_alive (remove_tree l s) = ca_alive s" "ca_now (remove_tree l s) = ca_now s"
  "ca_pins (put_tree l t s) = ca_pins s" "ca_refs (put_tree l t s) = ca_refs s"
  "ca_alive (put_tree l t s) = ca_alive s" "ca_now (put_tree l t s) = ca_now s"
  by (simp_all add: remove_tree_def put_tree_def)

lemma other_trees [simp]:
  "k \<noteq> l \<Longrightarrow> is_built (remove_tree l s) k = is_built s k"
  "k \<noteq> l \<Longrightarrow> is_built (put_tree l t s) k = is_built s k"
  by (simp_all add: is_built_def remove_tree_def put_tree_def map_of_delete_other)

lemma pins_keep_trees [simp]: "is_built (pin q l s) k = is_built s k" "is_built (unpin q l s) k = is_built s k"
  by (simp_all add: is_built_def)

subsection \<open>Every step\<close>

lemma checkout_secured:
  assumes "checkout_and_build key_of fetch build q subdir repo sha s = (x, s')"
    and "secured s p k since"
  shows "secured s' p k since"
proof (cases "key_of repo sha = k")
  case True
  with assms(2) have "s' = pin q k s" using assms(1)
    by (simp add: checkout_and_build_def Let_def secured_def)
  with assms(2) show ?thesis by (auto simp: secured_def holds_pin_def pin_refs pin_pins)
next
  case False
  then have other: "k \<noteq> key_of repo sha" by simp
  have pins: "map_of (ca_pins (unpin q (key_of repo sha) t) k) p = map_of (ca_pins t k) p" for t
    using False by (intro unpin_pins) auto
  show ?thesis using assms False other
    by (auto simp: checkout_and_build_def Let_def give_up_def secured_def holds_pin_def pin_refs unpin_refs
        pin_pins pins split: if_splits sum.splits bool.splits)
qed

lemma evict_key_secured:
  assumes "secured s p k since" "ca_now s - since < deadline"
  shows "secured (snd (evict_key deadline l s)) p k since"
proof -
  have live: "live_pin deadline s (p, since)" using assms by (simp add: live_pin_def secured_def holds_pin_def)
  then have "list_ex (live_pin deadline s) (ca_pins s k)"
    using assms(1) by (auto simp: secured_def list_ex_iff dest: map_of_SomeD)
  moreover have "map_of (filter (live_pin deadline s) (ca_pins s k)) p = Some since"
    using assms(1) live by (intro map_of_filter_first) (simp_all add: secured_def)
  ultimately show ?thesis using assms(1)
    by (cases "l = k") (auto simp: evict_key_def has_live_pin_def secured_def holds_pin_def clear_pins_def is_built_def
        remove_tree_def map_of_delete_other)
qed

lemma step_secured:
  assumes "cache_step key_of deadline s s'" "secured s p k since" "ca_now s - since < deadline" "holds_pin s' p k"
  shows "secured s' p k since"
  using assms(1)
proof (cases rule: cache_step.cases)
  case (checks_out q fetch build subdir repo sha x)
  with assms(2) checkout_secured show ?thesis by blast
next
  case (releases q repo sha)
  have "q = p \<and> key_of repo sha = k \<longrightarrow> 1 < ca_refs s p k"
    using assms(4) releases(1) by (auto simp: holds_pin_def release_def unpin_refs)
  with assms(2,4) releases(1) show ?thesis by (auto simp: secured_def release_def unpin_pins)
next
  case (killed q l n)
  with assms(2,4) have "k \<noteq> l" "q \<noteq> p" by (auto simp: secured_def holds_pin_def dead_def)
  with killed assms(2) show ?thesis
    by (auto simp: secured_def holds_pin_def dead_def pin_refs pin_pins is_built_def put_tree_def)
next
  case (dies q)
  with assms(2,4) show ?thesis by (auto simp: secured_def dead_def is_built_def)
next
  case (evicts l)
  with assms(2,3) evict_key_secured show ?thesis by blast
next
  case (passes d)
  with assms(2) show ?thesis by (simp add: secured_def holds_pin_def is_built_def)
qed

lemma step_time: "cache_step key_of deadline s s' \<Longrightarrow> ca_now s \<le> ca_now s'"
  by (erule cache_step.cases)
    (auto simp: checkout_and_build_def give_up_def Let_def release_def dead_def evict_key_def has_live_pin_def
      clear_pins_def split: if_splits sum.splits bool.splits)

lemma keeps_secured:
  assumes "keeps key_of deadline p k s u" "secured s p k since" "ca_now u - since < deadline"
  shows "secured u p k since"
  using assms(1,3)
proof (induction rule: keeps.induct)
  case now
  show ?case by (rule assms(2))
next
  case (later t u)
  have "ca_now t - since < deadline" using step_time [OF later(2)] later(5) by linarith
  with later show ?case using step_secured by blast
qed

text \<open>
  C4: a checked-out tree is there as long as it is needed. After a process that did not hold a
  commit has checked it out, and in every run of all processes in which it lives and goes on
  holding it, with builds, releases, deaths and evictions of any keys in any order, the built
  tree and the process's pin file are in place, provided the pin is younger than the deadline.
\<close>

theorem pinned_tree_survives:
  assumes "checkout_and_build key_of fetch build p subdir repo sha s = (Ok path, s0)"
    and "ca_alive s p" "ca_refs s p (key_of repo sha) = 0"
    and "keeps key_of deadline p (key_of repo sha) s0 s1" "ca_now s1 - ca_now s < deadline"
  shows "is_built s1 (key_of repo sha) \<and> map_of (ca_pins s1 (key_of repo sha)) p = Some (ca_now s)"
proof -
  have "secured s0 p (key_of repo sha) (ca_now s)"
    using assms(1-3)
    by (auto simp: checkout_and_build_def Let_def give_up_def secured_def holds_pin_def pin_refs pin_pins
        is_built_def put_tree_def split: if_splits sum.splits bool.splits option.splits)
  from keeps_secured [OF assms(4) this assms(5)] show ?thesis by (simp add: secured_def)
qed

subsection \<open>Two processes\<close>

definition demo_key :: "string \<Rightarrow> string \<Rightarrow> string" where "demo_key = cache_key ''i'' ''p''"

definition empty_cache :: cache where
  "empty_cache = \<lparr>ca_trees = [], ca_pins = (\<lambda>_. []), ca_refs = (\<lambda>_ _. 0), ca_alive = (\<lambda>_. True), ca_now = 0\<rparr>"

definition demo_checkout :: "pid \<Rightarrow> (cache, string) state_result" where
  "demo_checkout p = checkout_and_build demo_key (\<lambda>_ _. Ok True) (\<lambda>_ _. Ok 5) p ''itk'' ''o/r'' ''c0''"

definition later_by :: "nat \<Rightarrow> cache \<Rightarrow> cache" where "later_by d s = s\<lparr>ca_now := ca_now s + d\<rparr>"

definition swept :: "cache \<Rightarrow> cache" where "swept s = snd (evict_key 10 (demo_key ''o/r'' ''c0'') s)"

lemmas demo_eval = demo_checkout_def checkout_and_build_def swept_def later_by_def evict_key_def has_live_pin_def
  live_pin_def clear_pins_def remove_tree_def put_tree_def pin_def is_built_def empty_cache_def Let_def

theorem pinned_tree_survives_witness:
  "is_built (swept (snd (demo_checkout 1 empty_cache))) (demo_key ''o/r'' ''c0'')"
proof -
  let ?s0 = "snd (demo_checkout 1 empty_cache)" and ?k = "demo_key ''o/r'' ''c0''"
  obtain path where "demo_checkout 1 empty_cache = (Ok path, ?s0)"
    by (simp add: demo_eval)
  moreover have "keeps demo_key 10 1 ?k ?s0 (swept ?s0)"
  proof (rule keeps.later [OF keeps.now])
    show "cache_step demo_key 10 ?s0 (swept ?s0)" unfolding swept_def by (rule cache_step.evicts)
    show "holds_pin (swept ?s0) 1 ?k" by (simp add: holds_pin_def demo_eval)
  qed
  moreover have "ca_now (swept ?s0) - ca_now empty_cache < 10" by (simp add: demo_eval)
  ultimately show ?thesis
    using pinned_tree_survives [of demo_key "\<lambda>_ _. Ok True" "\<lambda>_ _. Ok 5" 1 "''itk''" "''o/r''" "''c0''" empty_cache path ?s0 10]
    by (simp add: demo_checkout_def) (simp add: empty_cache_def)
qed

text \<open>
  The count of a process and its pin file can part. A pin older than the deadline is reclaimed from
  disk but not from the count, so the next checkout of the same process finds a count above one,
  writes no file, and the tree it was just given can be evicted at once.
\<close>

theorem repin_is_invisible:
  "let s1 = swept (later_by 20 (snd (demo_checkout 1 empty_cache)));
       s2 = snd (demo_checkout 1 s1); k = demo_key ''o/r'' ''c0''
   in isl (fst (demo_checkout 1 s1)) = False \<and> is_built s2 k \<and> holds_pin s2 1 k \<and> ca_pins s2 k = [] \<and>
      \<not> is_built (swept s2) k"
  by (simp add: demo_eval holds_pin_def)

end
