(* ===== verification/Cluster.thy ===== *)
theory Cluster
  imports CacheClaims
begin

section \<open>Ports and clusters (launcher/ports.py, launcher/cluster.py)\<close>

text \<open>
  The reservation of ports and the life of a cluster: starting its agents, which takes cache pins
  and ports on the way, and tearing it down. What the kernel, a spawned process and its readiness
  answer are operations on a world and parameters. The workers of a batch run one after another
  here, and all of them run (under a lower ITK_MAX_WORKERS those not yet started are cancelled once
  one has raised); each of their steps on shared state is under a lock in the source.
\<close>

subsection \<open>The reservoir\<close>

text \<open>The bookkeeping \<open>allocate_pair\<close> relies on, as an interface.\<close>

locale reservoir =
  fixes take :: "nat \<Rightarrow> 'r \<Rightarrow> 'r" and put_back :: "nat \<Rightarrow> 'r \<Rightarrow> 'r" and holds :: "'r \<Rightarrow> nat \<Rightarrow> bool"
  assumes holds_take: "holds (take p r) q \<longleftrightarrow> p = q \<or> holds r q"
    and holds_put_back: "holds (put_back p r) q \<longleftrightarrow> p \<noteq> q \<and> holds r q"
begin

lemma holds_fold_take: "holds (fold take ps r) q \<longleftrightarrow> q \<in> set ps \<or> holds r q"
  by (induction ps arbitrary: r) (auto simp: holds_take)

lemma holds_fold_put_back: "holds (fold put_back ps r) q \<longleftrightarrow> q \<notin> set ps \<and> holds r q"
  by (induction ps arbitrary: r) (auto simp: holds_put_back)

text \<open>Returning everything that was taken restores the reservoir, if none of it was held before.\<close>

lemma returned:
  "(\<And>p. p \<in> set ps \<Longrightarrow> \<not> holds r p) \<Longrightarrow> set qs = set ps \<Longrightarrow> holds (fold put_back qs (fold take ps r)) q \<longleftrightarrow> holds r q"
  by (auto simp: holds_fold_take holds_fold_put_back)

end

definition take_port :: "nat \<Rightarrow> nat set \<Rightarrow> nat set" where "take_port p used = insert p used"
definition release_port :: "nat \<Rightarrow> nat set \<Rightarrow> nat set" where "release_port p used = used - {p}"
definition reserved :: "nat set \<Rightarrow> nat \<Rightarrow> bool" where "reserved used p = (p \<in> used)"

interpretation pool: reservoir take_port release_port reserved
  by unfold_locales (auto simp: take_port_def release_port_def reserved_def)

definition attempts_limit :: nat where "attempts_limit = 100"

text \<open>Up to \<open>n\<close> more ports asked of the kernel.\<close>

fun one_free_port :: "('w \<Rightarrow> nat \<times> 'w) \<Rightarrow> nat \<Rightarrow> (nat set \<times> 'w, nat) state_result" where
  "one_free_port os 0 s = (Raise (RuntimeError (''could not find a free port not already reserved by '' @
     ''this process after '' @ show_nat attempts_limit @ '' attempts'')), s)"
| "one_free_port os (Suc n) (used, w) = (case os w of (p, w') \<Rightarrow>
     if reserved used p then one_free_port os n (used, w')
     else (Ok p, (take_port p used, w')))"

definition allocate_pair :: "('w \<Rightarrow> nat \<times> 'w) \<Rightarrow> (nat set \<times> 'w, nat \<times> nat) state_result" where
  "allocate_pair os =
     st_bind (one_free_port os attempts_limit) (\<lambda>http.
     st_bind (st_catch (one_free_port os attempts_limit)
                (\<lambda>e (used, w). (Raise e, (release_port http used, w)))) (\<lambda>grpc.
       st_return (http, grpc)))"

lemma one_free_port_effect:
  "one_free_port os n (used, w) = (x, (used', w')) \<Longrightarrow>
    (case x of Inl e \<Rightarrow> (\<exists>m. e = RuntimeError m) \<and> used' = used | Inr p \<Rightarrow> p \<notin> used \<and> used' = insert p used)"
  by (induction os n "(used, w)" arbitrary: w rule: one_free_port.induct)
    (auto simp: reserved_def take_port_def split: prod.splits if_splits)

lemma allocate_pair_effect:
  assumes "allocate_pair os (used, w) = (x, (used', w'))"
  shows "case x of Inl e \<Rightarrow> (\<exists>m. e = RuntimeError m) \<and> used' = used
    | Inr (h, g) \<Rightarrow> h \<noteq> g \<and> h \<notin> used \<and> g \<notin> used \<and> used' = {h, g} \<union> used"
proof -
  obtain x1 u1 w1 where a: "one_free_port os attempts_limit (used, w) = (x1, (u1, w1))" by (metis prod.exhaust)
  show ?thesis
  proof (cases x1)
    case (Inl e)
    with a assms one_free_port_effect [OF a] show ?thesis
      by (auto simp: allocate_pair_def st_bind_def)
  next
    case (Inr h)
    obtain x2 u2 w2 where b: "one_free_port os attempts_limit (u1, w1) = (x2, (u2, w2))" by (metis prod.exhaust)
    show ?thesis
      using one_free_port_effect [OF a] one_free_port_effect [OF b] a b assms Inr
      by (cases x2) (auto simp: allocate_pair_def st_bind_def st_catch_def st_return_def release_port_def)
  qed
qed

subsection \<open>Starting one agent\<close>

datatype spawned = Running nat | Misconfigured string | Unavailable string | Escapes py_exn

record 'w platform =
  pf_key_of :: "string \<Rightarrow> string \<Rightarrow> string"
  pf_fetch :: "string \<Rightarrow> string \<Rightarrow> bool result"
  pf_build :: "string \<Rightarrow> string \<Rightarrow> nat result"
  pf_mount :: "string option"
  pf_kernel :: "'w \<Rightarrow> nat \<times> 'w"
  pf_spawn :: "string \<Rightarrow> nat \<Rightarrow> nat \<Rightarrow> 'w \<Rightarrow> spawned \<times> 'w"
  pf_ready :: "nat \<Rightarrow> 'w \<Rightarrow> bool \<times> 'w"
  pf_not_ready_text :: "nat \<Rightarrow> 'w \<Rightarrow> string"
  pf_kill :: "nat \<Rightarrow> 'w \<Rightarrow> 'w"

record agent_handle =
  ah_http :: nat
  ah_grpc :: nat
  ah_pid :: nat

record 'w cluster =
  cl_cache :: cache
  cl_used :: "nat set"
  cl_world :: 'w
  cl_pinned :: "(string \<times> string) list"
  cl_ports :: "nat list"
  cl_handles :: "agent_handle list"

text \<open>The outcome of a start: a handle or a launcher error; other exceptions leave the worker.\<close>

type_synonym outcome_of_start = "agent_handle + py_exn"

definition msg_no_mount :: string where
  "msg_no_mount = ''current agent has not been mounted and is not available to test''"

definition resolve_and_pin :: "'w platform \<Rightarrow> pid \<Rightarrow> target_spec \<Rightarrow> ('w cluster, string) state_result" where
  "resolve_and_pin pf p t s = (case (tg_kind t, tg_repo t, tg_sha t) of
     (CHECKOUT, Some repo, Some sha) \<Rightarrow>
       (case checkout_and_build (pf_key_of pf) (pf_fetch pf) (pf_build pf) p ''itk'' repo sha (cl_cache s) of
          (Inl e, c) \<Rightarrow> (Raise e, s\<lparr>cl_cache := c\<rparr>)
        | (Inr path, c) \<Rightarrow> (Ok path, s\<lparr>cl_cache := c, cl_pinned := cl_pinned s @ [(repo, sha)]\<rparr>))
   | _ \<Rightarrow> (case pf_mount pf of
       None \<Rightarrow> (Raise (RuntimeError msg_no_mount), s) | Some d \<Rightarrow> (Ok d, s)))"

definition cluster_ports :: "'w platform \<Rightarrow> ('w cluster, nat \<times> nat) state_result" where
  "cluster_ports pf s = (case allocate_pair (pf_kernel pf) (cl_used s, cl_world s) of
     (Inl e, (u, w)) \<Rightarrow> (Raise e, s\<lparr>cl_used := u, cl_world := w\<rparr>)
   | (Inr (h, g), (u, w)) \<Rightarrow> (Ok (h, g), s\<lparr>cl_used := u, cl_world := w, cl_ports := cl_ports s @ [h, g]\<rparr>))"

definition wait_and_handle ::
  "'w platform \<Rightarrow> target_spec \<Rightarrow> nat \<Rightarrow> nat \<Rightarrow> nat \<Rightarrow> ('w cluster, outcome_of_start) state_result" where
  "wait_and_handle pf t http grpc i s = (case pf_ready pf http (cl_world s) of
     (True, w) \<Rightarrow> (let h = \<lparr>ah_http = http, ah_grpc = grpc, ah_pid = i\<rparr> in
        (Ok (Inl h), s\<lparr>cl_world := w, cl_handles := cl_handles s @ [h]\<rparr>))
   | (False, w) \<Rightarrow> (let w' = pf_kill pf i w in
        (Ok (Inr (infra_failure (tg_repo t) (tg_sha t) READY None (Some (pf_not_ready_text pf http w')))),
         s\<lparr>cl_world := w'\<rparr>)))"

definition spawn_and_wait ::
  "'w platform \<Rightarrow> target_spec \<Rightarrow> string \<Rightarrow> nat \<Rightarrow> nat \<Rightarrow> ('w cluster, outcome_of_start) state_result" where
  "spawn_and_wait pf t agent_dir http grpc s = (case pf_spawn pf agent_dir http grpc (cl_world s) of
     (Misconfigured m, w) \<Rightarrow>
       (Ok (Inr (permanent_error (tg_repo t) (tg_sha t) SPAWN m)), s\<lparr>cl_world := w\<rparr>)
   | (Unavailable m, w) \<Rightarrow>
       (Ok (Inr (infra_failure (tg_repo t) (tg_sha t) SPAWN (Some m) None)), s\<lparr>cl_world := w\<rparr>)
   | (Escapes e, w) \<Rightarrow> (Raise e, s\<lparr>cl_world := w\<rparr>)
   | (Running i, w) \<Rightarrow> wait_and_handle pf t http grpc i (s\<lparr>cl_world := w\<rparr>))"

definition start_one :: "'w platform \<Rightarrow> pid \<Rightarrow> target_spec \<Rightarrow> ('w cluster, outcome_of_start) state_result" where
  "start_one pf p t s = (case resolve_and_pin pf p t s of
     (Inl (InfraFailure m), s') \<Rightarrow> (Ok (Inr (InfraFailure m)), s')
   | (Inl (PermanentError m), s') \<Rightarrow> (Ok (Inr (PermanentError m)), s')
   | (Inl e, s') \<Rightarrow> (Raise e, s')
   | (Inr agent_dir, s') \<Rightarrow> (case cluster_ports pf s' of
       (Inl e, s'') \<Rightarrow> (Ok (Inr (infra_failure (tg_repo t) (tg_sha t) SPAWN None
          (Some (''port allocation failed: '' @ exn_text e)))), s'')
     | (Inr (http, grpc), s'') \<Rightarrow> spawn_and_wait pf t agent_dir http grpc s''))"

text \<open>Every worker runs; the first exception that left one, in the order of the targets, is raised.\<close>

fun run_workers :: "'w platform \<Rightarrow> pid \<Rightarrow> target_spec list \<Rightarrow> 'w cluster \<Rightarrow> outcome_of_start result list \<times> 'w cluster" where
  "run_workers pf p [] s = ([], s)"
| "run_workers pf p (t # ts) s = (case start_one pf p t s of (x, s') \<Rightarrow>
     (case run_workers pf p ts s' of (xs, s'') \<Rightarrow> (x # xs, s'')))"

definition start_all :: "'w platform \<Rightarrow> pid \<Rightarrow> target_spec list \<Rightarrow> ('w cluster, outcome_of_start list) state_result" where
  "start_all pf p ts s = (case run_workers pf p ts s of (xs, s') \<Rightarrow> (traverse id xs, s'))"

subsection \<open>Teardown\<close>

definition close_cluster :: "'w platform \<Rightarrow> pid \<Rightarrow> 'w cluster \<Rightarrow> 'w cluster" where
  "close_cluster pf p s = s\<lparr>
     cl_world := fold (\<lambda>h w. pf_kill pf (ah_pid h) w) (cl_handles s) (cl_world s), cl_handles := [],
     cl_cache := fold (\<lambda>(repo, sha) c. release (pf_key_of pf) p repo sha c) (cl_pinned s) (cl_cache s), cl_pinned := [],
     cl_used := fold release_port (cl_ports s) (cl_used s), cl_ports := []\<rparr>"

definition new_cluster :: "cache \<Rightarrow> 'w \<Rightarrow> 'w cluster" where
  "new_cluster c w = \<lparr>cl_cache = c, cl_used = {}, cl_world = w, cl_pinned = [], cl_ports = [], cl_handles = []\<rparr>"

subsection \<open>What a cluster owes\<close>

text \<open>
  The invariant of a cluster of process \<open>p\<close> that was opened on the cache counts \<open>base\<close>: its pins are
  what the counts have grown by, and its ports are what the reservoir holds.
\<close>

definition owes :: "'w platform \<Rightarrow> pid \<Rightarrow> (string \<Rightarrow> nat) \<Rightarrow> 'w cluster \<Rightarrow> bool" where
  "owes pf p base s \<longleftrightarrow>
     (\<forall>k. ca_refs (cl_cache s) p k = base k + count_list (map (\<lambda>(r, h). pf_key_of pf r h) (cl_pinned s)) k) \<and>
     cl_used s = set (cl_ports s) \<and> distinct (cl_ports s)"

lemma checkout_refs:
  assumes "checkout_and_build key_of fetch build p subdir repo sha c = (x, c')"
  shows "ca_refs c' p k = ca_refs c p k + (if isl x then 0 else if key_of repo sha = k then 1 else 0)"
  using assms
  by (auto simp: checkout_and_build_def Let_def give_up_def pin_refs unpin_refs split: if_splits sum.splits bool.splits)

lemma owes_cong:
  "owes pf p base s \<Longrightarrow> cl_cache s' = cl_cache s \<Longrightarrow> cl_pinned s' = cl_pinned s \<Longrightarrow> cl_used s' = cl_used s \<Longrightarrow>
   cl_ports s' = cl_ports s \<Longrightarrow> owes pf p base s'"
  by (simp add: owes_def)

lemma resolve_and_pin_owes:
  assumes "owes pf p base s" "resolve_and_pin pf p t s = (x, s')"
  shows "owes pf p base s'"
proof (cases "\<exists>repo sha. tg_kind t = CHECKOUT \<and> tg_repo t = Some repo \<and> tg_sha t = Some sha")
  case True
  then obtain repo sha where t: "tg_kind t = CHECKOUT" "tg_repo t = Some repo" "tg_sha t = Some sha" by blast
  obtain y c where a: "checkout_and_build (pf_key_of pf) (pf_fetch pf) (pf_build pf) p ''itk'' repo sha (cl_cache s) = (y, c)"
    by fastforce
  from assms t a show ?thesis
    by (cases y) (auto simp: resolve_and_pin_def owes_def checkout_refs [OF a])
next
  case False
  then have "s' = s" using assms(2)
    by (auto simp: resolve_and_pin_def split: kind.splits option.splits)
  with assms(1) show ?thesis by simp
qed

lemma cluster_ports_owes:
  assumes "owes pf p base s" "cluster_ports pf s = (x, s')"
  shows "owes pf p base s'"
proof -
  obtain y u w where a: "allocate_pair (pf_kernel pf) (cl_used s, cl_world s) = (y, (u, w))" by (metis prod.exhaust)
  show ?thesis
    using assms allocate_pair_effect [OF a] a
    by (cases y) (auto simp: cluster_ports_def owes_def)
qed

lemma spawn_and_wait_owes:
  assumes "owes pf p base s" "spawn_and_wait pf t d h g s = (x, s')"
  shows "owes pf p base s'"
  using assms(2) by (intro owes_cong [OF assms(1)])
    (auto simp: spawn_and_wait_def wait_and_handle_def Let_def split: prod.splits spawned.splits bool.splits)

lemma start_one_owes:
  assumes "owes pf p base s" "start_one pf p t s = (x, s')"
  shows "owes pf p base s'"
proof -
  obtain y s1 where a: "resolve_and_pin pf p t s = (y, s1)" by fastforce
  note o1 = resolve_and_pin_owes [OF assms(1) a]
  show ?thesis
  proof (cases y)
    case (Inl e)
    with a assms(2) o1 show ?thesis by (cases e) (auto simp: start_one_def)
  next
    case (Inr d)
    obtain z s2 where b: "cluster_ports pf s1 = (z, s2)" by fastforce
    note o2 = cluster_ports_owes [OF o1 b]
    show ?thesis using a b Inr assms(2) o2 spawn_and_wait_owes [OF o2]
      by (cases z) (auto simp: start_one_def)
  qed
qed

lemma run_workers_owes: "owes pf p base s \<Longrightarrow> owes pf p base (snd (run_workers pf p ts s))"
proof (induction ts arbitrary: s)
  case (Cons t ts)
  obtain x s1 where a: "start_one pf p t s = (x, s1)" by fastforce
  from Cons.IH [OF start_one_owes [OF Cons.prems a]] a show ?case by (simp add: case_prod_unfold)
qed simp

lemma release_all_refs:
  "ca_refs (fold (\<lambda>(repo, sha) c. release key_of p repo sha c) ps c) p k =
     ca_refs c p k - count_list (map (\<lambda>(r, h). key_of r h) ps) k"
  by (induction ps arbitrary: c) (auto simp: release_def unpin_refs)


text \<open>A target without its mount is no outcome: the exception of the worker ends the batch.\<close>

lemma missing_mount_escapes:
  assumes "pf_mount pf = None" "tg_kind t = MOUNT"
  shows "start_one pf p t s = (Raise (RuntimeError msg_no_mount), s)"
  using assms by (simp add: start_one_def resolve_and_pin_def)

end
