(* ===== verification/Loader.thy ===== *)
theory Loader
  imports Schema
begin

section \<open>Loading the corpus (acts/loader.py)\<close>

text \<open>
  A manifest followed through its \<open>include\<close> lists into one flat suite. A resolved path is the list
  of its components. What the disk holds, the YAML parser and the field conversions of pydantic
  are parameters; the validators are those of the theory Schema.
\<close>

type_synonym file_path = "string list"

record corpus =
  co_is_file :: "file_path \<Rightarrow> bool"
  co_yaml :: "file_path \<Rightarrow> json result"
  co_join :: "file_path \<Rightarrow> string \<Rightarrow> file_path"
  co_document :: "json \<Rightarrow> acts_document result"
  co_test :: "json \<Rightarrow> acts_test result"

definition show_path :: "file_path \<Rightarrow> string" where
  "show_path p = ''/'' @ join_with ''/'' p"

definition path_name :: "file_path \<Rightarrow> string" where
  "path_name p = (if p = [] then [] else last p)"

record loaded_test =
  lt_test :: acts_test
  lt_suite_id :: string
  lt_suite_name :: string
  lt_source :: file_path

definition lt_id :: "loaded_test \<Rightarrow> string" where "lt_id t = t_id (lt_test t)"

record load_error =
  le_source :: file_path
  le_where :: string
  le_message :: string

record loaded_suite =
  ls_tests :: "loaded_test list"
  ls_variables :: "(string, string) dict"
  ls_sources :: "file_path list"
  ls_errors :: "load_error list"

definition no_suite :: loaded_suite where
  "no_suite = \<lparr>ls_tests = [], ls_variables = [], ls_sources = [], ls_errors = []\<rparr>"

definition for_transport :: "loaded_suite \<Rightarrow> transport_binding \<Rightarrow> loaded_test list" where
  "for_transport s b = filter (\<lambda>t. applies_to (lt_test t) b) (ls_tests s)"

definition test_by_id :: "loaded_suite \<Rightarrow> string \<Rightarrow> loaded_test option" where
  "test_by_id s i = find (\<lambda>t. lt_id t = i) (ls_tests s)"

definition tests_by_level :: "loaded_suite \<Rightarrow> level \<Rightarrow> loaded_test list" where
  "tests_by_level s l = filter (\<lambda>t. t_level (lt_test t) = l) (ls_tests s)"

definition required_behaviors :: "loaded_suite \<Rightarrow> string set" where
  "required_behaviors s = fold (\<lambda>t out. out \<union> set (behaviors (lt_test t))) (ls_tests s) {}"

definition suite_ids :: "loaded_suite \<Rightarrow> string list" where
  "suite_ids s = fold (\<lambda>t seen. if lt_suite_id t \<in> set seen then seen else seen @ [lt_suite_id t]) (ls_tests s) []"

subsection \<open>Reading files\<close>

definition read_yaml :: "corpus \<Rightarrow> file_path \<Rightarrow> json result" where
  "read_yaml co p =
     (if \<not> co_is_file co p then Raise (ActsFileError (''ACTS file not found: '' @ show_path p))
      else case co_yaml co p of
        Inl e \<Rightarrow> Raise (ActsFileError (show_path p @ '': could not parse: '' @ exn_text e))
      | Inr JNull \<Rightarrow> Raise (ActsFileError (show_path p @ '': file is empty''))
      | Inr raw \<Rightarrow> Ok raw)"

definition is_within :: "file_path \<Rightarrow> file_path \<Rightarrow> bool" where
  "is_within candidate root = prefix root candidate"

definition include_target :: "corpus \<Rightarrow> file_path \<Rightarrow> file_path \<Rightarrow> json \<Rightarrow> file_path result" where
  "include_target co root current entry = (case entry of
     JStr e \<Rightarrow> (let child = co_join co current e in
       if \<not> is_within child root
       then Raise (ActsFileError (show_path current @ '': include '' @ repr_str e @
         '' escapes the suite directory ('' @ show_path root @ '')''))
       else if \<not> co_is_file co child
       then Raise (ActsFileError (show_path current @ '': included file not found: '' @ e))
       else Ok child)
   | _ \<Rightarrow> Raise (ActsFileError (show_path current @ '': `include` entries must be filenames, got '' @ type_name entry)))"

definition include_targets :: "corpus \<Rightarrow> file_path \<Rightarrow> file_path \<Rightarrow> json \<Rightarrow> file_path list result" where
  "include_targets co root current raw = (case raw of
     JObj d \<Rightarrow> (case dict_lookup d ''include'' (JArr []) of
        JArr es \<Rightarrow> traverse (include_target co root current) es
      | _ \<Rightarrow> Raise (ActsFileError (show_path current @ '': `include` must be a list of filenames'')))
   | _ \<Rightarrow> Raise (ActsFileError (show_path current @ '': expected a mapping at the top level, got '' @ type_name raw)))"

text \<open>A file's contents and the files it includes.\<close>

definition visit :: "corpus \<Rightarrow> file_path \<Rightarrow> file_path \<Rightarrow> (json \<times> file_path list) result" where
  "visit co root current =
     rbind (read_yaml co current) (\<lambda>raw. rbind (include_targets co root current raw) (\<lambda>children. Ok (raw, children)))"

text \<open>
  The walk: the top of the stack is the head of the list here and its end in the source, where
  the children are pushed reversed. None is a walk that does not end.
\<close>

partial_function (option) include_walk ::
  "(file_path \<Rightarrow> ('a \<times> file_path list) result) \<Rightarrow> file_path list \<Rightarrow> file_path set \<Rightarrow> (file_path \<times> 'a) list \<Rightarrow>
   (file_path \<times> 'a) list result option" where
  "include_walk look stack visited ordered = (case stack of
     [] \<Rightarrow> Some (Ok ordered)
   | current # rest \<Rightarrow>
       if current \<in> visited then include_walk look rest visited ordered
       else (case look current of
          Inl e \<Rightarrow> Some (Raise e)
        | Inr (raw, children) \<Rightarrow>
            include_walk look (children @ rest) (insert current visited) (ordered @ [(current, raw)])))"

definition resolve_includes ::
  "corpus \<Rightarrow> file_path \<Rightarrow> file_path \<Rightarrow> (file_path \<times> json) list result option" where
  "resolve_includes co path root = include_walk (visit co root) [path] {} []"

subsection \<open>Validating documents\<close>

definition parse_document :: "corpus \<Rightarrow> file_path \<Rightarrow> json \<Rightarrow> acts_document result" where
  "parse_document co p raw =
     (if \<not> is_mapping raw
      then Raise (ActsFileError (show_path p @ '': expected a mapping at the top level, got '' @ type_name raw))
      else case rbind (co_document co raw) (\<lambda>d. rbind (check_document d) (\<lambda>_. Ok d)) of
        Inl e \<Rightarrow> Raise (ActsFileError (show_path p @ '': '' @ exn_text e))
      | Inr d \<Rightarrow> Ok d)"

definition validate_test :: "corpus \<Rightarrow> json \<Rightarrow> unit result" where
  "validate_test co raw = rbind (co_test co raw) check_test"

definition test_place :: "nat \<Rightarrow> nat \<Rightarrow> json \<Rightarrow> string" where
  "test_place i j raw = (let w = ''suites['' @ show_nat i @ ''].tests['' @ show_nat j @ '']'' in
     case raw of
       JObj d \<Rightarrow> (case map_of d ''id'' of None \<Rightarrow> w | Some v \<Rightarrow> w @ '' ('' @ py_str v @ '')'')
     | _ \<Rightarrow> w)"

text \<open>\<open>raw.get(k) or ()\<close>, iterated.\<close>

definition members_at :: "(string, json) dict \<Rightarrow> string \<Rightarrow> json list result" where
  "members_at d k = (let v = dict_lookup d k JNull in if truthy v then iterate v else Ok [])"

fun sift_tests :: "corpus \<Rightarrow> file_path \<Rightarrow> nat \<Rightarrow> nat \<Rightarrow> json list \<Rightarrow> json list \<times> load_error list" where
  "sift_tests co p i j [] = ([], [])"
| "sift_tests co p i j (raw # raws) = (case sift_tests co p i (Suc j) raws of (good, bad) \<Rightarrow>
     (case validate_test co raw of
        Inl e \<Rightarrow> (good, \<lparr>le_source = p, le_where = test_place i j raw, le_message = exn_text e\<rparr> # bad)
      | Inr _ \<Rightarrow> (raw # good, bad)))"

fun sift_suites :: "corpus \<Rightarrow> file_path \<Rightarrow> nat \<Rightarrow> json list \<Rightarrow> (json list \<times> load_error list) result" where
  "sift_suites co p i [] = Ok ([], [])"
| "sift_suites co p i (JObj s # raws) = rbind (members_at s ''tests'') (\<lambda>tests.
     rbind (sift_suites co p (Suc i) raws) (\<lambda>(kept, errors).
       case sift_tests co p i 0 tests of (good, bad) \<Rightarrow>
         Ok (if good = [] then kept else JObj (AList.update ''tests'' (JArr good) s) # kept, bad @ errors)))"
| "sift_suites co p i (raw # raws) =
     Raise (ActsFileError (show_path p @ '': suites['' @ show_nat i @ ''] must be a mapping''))"

definition msg_no_test_explains :: "file_path \<Rightarrow> string" where
  "msg_no_test_explains p = show_path p @ '': document is invalid and no individual test explains it; '' @
     ''check the acts_version/spec_version envelope and suite headers''"

definition salvage_document ::
  "corpus \<Rightarrow> json \<Rightarrow> file_path \<Rightarrow> (acts_document option \<times> load_error list) result" where
  "salvage_document co raw p = (case raw of
     JObj d \<Rightarrow> rbind (members_at d ''suites'') (\<lambda>suites.
       rbind (sift_suites co p 0 suites) (\<lambda>(kept, errors).
         if errors = [] then Raise (ActsFileError (msg_no_test_explains p))
         else if kept = [] then Ok (None, errors)
         else rbind (parse_document co p (JObj (AList.update ''suites'' (JArr kept) d))) (\<lambda>doc. Ok (Some doc, errors))))
   | _ \<Rightarrow> Raise (ActsFileError (show_path p @ '': expected a mapping at the top level'')))"

definition validate_document ::
  "corpus \<Rightarrow> bool \<Rightarrow> json \<Rightarrow> file_path \<Rightarrow> (acts_document option \<times> load_error list) result" where
  "validate_document co strict raw p = (case parse_document co p raw of
     Inr d \<Rightarrow> Ok (Some d, [])
   | Inl e \<Rightarrow> if strict then Raise e else salvage_document co raw p)"

definition load_document :: "corpus \<Rightarrow> file_path \<Rightarrow> acts_document result" where
  "load_document co p = rbind (read_yaml co p) (parse_document co p)"

subsection \<open>Flattening\<close>

record loading =
  ld_suite :: loaded_suite
  ld_tests_seen :: "(string, loaded_test) dict"
  ld_suites_seen :: "(string, file_path) dict"

definition check_unique_suite :: "suite \<Rightarrow> file_path \<Rightarrow> loading \<Rightarrow> loading result" where
  "check_unique_suite s p l = (case map_of (ld_suites_seen l) (su_id s) of
     Some q \<Rightarrow> Raise (ActsFileError (show_path p @ '': duplicate suite id '' @ repr_str (su_id s) @
       '', already defined in '' @ path_name q))
   | None \<Rightarrow> Ok (l\<lparr>ld_suites_seen := AList.update (su_id s) p (ld_suites_seen l)\<rparr>))"

definition msg_duplicate_test :: "loaded_test \<Rightarrow> loaded_test \<Rightarrow> string" where
  "msg_duplicate_test t prior = show_path (lt_source t) @ '': duplicate test id '' @ repr_str (lt_id t) @
     '', already defined in '' @ path_name (lt_source prior) @ '' (suite '' @ lt_suite_id prior @
     ''); report rows are keyed by test id, so one would overwrite the other''"

definition add_test :: "suite \<Rightarrow> file_path \<Rightarrow> acts_test \<Rightarrow> loading \<Rightarrow> loading result" where
  "add_test s p t l =
     (let entry = \<lparr>lt_test = t, lt_suite_id = su_id s, lt_suite_name = su_name s, lt_source = p\<rparr> in
      case map_of (ld_tests_seen l) (lt_id entry) of
        Some prior \<Rightarrow> Raise (ActsFileError (msg_duplicate_test entry prior))
      | None \<Rightarrow> Ok (l\<lparr>ld_tests_seen := AList.update (lt_id entry) entry (ld_tests_seen l),
          ld_suite := (ld_suite l)\<lparr>ls_tests := ls_tests (ld_suite l) @ [entry]\<rparr>\<rparr>))"

fun add_each :: "('a \<Rightarrow> 's \<Rightarrow> 's result) \<Rightarrow> 'a list \<Rightarrow> 's \<Rightarrow> 's result" where
  "add_each f [] l = Ok l"
| "add_each f (x # xs) l = rbind (f x l) (add_each f xs)"

definition add_suite :: "file_path \<Rightarrow> suite \<Rightarrow> loading \<Rightarrow> loading result" where
  "add_suite p s l = rbind (check_unique_suite s p l) (add_each (add_test s p) (su_tests s))"

definition note_document :: "file_path \<Rightarrow> acts_document option \<Rightarrow> load_error list \<Rightarrow> loading \<Rightarrow> loading" where
  "note_document p doc errors l = l\<lparr>ld_suite := (ld_suite l)\<lparr>
     ls_errors := ls_errors (ld_suite l) @ errors, ls_sources := ls_sources (ld_suite l) @ [p],
     ls_variables := (case doc of None \<Rightarrow> ls_variables (ld_suite l)
       | Some d \<Rightarrow> dict_merge (ls_variables (ld_suite l)) (case ad_variables d of None \<Rightarrow> [] | Some vs \<Rightarrow> vs))\<rparr>\<rparr>"

definition add_document :: "corpus \<Rightarrow> bool \<Rightarrow> file_path \<times> json \<Rightarrow> loading \<Rightarrow> loading result" where
  "add_document co strict = (\<lambda>(p, raw) l.
     rbind (validate_document co strict raw p) (\<lambda>(doc, errors).
       add_each (add_suite p) (case doc of None \<Rightarrow> [] | Some d \<Rightarrow> or_empty (ad_suites d)) (note_document p doc errors l)))"

definition flatten_documents :: "corpus \<Rightarrow> bool \<Rightarrow> (file_path \<times> json) list \<Rightarrow> loaded_suite result" where
  "flatten_documents co strict docs = rbind
     (add_each (add_document co strict) docs \<lparr>ld_suite = no_suite, ld_tests_seen = [], ld_suites_seen = []\<rparr>)
     (\<lambda>l. Ok (ld_suite l))"

text \<open>The manifest's own directory bounds what may be included; None is a load that does not end.\<close>

definition load_suite :: "corpus \<Rightarrow> bool \<Rightarrow> file_path \<Rightarrow> loaded_suite result option" where
  "load_suite co strict path = (case resolve_includes co path (butlast path) of
     None \<Rightarrow> None
   | Some r \<Rightarrow> Some (rbind r (flatten_documents co strict)))"

end
