(* ===== verification/Report.thy ===== *)
theory Report
  imports RunnerSuite Loader
begin

section \<open>The report document (acts/report.py)\<close>

text \<open>
  The summary of a run with its per-level breakdown, the grouping of the results under the suites
  they were loaded from, and the verdict read off the summary. Tests are the JSON objects the
  report holds. The durations, which results of the model do not carry, and the time the report
  is written at are arguments.
\<close>

subsection \<open>Summary\<close>

record level_summary =
  sm_total :: nat
  sm_passed :: nat
  sm_failed :: nat
  sm_skipped :: nat
  sm_errors :: nat

record report_summary = level_summary +
  sm_duration_ms :: nat
  sm_by_level :: "(level, level_summary) dict"

definition count_outcome :: "test_result list \<Rightarrow> outcome \<Rightarrow> nat" where
  "count_outcome results out = sum_list (map (\<lambda>r. of_bool (tr_result r = out)) results)"

definition level_summary_of :: "test_result list \<Rightarrow> level \<Rightarrow> level_summary" where
  "level_summary_of results l = (let at_level = filter (\<lambda>r. tr_level r = l) results in
     \<lparr>sm_total = length at_level, sm_passed = count_outcome at_level PASS, sm_failed = count_outcome at_level FAIL,
      sm_skipped = count_outcome at_level SKIP, sm_errors = count_outcome at_level ERROR\<rparr>)"

definition report_summarize :: "test_result list \<Rightarrow> nat \<Rightarrow> report_summary" where
  "report_summarize results duration_ms =
     \<lparr>sm_total = length results, sm_passed = count_outcome results PASS, sm_failed = count_outcome results FAIL,
      sm_skipped = count_outcome results SKIP, sm_errors = count_outcome results ERROR,
      sm_duration_ms = duration_ms, sm_by_level = map (\<lambda>l. (l, level_summary_of results l)) all_levels\<rparr>"

subsection \<open>Tests\<close>

fun level_value :: "level \<Rightarrow> string" where
  "level_value MUST = ''must''"
| "level_value SHOULD = ''should''"
| "level_value MAY = ''may''"

fun outcome_value :: "outcome \<Rightarrow> string" where
  "outcome_value PASS = ''pass''"
| "outcome_value FAIL = ''fail''"
| "outcome_value SKIP = ''skip''"
| "outcome_value ERROR = ''error''"

record timings =
  tm_test :: "string \<Rightarrow> nat"
  tm_step :: "string \<Rightarrow> string \<Rightarrow> nat"

definition json_of_failure :: "failure_detail \<Rightarrow> json" where
  "json_of_failure d = JObj (map (\<lambda>(k, v). (k, JStr v)) (detail_as_json d))"

definition json_of_step :: "timings \<Rightarrow> string \<Rightarrow> step_result \<Rightarrow> json" where
  "json_of_step tm i sr = JObj ([(''id'', JStr (sr_id sr)), (''result'', JStr (outcome_value (sr_result sr))),
       (''duration_ms'', JInt (int (tm_step tm i (sr_id sr))))] @
     (case sr_failure sr of None \<Rightarrow> [] | Some d \<Rightarrow> [(''failure'', json_of_failure d)]))"

definition non_empty :: "string \<Rightarrow> string option \<Rightarrow> (string, json) dict" where
  "non_empty k v = (case v of None \<Rightarrow> [] | Some s \<Rightarrow> if s = [] then [] else [(k, JStr s)])"

definition json_of_result :: "timings \<Rightarrow> test_result \<Rightarrow> json" where
  "json_of_result tm r = JObj ([(''id'', JStr (tr_id r)), (''name'', JStr (tr_name r)),
       (''level'', JStr (level_value (tr_level r))), (''result'', JStr (outcome_value (tr_result r))),
       (''duration_ms'', JInt (int (tm_test tm (tr_id r))))] @
     non_empty ''skip_reason'' (tr_skip_reason r) @ non_empty ''configuration'' (tr_configuration r) @
     (case tr_failure r of None \<Rightarrow> [] | Some d \<Rightarrow> [(''failure'', json_of_failure d)]) @
     (if tr_steps r = [] then [] else [(''steps'', JArr (map (json_of_step tm (tr_id r)) (tr_steps r)))]))"

subsection \<open>Suites\<close>

record report_suite =
  rs_id :: string
  rs_name :: string
  rs_tests :: "json list"

definition unknown_suite :: string where "unknown_suite = ''(unknown)''"

definition results_by_id :: "test_result list \<Rightarrow> (string, test_result) dict" where
  "results_by_id results = fold (\<lambda>r d. AList.update (tr_id r) r d) results []"

definition group_test ::
  "timings \<Rightarrow> (string, test_result) dict \<Rightarrow> loaded_test \<Rightarrow> (string, report_suite) dict \<Rightarrow> (string, report_suite) dict" where
  "group_test tm by_id t grouped = (case map_of by_id (lt_id t) of
     None \<Rightarrow> grouped
   | Some r \<Rightarrow>
       let entry = dict_lookup grouped (lt_suite_id t)
         \<lparr>rs_id = lt_suite_id t, rs_name = lt_suite_name t, rs_tests = []\<rparr>
       in AList.update (lt_suite_id t) (entry\<lparr>rs_tests := rs_tests entry @ [json_of_result tm r]\<rparr>) grouped)"

definition orphans :: "test_result list \<Rightarrow> loaded_suite \<Rightarrow> test_result list" where
  "orphans results s = filter (\<lambda>r. tr_id r \<notin> set (map lt_id (ls_tests s))) results"

definition report_suites :: "timings \<Rightarrow> test_result list \<Rightarrow> loaded_suite \<Rightarrow> report_suite list" where
  "report_suites tm results s =
     (let grouped = fold (group_test tm (results_by_id results)) (ls_tests s) [];
          grouped' = (if orphans results s = [] then grouped
            else AList.update unknown_suite
              \<lparr>rs_id = unknown_suite, rs_name = ''Results with no suite in the loaded corpus'',
               rs_tests = map (json_of_result tm) (orphans results s)\<rparr> grouped)
      in map snd grouped')"

subsection \<open>The document\<close>

record report =
  rp_acts_version :: string
  rp_spec_version :: string
  rp_generated_at :: string
  rp_sdk :: "(string, string) dict"
  rp_transport :: string
  rp_environment :: "(string, string) dict"
  rp_summary :: report_summary
  rp_suites :: "report_suite list"

definition sdk_keys :: "string list" where "sdk_keys = [''language'', ''name'', ''version'']"

definition build_report ::
  "timings \<Rightarrow> string \<Rightarrow> test_result list \<Rightarrow> loaded_suite \<Rightarrow> (string, string) dict \<Rightarrow> transport_binding \<Rightarrow> nat \<Rightarrow>
   string \<Rightarrow> string \<Rightarrow> (string, string) dict \<Rightarrow> report result" where
  "build_report tm now results s sdk b duration_ms spec_version acts_version environment =
     (let missing = filter (\<lambda>k. map_of sdk k = None) sdk_keys in
      if missing \<noteq> []
      then Raise (ValueError (''sdk-info needs '' @ repr_list missing @ '' (spec '' @ [CHR 0xA7] @ ''13.1)''))
      else Ok \<lparr>rp_acts_version = acts_version, rp_spec_version = spec_version, rp_generated_at = now, rp_sdk = sdk,
        rp_transport = binding_value b, rp_environment = environment, rp_summary = report_summarize results duration_ms,
        rp_suites = report_suites tm results s\<rparr>)"

definition report_is_conformant :: "report \<Rightarrow> bool" where
  "report_is_conformant rp = (case map_of (sm_by_level (rp_summary rp)) MUST of
     None \<Rightarrow> False | Some must \<Rightarrow> sm_failed must = 0 \<and> sm_errors must = 0)"

definition counted_as :: "nat \<Rightarrow> string \<Rightarrow> string list" where
  "counted_as n what = (if n = 0 then [] else [show_nat n @ '' '' @ what])"

text \<open>The level in capitals, padded to seven places.\<close>

fun level_label :: "level \<Rightarrow> string" where
  "level_label MUST = ''MUST   ''"
| "level_label SHOULD = ''SHOULD ''"
| "level_label MAY = ''MAY    ''"

definition conformance_line :: "level \<Rightarrow> level_summary \<Rightarrow> string" where
  "conformance_line l c =
     (let graded = sm_total c - sm_skipped c;
          extra = counted_as (sm_failed c) ''failed'' @ counted_as (sm_errors c) ''errors'' @ counted_as (sm_skipped c) ''skipped''
      in level_label l @ show_nat (sm_passed c) @ ''/'' @ show_nat graded @ '' passed'' @
         (if extra = [] then [] else '' ('' @ join_with '', '' extra @ '')''))"

definition conformance_lines :: "report \<Rightarrow> string list" where
  "conformance_lines rp = List.map_filter
     (\<lambda>l. map_option (conformance_line l) (map_of (sm_by_level (rp_summary rp)) l)) all_levels"

definition failed_entry :: "json \<Rightarrow> (string \<times> string) option" where
  "failed_entry t = (case (mapping_get t ''id'', mapping_get t ''result'') of
     (Some (JStr i), Some (JStr out)) \<Rightarrow>
       (if out \<in> {''fail'', ''error''}
        then Some (i, case mapping_get t ''failure'' of
            Some d \<Rightarrow> (case mapping_get d ''message'' of Some (JStr m) \<Rightarrow> m | _ \<Rightarrow> ''(no detail)'')
          | None \<Rightarrow> ''(no detail)'')
        else None)
   | _ \<Rightarrow> None)"

definition report_failures :: "report \<Rightarrow> (string \<times> string) list" where
  "report_failures rp = List.map_filter failed_entry (concat (map rs_tests (rp_suites rp)))"

subsection \<open>The summary adds up\<close>

lemma count_outcome_filter: "count_outcome results out = length (filter (\<lambda>r. tr_result r = out) results)"
  by (induction results) (auto simp: count_outcome_def)

lemma outcomes_partition:
  "count_outcome results PASS + count_outcome results FAIL + count_outcome results SKIP +
     count_outcome results ERROR = length results"
proof (induction results)
  case (Cons r results)
  then show ?case by (cases "tr_result r") (auto simp: count_outcome_def)
qed (simp add: count_outcome_def)

lemma levels_partition:
  "count_outcome (filter (\<lambda>r. tr_level r = MUST) results) out +
     count_outcome (filter (\<lambda>r. tr_level r = SHOULD) results) out +
     count_outcome (filter (\<lambda>r. tr_level r = MAY) results) out = count_outcome results out"
proof (induction results)
  case (Cons r results)
  then show ?case by (cases "tr_level r") (auto simp: count_outcome_def)
qed (simp add: count_outcome_def)

lemma level_count: "count_outcome (filter (\<lambda>r. tr_level r = l) results) out = count_results results l out"
  by (simp add: count_outcome_filter count_results_def conj_commute)

subsection \<open>Nothing is lost between the runner and the report\<close>

definition grouped_tests :: "(string, report_suite) dict \<Rightarrow> json multiset" where
  "grouped_tests g = mset (concat (map (rs_tests \<circ> snd) g))"

lemma grouped_tests_update:
  "distinct (map fst g) \<Longrightarrow>
   grouped_tests (AList.update k v g) + (case map_of g k of None \<Rightarrow> {#} | Some w \<Rightarrow> mset (rs_tests w)) =
     grouped_tests g + mset (rs_tests v)"
proof (induction g)
  case (Cons x g)
  have "map_of g (fst x) = None" using Cons.prems by (simp add: map_of_eq_None_iff)
  with Cons show ?case by (cases x) (auto simp: grouped_tests_def)
qed (simp add: grouped_tests_def)

lemma group_test_adds:
  assumes "distinct (map fst g)"
  shows "grouped_tests (group_test tm by_id t g) =
      grouped_tests g + (case map_of by_id (lt_id t) of None \<Rightarrow> {#} | Some r \<Rightarrow> {#json_of_result tm r#})"
    and "distinct (map fst (group_test tm by_id t g))"
    and "fst ` set (group_test tm by_id t g) \<subseteq> insert (lt_suite_id t) (fst ` set g)"
proof -
  show "grouped_tests (group_test tm by_id t g) =
      grouped_tests g + (case map_of by_id (lt_id t) of None \<Rightarrow> {#} | Some r \<Rightarrow> {#json_of_result tm r#})"
  proof (cases "map_of by_id (lt_id t)")
    case (Some r)
    define entry where "entry = dict_lookup g (lt_suite_id t)
      \<lparr>rs_id = lt_suite_id t, rs_name = lt_suite_name t, rs_tests = []\<rparr>"
    have "mset (rs_tests entry) = (case map_of g (lt_suite_id t) of None \<Rightarrow> {#} | Some w \<Rightarrow> mset (rs_tests w))"
      by (simp add: entry_def dict_lookup_def split: option.split)
    with grouped_tests_update [OF assms, of "lt_suite_id t" "entry\<lparr>rs_tests := rs_tests entry @ [json_of_result tm r]\<rparr>"] Some
    show ?thesis by (simp add: group_test_def Let_def entry_def [symmetric])
  qed (simp add: group_test_def)
  show "distinct (map fst (group_test tm by_id t g))"
    using assms by (auto simp: group_test_def Let_def distinct_update split: option.split)
  show "fst ` set (group_test tm by_id t g) \<subseteq> insert (lt_suite_id t) (fst ` set g)"
    by (auto simp: group_test_def Let_def keys_update split: option.split)
qed

lemma group_tests_add:
  assumes "distinct (map fst g)"
  shows "grouped_tests (fold (group_test tm by_id) ts g) = grouped_tests g +
      mset (List.map_filter (\<lambda>t. map_option (json_of_result tm) (map_of by_id (lt_id t))) ts) \<and>
    distinct (map fst (fold (group_test tm by_id) ts g)) \<and>
    fst ` set (fold (group_test tm by_id) ts g) \<subseteq> lt_suite_id ` set ts \<union> fst ` set g"
  using assms
proof (induction ts arbitrary: g)
  case (Cons t ts)
  note one = group_test_adds [OF Cons.prems, of tm by_id t]
  have "fst ` set (fold (group_test tm by_id) ts (group_test tm by_id t g)) \<subseteq>
      lt_suite_id ` set ts \<union> insert (lt_suite_id t) (fst ` set g)"
    using Cons.IH [OF one(2)] one(3) by blast
  with Cons.IH [OF one(2)] one(1) show ?case
    by (cases "map_of by_id (lt_id t)") (auto simp: map_filter_simps)
qed (simp add: map_filter_simps)

lemma other_image: "y \<notin> f ` A \<Longrightarrow> x \<in> A \<Longrightarrow> f x \<noteq> y"
  by blast

lemma results_by_id_lookup:
  "distinct (map tr_id results) \<Longrightarrow> map_of (results_by_id results) i = find (\<lambda>r. tr_id r = i) results"
proof -
  have "distinct (map tr_id results) \<Longrightarrow> map_of (fold (\<lambda>r d. AList.update (tr_id r) r d) results d) i =
      (case find (\<lambda>r. tr_id r = i) results of None \<Rightarrow> map_of d i | Some r \<Rightarrow> Some r)" for d
  proof (induction results arbitrary: d)
    case (Cons r results)
    then have "tr_id r = i \<Longrightarrow> find (\<lambda>r. tr_id r = i) results = None"
      unfolding find_None_iff by (auto dest: other_image)
    with Cons show ?case by (auto split: option.split)
  qed simp
  then show "distinct (map tr_id results) \<Longrightarrow> ?thesis"
    by (simp add: results_by_id_def split: option.split)
qed

text \<open>Looking every test of a suite up finds each result of the suite once, in whatever order.\<close>

lemma looked_up_results:
  assumes "distinct (map lt_id ts)" "distinct (map tr_id results)"
  shows "mset (List.map_filter (\<lambda>t. map_of (results_by_id results) (lt_id t)) ts) =
    mset (filter (\<lambda>r. tr_id r \<in> set (map lt_id ts)) results)"
  using assms(1)
proof (induction ts)
  case (Cons t ts)
  have split: "mset (filter (\<lambda>r. tr_id r \<in> set (map lt_id (t # ts))) results) =
      mset (filter (\<lambda>r. tr_id r \<in> set (map lt_id ts)) results) + mset (filter (\<lambda>r. tr_id r = lt_id t) results)"
  proof -
    have "filter (\<lambda>r. tr_id r \<in> set (map lt_id ts)) (filter (\<lambda>r. tr_id r \<in> set (map lt_id (t # ts))) results) =
        filter (\<lambda>r. tr_id r \<in> set (map lt_id ts)) results"
      by (auto intro: filter_cong)
    moreover have "filter (\<lambda>r. \<not> tr_id r \<in> set (map lt_id ts)) (filter (\<lambda>r. tr_id r \<in> set (map lt_id (t # ts))) results) =
        filter (\<lambda>r. tr_id r = lt_id t) results"
      unfolding filter_filter by (rule filter_cong [OF refl]) (use Cons.prems in \<open>auto dest: other_image\<close>)
    ultimately show ?thesis
      using multiset_partition [of "mset (filter (\<lambda>r. tr_id r \<in> set (map lt_id (t # ts))) results)"
        "\<lambda>r. tr_id r \<in> set (map lt_id ts)"] by (simp add: mset_filter [symmetric] del: mset_filter)
  qed
  have "mset (filter (\<lambda>r. tr_id r = i) results) =
      (case find (\<lambda>r. tr_id r = i) results of None \<Rightarrow> {#} | Some r \<Rightarrow> {#r#})" for i
    using assms(2)
  proof (induction results)
    case (Cons r rs)
    have "filter (\<lambda>x. tr_id x = tr_id r) rs = []" using Cons.prems by (auto simp: filter_empty_conv dest: other_image)
    with Cons show ?case by (auto simp del: mset_filter split: option.splits)
  qed simp
  with Cons split show ?case
    by (cases "find (\<lambda>r. tr_id r = lt_id t) results")
      (auto simp: map_filter_simps results_by_id_lookup [OF assms(2)])
qed (simp add: map_filter_simps)

lemma map_filter_option: "List.map_filter (\<lambda>x. map_option f (g x)) xs = map f (List.map_filter g xs)"
  by (induction xs) (auto simp: map_filter_simps split: option.split)

subsection \<open>Properties\<close>

text \<open>
  C19: the report loses no result. When the results of a run and the tests of the corpus have
  distinct ids and no suite is called \<open>(unknown)\<close>, the tests listed under the suites of the report
  are the results of the run, each exactly once, also those of tests the corpus does not hold.
\<close>

theorem report_loses_no_result:
  assumes "distinct (map tr_id results)" "distinct (map lt_id (ls_tests s))"
    and "unknown_suite \<notin> lt_suite_id ` set (ls_tests s)"
  shows "mset (concat (map rs_tests (report_suites tm results s))) = mset (map (json_of_result tm) results)"
proof -
  let ?g = "fold (group_test tm (results_by_id results)) (ls_tests s) []"
  have g: "grouped_tests ?g = image_mset (json_of_result tm)
      (filter_mset (\<lambda>r. tr_id r \<in> set (map lt_id (ls_tests s))) (mset results))"
    "distinct (map fst ?g)" "unknown_suite \<notin> fst ` set ?g"
    using group_tests_add [of "[]" tm "results_by_id results" "ls_tests s"] assms(3)
      looked_up_results [OF assms(2,1)]
    by (auto simp: grouped_tests_def map_filter_option)
  have "mset results = filter_mset (\<lambda>r. tr_id r \<in> set (map lt_id (ls_tests s))) (mset results) + mset (orphans results s)"
    using multiset_partition [of "mset results"] by (simp add: orphans_def)
  then have whole: "mset (map (json_of_result tm) results) =
      grouped_tests ?g + mset (map (json_of_result tm) (orphans results s))"
    unfolding mset_map g(1) by (metis image_mset_union)
  have "map_of ?g unknown_suite = None" using g(3) by (simp add: map_of_eq_None_iff)
  with grouped_tests_update [OF g(2), of unknown_suite]
  have "grouped_tests (AList.update unknown_suite v ?g) = grouped_tests ?g + mset (rs_tests v)" for v by simp
  moreover have "mset (concat (map rs_tests (map snd h))) = grouped_tests h" for h
    by (simp add: grouped_tests_def)
  ultimately show ?thesis
    using whole by (cases "orphans results s = []") (simp_all only: report_suites_def Let_def if_True if_False, simp_all)
qed

definition plain_suite_of :: "string list \<Rightarrow> loaded_suite" where
  "plain_suite_of ids = no_suite\<lparr>ls_tests := map (\<lambda>i. \<lparr>lt_test = plain_test i [], lt_suite_id = ''S'',
     lt_suite_name = ''S'', lt_source = [''s'']\<rparr>) ids\<rparr>"

theorem report_loses_no_result_witness:
  "mset (concat (map rs_tests (report_suites \<lparr>tm_test = (\<lambda>_. 0), tm_step = (\<lambda>_ _. 0)\<rparr>
       [plain_result (plain_test ''A'' []) PASS, plain_result (plain_test ''B'' []) FAIL]
       (plain_suite_of [''C'', ''A'']))))
   = mset (map (json_of_result \<lparr>tm_test = (\<lambda>_. 0), tm_step = (\<lambda>_ _. 0)\<rparr>)
       [plain_result (plain_test ''A'' []) PASS, plain_result (plain_test ''B'' []) FAIL])"
  by (rule report_loses_no_result)
    (simp_all add: plain_result_def plain_test_def plain_suite_of_def no_suite_def lt_id_def unknown_suite_def)

text \<open>
  C20: the report says what the results say. It is refused exactly when the SDK's name, version or
  language is missing; otherwise its totals are those of its outcomes and of its levels, every
  count is the number of results with that level and outcome, and the verdict read off the
  document is the runner's own: conformant exactly when no test at level MUST failed or errored.
\<close>

theorem report_adds_up:
  "case build_report tm now results s sdk b ms spec acts environment of
     Inl e \<Rightarrow> \<not> list_all (\<lambda>k. map_of sdk k \<noteq> None) sdk_keys \<and> (\<exists>m. e = ValueError m)
   | Inr rp \<Rightarrow> list_all (\<lambda>k. map_of sdk k \<noteq> None) sdk_keys \<and>
       sm_total (rp_summary rp) = length results \<and>
       sm_total (rp_summary rp) = sm_passed (rp_summary rp) + sm_failed (rp_summary rp) +
         sm_skipped (rp_summary rp) + sm_errors (rp_summary rp) \<and>
       (\<forall>l. \<exists>c. map_of (sm_by_level (rp_summary rp)) l = Some c \<and> sm_passed c = count_results results l PASS \<and>
         sm_failed c = count_results results l FAIL \<and> sm_skipped c = count_results results l SKIP \<and>
         sm_errors c = count_results results l ERROR) \<and>
       sm_total (rp_summary rp) = sum_list (map (sm_total \<circ> snd) (sm_by_level (rp_summary rp))) \<and>
       (report_is_conformant rp \<longleftrightarrow> is_conformant results)"
proof -
  have sum3: "length (filter (\<lambda>r. tr_level r = MUST) results) + (length (filter (\<lambda>r. tr_level r = SHOULD) results) +
      length (filter (\<lambda>r. tr_level r = MAY) results)) = length results"
  proof (induction results)
    case (Cons r results)
    then show ?case by (cases "tr_level r") auto
  qed simp
  have levels: "map_of (map (\<lambda>l. (l, level_summary_of results l)) all_levels) l = Some (level_summary_of results l)" for l
    by (cases l) (simp_all add: all_levels_def)
  show ?thesis
  proof (cases "filter (\<lambda>k. map_of sdk k = None) sdk_keys = []")
    case True
    then show ?thesis
      using outcomes_partition [of results] sum3 levels
      by (auto simp: build_report_def Let_def report_summarize_def level_summary_of_def level_count all_levels_def
          report_is_conformant_def conformant_iff_counts filter_empty_conv list_all_iff)
  next
    case False
    then show ?thesis by (auto simp: build_report_def Let_def filter_empty_conv list_all_iff)
  qed
qed

end
