(* ===== verification/Conformance.thy ===== *)
theory Conformance
  imports Execution Report
begin

section \<open>The conformance pipeline (acts_runner.py, acts/behaviors.py)\<close>

text \<open>
  A run of the corpus against one SUT, and the deviations: further passes against a SUT started
  differently, whose verdicts replace the skips of the first one. The disk, the cluster, the
  receiver and the SUT are operations of a record; a runner is built from the configuration of
  its dispatcher, and the state is that of \<^const>\<open>run_suite\<close>. An agent card is an object whose
  \<open>capabilities\<close>, if any, are one.
\<close>

subsection \<open>Constants\<close>

definition acts_auth_token :: string where "acts_auth_token = ''itk-valid-token''"
definition acts_insufficient_token :: string where "acts_insufficient_token = ''itk-insufficient-token''"
definition reduced_capabilities_env :: string where "reduced_capabilities_env = ''ITK_ACTS_REDUCED_CAPABILITIES''"
definition auth_enforced_env :: string where "auth_enforced_env = ''ITK_ACTS_AUTH''"

definition runner_variables :: tree where
  "runner_variables = [(''insufficientAuthToken'', JStr acts_insufficient_token),
     (''otherUserTaskId'', JStr ''00000000-0000-0000-0000-0000000000ff'')]"

definition runner_capabilities :: "runner_requirement list" where
  "runner_capabilities = [HEADER_INSPECTION, AUTH_CREDENTIALS, CONCURRENT_STREAMS, STREAM_DISCONNECT]"

subsection \<open>The behaviour contract\<close>

text \<open>\<open>load\<close> gives the prefixes of a contract file, or why it is none.\<close>

definition load_behaviors :: "(file_path \<Rightarrow> string list result) \<Rightarrow> file_path \<Rightarrow> string list result" where
  "load_behaviors contract p = (case contract p of
     Inl e \<Rightarrow> Raise (BehaviorsFileError (exn_text e)) | Inr bs \<Rightarrow> Ok (remdups bs))"

definition contract_path :: file_path where "contract_path = [''acts'', ''sut-behaviors.yaml'']"

definition declared_by ::
  "(file_path \<Rightarrow> bool) \<Rightarrow> (file_path \<Rightarrow> string list result) \<Rightarrow> file_path \<Rightarrow> string list option result" where
  "declared_by is_file contract root = (let p = root @ contract_path in
     if \<not> is_file p then Ok None else rbind (load_behaviors contract p) (\<lambda>bs. Ok (Some bs)))"

subsection \<open>The card\<close>

definition upper_char :: "char \<Rightarrow> char" where
  "upper_char c = (let n = code_of c in if 97 \<le> n \<and> n \<le> 122 then char_of (n - 32) else c)"

definition card_binding :: "string \<Rightarrow> transport_binding option" where
  "card_binding s = (let u = map upper_char s in
     if u = ''JSONRPC'' then Some B_JSONRPC
     else if u = ''GRPC'' then Some B_GRPC
     else if u \<in> {''HTTP_JSON'', ''HTTP+JSON'', ''REST''} then Some B_REST
     else None)"

definition get_default :: "json \<Rightarrow> string \<Rightarrow> json \<Rightarrow> json result" where
  "get_default v k d = (case v of
     JObj o1 \<Rightarrow> Ok (dict_lookup o1 k d)
   | _ \<Rightarrow> Raise (AttributeError (repr_str (type_name v) @ '' object has no attribute '' @ repr_str ''get'')))"

definition interfaces_of :: "json \<Rightarrow> json list result" where
  "interfaces_of agent = rbind (get_default agent ''supportedInterfaces'' JNull) (\<lambda>v.
     if truthy v then iterate v else Ok [])"

definition serves :: "transport_binding \<Rightarrow> json \<Rightarrow> bool result" where
  "serves b i = rbind (get_default i ''protocolBinding'' (JStr [])) (\<lambda>v. Ok (card_binding (py_str v) = Some b))"

definition is_v1 :: "json \<Rightarrow> bool" where
  "is_v1 i = (py_str (get_or i ''protocolVersion'' (JStr [])) = ''1.0'')"

definition msg_no_interface :: "json list \<Rightarrow> transport_binding \<Rightarrow> string" where
  "msg_no_interface is b =
     (let advertised = str_sort (remdups (map (\<lambda>i. py_str (get_or i ''protocolBinding'' JNull)) is)) in
      ''the agent card advertises no '' @ binding_value b @ '' interface; it lists '' @
      (if advertised = [] then ''nothing'' else repr_list advertised))"

definition interface_for :: "json \<Rightarrow> transport_binding \<Rightarrow> (string \<times> json) result" where
  "interface_for agent b = rbind (interfaces_of agent) (\<lambda>is.
     rbind (traverse (serves b) is) (\<lambda>hits.
       let candidates = map fst (filter snd (zip is hits)) in
       case candidates of
         [] \<Rightarrow> Raise (ActsRunError (msg_no_interface is b))
       | first # _ \<Rightarrow>
           let chosen = (case find is_v1 candidates of Some i \<Rightarrow> i | None \<Rightarrow> first);
               url = (let u = get_or chosen ''url'' JNull in if truthy u then py_str u else [])
           in if url = []
              then Raise (ActsRunError (''the '' @ binding_value b @ '' interface on the card has no url''))
              else Ok (url, get_or chosen ''protocolVersion'' JNull)))"

record dispatcher_config =
  dc_binding :: transport_binding
  dc_target :: string
  dc_rpc_path :: "string option"
  dc_card_url :: string
  dc_headers :: "(string, string) dict"

definition remove_prefix :: "string \<Rightarrow> string \<Rightarrow> string" where
  "remove_prefix p s = (if starts_with s p then drop (length p) s else s)"

definition build_dispatcher :: "json \<Rightarrow> transport_binding \<Rightarrow> string \<Rightarrow> dispatcher_config result" where
  "build_dispatcher agent b base_url = rbind (interface_for agent b) (\<lambda>(url, _).
     let auth = [(''Authorization'', ''Bearer '' @ acts_auth_token)] in Ok (case b of
       B_GRPC \<Rightarrow> \<lparr>dc_binding = b, dc_target = rstrip_slash (remove_prefix ''https://'' (remove_prefix ''http://'' url)),
         dc_rpc_path = None, dc_card_url = base_url, dc_headers = auth\<rparr>
     | B_JSONRPC \<Rightarrow> \<lparr>dc_binding = b, dc_target = url, dc_rpc_path = Some ''/'', dc_card_url = base_url, dc_headers = auth\<rparr>
     | B_REST \<Rightarrow> \<lparr>dc_binding = b, dc_target = url, dc_rpc_path = None, dc_card_url = base_url, dc_headers = auth\<rparr>))"

subsection \<open>The selection\<close>

definition subset_of :: "loaded_suite \<Rightarrow> loaded_test list \<Rightarrow> loaded_suite" where
  "subset_of s ts = \<lparr>ls_tests = ts, ls_variables = ls_variables s, ls_sources = ls_sources s, ls_errors = []\<rparr>"

definition msg_no_test_targets :: "loaded_suite \<Rightarrow> transport_binding \<Rightarrow> string" where
  "msg_no_test_targets s b = ''no selected test targets '' @ binding_value b @ '': '' @
     join_with '', '' (map lt_id (ls_tests s))"

definition in_scope :: "loaded_suite \<Rightarrow> transport_binding \<Rightarrow> loaded_suite result" where
  "in_scope s b = (if for_transport s b = [] then Raise (NoApplicableTests (msg_no_test_targets s b))
     else Ok (subset_of s (for_transport s b)))"

definition select_tests :: "loaded_suite \<Rightarrow> string list option \<Rightarrow> loaded_suite result" where
  "select_tests s ids = (case ids of
     None \<Rightarrow> Ok s
   | Some wanted \<Rightarrow>
       if wanted = [] then Ok s
       else let selected = filter (\<lambda>t. lt_id t \<in> set wanted) (ls_tests s);
                absent = filter (\<lambda>i. i \<notin> set (map lt_id selected)) wanted
         in if absent \<noteq> []
            then Raise (ActsRunError (''no such test(s) in the corpus: '' @ repr_list (str_sort (remdups absent))))
            else Ok (subset_of s selected))"

subsection \<open>Deviations\<close>

text \<open>\<open>\\w\<close> of the characters the model has.\<close>

definition py_word :: "char \<Rightarrow> bool" where
  "py_word c = (word_char c \<or> (let n = code_of c in
     n \<in> {170, 178, 179, 181, 185, 186, 188, 189, 190} \<or> 192 \<le> n \<and> n \<noteq> 215 \<and> n \<noteq> 247))"

definition capability_skip_prefix :: string where "capability_skip_prefix = ''agent card capability ''"
definition capability_skip_suffix :: string where "capability_skip_suffix = ''=True, needs False''"
definition security_skip_text :: string where "security_skip_text = ''agent card authentication=False, needs True''"

fun capability_skip :: "string \<Rightarrow> string option" where
  "capability_skip [] = None"
| "capability_skip (c # cs) =
     (let rest = drop (length capability_skip_prefix) (c # cs); name = takeWhile py_word rest in
      if starts_with (c # cs) capability_skip_prefix \<and> name \<noteq> [] \<and>
         starts_with (dropWhile py_word rest) capability_skip_suffix
      then Some name else capability_skip cs)"

definition security_skip :: "string \<Rightarrow> string option" where
  "security_skip s = (if contains s security_skip_text then Some [] else None)"

record deviation =
  dv_env :: string
  dv_pattern :: "string \<Rightarrow> string option"
  dv_log_name :: string
  dv_took_effect :: "json \<Rightarrow> string list \<Rightarrow> string option"

definition capabilities_dropped :: "json \<Rightarrow> string list \<Rightarrow> string option" where
  "capabilities_dropped agent names =
     (let caps = get_or agent ''capabilities'' JNull;
          still = str_sort (remdups (filter (\<lambda>n. truthy (get_or caps n JNull)) names))
      in if still = [] then None
         else Some (''the card still advertises '' @ join_with '', '' still @
           ''; an agent honouring this must publish a smaller `capabilities` block''))"

definition security_declared :: "json \<Rightarrow> string list \<Rightarrow> string option" where
  "security_declared agent names =
     (let absent = filter (\<lambda>k. \<not> truthy (get_or agent k JNull)) [''securitySchemes'', ''securityRequirements''] in
      if absent = [] then None
      else Some (''the card declares no '' @ join_with '', '' absent @ ''; an agent honouring this '' @
        ''must publish at least one security scheme and one security requirement (A2A '' @ [CHR 0xA7] @ ''7.3)''))"

definition reduced_deviation :: deviation where
  "reduced_deviation = \<lparr>dv_env = reduced_capabilities_env, dv_pattern = capability_skip,
     dv_log_name = ''acts_sut_reduced'', dv_took_effect = capabilities_dropped\<rparr>"

definition auth_deviation :: deviation where
  "auth_deviation = \<lparr>dv_env = auth_enforced_env, dv_pattern = security_skip,
     dv_log_name = ''acts_sut_auth'', dv_took_effect = security_declared\<rparr>"

definition deviations :: "deviation list" where "deviations = [reduced_deviation, auth_deviation]"

definition skip_text :: "test_result \<Rightarrow> string" where
  "skip_text r = (case tr_skip_reason r of None \<Rightarrow> [] | Some s \<Rightarrow> s)"

definition note_skip :: "(string \<Rightarrow> string option) \<Rightarrow> test_result \<Rightarrow> (string, string) dict \<Rightarrow> (string, string) dict" where
  "note_skip pattern r found = (case pattern (skip_text r) of
     None \<Rightarrow> found | Some captured \<Rightarrow> AList.update (tr_id r) captured found)"

definition skips_matching :: "test_result list \<Rightarrow> (string \<Rightarrow> string option) \<Rightarrow> (string, string) dict" where
  "skips_matching results pattern = fold (note_skip pattern) results []"

subsection \<open>One pass\<close>

text \<open>
  Starting the code under test gives the port it listens on or its stage and error; the
  deviation, if any, is the environment variable set around the start. The receiver, when it
  comes up, gives its address and what reads it.
\<close>

record 'w pipeline =
  pl_start :: "string \<Rightarrow> string option \<Rightarrow> 'w \<Rightarrow> (string + nat) \<times> 'w"
  pl_stop :: "'w \<Rightarrow> 'w"
  pl_card :: "string \<Rightarrow> 'w \<Rightarrow> json result \<times> 'w"
  pl_receiver :: "'w \<Rightarrow> (string \<times> (string \<Rightarrow> 'w \<Rightarrow> notification list \<times> 'w)) option \<times> 'w"
  pl_stop_receiver :: "'w \<Rightarrow> 'w"
  pl_runner :: "dispatcher_config \<Rightarrow> 'w runner"
  pl_corpus :: corpus
  pl_default_suite :: file_path
  pl_repo_root :: file_path
  pl_contract :: "file_path \<Rightarrow> string list result"

type_synonym ('w, 'a) acts = "('w \<times> nat, 'a) state_result"

definition world_ask :: "('w \<Rightarrow> 'a \<times> 'w) \<Rightarrow> ('w, 'a) acts" where
  "world_ask f = (\<lambda>(w, n). case f w of (x, w') \<Rightarrow> (Ok x, (w', n)))"

definition world_tell :: "('w \<Rightarrow> 'w) \<Rightarrow> 'w \<times> nat \<Rightarrow> 'w \<times> nat" where
  "world_tell f = (\<lambda>(w, n). (f w, n))"

definition fetch_agent_card :: "'w pipeline \<Rightarrow> string \<Rightarrow> ('w, json) acts" where
  "fetch_agent_card pl base_url =
     (let url = rstrip_slash base_url @ well_known_agent_card_path in
      st_bind (world_ask (pl_card pl url)) (\<lambda>answer. st_lift (case answer of
        Inl e \<Rightarrow> Raise (ActsRunError (''cannot read the agent card at '' @ url @ '': '' @ exn_text e))
      | Inr agent \<Rightarrow> Ok agent)))"

record pass_config =
  ps_binding :: transport_binding
  ps_variables :: tree
  ps_capabilities :: "runner_requirement list"
  ps_declared :: "string list option"

definition webhook_variables :: "tree \<Rightarrow> string option \<Rightarrow> tree" where
  "webhook_variables vs url = (case url of
     None \<Rightarrow> vs | Some u \<Rightarrow> set_default ''webhookUrl'' (JStr (u @ ''/notifications'')) vs)"

definition configured_runner ::
  "'w runner \<Rightarrow> pass_config \<Rightarrow> json \<Rightarrow> (string \<times> (string \<Rightarrow> 'w \<Rightarrow> notification list \<times> 'w)) option \<Rightarrow> 'w runner" where
  "configured_runner r ps agent receiver = r\<lparr>r_binding := ps_binding ps,
     r_variables := webhook_variables (ps_variables ps) (map_option fst receiver), r_agent_card := Some agent,
     r_sut_behaviors := ps_declared ps,
     r_capabilities := ps_capabilities ps @ (case receiver of None \<Rightarrow> [] | Some _ \<Rightarrow> [WEBHOOK_ENDPOINT]),
     r_read_webhook := map_option snd receiver\<rparr>"

definition pass_against ::
  "'w pipeline \<Rightarrow> loaded_suite \<Rightarrow> pass_config \<Rightarrow> string \<Rightarrow> ('w, test_result list \<times> json) acts" where
  "pass_against pl s ps base_url =
     st_bind (fetch_agent_card pl base_url) (\<lambda>agent.
     st_bind (st_lift (build_dispatcher agent (ps_binding ps) base_url)) (\<lambda>dc.
       st_finally (st_bind (world_ask (pl_receiver pl)) (\<lambda>receiver.
         st_bind (run_suite (configured_runner (pl_runner pl dc) ps agent receiver) (ls_variables s) (map lt_test (ls_tests s)))
           (\<lambda>results. st_return (results, agent)))) (world_tell (pl_stop_receiver pl))))"

definition run_pass ::
  "'w pipeline \<Rightarrow> loaded_suite \<Rightarrow> pass_config \<Rightarrow> string \<Rightarrow> string option \<Rightarrow> string option \<Rightarrow>
   ('w, test_result list \<times> json) acts" where
  "run_pass pl s ps log_name deviated sut_url = (case sut_url of
     Some url \<Rightarrow> pass_against pl s ps url
   | None \<Rightarrow> st_finally (st_bind (world_ask (pl_start pl log_name deviated)) (\<lambda>outcome. (case outcome of
         Inl why \<Rightarrow> st_raise (ActsRunError (''the code under test failed to start: '' @ why))
       | Inr port \<Rightarrow> pass_against pl s ps (''http://127.0.0.1:'' @ show_nat port))))
       (world_tell (pl_stop pl)))"

subsection \<open>Splicing a deviation in\<close>

text \<open>\<open>except ActsRunError\<close>, of which \<open>NoApplicableTests\<close> is a subclass.\<close>

definition is_acts_run_error :: "py_exn \<Rightarrow> bool" where
  "is_acts_run_error e = (case e of ActsRunError m \<Rightarrow> True | NoApplicableTests m \<Rightarrow> True | _ \<Rightarrow> False)"

definition replacements :: "string \<Rightarrow> test_result list \<Rightarrow> (string, test_result) dict" where
  "replacements var results = fold (\<lambda>r d. AList.update (tr_id r) (r\<lparr>tr_configuration := Some var\<rparr>) d) results []"

definition spliced :: "string \<Rightarrow> test_result list \<Rightarrow> test_result list \<Rightarrow> test_result list" where
  "spliced var rerun results = (let replacement = replacements var rerun in
     map (\<lambda>r. dict_lookup replacement (tr_id r) r) results)"

definition rerun_deviation ::
  "'w pipeline \<Rightarrow> loaded_suite \<Rightarrow> pass_config \<Rightarrow> deviation \<Rightarrow> string option \<Rightarrow> test_result list \<Rightarrow>
   ('w, test_result list) acts" where
  "rerun_deviation pl s ps d sut_url results =
     (let blocked = skips_matching results (dv_pattern d) in
      if blocked = [] then st_return results
      else let narrowed = subset_of s (filter (\<lambda>t. lt_id t \<in> fst ` set blocked) (ls_tests s)) in
        st_catch
          (st_bind (run_pass pl narrowed ps (dv_log_name d) (if sut_url = None then Some (dv_env d) else None) sut_url)
            (\<lambda>(rerun, agent). st_return (case dv_took_effect d agent (map snd blocked) of
               Some refused \<Rightarrow> results | None \<Rightarrow> spliced (dv_env d) rerun results)))
          (\<lambda>e. if is_acts_run_error e then st_return results else st_raise e))"

subsection \<open>A run\<close>

record run_options =
  op_transport :: transport_binding
  op_sut_url :: "string option"
  op_suite_path :: "file_path option"
  op_test_ids :: "string list option"
  op_variables :: tree
  op_capabilities :: "runner_requirement list"
  op_gate_on_behaviors :: bool
  op_behaviors_path :: "file_path option"
  op_deviation_urls :: "(string, string) dict"

record acts_run_result =
  ar_results :: "test_result list"
  ar_suite :: loaded_suite
  ar_transport :: transport_binding
  ar_agent_card :: json
  ar_declared :: "string list option"
  ar_external_sut :: bool

definition check_deviation_urls :: "run_options \<Rightarrow> unit result" where
  "check_deviation_urls opts =
     (let unknown = filter (\<lambda>v. v \<notin> set (map dv_env deviations)) (map fst (op_deviation_urls opts)) in
      if op_deviation_urls opts \<noteq> [] \<and> op_sut_url opts = None
      then Raise (ActsRunError ''deviation URLs name instances of an external SUT; pass sut_url too'')
      else if unknown \<noteq> []
      then Raise (ActsRunError (''no deviation is configured by '' @ repr_list (str_sort unknown)))
      else Ok ())"

definition declared_behaviors :: "'w pipeline \<Rightarrow> run_options \<Rightarrow> string list option result" where
  "declared_behaviors pl opts =
     (if \<not> op_gate_on_behaviors opts then Ok None
      else case (case op_behaviors_path opts of
          Some p \<Rightarrow> rbind (load_behaviors (pl_contract pl) p) (\<lambda>bs. Ok (Some bs))
        | None \<Rightarrow> if op_sut_url opts = None
            then declared_by (co_is_file (pl_corpus pl)) (pl_contract pl) (pl_repo_root pl) else Ok None) of
        Inl (BehaviorsFileError m) \<Rightarrow> Raise (ActsRunError m)
      | r \<Rightarrow> r)"

text \<open>An external SUT is deviated only where the caller gives the URL of a deviated instance.\<close>

fun run_deviations ::
  "'w pipeline \<Rightarrow> loaded_suite \<Rightarrow> pass_config \<Rightarrow> run_options \<Rightarrow> deviation list \<Rightarrow> test_result list \<Rightarrow>
   ('w, test_result list) acts" where
  "run_deviations pl s ps opts [] results = st_return results"
| "run_deviations pl s ps opts (d # ds) results =
     (let deviated_url = map_of (op_deviation_urls opts) (dv_env d) in
      if op_sut_url opts \<noteq> None \<and> deviated_url = None then run_deviations pl s ps opts ds results
      else st_bind (rerun_deviation pl s ps d deviated_url results) (run_deviations pl s ps opts ds))"

definition run_loaded :: "'w pipeline \<Rightarrow> run_options \<Rightarrow> loaded_suite result \<Rightarrow> ('w, acts_run_result) acts" where
  "run_loaded pl opts loaded =
     st_bind (st_lift (rbind loaded (\<lambda>s. rbind (select_tests s (op_test_ids opts)) (\<lambda>s. in_scope s (op_transport opts)))))
       (\<lambda>s. st_bind (st_lift (declared_behaviors pl opts)) (\<lambda>declared.
         let ps = \<lparr>ps_binding = op_transport opts, ps_variables = dict_merge runner_variables (op_variables opts),
               ps_capabilities = runner_capabilities @ op_capabilities opts, ps_declared = declared\<rparr>
         in st_bind (run_pass pl s ps ''acts_sut'' None (op_sut_url opts)) (\<lambda>(results, agent).
            st_bind (run_deviations pl s ps opts deviations results) (\<lambda>final.
              st_return \<lparr>ar_results = final, ar_suite = s, ar_transport = op_transport opts, ar_agent_card = agent,
                ar_declared = declared, ar_external_sut = (op_sut_url opts \<noteq> None)\<rparr>))))"

text \<open>None is a corpus whose loading does not end.\<close>

definition acts_run :: "'w pipeline \<Rightarrow> run_options \<Rightarrow> 'w \<times> nat \<Rightarrow> (acts_run_result result \<times> 'w \<times> nat) option" where
  "acts_run pl opts st = (case check_deviation_urls opts of
     Inl e \<Rightarrow> Some (Raise e, st)
   | Inr _ \<Rightarrow> (case load_suite (pl_corpus pl) True
          (case op_suite_path opts of None \<Rightarrow> pl_default_suite pl | Some p \<Rightarrow> p) of
        None \<Rightarrow> None
      | Some loaded \<Rightarrow> Some (run_loaded pl opts loaded st)))"

definition sdk_info :: "string \<Rightarrow> string \<Rightarrow> string \<Rightarrow> string option \<Rightarrow> (string, string) dict" where
  "sdk_info name version language repository = [(''name'', name), (''version'', version), (''language'', language)] @
     (case repository of None \<Rightarrow> [] | Some r \<Rightarrow> if r = [] then [] else [(''repository'', r)])"

text \<open>The duration of the run and the environment of the process are arguments.\<close>

definition run_report_of ::
  "timings \<Rightarrow> string \<Rightarrow> acts_run_result \<Rightarrow> string \<Rightarrow> string \<Rightarrow> string \<Rightarrow> string option \<Rightarrow> nat \<Rightarrow> (string, string) dict \<Rightarrow>
     report result" where
  "run_report_of tm now ar name version language repository ms environment =
     build_report tm now (ar_results ar) (ar_suite ar) (sdk_info name version language repository) (ar_transport ar)
       ms ''1.0'' ''1.0'' (if ar_external_sut ar then AList.update ''sut'' ''external'' environment else environment)"

end
