(* ===== verification/LoaderClaims.thy ===== *)
theory LoaderClaims
  imports Loader
begin

section \<open>The loaded corpus is the include tree (acts/loader.py)\<close>

text \<open>
  The walk of the includes ends, reaches exactly what the manifest includes, each file once; the
  suite it is flattened into holds every test of every document, in order and under its own id;
  and loading strictly is loading leniently without errors.
\<close>

subsection \<open>The walk\<close>

definition leads_to :: "(file_path \<Rightarrow> ('a \<times> file_path list) result) \<Rightarrow> file_path \<Rightarrow> file_path \<Rightarrow> bool" where
  "leads_to look p q \<longleftrightarrow> (\<exists>x cs. look p = Ok (x, cs) \<and> q \<in> set cs)"

lemma include_walk_Nil [simp]: "include_walk look [] visited ordered = Some (Ok ordered)"
  by (subst include_walk.simps) simp

lemma include_walk_Cons:
  "include_walk look (current # rest) visited ordered =
     (if current \<in> visited then include_walk look rest visited ordered
      else (case look current of
         Inl e \<Rightarrow> Some (Raise e)
       | Inr (raw, children) \<Rightarrow>
           include_walk look (children @ rest) (insert current visited) (ordered @ [(current, raw)])))"
  by (subst include_walk.simps) simp

text \<open>Each turn either shortens the stack or visits a file not visited before.\<close>

lemma include_walk_ends:
  assumes fin: "finite F" and files: "\<And>p x. look p = Ok x \<Longrightarrow> p \<in> F"
  shows "\<exists>r. include_walk look stack visited ordered = Some r"
proof (induction "card (F - visited)" arbitrary: stack visited ordered rule: less_induct)
  case less
  note outer = less
  show ?case
  proof (induction stack)
    case (Cons current rest)
    show ?case
    proof (cases "look current")
      case (Inl e)
      with Cons show ?thesis by (simp add: include_walk_Cons)
    next
      case (Inr x)
      obtain raw children where x: "x = (raw, children)" by fastforce
      have "card (F - insert current visited) < card (F - visited)" if "current \<notin> visited"
        using files [OF Inr] that fin by (intro psubset_card_mono) auto
      with outer Cons Inr x show ?thesis by (simp add: include_walk_Cons)
    qed
  qed simp
qed

text \<open>What holds between two turns of a walk from \<open>start\<close>.\<close>

definition walking ::
  "(file_path \<Rightarrow> ('a \<times> file_path list) result) \<Rightarrow> file_path \<Rightarrow> file_path list \<Rightarrow> file_path set \<Rightarrow>
   (file_path \<times> 'a) list \<Rightarrow> bool" where
  "walking look start stack visited ordered \<longleftrightarrow>
     distinct (map fst ordered) \<and> visited = fst ` set ordered \<and>
     (\<forall>(p, x) \<in> set ordered. \<exists>cs. look p = Ok (x, cs) \<and> set cs \<subseteq> visited \<union> set stack) \<and>
     (\<forall>q \<in> visited \<union> set stack. (leads_to look)\<^sup>*\<^sup>* start q) \<and>
     map fst ordered @ stack \<noteq> [] \<and> hd (map fst ordered @ stack) = start"

lemma walking_skip:
  assumes "walking look start (current # rest) visited ordered" "current \<in> visited"
  shows "walking look start rest visited ordered"
proof -
  have "set cs \<subseteq> visited \<union> set (current # rest) \<longleftrightarrow> set cs \<subseteq> visited \<union> set rest" for cs
    using assms(2) by auto
  moreover have "ordered \<noteq> []" using assms by (auto simp: walking_def)
  ultimately show ?thesis using assms(1) by (cases ordered) (auto simp: walking_def)
qed

lemma walking_visit:
  assumes w: "walking look start (current # rest) visited ordered"
    and new: "current \<notin> visited" and look: "look current = Ok (raw, children)"
  shows "walking look start (children @ rest) (insert current visited) (ordered @ [(current, raw)])"
proof -
  have c: "(leads_to look)\<^sup>*\<^sup>* start current" using w by (simp add: walking_def)
  have "(leads_to look)\<^sup>*\<^sup>* start q" if "q \<in> set children" for q
    using c that look by (auto simp: leads_to_def intro: rtranclp.rtrancl_into_rtrancl)
  moreover have "\<exists>cs. look p = Ok (x, cs) \<and> set cs \<subseteq> insert current visited \<union> set (children @ rest)"
    if px: "(p, x) \<in> set ordered" for p x
  proof -
    obtain cs where "look p = Ok (x, cs)" "set cs \<subseteq> visited \<union> set (current # rest)"
      using w px by (auto simp: walking_def)
    then show ?thesis by auto
  qed
  ultimately show ?thesis
    using w new look by (cases ordered) (auto simp: walking_def)
qed

lemma include_walk_walking:
  assumes "include_walk look stack visited ordered = Some r"
  shows "walking look start stack visited ordered \<longrightarrow> (\<forall>out. r = Ok out \<longrightarrow> (\<exists>v. walking look start [] v out))"
  using assms
proof (rule include_walk.raw_induct [rotated, where P = "\<lambda>look stack visited ordered r.
    walking look start stack visited ordered \<longrightarrow> (\<forall>out. r = Ok out \<longrightarrow> (\<exists>v. walking look start [] v out))"], goal_cases)
  case (1 walk look stack visited ordered r)
  show ?case
  proof (cases stack)
    case Nil
    with 1(2) show ?thesis by auto
  next
    case (Cons current rest)
    show ?thesis
    proof (cases "current \<in> visited")
      case True
      with 1 Cons walking_skip [of look start current rest visited ordered] show ?thesis by fastforce
    next
      case False
      with 1 Cons walking_visit [of look start current rest visited ordered] show ?thesis
        by (fastforce split: sum.splits prod.splits)
    qed
  qed
qed

lemma walked_all:
  assumes "walking look start [] v out"
  shows "set (map fst out) = {q. (leads_to look)\<^sup>*\<^sup>* start q}"
proof -
  have inv: "set (map fst out) = v" "\<And>p x. (p, x) \<in> set out \<Longrightarrow> \<exists>cs. look p = Ok (x, cs) \<and> set cs \<subseteq> v"
    "\<And>q. q \<in> v \<Longrightarrow> (leads_to look)\<^sup>*\<^sup>* start q" "start \<in> v"
    using assms by (auto simp: walking_def hd_map)
  have "q \<in> v" if "(leads_to look)\<^sup>*\<^sup>* start q" for q
    using that
  proof (induction rule: rtranclp_induct)
    case base
    show ?case by (rule inv(4))
  next
    case (step p q)
    then obtain x where "(p, x) \<in> set out" using inv(1) by auto
    with inv(2) [of p x] step(2) show ?case by (auto simp: leads_to_def)
  qed
  with inv(1,3) show ?thesis by blast
qed

lemma resolve_includes_walked:
  assumes "resolve_includes co path root = Some (Ok docs)"
  shows "distinct (map fst docs)" "set (map fst docs) = {q. (leads_to (visit co root))\<^sup>*\<^sup>* path q}"
    "docs \<noteq> []" "hd (map fst docs) = path"
proof -
  have "walking (visit co root) path [path] {} []" by (simp add: walking_def)
  with include_walk_walking [OF assms [unfolded resolve_includes_def], of path]
  obtain v where w: "walking (visit co root) path [] v docs" by auto
  show "set (map fst docs) = {q. (leads_to (visit co root))\<^sup>*\<^sup>* path q}" by (rule walked_all [OF w])
  show "distinct (map fst docs)" using w unfolding walking_def by (elim conjE)
  show "docs \<noteq> []" "hd (map fst docs) = path" using w unfolding walking_def by (elim conjE, simp)+
qed

lemma visit_file: "visit co root p = Ok x \<Longrightarrow> co_is_file co p"
  by (auto simp: visit_def read_yaml_def rbind_eq_Ok split: if_splits)

subsection \<open>Flattening\<close>

text \<open>A loop over \<open>add\<close> keeps an invariant, and appends what each turn appends.\<close>

lemma add_each_keeps:
  assumes "\<And>x l l'. x \<in> set xs \<Longrightarrow> f x l = Ok l' \<Longrightarrow> I l \<Longrightarrow> I l'"
  shows "add_each f xs l = Ok l' \<Longrightarrow> I l \<Longrightarrow> I l'"
  using assms
proof (induction xs arbitrary: l)
  case (Cons x xs)
  then obtain m where "f x l = Ok m" "add_each f xs m = Ok l'" by (auto simp: rbind_eq_Ok)
  with Cons show ?case by (metis list.set_intros)
qed simp

lemma add_each_appends:
  assumes "\<And>x l l'. f x l = Ok l' \<Longrightarrow> out l' = out l @ g x"
  shows "add_each f xs l = Ok l' \<Longrightarrow> out l' = out l @ concat (map g xs)"
proof (induction xs arbitrary: l)
  case (Cons x xs)
  then obtain m where "f x l = Ok m" "add_each f xs m = Ok l'" by (auto simp: rbind_eq_Ok)
  with Cons.IH [of m] assms [of x l m] show ?case by simp
qed simp

definition entry_of :: "file_path \<Rightarrow> suite \<Rightarrow> acts_test \<Rightarrow> loaded_test" where
  "entry_of p s t = \<lparr>lt_test = t, lt_suite_id = su_id s, lt_suite_name = su_name s, lt_source = p\<rparr>"

definition suite_entries :: "file_path \<Rightarrow> suite \<Rightarrow> loaded_test list" where
  "suite_entries p s = map (entry_of p s) (su_tests s)"

definition document_entries :: "corpus \<Rightarrow> bool \<Rightarrow> file_path \<times> json \<Rightarrow> loaded_test list" where
  "document_entries co strict = (\<lambda>(p, raw). case validate_document co strict raw p of
     Inr (Some d, _) \<Rightarrow> concat (map (suite_entries p) (or_empty (ad_suites d))) | _ \<Rightarrow> [])"

abbreviation loaded_tests :: "loading \<Rightarrow> loaded_test list" where "loaded_tests l \<equiv> ls_tests (ld_suite l)"
abbreviation loaded_sources :: "loading \<Rightarrow> file_path list" where "loaded_sources l \<equiv> ls_sources (ld_suite l)"
abbreviation loaded_errors :: "loading \<Rightarrow> load_error list" where "loaded_errors l \<equiv> ls_errors (ld_suite l)"

text \<open>The ids seen are those of the tests loaded, and these are distinct.\<close>

definition ids_kept :: "loading \<Rightarrow> bool" where
  "ids_kept l \<longleftrightarrow> fst ` set (ld_tests_seen l) = lt_id ` set (loaded_tests l) \<and> distinct (map lt_id (loaded_tests l))"

lemma add_test_Ok:
  "add_test s p t l = Ok l' \<longleftrightarrow> t_id t \<notin> fst ` set (ld_tests_seen l) \<and>
     l' = l\<lparr>ld_tests_seen := AList.update (t_id t) (entry_of p s t) (ld_tests_seen l),
       ld_suite := (ld_suite l)\<lparr>ls_tests := loaded_tests l @ [entry_of p s t]\<rparr>\<rparr>"
proof (cases "map_of (ld_tests_seen l) (t_id t)")
  case None
  moreover from None have "t_id t \<notin> fst ` set (ld_tests_seen l)" by (simp add: map_of_eq_None_iff)
  ultimately show ?thesis by (auto simp: add_test_def entry_of_def lt_id_def Let_def)
next
  case (Some prior)
  then have "t_id t \<in> fst ` set (ld_tests_seen l)" by (metis domI dom_map_of_conv_image_fst)
  with Some show ?thesis by (auto simp: add_test_def lt_id_def Let_def)
qed

lemma add_test_effect:
  assumes "add_test s p t l = Ok l'"
  shows "loaded_tests l' = loaded_tests l @ [entry_of p s t]" "loaded_sources l' = loaded_sources l"
    "loaded_errors l' = loaded_errors l" "ids_kept l \<Longrightarrow> ids_kept l'"
  using assms by (simp_all add: add_test_Ok ids_kept_def keys_update) (simp_all add: entry_of_def lt_id_def)

lemma add_suite_effect:
  assumes "add_suite p s l = Ok l'"
  shows "loaded_tests l' = loaded_tests l @ suite_entries p s" "loaded_sources l' = loaded_sources l"
    "loaded_errors l' = loaded_errors l" "ids_kept l \<Longrightarrow> ids_kept l'"
proof -
  obtain m where m: "check_unique_suite s p l = Ok m" and run: "add_each (add_test s p) (su_tests s) m = Ok l'"
    using assms by (auto simp: add_suite_def rbind_eq_Ok)
  have same: "ld_suite m = ld_suite l" "ld_tests_seen m = ld_tests_seen l"
    using m by (auto simp: check_unique_suite_def split: option.splits)
  have "loaded_tests l' = loaded_tests m @ concat (map (\<lambda>t. [entry_of p s t]) (su_tests s))"
    by (rule add_each_appends [OF _ run]) (auto simp: add_test_Ok)
  with same show "loaded_tests l' = loaded_tests l @ suite_entries p s"
    by (simp add: suite_entries_def concat_map_singleton)
  have "loaded_sources l' = loaded_sources m @ concat (map (\<lambda>t. []) (su_tests s))"
    by (rule add_each_appends [OF _ run]) (auto simp: add_test_Ok)
  with same show "loaded_sources l' = loaded_sources l" by simp
  have "loaded_errors l' = loaded_errors m @ concat (map (\<lambda>t. []) (su_tests s))"
    by (rule add_each_appends [OF _ run]) (auto simp: add_test_Ok)
  with same show "loaded_errors l' = loaded_errors l" by simp
  assume "ids_kept l"
  with same have "ids_kept m" by (simp add: ids_kept_def)
  with add_each_keeps [OF _ run, of ids_kept] add_test_effect(4) show "ids_kept l'" by blast
qed

lemma add_document_effect:
  assumes "add_document co strict d l = Ok l'"
  shows "loaded_tests l' = loaded_tests l @ document_entries co strict d"
    "loaded_sources l' = loaded_sources l @ [fst d]" "ids_kept l \<Longrightarrow> ids_kept l'"
    "\<exists>doc errors. validate_document co strict (snd d) (fst d) = Ok (doc, errors) \<and>
       loaded_errors l' = loaded_errors l @ errors"
proof -
  obtain p raw where d: "d = (p, raw)" by fastforce
  obtain doc errors where v: "validate_document co strict raw p = Ok (doc, errors)"
    and run: "add_each (add_suite p) (case doc of None \<Rightarrow> [] | Some d \<Rightarrow> or_empty (ad_suites d))
      (note_document p doc errors l) = Ok l'"
    using assms d by (auto simp: add_document_def rbind_eq_Ok)
  note suites = add_suite_effect [of p]
  have "loaded_tests l' = loaded_tests (note_document p doc errors l) @
      concat (map (suite_entries p) (case doc of None \<Rightarrow> [] | Some d \<Rightarrow> or_empty (ad_suites d)))"
    by (rule add_each_appends [OF _ run]) (rule suites(1))
  with v d show "loaded_tests l' = loaded_tests l @ document_entries co strict d"
    by (simp add: note_document_def document_entries_def split: option.split)
  have "loaded_sources l' = loaded_sources (note_document p doc errors l) @
      concat (map (\<lambda>s. []) (case doc of None \<Rightarrow> [] | Some d \<Rightarrow> or_empty (ad_suites d)))"
    by (rule add_each_appends [OF _ run]) (simp add: suites(2))
  with d show "loaded_sources l' = loaded_sources l @ [fst d]" by (simp add: note_document_def)
  have "loaded_errors l' = loaded_errors (note_document p doc errors l) @
      concat (map (\<lambda>s. []) (case doc of None \<Rightarrow> [] | Some d \<Rightarrow> or_empty (ad_suites d)))"
    by (rule add_each_appends [OF _ run]) (simp add: suites(3))
  with d v show "\<exists>doc errors. validate_document co strict (snd d) (fst d) = Ok (doc, errors) \<and>
      loaded_errors l' = loaded_errors l @ errors"
    by (simp add: note_document_def)
  assume "ids_kept l"
  then have "ids_kept (note_document p doc errors l)" by (simp add: ids_kept_def note_document_def)
  with add_each_keeps [OF _ run, of ids_kept] suites(4) show "ids_kept l'" by blast
qed

lemma flatten_effect:
  assumes "flatten_documents co strict docs = Ok s"
  shows "ls_tests s = concat (map (document_entries co strict) docs)" "ls_sources s = map fst docs"
    "distinct (map lt_id (ls_tests s))"
proof -
  let ?l0 = "\<lparr>ld_suite = no_suite, ld_tests_seen = [], ld_suites_seen = []\<rparr>"
  obtain l where run: "add_each (add_document co strict) docs ?l0 = Ok l" and s: "s = ld_suite l"
    using assms by (auto simp: flatten_documents_def rbind_eq_Ok)
  note each = add_document_effect [of co strict]
  have "loaded_tests l = loaded_tests ?l0 @ concat (map (document_entries co strict) docs)"
    by (rule add_each_appends [OF _ run]) (rule each(1))
  with s show "ls_tests s = concat (map (document_entries co strict) docs)" by (simp add: no_suite_def)
  have "loaded_sources l = loaded_sources ?l0 @ concat (map (\<lambda>d. [fst d]) docs)"
    by (rule add_each_appends [OF _ run]) (rule each(2))
  with s show "ls_sources s = map fst docs" by (simp add: no_suite_def concat_map_singleton)
  have "ids_kept ?l0" by (simp add: ids_kept_def no_suite_def)
  with add_each_keeps [OF _ run, of ids_kept] each(3) have "ids_kept l" by blast
  with s show "distinct (map lt_id (ls_tests s))" by (simp add: ids_kept_def)
qed

subsection \<open>Valid tests\<close>

lemma parse_document_valid: "parse_document co p raw = Ok d \<Longrightarrow> check_document d = Ok ()"
  by (auto simp: parse_document_def rbind_eq_Ok split: if_splits sum.splits)

lemma salvage_document_valid:
  assumes "salvage_document co raw p = Ok (doc, errors)"
  shows "errors \<noteq> []" "doc = Some d \<Longrightarrow> check_document d = Ok ()"
proof -
  obtain o1 where raw: "raw = JObj o1"
    using assms by (cases raw) (auto simp: salvage_document_def)
  with assms show "errors \<noteq> []" "doc = Some d \<Longrightarrow> check_document d = Ok ()"
    by (auto simp: salvage_document_def rbind_eq_Ok parse_document_valid split: if_splits)
qed

lemma validate_document_valid:
  "validate_document co strict raw p = Ok (Some d, errors) \<Longrightarrow> check_document d = Ok ()"
  by (auto simp: validate_document_def parse_document_valid salvage_document_valid(2) split: sum.splits if_splits)

lemma document_entries_valid:
  assumes "t \<in> set (document_entries co strict d)"
  shows "check_test (lt_test t) = Ok ()" "lt_source t = fst d"
proof -
  obtain p raw where d: "d = (p, raw)" by fastforce
  from assms d obtain doc errors s where v: "validate_document co strict raw p = Ok (Some doc, errors)"
    and s: "s \<in> set (or_empty (ad_suites doc))" and t: "t \<in> set (suite_entries p s)"
    by (cases "validate_document co strict raw p") (auto simp: document_entries_def split: prod.splits option.splits)
  from validate_document_valid [OF v] s have "check_suite s = Ok ()"
    by (simp add: check_document_def check_all_Ok)
  with t d show "check_test (lt_test t) = Ok ()" "lt_source t = fst d"
    by (auto simp: check_suite_def check_all_Ok suite_entries_def entry_of_def)
qed

subsection \<open>Strict and lenient\<close>

lemma validate_strict:
  "validate_document co True raw p = Ok (doc, errors) \<longleftrightarrow>
     validate_document co False raw p = Ok (doc, errors) \<and> errors = []"
  by (auto simp: validate_document_def dest: salvage_document_valid(1) split: sum.splits)

lemma add_document_strict:
  "add_document co True d l = Ok l' \<longleftrightarrow> add_document co False d l = Ok l' \<and> loaded_errors l' = loaded_errors l"
proof -
  obtain p raw where d: "d = (p, raw)" by fastforce
  have same: "add_document co True d l = add_document co False d l"
    if "validate_document co True raw p = validate_document co False raw p"
    using that d by (simp add: add_document_def)
  show ?thesis
  proof
    assume run: "add_document co True d l = Ok l'"
    then obtain doc errors where "validate_document co True raw p = Ok (doc, errors)"
        "loaded_errors l' = loaded_errors l @ errors"
      using add_document_effect(4) [OF run] d by auto
    with run same show "add_document co False d l = Ok l' \<and> loaded_errors l' = loaded_errors l"
      by (simp add: validate_strict)
  next
    assume run: "add_document co False d l = Ok l' \<and> loaded_errors l' = loaded_errors l"
    then obtain doc where "validate_document co False raw p = Ok (doc, [])"
      using add_document_effect(4) [of co False d l l'] d by auto
    with run same show "add_document co True d l = Ok l'"
      using validate_strict [of co raw p doc "[]"] by simp
  qed
qed

lemma errors_grow:
  assumes "add_each (add_document co strict) docs l = Ok l'"
  shows "prefix (loaded_errors l) (loaded_errors l')"
proof -
  have step: "prefix (loaded_errors l) (loaded_errors m')"
    if run: "add_document co strict d m = Ok m'" and kept: "prefix (loaded_errors l) (loaded_errors m)" for d m m'
    using add_document_effect(4) [OF run] kept by auto
  have start: "prefix (loaded_errors l) (loaded_errors l)" by simp
  show ?thesis
    by (rule add_each_keeps [where I = "\<lambda>m. prefix (loaded_errors l) (loaded_errors m)", OF _ assms start]) (rule step)
qed

lemma add_documents_strict:
  "add_each (add_document co True) docs l = Ok l' \<longleftrightarrow>
     add_each (add_document co False) docs l = Ok l' \<and> loaded_errors l' = loaded_errors l"
proof (induction docs arbitrary: l)
  case (Cons d docs)
  have same: "loaded_errors m = loaded_errors l"
    if run: "add_document co False d l = Ok m" "add_each (add_document co False) docs m = Ok l'"
      and none: "loaded_errors l' = loaded_errors l" for m
  proof -
    obtain errors where e: "loaded_errors m = loaded_errors l @ errors" using add_document_effect(4) [OF run(1)] by blast
    have "length (loaded_errors m) \<le> length (loaded_errors l)"
      using prefix_length_le [OF errors_grow [OF run(2)]] by (simp only: none)
    then show ?thesis unfolding e by simp
  qed
  show ?case
  proof
    assume "add_each (add_document co True) (d # docs) l = Ok l'"
    then obtain m where "add_document co True d l = Ok m" "add_each (add_document co True) docs m = Ok l'"
      by (auto simp: rbind_eq_Ok)
    then show "add_each (add_document co False) (d # docs) l = Ok l' \<and> loaded_errors l' = loaded_errors l"
      by (simp add: add_document_strict Cons.IH)
  next
    assume r: "add_each (add_document co False) (d # docs) l = Ok l' \<and> loaded_errors l' = loaded_errors l"
    then obtain m where m: "add_document co False d l = Ok m" "add_each (add_document co False) docs m = Ok l'"
      by (auto simp: rbind_eq_Ok)
    with r same [OF m] have "add_document co True d l = Ok m" "add_each (add_document co True) docs m = Ok l'"
      by (simp_all add: add_document_strict Cons.IH)
    then show "add_each (add_document co True) (d # docs) l = Ok l'" by simp
  qed
qed auto

subsection \<open>Properties\<close>

text \<open>
  Loading a manifest always ends, with a suite or an error, on any disk with finitely many
  files, also when files include each other in a cycle.
\<close>

theorem loading_ends:
  assumes "finite {p. co_is_file co p}"
  shows "\<exists>r. load_suite co strict path = Some r"
proof -
  obtain r where "resolve_includes co path (butlast path) = Some r"
    using include_walk_ends [OF assms, of "visit co (butlast path)" "[path]" "{}" "[]"] visit_file
    unfolding resolve_includes_def by blast
  then show ?thesis by (simp add: load_suite_def)
qed

text \<open>
  C11: what is loaded is the include tree of the manifest. The files read are exactly those reached
  from the manifest by its includes, each once and the manifest first; the tests are those of the
  documents of these files, in the order of the files, the suites and the tests; each is a valid
  test, names the file it stands in, and no two have the same id.
\<close>

theorem loaded_corpus_is_the_include_tree:
  assumes "load_suite co strict path = Some (Ok s)"
  shows "(\<exists>docs. resolve_includes co path (butlast path) = Some (Ok docs) \<and> ls_sources s = map fst docs \<and>
      ls_tests s = concat (map (document_entries co strict) docs)) \<and>
    distinct (ls_sources s) \<and> hd (ls_sources s) = path \<and>
    set (ls_sources s) = {q. (leads_to (visit co (butlast path)))\<^sup>*\<^sup>* path q} \<and>
    distinct (map lt_id (ls_tests s)) \<and>
    (\<forall>t \<in> set (ls_tests s). check_test (lt_test t) = Ok () \<and> lt_source t \<in> set (ls_sources s))"
proof -
  obtain docs where r: "resolve_includes co path (butlast path) = Some (Ok docs)"
    and flat: "flatten_documents co strict docs = Ok s"
    using assms by (auto simp: load_suite_def rbind_eq_Ok split: option.splits)
  note walked = resolve_includes_walked [OF r] and flattened = flatten_effect [OF flat]
  have "check_test (lt_test t) = Ok () \<and> lt_source t \<in> set (ls_sources s)" if t: "t \<in> set (ls_tests s)" for t
  proof -
    obtain d where "d \<in> set docs" "t \<in> set (document_entries co strict d)"
      using t flattened(1) by auto
    with document_entries_valid show ?thesis using flattened(2) by auto
  qed
  moreover have "\<exists>docs. resolve_includes co path (butlast path) = Some (Ok docs) \<and> ls_sources s = map fst docs \<and>
      ls_tests s = concat (map (document_entries co strict) docs)"
    using r flattened by (intro exI [of _ docs] conjI)
  ultimately show ?thesis using walked flattened(2,3) by simp
qed

text \<open>A manifest and a file that include each other; the second holds one test.\<close>

definition cyclic_corpus :: corpus where
  "cyclic_corpus = \<lparr>co_is_file = (\<lambda>p. p \<in> {[''m''], [''t'']}),
     co_yaml = (\<lambda>p. Ok (JObj [(''include'', JArr [JStr (if p = [''m''] then ''t'' else ''m'')])])),
     co_join = (\<lambda>p e. butlast p @ [e]),
     co_document = (\<lambda>raw. Ok \<lparr>ad_acts_version = ''1.0'', ad_spec_version = ''1.0'', ad_variables = None,
       ad_include = Some [''t''], ad_suites = (if raw = JObj [(''include'', JArr [JStr ''m''])]
         then Some [\<lparr>su_id = ''S'', su_name = ''S'', su_tests = [plain_test ''T'' [] ]\<rparr>] else None)\<rparr>),
     co_test = (\<lambda>raw. Ok (plain_test ''T'' []))\<rparr>"

theorem loading_ends_witness:
  "\<exists>r. load_suite cyclic_corpus True [''m''] = Some r"
  by (rule loading_ends) (simp add: cyclic_corpus_def)

lemma cyclic_visits:
  "visit cyclic_corpus [] [''m''] = Ok (JObj [(''include'', JArr [JStr ''t''])], [[''t'']])"
  "visit cyclic_corpus [] [''t''] = Ok (JObj [(''include'', JArr [JStr ''m''])], [[''m'']])"
  by (simp_all add: visit_def read_yaml_def include_targets_def include_target_def is_within_def
      cyclic_corpus_def dict_lookup_def)

lemma cyclic_documents:
  "parse_document cyclic_corpus [''m''] (JObj [(''include'', JArr [JStr ''t''])]) =
     Ok \<lparr>ad_acts_version = ''1.0'', ad_spec_version = ''1.0'', ad_variables = None,
       ad_include = Some [''t''], ad_suites = None\<rparr>" (is "_ = Ok ?m")
  "parse_document cyclic_corpus [''t''] (JObj [(''include'', JArr [JStr ''m''])]) =
     Ok \<lparr>ad_acts_version = ''1.0'', ad_spec_version = ''1.0'', ad_variables = None, ad_include = Some [''t''],
       ad_suites = Some [\<lparr>su_id = ''S'', su_name = ''S'', su_tests = [plain_test ''T'' [] ]\<rparr>]\<rparr>" (is "_ = Ok ?t")
proof -
  have "check_document ?m = Ok ()"
    by (simp add: check_document_def check_all_Ok declares_something_def suite_ids_are_unique_def or_empty_def)
  then show "parse_document cyclic_corpus [''m''] (JObj [(''include'', JArr [JStr ''t''])]) = Ok ?m"
    by (simp add: parse_document_def cyclic_corpus_def)
  have "check_document ?t = Ok ()"
    by (simp add: check_document_def check_all_Ok check_suite_def check_test_def step_ids_are_unique_def
        raw_only_tests_name_a_transport_def declares_the_runner_features_it_uses_def test_ids_are_unique_def
        declares_something_def suite_ids_are_unique_def or_empty_def plain_test_def)
  then show "parse_document cyclic_corpus [''t''] (JObj [(''include'', JArr [JStr ''m''])]) = Ok ?t"
    by (simp add: parse_document_def cyclic_corpus_def)
qed

lemma cyclic_loaded:
  "load_suite cyclic_corpus True [''m''] = Some (Ok \<lparr>ls_tests = [entry_of [''t'']
      \<lparr>su_id = ''S'', su_name = ''S'', su_tests = [plain_test ''T'' [] ]\<rparr> (plain_test ''T'' [])],
    ls_variables = [], ls_sources = [[''m''], [''t'']], ls_errors = []\<rparr>)"
proof -
  have "resolve_includes cyclic_corpus [''m''] [] = Some (Ok
      [([''m''], JObj [(''include'', JArr [JStr ''t''])]), ([''t''], JObj [(''include'', JArr [JStr ''m''])])])"
    by (simp add: resolve_includes_def include_walk_Cons cyclic_visits)
  moreover have "flatten_documents cyclic_corpus True
      [([''m''], JObj [(''include'', JArr [JStr ''t''])]), ([''t''], JObj [(''include'', JArr [JStr ''m''])])] =
    Ok \<lparr>ls_tests = [entry_of [''t'']
      \<lparr>su_id = ''S'', su_name = ''S'', su_tests = [plain_test ''T'' [] ]\<rparr> (plain_test ''T'' [])],
    ls_variables = [], ls_sources = [[''m''], [''t'']], ls_errors = []\<rparr>"
    by (simp add: flatten_documents_def add_document_def validate_document_def cyclic_documents or_empty_def
        note_document_def dict_merge_def no_suite_def add_suite_def check_unique_suite_def add_test_def
        entry_of_def Let_def)
  ultimately show ?thesis by (simp add: load_suite_def)
qed

theorem loaded_corpus_is_the_include_tree_witness:
  "\<exists>s. load_suite cyclic_corpus True [''m''] = Some (Ok s) \<and> length (ls_tests s) = 1 \<and> distinct (ls_sources s) \<and>
     set (ls_sources s) = {q. (leads_to (visit cyclic_corpus []))\<^sup>*\<^sup>* [''m''] q}"
  using loaded_corpus_is_the_include_tree [OF cyclic_loaded] cyclic_loaded by simp

text \<open>
  Strict loading is lenient loading without errors. A strict load gives a suite exactly when
  the lenient load gives the same suite and has nothing to report, so a triage load that reports
  nothing has lost nothing.
\<close>

theorem strict_is_lenient_without_errors:
  "load_suite co True path = Some (Ok s) \<longleftrightarrow> load_suite co False path = Some (Ok s) \<and> ls_errors s = []"
proof -
  have "flatten_documents co True docs = Ok s \<longleftrightarrow> flatten_documents co False docs = Ok s \<and> ls_errors s = []" for docs
    by (auto simp: flatten_documents_def rbind_eq_Ok add_documents_strict no_suite_def)
  then show ?thesis by (auto simp: load_suite_def rbind_eq_Ok split: option.splits)
qed

end
