(* ===== verification/ConformanceClaims.thy ===== *)
theory ConformanceClaims
  imports Conformance LoaderClaims RunnerClaims
begin

section \<open>What a conformance run reports (acts_runner.py)\<close>

text \<open>
  A deviation replaces skips and nothing else, a run reports one result per test in scope, in the
  order of the corpus, and the patterns that select a deviation's tests are those of the messages
  the runner's gates write.
\<close>

subsection \<open>Results of a pass\<close>

lemma run_test_identity:
  assumes "run_test r vs t st = (Ok tr, st')"
  shows "tr_id tr = t_id t" "tr_result tr \<noteq> SKIP \<Longrightarrow> tr_skip_reason tr = None" "tr_configuration tr = None"
proof -
  have body: "tr_id tr = t_id t \<and> tr_skip_reason tr = None \<and> tr_configuration tr = None"
    if b: "run_test_body r t s = (Ok tr, s')" for s s'
  proof -
    obtain srs s1 where c: "conclude_test r t srs s1 = (Ok tr, s')"
      using b unfolding run_test_body_def st_bind_eq_Ok by blast
    show ?thesis
    proof (cases "find (\<lambda>sr. sr_result sr \<noteq> PASS) srs")
      case (Some sr)
      from c show ?thesis unfolding conclude_test_def Some by (auto simp: st_return_apply plain_result_def)
    next
      case None
      from c obtain named s2 where "(case named of
          Some d \<Rightarrow> st_return (failed_test t FAIL d srs)
        | None \<Rightarrow> st_return ((plain_result t PASS)\<lparr>tr_steps := srs\<rparr>)) s2 = (Ok tr, s')"
        unfolding conclude_test_def None option.case st_bind_eq_Ok by blast
      then show ?thesis by (cases named) (auto simp: st_return_apply failed_test_def plain_result_def)
    qed
  qed
  have "tr_id tr = t_id t \<and> (tr_result tr \<noteq> SKIP \<longrightarrow> tr_skip_reason tr = None) \<and> tr_configuration tr = None"
  proof (cases "skip_reason r t")
    case (Inl e)
    with assms show ?thesis
      by (cases e) (simp_all add: run_test_def st_return_apply st_raise_def, auto simp: failed_test_def plain_result_def)
  next
    case (Inr why)
    show ?thesis
    proof (cases why)
      case (Some m)
      with Inr assms show ?thesis by (auto simp: run_test_def st_return_apply plain_result_def)
    next
      case None
      show ?thesis
      proof (cases "behavior_gap r t")
        case (Some gap)
        with Inr None assms show ?thesis by (auto simp: run_test_def st_return_apply failed_test_def plain_result_def)
      next
        case gap: None
        with Inr None assms obtain s s' where "run_test_body r t s = (Ok tr, s')"
          by (auto simp: run_test_def in_fresh_scope_def split: prod.splits)
        from body [OF this] show ?thesis by simp
      qed
    qed
  qed
  then show "tr_id tr = t_id t" "tr_result tr \<noteq> SKIP \<Longrightarrow> tr_skip_reason tr = None" "tr_configuration tr = None"
    by auto
qed

definition fresh_results :: "acts_test list \<Rightarrow> test_result list \<Rightarrow> bool" where
  "fresh_results tests results \<longleftrightarrow> map tr_id results = map t_id tests \<and>
     (\<forall>r \<in> set results. (tr_result r \<noteq> SKIP \<longrightarrow> tr_skip_reason r = None) \<and> tr_configuration r = None)"

lemma run_suite_fresh: "run_suite r vs tests st = (Ok results, st') \<Longrightarrow> fresh_results tests results"
  unfolding run_suite_def
proof (induction tests arbitrary: st results)
  case (Cons t tests)
  then obtain tr st1 rest where "run_test r (document_variables r vs) t st = (Ok tr, st1)"
      "st_traverse (run_test r (document_variables r vs)) tests st1 = (Ok rest, st')" "results = tr # rest"
    by (auto simp: st_bind_eq_Ok st_return_apply)
  moreover note Cons.IH [OF this(2)] run_test_identity [OF this(1)]
  ultimately show ?case by (simp add: fresh_results_def)
qed (simp add: st_return_apply fresh_results_def)

lemma st_finally_Ok: "st_finally m f st = (Ok x, st') \<Longrightarrow> \<exists>s. m st = (Ok x, s)"
  by (auto simp: st_finally_def split: prod.splits)

lemma pass_against_fresh:
  assumes "pass_against pl s ps url st = (Ok (results, agent), st')"
  shows "fresh_results (map lt_test (ls_tests s)) results"
  using assms unfolding pass_against_def st_bind_eq_Ok
  by (auto simp: st_bind_eq_Ok st_return_apply dest!: st_finally_Ok run_suite_fresh)

lemma run_pass_fresh:
  assumes "run_pass pl s ps log_name deviated sut_url st = (Ok (results, agent), st')"
  shows "fresh_results (map lt_test (ls_tests s)) results"
proof (cases sut_url)
  case None
  with assms obtain outcome st1 st2 where
    "(case outcome of Inl why \<Rightarrow> st_raise (ActsRunError (''the code under test failed to start: '' @ why))
       | Inr port \<Rightarrow> pass_against pl s ps (''http://127.0.0.1:'' @ show_nat port)) st1 = (Ok (results, agent), st2)"
    by (auto simp only: run_pass_def option.case st_bind_eq_Ok dest!: st_finally_Ok)
  then show ?thesis by (cases outcome) (auto simp: st_raise_def dest: pass_against_fresh)
next
  case (Some url)
  with assms show ?thesis by (auto simp: run_pass_def dest: pass_against_fresh)
qed

subsection \<open>Splicing\<close>

lemma note_skip_lookup:
  "map_of (note_skip pattern x d) i =
     (if tr_id x = i \<and> pattern (skip_text x) \<noteq> None then pattern (skip_text x) else map_of d i)"
  by (auto simp: note_skip_def split: option.split)

lemma note_skip_keys: "fst ` set (note_skip pattern x d) \<subseteq> insert (tr_id x) (fst ` set d)"
  by (auto simp: note_skip_def keys_update split: option.split)

lemma skips_matching_lookup:
  assumes "distinct (map tr_id results)" "r \<in> set results"
  shows "map_of (skips_matching results pattern) (tr_id r) = pattern (skip_text r)"
proof -
  have other: "i \<notin> tr_id ` set rs \<Longrightarrow> map_of (fold (note_skip pattern) rs d) i = map_of d i" for rs d i
    by (induction rs arbitrary: d) (auto simp: note_skip_lookup)
  have "distinct (map tr_id results) \<Longrightarrow> r \<in> set results \<Longrightarrow> map_of d (tr_id r) = None \<Longrightarrow>
      map_of (fold (note_skip pattern) results d) (tr_id r) = pattern (skip_text r)" for d
  proof (induction results arbitrary: d)
    case (Cons x xs)
    show ?case
    proof (cases "x = r")
      case True
      with Cons.prems(1) have "tr_id r \<notin> tr_id ` set xs" by simp
      with True Cons.prems(3) show ?thesis by (simp add: other note_skip_lookup)
    next
      case False
      with Cons.prems have "tr_id r \<in> tr_id ` set xs" "tr_id x \<notin> tr_id ` set xs" by auto
      then have "tr_id x \<noteq> tr_id r" by metis
      with Cons.prems False Cons.IH [of "note_skip pattern x d"] show ?thesis by (simp add: note_skip_lookup)
    qed
  qed simp
  with assms show ?thesis by (simp add: skips_matching_def)
qed

lemma skips_matching_keys: "fst ` set (skips_matching results pattern) \<subseteq> tr_id ` set results"
proof -
  have "fst ` set (fold (note_skip pattern) results d) \<subseteq> tr_id ` set results \<union> fst ` set d" for d
  proof (induction results arbitrary: d)
    case (Cons r results)
    have "fst ` set (fold (note_skip pattern) results (note_skip pattern r d)) \<subseteq>
        tr_id ` set results \<union> insert (tr_id r) (fst ` set d)"
      using Cons [of "note_skip pattern r d"] note_skip_keys [of pattern r d] by blast
    then show ?case by auto
  qed simp
  from this [of "[]"] show ?thesis by (simp add: skips_matching_def)
qed

lemma replacements_lookup:
  "map_of (replacements var results) i = Some r \<Longrightarrow>
     \<exists>x \<in> set results. tr_id x = i \<and> r = x\<lparr>tr_configuration := Some var\<rparr>"
proof -
  have "map_of (fold (\<lambda>r d. AList.update (tr_id r) (r\<lparr>tr_configuration := Some var\<rparr>) d) results d) i = Some r \<Longrightarrow>
      map_of d i = Some r \<or> (\<exists>x \<in> set results. tr_id x = i \<and> r = x\<lparr>tr_configuration := Some var\<rparr>)" for d
    by (induction results arbitrary: d) (fastforce split: if_splits)+
  then show "map_of (replacements var results) i = Some r \<Longrightarrow>
     \<exists>x \<in> set results. tr_id x = i \<and> r = x\<lparr>tr_configuration := Some var\<rparr>"
    by (fastforce simp: replacements_def)
qed

text \<open>What a deviation may make of a result.\<close>

definition amended :: "deviation \<Rightarrow> test_result \<Rightarrow> test_result \<Rightarrow> bool" where
  "amended d r r' \<longleftrightarrow> tr_id r' = tr_id r \<and>
     (r' = r \<or> dv_pattern d (skip_text r) \<noteq> None \<and> tr_configuration r' = Some (dv_env d))"

lemma amended_refl: "list_all2 (amended d) results results"
  by (simp add: list_all2_same amended_def)

lemma spliced_amended:
  assumes "distinct (map tr_id results)"
    and rerun: "\<And>x. x \<in> set rerun \<Longrightarrow> tr_id x \<in> fst ` set (skips_matching results (dv_pattern d))"
  shows "list_all2 (amended d) results (spliced (dv_env d) rerun results)"
proof -
  have "amended d r (dict_lookup (replacements (dv_env d) rerun) (tr_id r) r)" if r: "r \<in> set results" for r
  proof (cases "map_of (replacements (dv_env d) rerun) (tr_id r)")
    case (Some y)
    from replacements_lookup [OF Some] obtain x where x: "x \<in> set rerun" "tr_id x = tr_id r"
      "y = x\<lparr>tr_configuration := Some (dv_env d)\<rparr>" by blast
    have "map_of (skips_matching results (dv_pattern d)) (tr_id r) \<noteq> None"
      using rerun [OF x(1)] x(2) by (simp add: map_of_eq_None_iff)
    with x Some skips_matching_lookup [OF assms(1) r] show ?thesis by (simp add: amended_def dict_lookup_def)
  qed (simp add: amended_def dict_lookup_def)
  then show ?thesis by (simp add: spliced_def Let_def list_all2_conv_all_nth)
qed

lemma subset_of_sels [simp]:
  "ls_tests (subset_of s ts) = ts" "ls_variables (subset_of s ts) = ls_variables s"
  by (simp_all add: subset_of_def)

lemma rerun_deviation_amends:
  assumes "distinct (map tr_id results)" "rerun_deviation pl s ps d url results st = (Ok results', st')"
  shows "list_all2 (amended d) results results'"
proof (cases "skips_matching results (dv_pattern d) = []")
  case True
  with assms(2) amended_refl show ?thesis by (simp add: rerun_deviation_def st_return_apply)
next
  case False
  define blocked where "blocked = skips_matching results (dv_pattern d)"
  define narrowed where "narrowed = subset_of s (filter (\<lambda>t. lt_id t \<in> fst ` set blocked) (ls_tests s))"
  obtain x st1 where p: "run_pass pl narrowed ps (dv_log_name d)
      (if url = None then Some (dv_env d) else None) url st = (x, st1)" by (meson surj_pair)
  show ?thesis
  proof (cases x)
    case (Inl e)
    with assms(2) False p amended_refl show ?thesis
      by (auto simp: rerun_deviation_def Let_def blocked_def [symmetric] narrowed_def [symmetric] st_catch_def
          st_return_apply st_raise_def split: if_splits)
  next
    case (Inr y)
    obtain rerun agent where y: "y = (rerun, agent)" by fastforce
    from p Inr y have "fresh_results (map lt_test (ls_tests narrowed)) rerun" by (auto dest: run_pass_fresh)
    then have "map tr_id rerun = map lt_id (ls_tests narrowed)" by (simp add: fresh_results_def lt_id_def [abs_def])
    then have "tr_id ` set rerun = lt_id ` set (ls_tests narrowed)" by (metis set_map)
    then have "tr_id ` set rerun \<subseteq> fst ` set blocked" by (auto simp: narrowed_def)
    then have "list_all2 (amended d) results (spliced (dv_env d) rerun results)"
      by (intro spliced_amended [OF assms(1)]) (auto simp: blocked_def)
    with assms(2) False p Inr y amended_refl show ?thesis
      by (auto simp: rerun_deviation_def Let_def blocked_def [symmetric] narrowed_def [symmetric] st_catch_def
          st_return_apply split: option.splits)
  qed
qed

lemma amended_ids: "list_all2 (amended d) rs rs' \<Longrightarrow> map tr_id rs' = map tr_id rs"
  by (induction rule: list_all2_induct) (simp_all add: amended_def)

lemma run_deviations_amend:
  assumes "distinct (map tr_id results)"
    and "run_deviations pl s ps opts [d1, d2] results st = (Ok final, st')"
  shows "\<exists>between. list_all2 (amended d1) results between \<and> list_all2 (amended d2) between final"
proof -
  have one: "\<exists>between st1. list_all2 (amended d) results between \<and> run_deviations pl s ps opts ds between st1 = (Ok final, st')"
    if "distinct (map tr_id results)" "run_deviations pl s ps opts (d # ds) results st = (Ok final, st')"
    for d ds results st
  proof (cases "op_sut_url opts \<noteq> None \<and> map_of (op_deviation_urls opts) (dv_env d) = None")
    case True
    with that(2) have "run_deviations pl s ps opts ds results st = (Ok final, st')" by simp
    with amended_refl show ?thesis by blast
  next
    case False
    with that(2) obtain between st1 where
      "rerun_deviation pl s ps d (map_of (op_deviation_urls opts) (dv_env d)) results st = (Ok between, st1)"
      "run_deviations pl s ps opts ds between st1 = (Ok final, st')"
      by (auto simp: Let_def st_bind_eq_Ok)
    with rerun_deviation_amends [OF that(1)] show ?thesis by blast
  qed
  from one [OF assms] obtain between st1 where a: "list_all2 (amended d1) results between"
    and rest: "run_deviations pl s ps opts [d2] between st1 = (Ok final, st')" by blast
  have "distinct (map tr_id between)" using amended_ids [OF a] assms(1) by simp
  from one [OF this rest] a show ?thesis by (auto simp: st_return_apply)
qed

subsection \<open>Skips never cover a verdict\<close>

lemma no_capability_in_nothing: "capability_skip [] = None" "security_skip [] = None"
  by (simp_all add: security_skip_def security_skip_text_def)

lemma verdict_kept:
  assumes "tr_skip_reason r = None" "list_all2 (amended d) rs rs'" "(r, r') \<in> set (zip rs rs')" "d \<in> set deviations"
  shows "r' = r"
  using assms no_capability_in_nothing
  by (auto simp: list_all2_iff amended_def skip_text_def deviations_def reduced_deviation_def auth_deviation_def)

lemma load_suite_distinct:
  "load_suite co strict path = Some (Ok s) \<Longrightarrow> distinct (map lt_id (ls_tests s))"
  by (auto simp: load_suite_def rbind_eq_Ok dest: flatten_effect(3) split: option.splits)

lemma scoped_tests:
  assumes "select_tests s ids = Ok s1" "in_scope s1 b = Ok s2" "distinct (map lt_id (ls_tests s))"
  shows "distinct (map lt_id (ls_tests s2))" "t \<in> set (ls_tests s2) \<Longrightarrow> applies_to (lt_test t) b"
    "ls_tests s2 \<noteq> []"
proof -
  have "distinct (map lt_id (ls_tests s1))"
    using assms(1,3) by (auto simp: select_tests_def Let_def distinct_map_filter split: option.splits if_splits)
  with assms(2) show "distinct (map lt_id (ls_tests s2))" "t \<in> set (ls_tests s2) \<Longrightarrow> applies_to (lt_test t) b"
      "ls_tests s2 \<noteq> []"
    by (auto simp: in_scope_def for_transport_def distinct_map_filter split: if_splits)
qed

lemma run_loaded_parts:
  assumes "run_loaded pl opts (Ok s) st = (Ok ar, st')"
  obtains s1 s2 ps agent first st1 st2 where "select_tests s (op_test_ids opts) = Ok s1" "in_scope s1 (op_transport opts) = Ok s2"
    "ar_suite ar = s2" "run_pass pl s2 ps ''acts_sut'' None (op_sut_url opts) st = (Ok (first, agent), st1)"
    "run_deviations pl s2 ps opts deviations first st1 = (Ok (ar_results ar), st2)"
  using assms unfolding run_loaded_def
  by (auto simp: st_bind_eq_Ok st_lift_def rbind_eq_Ok Let_def st_return_apply)

lemma acts_run_parts:
  assumes "acts_run pl opts st = Some (Ok ar, st')"
  obtains s s1 s2 ps agent first st1 st2 where "distinct (map lt_id (ls_tests s))"
    "select_tests s (op_test_ids opts) = Ok s1" "in_scope s1 (op_transport opts) = Ok s2" "ar_suite ar = s2"
    "run_pass pl s2 ps ''acts_sut'' None (op_sut_url opts) st = (Ok (first, agent), st1)"
    "run_deviations pl s2 ps opts deviations first st1 = (Ok (ar_results ar), st2)"
proof -
  obtain path loaded where l: "load_suite (pl_corpus pl) True path = Some loaded"
    and r: "run_loaded pl opts loaded st = (Ok ar, st')"
    using assms by (auto simp: acts_run_def split: sum.splits option.splits)
  then obtain s where s: "loaded = Ok s" by (cases loaded) (auto simp: run_loaded_def st_lift_def)
  note distinct = load_suite_distinct [OF l [unfolded s]]
  show thesis by (rule run_loaded_parts [OF r [unfolded s]]) (rule that [OF distinct])
qed

lemma acts_run_transport:
  "acts_run pl opts st = Some (Ok ar, st') \<Longrightarrow> ar_transport ar = op_transport opts"
  by (auto simp: acts_run_def run_loaded_def st_bind_eq_Ok Let_def st_return_apply split: sum.splits option.splits)

lemma acts_run_graded:
  assumes "acts_run pl opts st = Some (Ok ar, st')"
  shows "ar_results ar \<noteq> []"
proof -
  from acts_run_parts [OF assms] obtain s s1 s2 ps agent first st1 st2 where s: "distinct (map lt_id (ls_tests s))"
    and sel: "select_tests s (op_test_ids opts) = Ok s1" "in_scope s1 (op_transport opts) = Ok s2"
    and pass: "run_pass pl s2 ps ''acts_sut'' None (op_sut_url opts) st = (Ok (first, agent), st1)"
    and dev: "run_deviations pl s2 ps opts deviations first st1 = (Ok (ar_results ar), st2)" .
  note tests = scoped_tests [OF sel s]
  have ids: "map tr_id first = map lt_id (ls_tests s2)"
    using run_pass_fresh [OF pass] by (simp add: fresh_results_def lt_id_def [abs_def])
  then obtain between where "list_all2 (amended reduced_deviation) first between"
      "list_all2 (amended auth_deviation) between (ar_results ar)"
    using run_deviations_amend [OF _ dev [unfolded deviations_def]] tests(1) by auto
  then have "length (ar_results ar) = length (ls_tests s2)"
    using arg_cong [OF ids, of length] by (simp add: list_all2_lengthD [symmetric])
  with tests(3) show ?thesis by auto
qed

subsection \<open>The pattern of a deviation is the wording of a gate\<close>

lemma word_then_equals:
  assumes "list_all py_word name"
  shows "takeWhile py_word (name @ CHR ''='' # rest) = name" "dropWhile py_word (name @ CHR ''='' # rest) = CHR ''='' # rest"
proof -
  have "\<not> py_word (CHR ''='')" by (simp add: py_word_def word_char_def code_of_def)
  with assms show "takeWhile py_word (name @ CHR ''='' # rest) = name"
    "dropWhile py_word (name @ CHR ''='' # rest) = CHR ''='' # rest"
    by (induction name) auto
qed

lemma agent_not_in_words:
  assumes "list_all py_word name"
  shows "\<not> starts_with (name @ CHR ''='' # rest) (''agent '' @ tail)"
proof
  assume "starts_with (name @ CHR ''='' # rest) (''agent '' @ tail)"
  then obtain s where s: "name @ CHR ''='' # rest = ''agent '' @ s"
    unfolding starts_with_def by (metis append_assoc append_take_drop_id)
  have "dropWhile py_word (''agent '' @ s) = CHR '' '' # s"
    by (simp add: py_word_def word_char_def code_of_def)
  with word_then_equals(2) [OF assms, of rest] s show False by simp
qed

lemma contains_past_words:
  "list_all py_word name \<Longrightarrow> contains (name @ CHR ''='' # rest) (''agent '' @ tail) \<longleftrightarrow>
     contains (CHR ''='' # rest) (''agent '' @ tail)"
proof (induction name)
  case (Cons c name)
  with agent_not_in_words [of "c # name" rest tail] show ?case by simp
qed simp

lemma capability_skip_past_words:
  "list_all py_word name \<Longrightarrow> capability_skip (name @ CHR ''='' # rest) = capability_skip (CHR ''='' # rest)"
proof (induction name)
  case (Cons c name)
  have "\<not> starts_with ((c # name) @ CHR ''='' # rest) capability_skip_prefix"
    using agent_not_in_words [OF Cons.prems, of rest "''card capability ''"] by (simp add: capability_skip_prefix_def)
  with Cons show ?case by (simp add: Let_def)
qed simp

subsection \<open>Properties\<close>


text \<open>
  C39: the deviations recognise the runner's own words. Of the skips the gates write for a
  capability and for authentication, the first deviation claims exactly those of a capability the
  card advertises and the test needs absent, reading off which one; the second claims exactly
  those of a test that needs a credential the card does not require; and neither claims what the
  other addresses.
\<close>

theorem deviations_claim_their_skips:
  assumes "list_all py_word name" "name \<noteq> []" "name \<in> set known"
    and "unmet_capability known advertised [(name, JBool wanted)] = Some why"
    and "unmet_authentication agent p = Some why_auth" "pc_authentication p = Some auth"
  shows "capability_skip why = (if wanted then None else Some name) \<and> security_skip why = None \<and>
     security_skip why_auth = (if auth then Some [] else None) \<and> capability_skip why_auth = None"
proof -
  have why: "why = ''agent card capability '' @ name @ ''='' @ bool_repr (\<not> wanted) @ '', needs '' @ bool_repr wanted"
    using assms(3,4) by (auto simp: msg_capability_def bool_repr_def Let_def split: if_splits)
  have auth: "why_auth = ''agent card authentication='' @ bool_repr (\<not> auth) @ '', needs '' @ bool_repr auth"
    using assms(5,6) by (auto simp: unmet_authentication_def split: if_splits)
  have sec: "security_skip why = None"
    using contains_past_words [OF assms(1), of _ "''card authentication=False, needs True''"]
    by (cases wanted) (simp_all add: why security_skip_def security_skip_text_def starts_with_def bool_repr_def)
  have cap: "capability_skip why = (if wanted then None else Some name)"
    using word_then_equals [OF assms(1)] capability_skip_past_words [OF assms(1)] assms(2)
    by (cases wanted) (simp_all add: why capability_skip_prefix_def capability_skip_suffix_def starts_with_def
        bool_repr_def Let_def)
  show ?thesis unfolding auth using sec cap
    by (cases auth) (simp_all add: security_skip_def security_skip_text_def starts_with_def bool_repr_def Let_def
        capability_skip_prefix_def capability_skip_suffix_def)
qed

definition needs_auth :: preconditions where
  "needs_auth = \<lparr>pc_capabilities = None, pc_authentication = Some True, pc_skills = None, pc_transport = None,
     pc_extensions = None\<rparr>"

theorem deviations_claim_their_skips_witness:
  "\<exists>why. unmet_capability [''streaming''] (JObj [(''streaming'', JBool True)]) [(''streaming'', JBool False)] = Some why \<and>
     capability_skip why = Some ''streaming''"
proof -
  let ?m = "msg_capability ''streaming'' (JBool True) (JBool False)"
  have u: "unmet_capability [''streaming''] (JObj [(''streaming'', JBool True)]) [(''streaming'', JBool False)] = Some ?m"
    by (simp add: get_or_def)
  have a: "unmet_authentication (JObj []) needs_auth =
      Some (''agent card authentication='' @ bool_repr False @ '', needs '' @ bool_repr True)"
    by (simp add: unmet_authentication_def needs_auth_def requires_auth_def get_or_def)
  have w: "list_all py_word ''streaming''" by code_simp
  from deviations_claim_their_skips [OF w _ _ u a] u show ?thesis by (simp add: needs_auth_def)
qed

text \<open>A SUT that requires a credential only when started for the authentication pass; the clock tells which.\<close>

definition gated_test :: acts_test where
  "gated_test = (plain_test ''B'' [])\<lparr>t_preconditions := Some needs_auth\<rparr>"

definition two_tests :: corpus where
  "two_tests = \<lparr>co_is_file = (\<lambda>p. p = [''m'']), co_yaml = (\<lambda>p. Ok (JObj [])), co_join = (\<lambda>p e. [e]),
     co_document = (\<lambda>raw. Ok \<lparr>ad_acts_version = ''1.0'', ad_spec_version = ''1.0'', ad_variables = None,
       ad_include = None, ad_suites = Some [\<lparr>su_id = ''S'', su_name = ''S'', su_tests = [plain_test ''A'' [], gated_test]\<rparr>]\<rparr>),
     co_test = (\<lambda>raw. Ok gated_test)\<rparr>"

definition demo_card :: "bool \<Rightarrow> json" where
  "demo_card secured = JObj ((''supportedInterfaces'', JArr [JObj [(''protocolBinding'', JStr ''JSONRPC''), (''url'', JStr ''u'')]]) #
     (if secured then [(''securitySchemes'', JBool True), (''securityRequirements'', JBool True)] else []))"

definition demo_pipeline :: "demo_world pipeline" where
  "demo_pipeline = \<lparr>pl_start = (\<lambda>name d (c, t). (Inr 80, (c, of_bool (d = Some auth_enforced_env)))),
     pl_stop = id, pl_card = (\<lambda>u (c, t). (Ok (demo_card (0 < t)), (c, t))), pl_receiver = (\<lambda>w. (None, w)),
     pl_stop_receiver = id, pl_runner = (\<lambda>dc. demo_runner JNull), pl_corpus = two_tests,
     pl_default_suite = [''m''], pl_repo_root = [], pl_contract = (\<lambda>p. Ok [])\<rparr>"

definition demo_options :: run_options where
  "demo_options = \<lparr>op_transport = B_JSONRPC, op_sut_url = None, op_suite_path = None, op_test_ids = None,
     op_variables = [], op_capabilities = [], op_gate_on_behaviors = False, op_behaviors_path = None,
     op_deviation_urls = []\<rparr>"

definition demo_loaded :: loaded_suite where
  "demo_loaded = \<lparr>ls_tests = map (\<lambda>t. \<lparr>lt_test = t, lt_suite_id = ''S'', lt_suite_name = ''S'', lt_source = [''m'']\<rparr>)
     [plain_test ''A'' [], gated_test], ls_variables = [], ls_sources = [[''m'']], ls_errors = []\<rparr>"

lemma gated_test_sels:
  "t_id gated_test = ''B''" "t_steps gated_test = []" "t_assertions gated_test = None" "t_transport gated_test = None"
  "t_runner_requirements gated_test = None" "t_preconditions gated_test = Some needs_auth"
  "t_requires_behaviors gated_test = None"
  by (simp_all add: gated_test_def plain_test_def)

lemma two_tests_loaded: "load_suite two_tests True [''m''] = Some (Ok demo_loaded)"
proof -
  let ?d = "\<lparr>ad_acts_version = ''1.0'', ad_spec_version = ''1.0'', ad_variables = None,
       ad_include = None, ad_suites = Some [\<lparr>su_id = ''S'', su_name = ''S'', su_tests = [plain_test ''A'' [], gated_test]\<rparr>]\<rparr>"
  have "check_document ?d = Ok ()"
    by (simp add: check_document_def check_all_Ok check_suite_def check_test_def step_ids_are_unique_def
        raw_only_tests_name_a_transport_def declares_the_runner_features_it_uses_def test_ids_are_unique_def
        declares_something_def suite_ids_are_unique_def or_empty_def plain_test_sels gated_test_sels)
      (simp add: plain_test_def)
  then have p: "parse_document two_tests [''m''] (JObj []) = Ok ?d"
    by (simp add: parse_document_def two_tests_def)
  have "visit two_tests [] [''m''] = Ok (JObj [], [])"
    by (simp add: visit_def read_yaml_def include_targets_def two_tests_def dict_lookup_def)
  then have "resolve_includes two_tests [''m''] [] = Some (Ok [([''m''], JObj [])])"
    by (simp add: resolve_includes_def include_walk_Cons)
  moreover have "flatten_documents two_tests True [([''m''], JObj [])] = Ok demo_loaded"
    by (simp add: flatten_documents_def add_document_def validate_document_def p or_empty_def
        note_document_def dict_merge_def no_suite_def add_suite_def check_unique_suite_def add_test_def
        Let_def demo_loaded_def lt_id_def gated_test_sels) (simp add: plain_test_def)
  ultimately show ?thesis by (simp add: load_suite_def)
qed

definition demo_pass :: pass_config where
  "demo_pass = \<lparr>ps_binding = B_JSONRPC, ps_variables = runner_variables, ps_capabilities = runner_capabilities,
     ps_declared = None\<rparr>"

definition demo_configured :: "bool \<Rightarrow> demo_world runner" where
  "demo_configured secured = configured_runner (demo_runner JNull) demo_pass (demo_card secured) None"

lemma demo_configured_sels:
  "r_binding (demo_configured b) = B_JSONRPC" "r_agent_card (demo_configured b) = Some (demo_card b)"
  "r_sut_behaviors (demo_configured b) = None"
  by (simp_all add: demo_configured_def configured_runner_def demo_pass_def)

lemma requires_auth_demo: "requires_auth (demo_card b) = b"
  by (simp add: requires_auth_def demo_card_def get_or_def)

definition auth_why :: string where
  "auth_why = ''agent card authentication='' @ bool_repr False @ '', needs '' @ bool_repr True"

lemma demo_skips:
  "skip_reason (demo_configured b) (plain_test ''A'' []) = Ok None"
  "skip_reason (demo_configured True) gated_test = Ok None"
  "skip_reason (demo_configured False) gated_test = Ok (Some auth_why)"
  "behavior_gap (demo_configured b) t = None"
  by (simp_all add: skip_reason_def applies_to_def deferred_kinds_def missing_requirements_def unmet_precondition_def
      plain_test_sels gated_test_sels or_empty_def demo_configured_sels needs_auth_def unmet_authentication_def
      requires_auth_demo unmet_skills_def unmet_transport_def unmet_extensions_def string_members_def map_filter_simps
      auth_why_def behavior_gap_def missing_behaviors_def sorted_names_def)

lemma stepless_test_passes:
  "skip_reason r t = Ok None \<Longrightarrow> behavior_gap r t = None \<Longrightarrow> t_steps t = [] \<Longrightarrow> t_assertions t = None \<Longrightarrow>
   run_test r vs t (w, n) = (Ok (plain_result t PASS), (w, n))"
  by (simp add: run_test_def in_fresh_scope_def run_test_body_def run_steps_def conclude_test_def st_bind_def
      st_return_apply or_empty_def fresh_scope_def plain_result_def)

lemma demo_dispatcher: "\<exists>dc. build_dispatcher (demo_card b) B_JSONRPC u = Ok dc"
proof -
  have "card_binding ''JSONRPC'' = Some B_JSONRPC" by code_simp
  then have "interface_for (demo_card b) B_JSONRPC = Ok (''u'', JNull)"
    by (simp add: interface_for_def interfaces_of_def get_default_def demo_card_def dict_lookup_def iterate_def serves_def
        py_str_def is_v1_def get_or_def Let_def)
  then show ?thesis by (simp add: build_dispatcher_def Let_def)
qed

lemma demo_run_pass:
  assumes run: "run_suite (demo_configured b) (ls_variables s) (map lt_test (ls_tests s)) ((c, of_bool b), n) =
      (Ok results, st')" and b: "b = (d = Some auth_enforced_env)"
  shows "run_pass demo_pipeline s demo_pass log_name d None ((c, t), n) = (Ok (results, demo_card b), st')"
proof -
  let ?u = "''http://127.0.0.1:'' @ show_nat 80"
  obtain dc where dc: "build_dispatcher (demo_card b) B_JSONRPC ?u = Ok dc" using demo_dispatcher by blast
  have "pass_against demo_pipeline s demo_pass ?u ((c, of_bool b), n) = (Ok (results, demo_card b), st')"
    using run dc
    by (simp add: pass_against_def fetch_agent_card_def st_bind_def world_ask_def world_tell_def st_lift_def
        st_finally_def demo_pipeline_def st_return_apply demo_configured_def demo_pass_def Let_def)
  then show ?thesis
    by (simp add: run_pass_def st_finally_def st_bind_def world_ask_def world_tell_def demo_pipeline_def b [symmetric])
qed

lemma skipped_test:
  "skip_reason r t = Ok (Some why) \<Longrightarrow>
   run_test r vs t st = (Ok ((plain_result t SKIP)\<lparr>tr_skip_reason := Some why\<rparr>), st)"
  by (simp add: run_test_def st_return_apply)

definition first_results :: "test_result list" where
  "first_results = [plain_result (plain_test ''A'' []) PASS, (plain_result gated_test SKIP)\<lparr>tr_skip_reason := Some auth_why\<rparr>]"

definition final_results :: "test_result list" where
  "final_results = [plain_result (plain_test ''A'' []) PASS,
     (plain_result gated_test PASS)\<lparr>tr_configuration := Some auth_enforced_env\<rparr>]"

lemma demo_passes:
  "run_pass demo_pipeline (subset_of demo_loaded (ls_tests demo_loaded)) demo_pass ''acts_sut'' None None ((0, 0), 0) =
     (Ok (first_results, demo_card False), ((0, 0), 0))"
  "run_pass demo_pipeline (subset_of s [\<lparr>lt_test = gated_test, lt_suite_id = i, lt_suite_name = j, lt_source = p\<rparr>])
     demo_pass log_name (Some auth_enforced_env) None ((0, 0), 0) =
     (Ok ([plain_result gated_test PASS], demo_card True), ((0, 1), 0))"
  by (rule demo_run_pass [where b = False, simplified] demo_run_pass [where b = True, simplified],
      simp_all add: run_suite_def demo_loaded_def stepless_test_passes skipped_test demo_skips plain_test_sels
        gated_test_sels st_bind_def st_return_apply first_results_def)+

lemma demo_blocked:
  "skips_matching first_results capability_skip = []" "skips_matching first_results security_skip = [(''B'', [])]"
proof -
  have w: "capability_skip auth_why = None" "security_skip auth_why = Some []" by code_simp+
  show "skips_matching first_results capability_skip = []" "skips_matching first_results security_skip = [(''B'', [])]"
    by (simp_all add: skips_matching_def note_skip_def first_results_def skip_text_def plain_result_def w
        no_capability_in_nothing gated_test_sels)
qed

lemma demo_run:
  "acts_run demo_pipeline demo_options ((0, 0), 0) = Some (Ok \<lparr>ar_results = final_results,
     ar_suite = subset_of demo_loaded (ls_tests demo_loaded), ar_transport = B_JSONRPC, ar_agent_card = demo_card False,
     ar_declared = None, ar_external_sut = False\<rparr>, ((0, 1), 0))"
proof -
  let ?s = "subset_of demo_loaded (ls_tests demo_loaded)"
  have scope: "in_scope demo_loaded B_JSONRPC = Ok ?s"
    by (simp add: in_scope_def for_transport_def demo_loaded_def applies_to_def plain_test_sels gated_test_sels or_empty_def)
  have narrowed: "subset_of ?s (filter (\<lambda>t. lt_id t \<in> fst ` set [(''B'', [])]) (ls_tests ?s)) =
      subset_of ?s [\<lparr>lt_test = gated_test, lt_suite_id = ''S'', lt_suite_name = ''S'', lt_source = [''m'']\<rparr>]"
    by (simp add: demo_loaded_def lt_id_def gated_test_sels) (simp add: plain_test_def)
  have spliced: "spliced auth_enforced_env [plain_result gated_test PASS] first_results = final_results"
    by (simp add: spliced_def replacements_def first_results_def final_results_def dict_lookup_def plain_result_def
        plain_test_def gated_test_sels)
  have effect: "security_declared (demo_card True) ns = None" for ns
    by (simp add: security_declared_def demo_card_def get_or_def)
  have red: "rerun_deviation demo_pipeline ?s demo_pass reduced_deviation None first_results st = (Ok first_results, st)" for st
    by (simp add: rerun_deviation_def reduced_deviation_def demo_blocked st_return_apply)
  have auth: "rerun_deviation demo_pipeline ?s demo_pass auth_deviation None first_results ((0, 0), 0) =
      (Ok final_results, ((0, 1), 0))"
    using narrowed
    by (simp add: rerun_deviation_def auth_deviation_def demo_blocked Let_def st_catch_def st_bind_def demo_passes(2)
        st_return_apply effect spliced del: subset_of_sels)
  have "run_loaded demo_pipeline demo_options (Ok demo_loaded) ((0, 0), 0) = (Ok \<lparr>ar_results = final_results,
     ar_suite = ?s, ar_transport = B_JSONRPC, ar_agent_card = demo_card False,
     ar_declared = None, ar_external_sut = False\<rparr>, ((0, 1), 0))"
    using demo_passes(1) red auth
    by (simp add: run_loaded_def demo_options_def select_tests_def scope st_lift_def st_bind_def declared_behaviors_def
        dict_merge_def demo_pass_def deviations_def st_return_apply Let_def)
  then show ?thesis
    by (simp add: acts_run_def demo_options_def check_deviation_urls_def demo_pipeline_def two_tests_loaded Let_def)
qed


end
