(* ===== verification/Dispatch.thy ===== *)
theory Dispatch
  imports RunnerSteps
begin

section \<open>The HTTP dispatchers (acts/dispatcher/http_base.py, jsonrpc.py, rest.py)\<close>

text \<open>
  How an abstract operation or a raw block becomes a request of a binding, and its reply a
  response the runner can assert on. The network is an operation on a world; of a client error it
  keeps the text; \<open>json.loads\<close> and \<open>json.dumps\<close> are functions of the network record. Of an error
  and a response the fields the runner reads are kept, as there. A request whose parameters are
  None is one whose parameters are empty.
\<close>

datatype body = No_body | Text_body string | Json_body json

record http_request =
  rq_method :: string
  rq_url :: string
  rq_headers :: "(string, string) dict"
  rq_query :: "(string, string) dict"
  rq_body :: body

record http_response =
  hr_status :: int
  hr_headers :: "(string, string) dict"
  hr_text :: string

text \<open>One server-sent event, and how reading them ends: the SSE parser or the transport may fail.\<close>

record sse =
  sse_data :: string
  sse_event :: string

datatype sse_end = Sse_closed | Sse_open | Sse_malformed string | Sse_broken string

record 'w network =
  nw_send :: "http_request \<Rightarrow> 'w \<Rightarrow> (string + http_response) \<times> 'w"
  nw_stream :: "http_request \<Rightarrow> 'w \<Rightarrow> (string + http_response \<times> sse list \<times> sse_end) \<times> 'w"
  nw_loads :: "string \<Rightarrow> json option"
  nw_dumps :: "json \<Rightarrow> string"

record http_dispatcher =
  hd_binding :: transport_binding
  hd_base_url :: string
  hd_agent_card_url :: string
  hd_default_headers :: "(string, string) dict"
  hd_rpc_path :: string

definition jsonrpc_content_type :: string where "jsonrpc_content_type = ''application/json''"
definition rest_content_type :: string where "rest_content_type = ''application/a2a+json''"
definition sse_content_type :: string where "sse_content_type = ''text/event-stream''"
definition error_info_type :: string where "error_info_type = ''type.googleapis.com/google.rpc.ErrorInfo''"

definition content_type_of :: "transport_binding \<Rightarrow> string" where
  "content_type_of b = (if b = B_REST then rest_content_type else jsonrpc_content_type)"

definition stripped_slashes :: "string \<Rightarrow> string" where
  "stripped_slashes s = rev (dropWhile (\<lambda>c. c = CHR ''/'') (rev s))"

definition new_http_dispatcher ::
  "transport_binding \<Rightarrow> string \<Rightarrow> string option \<Rightarrow> string option \<Rightarrow> (string, string) dict \<Rightarrow> http_dispatcher" where
  "new_http_dispatcher b base_url rpc_path card_url defaults =
     \<lparr>hd_binding = b, hd_base_url = base_url,
      hd_agent_card_url = stripped_slashes (case card_url of None \<Rightarrow> base_url | Some u \<Rightarrow> if u = [] then base_url else u),
      hd_default_headers = defaults, hd_rpc_path = (case rpc_path of None \<Rightarrow> ''/'' | Some p \<Rightarrow> p)\<rparr>"

subsection \<open>Requests\<close>

definition binding_url :: "http_dispatcher \<Rightarrow> string \<Rightarrow> string" where
  "binding_url d path =
     (if path = ''/'' then hd_base_url d
      else stripped_slashes (hd_base_url d) @ (if starts_with path ''/'' then path else CHR ''/'' # path))"

definition set_header :: "string \<Rightarrow> string option \<Rightarrow> (string, string) dict \<Rightarrow> (string, string) dict" where
  "set_header k v hs = (case v of None \<Rightarrow> hs | Some x \<Rightarrow> if x = [] then hs else AList.update k x hs)"

definition merged_headers ::
  "http_dispatcher \<Rightarrow> (string, string) dict \<Rightarrow> string option \<Rightarrow> string option \<Rightarrow> bool \<Rightarrow> (string, string) dict" where
  "merged_headers d headers content_type accept defaults =
     (let merged = (if defaults then hd_default_headers d else []) in
      dict_merge (set_header ''Accept'' accept (set_header ''Content-Type'' content_type merged)) headers)"

text \<open>Only never reaching the SUT raises.\<close>

definition send_request :: "'w network \<Rightarrow> http_request \<Rightarrow> ('w, http_response) state_result" where
  "send_request nw rq w = (case nw_send nw rq w of
     (Inl e, w') \<Rightarrow> (Raise (DispatchError e), w') | (Inr resp, w') \<Rightarrow> (Ok resp, w'))"

definition parse_json_body :: "'w network \<Rightarrow> http_response \<Rightarrow> json" where
  "parse_json_body nw resp = (if py_strip (hr_text resp) = [] then JNull
     else case nw_loads nw (hr_text resp) of None \<Rightarrow> JNull | Some v \<Rightarrow> v)"

subsection \<open>Errors\<close>

definition plain_wire_error :: "string \<Rightarrow> wire_error" where
  "plain_wire_error m = \<lparr>we_message = m, we_error_type = None, we_jsonrpc_code = None, we_status = None,
     we_reason = None, we_details = []\<rparr>"

definition http_status_error :: "http_response \<Rightarrow> json \<Rightarrow> wire_error option" where
  "http_status_error resp parsed = (if hr_status resp < 400 then None
     else Some (plain_wire_error (''HTTP '' @ show_int (hr_status resp))))"

definition is_error_info :: "json \<Rightarrow> bool" where
  "is_error_info item = (case item of
     JObj d \<Rightarrow> (case map_of d ''@type'' of Some t \<Rightarrow> t = JStr error_info_type | None \<Rightarrow> False) | _ \<Rightarrow> False)"

definition error_info :: "json \<Rightarrow> string option \<times> json list" where
  "error_info details = (case details of
     JArr items \<Rightarrow> (case find is_error_info items of
         Some (JObj d) \<Rightarrow> (case map_of d ''reason'' of Some (JStr r) \<Rightarrow> Some r | _ \<Rightarrow> None, items)
       | _ \<Rightarrow> (None, items))
   | _ \<Rightarrow> (None, []))"

text \<open>An \<open>int\<close> in Python's sense, which a bool is too.\<close>

definition int_code :: "json \<Rightarrow> int option" where
  "int_code v = (case v of JInt n \<Rightarrow> Some n | JBool b \<Rightarrow> Some (of_bool b) | _ \<Rightarrow> None)"

definition get_json :: "(string, json) dict \<Rightarrow> string \<Rightarrow> json" where "get_json d k = dict_lookup d k JNull"

definition rpc_error_from :: "http_response \<Rightarrow> json \<Rightarrow> wire_error option" where
  "rpc_error_from resp parsed = (case (case parsed of JObj d \<Rightarrow> map_of d ''error'' | _ \<Rightarrow> None) of
     Some (JObj err) \<Rightarrow>
       (let code = int_code (get_json err ''code''); info = error_info (get_json err ''data'') in
        Some \<lparr>we_message = py_str (dict_lookup err ''message'' (JStr [])),
          we_error_type = (case code of None \<Rightarrow> None | Some n \<Rightarrow> error_for_jsonrpc_code n),
          we_jsonrpc_code = code, we_status = None, we_reason = fst info, we_details = snd info\<rparr>)
   | _ \<Rightarrow> if 400 \<le> hr_status resp
       then Some (plain_wire_error (''HTTP '' @ show_int (hr_status resp) @ '' with no JSON-RPC error envelope''))
       else None)"

definition named_by_reason :: "string option \<Rightarrow> string option" where
  "named_by_reason reason = (case reason of
     None \<Rightarrow> None | Some r \<Rightarrow> if r = [] then None else error_for_reason r)"

definition rest_error_from :: "http_response \<Rightarrow> json \<Rightarrow> wire_error option" where
  "rest_error_from resp parsed =
     (if hr_status resp < 400 then None
      else case (case parsed of JObj d \<Rightarrow> map_of d ''error'' | _ \<Rightarrow> None) of
        Some (JObj b) \<Rightarrow> (let info = error_info (get_json b ''details'') in
          Some \<lparr>we_message = py_str (dict_lookup b ''message'' (JStr [])), we_error_type = named_by_reason (fst info),
            we_jsonrpc_code = None, we_status = (case get_json b ''status'' of JStr s \<Rightarrow> Some s | _ \<Rightarrow> None),
            we_reason = fst info, we_details = snd info\<rparr>)
      | _ \<Rightarrow> Some (plain_wire_error (''HTTP '' @ show_int (hr_status resp) @ '' with no google.rpc.Status body'')))"

definition binding_error_from :: "http_dispatcher \<Rightarrow> http_response \<Rightarrow> json \<Rightarrow> wire_error option" where
  "binding_error_from d = (if hd_binding d = B_REST then rest_error_from else rpc_error_from)"

subsection \<open>Unary calls\<close>

definition wire_reply :: "'w network \<Rightarrow> (http_response \<Rightarrow> json \<Rightarrow> wire_error option) \<Rightarrow> http_response \<Rightarrow> wire_response" where
  "wire_reply nw error_from resp = (let parsed = parse_json_body nw resp in
     \<lparr>wr_status = hr_status resp, wr_payload = parsed, wr_error = error_from resp parsed, wr_headers = hr_headers resp\<rparr>)"

definition plain_get :: "string \<Rightarrow> (string, string) dict \<Rightarrow> http_request" where
  "plain_get url headers = \<lparr>rq_method = ''GET'', rq_url = url, rq_headers = headers, rq_query = [], rq_body = No_body\<rparr>"

definition get_agent_card :: "'w network \<Rightarrow> http_dispatcher \<Rightarrow> (string, string) dict \<Rightarrow> ('w, wire_response) state_result" where
  "get_agent_card nw d headers = st_bind (send_request nw
       (plain_get (hd_agent_card_url d @ well_known_agent_card_path) (merged_headers d headers None None True)))
     (\<lambda>resp. st_return (wire_reply nw (binding_error_from d) resp))"

definition raw_content :: "'w network \<Rightarrow> raw_block \<Rightarrow> body" where
  "raw_content nw raw = (case rb_body_raw raw of
     Some s \<Rightarrow> Text_body s
   | None \<Rightarrow> (case rb_body raw of None \<Rightarrow> No_body | Some v \<Rightarrow> Text_body (nw_dumps nw v)))"

definition raw_request_headers :: "http_dispatcher \<Rightarrow> raw_block \<Rightarrow> (string, string) dict \<Rightarrow> (string, string) dict" where
  "raw_request_headers d raw headers = dict_merge (merged_headers d headers None None False)
     (case rb_headers raw of None \<Rightarrow> [] | Some hs \<Rightarrow> hs)"

definition raw_request :: "'w network \<Rightarrow> http_dispatcher \<Rightarrow> raw_block \<Rightarrow> (string, string) dict \<Rightarrow> http_request" where
  "raw_request nw d raw headers = \<lparr>rq_method = rb_method raw, rq_url = binding_url d (rb_path raw),
     rq_headers = raw_request_headers d raw headers, rq_query = [], rq_body = raw_content nw raw\<rparr>"

definition http_dispatch_raw ::
  "'w network \<Rightarrow> http_dispatcher \<Rightarrow> raw_block \<Rightarrow> (string, string) dict \<Rightarrow> ('w, wire_response) state_result" where
  "http_dispatch_raw nw d raw headers = st_bind (send_request nw (raw_request nw d raw headers))
     (\<lambda>resp. st_return (wire_reply nw (binding_error_from d) resp))"

definition envelope :: "nat \<Rightarrow> operation \<Rightarrow> tree \<Rightarrow> json" where
  "envelope i oper params = JObj [(''jsonrpc'', JStr ''2.0''), (''id'', JInt (int i)),
     (''method'', JStr (ob_jsonrpc_method (binding_for_operation oper))), (''params'', JObj (adapt oper params))]"

definition rpc_request :: "http_dispatcher \<Rightarrow> nat \<Rightarrow> operation \<Rightarrow> tree \<Rightarrow> (string, string) dict \<Rightarrow> http_request" where
  "rpc_request d i oper params headers = \<lparr>rq_method = ''POST'', rq_url = binding_url d (hd_rpc_path d),
     rq_headers = merged_headers d headers (Some jsonrpc_content_type) None True, rq_query = [],
     rq_body = Json_body (envelope i oper params)\<rparr>"

definition rpc_result :: "json \<Rightarrow> json" where
  "rpc_result parsed = (case parsed of JObj d \<Rightarrow> get_json d ''result'' | _ \<Rightarrow> JNull)"

text \<open>The state holds the number of envelopes drawn; their ids count from one.\<close>

definition rpc_dispatch ::
  "'w network \<Rightarrow> http_dispatcher \<Rightarrow> operation \<Rightarrow> tree \<Rightarrow> (string, string) dict \<Rightarrow> ('w \<times> nat, wire_response) state_result" where
  "rpc_dispatch nw d oper0 params headers = (\<lambda>(w, n).
     let oper = resolve_operation oper0 (Some params) in
     if ob_http_only (binding_for_operation oper)
     then (case get_agent_card nw d headers w of (r, w') \<Rightarrow> (r, (w', n)))
     else (case send_request nw (rpc_request d (Suc n) oper params headers) w of
         (Inl e, w') \<Rightarrow> (Raise e, (w', Suc n))
       | (Inr resp, w') \<Rightarrow> (let r = wire_reply nw rpc_error_from resp in
           (Ok (r\<lparr>wr_payload := rpc_result (wr_payload r)\<rparr>), (w', Suc n)))))"

definition stringify :: "tree \<Rightarrow> (string, string) dict" where
  "stringify params = map (\<lambda>(k, v). (k, case v of
     JBool b \<Rightarrow> if b then ''true'' else ''false'' | _ \<Rightarrow> py_str v)) params"

definition split_params :: "operation \<Rightarrow> tree \<Rightarrow> (string \<times> tree) result" where
  "split_params oper params = format_rest_path (binding_for_operation oper) (adapt oper params)"

definition is_query_method :: "string \<Rightarrow> bool" where "is_query_method m = (m \<in> {''GET'', ''DELETE''})"

definition rest_request ::
  "http_dispatcher \<Rightarrow> string \<Rightarrow> string \<Rightarrow> tree \<Rightarrow> (string, string) dict \<Rightarrow> http_request" where
  "rest_request d verb path rest headers = \<lparr>rq_method = verb, rq_url = binding_url d path,
     rq_headers = merged_headers d headers (Some rest_content_type) None True,
     rq_query = (if is_query_method verb then stringify rest else []),
     rq_body = (if is_query_method verb \<or> rest = [] then No_body else Json_body (JObj rest))\<rparr>"

definition rest_dispatch ::
  "'w network \<Rightarrow> http_dispatcher \<Rightarrow> operation \<Rightarrow> tree \<Rightarrow> (string, string) dict \<Rightarrow> ('w, wire_response) state_result" where
  "rest_dispatch nw d oper0 params headers =
     (let oper = resolve_operation oper0 (Some params); b = binding_for_operation oper in
      if ob_http_only b then get_agent_card nw d headers
      else st_bind (st_lift (split_params oper params)) (\<lambda>(path, rest).
        st_bind (send_request nw (rest_request d (ob_rest_method b) path rest headers)) (\<lambda>resp.
          st_return (wire_reply nw rest_error_from resp))))"

subsection \<open>Streams\<close>

definition media_type :: "http_response \<Rightarrow> string" where
  "media_type resp = (let ct = dict_lookup (hr_headers resp) ''content-type'' [] in
     lower (py_strip (takeWhile (\<lambda>c. c \<noteq> CHR '';'') ct)))"

definition is_sse :: "http_response \<Rightarrow> bool" where "is_sse resp = (media_type resp = sse_content_type)"

definition unwrap_stream_event :: "transport_binding \<Rightarrow> json \<Rightarrow> json" where
  "unwrap_stream_event b v = (case v of
     JObj d \<Rightarrow> (if b = B_JSONRPC then case map_of d ''result'' of None \<Rightarrow> v | Some x \<Rightarrow> x else v) | _ \<Rightarrow> v)"

definition stream_event_of ::
  "'w network \<Rightarrow> transport_binding \<Rightarrow> bool \<Rightarrow> http_response \<Rightarrow> nat \<Rightarrow> sse \<Rightarrow> stream_event" where
  "stream_event_of nw b unwrap resp i s = (let v = (case nw_loads nw (sse_data s) of None \<Rightarrow> JNull | Some x \<Rightarrow> x) in
     \<lparr>se_index = i, se_data = (if unwrap then unwrap_stream_event b v else v), se_status = Some (hr_status resp)\<rparr>)"

definition msg_not_a_stream :: "http_response \<Rightarrow> string" where
  "msg_not_a_stream resp = ''the SUT answered a streaming request with content type '' @
     repr_str (dict_lookup (hr_headers resp) ''content-type'' ''<none>'') @ '' instead of opening a stream''"

definition stream_accept :: string where
  "stream_accept = sse_content_type @ '', '' @ jsonrpc_content_type @ '', '' @ rest_content_type"

definition end_of_sse :: "sse_end \<Rightarrow> stream_end" where
  "end_of_sse e = (case e of
     Sse_closed \<Rightarrow> Closed | Sse_open \<Rightarrow> StillOpen
   | Sse_malformed m \<Rightarrow> Broken (MalformedResponse m) | Sse_broken m \<Rightarrow> Broken (DispatchError m))"

definition stream_request_of ::
  "'w network \<Rightarrow> http_dispatcher \<Rightarrow> string \<Rightarrow> string \<Rightarrow> body \<Rightarrow> (string, string) dict \<Rightarrow> bool \<Rightarrow> http_request" where
  "stream_request_of nw d verb path content headers defaults =
     \<lparr>rq_method = verb, rq_url = binding_url d path,
      rq_headers = merged_headers d headers (Some (content_type_of (hd_binding d))) (Some stream_accept) defaults,
      rq_query = [], rq_body = content\<rparr>"

definition stream_sse ::
  "'w network \<Rightarrow> http_dispatcher \<Rightarrow> http_request \<Rightarrow> bool \<Rightarrow> 'w \<Rightarrow> stream_source \<times> 'w" where
  "stream_sse nw d rq unwrap w = (case nw_stream nw rq w of
     (Inl e, w') \<Rightarrow> (([], Broken (DispatchError e)), w')
   | (Inr (resp, events, ending), w') \<Rightarrow>
       (if \<not> is_sse resp
        then (([], Refused (msg_not_a_stream resp) (wire_reply nw (binding_error_from d) resp)), w')
        else ((map (\<lambda>(i, s). stream_event_of nw (hd_binding d) unwrap resp i s) (List.enumerate 0 events),
               end_of_sse ending), w')))"

definition http_stream_raw ::
  "'w network \<Rightarrow> http_dispatcher \<Rightarrow> raw_block \<Rightarrow> (string, string) dict \<Rightarrow> 'w \<Rightarrow> stream_source \<times> 'w" where
  "http_stream_raw nw d raw headers = stream_sse nw d
     (stream_request_of nw d (rb_method raw) (rb_path raw) (raw_content nw raw) (raw_request_headers d raw headers) False)
     False"

definition msg_not_streaming :: "operation \<Rightarrow> string" where
  "msg_not_streaming oper = operation_value oper @ '' is not a streaming operation; use dispatch()''"

definition rpc_stream ::
  "'w network \<Rightarrow> http_dispatcher \<Rightarrow> operation \<Rightarrow> tree \<Rightarrow> (string, string) dict \<Rightarrow> 'w \<times> nat \<Rightarrow> stream_source \<times> 'w \<times> nat" where
  "rpc_stream nw d oper params headers = (\<lambda>(w, n).
     if \<not> ob_streaming (binding_for_operation oper) then (([], Broken (DispatchError (msg_not_streaming oper))), (w, n))
     else (case stream_sse nw d (stream_request_of nw d ''POST'' (hd_rpc_path d)
            (Text_body (nw_dumps nw (envelope (Suc n) oper params))) headers True) True w of
         (src, w') \<Rightarrow> (src, (w', Suc n))))"

definition rest_stream ::
  "'w network \<Rightarrow> http_dispatcher \<Rightarrow> operation \<Rightarrow> tree \<Rightarrow> (string, string) dict \<Rightarrow> 'w \<Rightarrow> stream_source \<times> 'w" where
  "rest_stream nw d oper params headers w =
     (if \<not> ob_streaming (binding_for_operation oper) then (([], Broken (DispatchError (msg_not_streaming oper))), w)
      else case split_params oper params of
        Inl e \<Rightarrow> (([], Broken e), w)
      | Inr (path, rest) \<Rightarrow> stream_sse nw d (stream_request_of nw d (ob_rest_method (binding_for_operation oper)) path
          (Text_body (nw_dumps nw (JObj rest))) headers True) True w)"

end
