(* ===== verification/Grpc.thy ===== *)
theory Grpc
  imports Dispatch
begin

section \<open>The gRPC dispatcher (acts/dispatcher/grpc.py)\<close>

text \<open>
  The gRPC stub, protobuf's JSON encoding and the decoding of a status trailer are operations of
  a channel; what a failed call carries is a record. The descriptors of the generated messages are
  a table of their fields: a message may contain itself, so the table is a function of the name
  and the recursion follows the JSON.
\<close>

subsection \<open>Required fields\<close>

datatype field_kind =
    Scalar
  | Map_entry
  | Message string bool

text \<open>\<open>Message name repeated\<close>; a map entry and a type of \<open>google.protobuf\<close> is never walked into.\<close>

record proto_field =
  pf_json_name :: string
  pf_required :: bool
  pf_kind_of :: field_kind

type_synonym descriptors = "string \<Rightarrow> proto_field list"

definition is_well_known :: "string \<Rightarrow> bool" where
  "is_well_known name = starts_with name ''google.protobuf.''"

definition walked_into :: "field_kind \<Rightarrow> (string \<times> bool) option" where
  "walked_into k = (case k of Message name rep \<Rightarrow> if is_well_known name then None else Some (name, rep) | _ \<Rightarrow> None)"

text \<open>Where the walk goes on under a key of a rendering.\<close>

definition nested_of :: "proto_field list \<Rightarrow> string \<Rightarrow> (string \<times> bool) option" where
  "nested_of fs k = (case find (\<lambda>f. pf_json_name f = k) fs of None \<Rightarrow> None | Some f \<Rightarrow> walked_into (pf_kind_of f))"

text \<open>The required fields that are missing from the lean rendering and printed in the full one.\<close>

definition missing_required :: "proto_field list \<Rightarrow> (string \<times> json) list \<Rightarrow> (string \<times> json) list \<Rightarrow> (string \<times> json) list" where
  "missing_required fs lean full = List.map_filter (\<lambda>f.
     if pf_required f \<and> map_of lean (pf_json_name f) = None
     then map_option (Pair (pf_json_name f)) (map_of full (pf_json_name f)) else None) fs"

text \<open>
  Python's zip stops at the shorter list and leaves the other items as they are. A field named in
  the descriptor is looked at once, so the members can be walked in their own order; restored
  members stand behind them.
\<close>

function (sequential) restore_required :: "descriptors \<Rightarrow> string \<Rightarrow> json \<Rightarrow> json \<Rightarrow> json"
  and restore_member :: "descriptors \<Rightarrow> (string \<times> bool) option \<Rightarrow> json \<Rightarrow> json \<Rightarrow> json"
  and restore_items :: "descriptors \<Rightarrow> string \<Rightarrow> json list \<Rightarrow> json list \<Rightarrow> json list"
  and restore_members ::
    "descriptors \<Rightarrow> proto_field list \<Rightarrow> (string \<times> json) list \<Rightarrow> (string \<times> json) list \<Rightarrow> (string \<times> json) list" where
  "restore_required ds name lean full = (case (lean, full) of
     (JObj d, JObj e) \<Rightarrow> JObj (restore_members ds (ds name) d e @ missing_required (ds name) d e)
   | _ \<Rightarrow> lean)"
| "restore_member ds nested v full = (case nested of
     None \<Rightarrow> v
   | Some (name, rep) \<Rightarrow>
       if \<not> rep then restore_required ds name v full
       else (case v of JArr xs \<Rightarrow> JArr (restore_items ds name xs (case full of JArr ys \<Rightarrow> ys | _ \<Rightarrow> [])) | _ \<Rightarrow> v))"
| "restore_items ds name [] ys = []"
| "restore_items ds name (x # xs) ys = (case ys of
     [] \<Rightarrow> x # xs
   | y # ys' \<Rightarrow> restore_required ds name x y # restore_items ds name xs ys')"
| "restore_members ds fs [] full = []"
| "restore_members ds fs ((k, v) # lean) full =
     (k, restore_member ds (nested_of fs k) v (get_json full k)) # restore_members ds fs lean full"
  by pat_completeness auto
termination
  by (relation "measures
    [\<lambda>x. case x of
         Inl (Inl (ds, n, v, f)) \<Rightarrow> size v | Inl (Inr (ds, n, v, f)) \<Rightarrow> size v
       | Inr (Inl (ds, n, xs, ys)) \<Rightarrow> size_list size xs
       | Inr (Inr (ds, fs, d, f)) \<Rightarrow> size_list (size_prod (\<lambda>_. 0) size) d,
     \<lambda>x. case x of Inl (Inr _) \<Rightarrow> 1 | _ \<Rightarrow> 0]") auto

subsection \<open>The channel\<close>

text \<open>
  \<open>Unpack\<close> gives an \<open>ErrorInfo\<close> its reason and its JSON rendering; any other detail is known by its
  type URL. A call is made, answered by a failure, or not made at all.
\<close>

datatype metadatum = Str_value string | Bytes_value string

datatype status_detail = Error_info_detail string json | Other_detail string

record rpc_failure =
  rf_code :: string
  rf_details :: "string option"
  rf_trailers :: "(string \<times> metadatum) list"

datatype 'm rpc_answer = Rpc_reply 'm | Rpc_failed rpc_failure | Rpc_not_made string

datatype rpc_end = Rpc_closed | Rpc_open | Rpc_died rpc_failure

record ('w, 'm) channel =
  ch_known :: "string \<Rightarrow> bool"
  ch_parse :: "string \<Rightarrow> tree \<Rightarrow> string + 'm"
  ch_type :: "'m \<Rightarrow> string"
  ch_lean :: "'m \<Rightarrow> json"
  ch_full :: "'m \<Rightarrow> json"
  ch_status :: "string \<Rightarrow> status_detail list option"
  ch_unary :: "string \<Rightarrow> 'm \<Rightarrow> (string \<times> string) list \<Rightarrow> 'w \<Rightarrow> 'm rpc_answer \<times> 'w"
  ch_stream :: "string \<Rightarrow> 'm \<Rightarrow> (string \<times> string) list \<Rightarrow> 'w \<Rightarrow> ('m list \<times> rpc_end) \<times> 'w"

record grpc_dispatcher =
  gd_target :: string
  gd_default_headers :: "(string, string) dict"
  gd_agent_card_url :: string

definition new_grpc_dispatcher :: "string \<Rightarrow> string option \<Rightarrow> (string, string) dict \<Rightarrow> grpc_dispatcher" where
  "new_grpc_dispatcher target card_url defaults =
     \<lparr>gd_target = target, gd_default_headers = defaults,
      gd_agent_card_url = stripped_slashes (case card_url of
        None \<Rightarrow> ''http://'' @ target | Some u \<Rightarrow> if u = [] then ''http://'' @ target else u)\<rparr>"

definition status_details_key :: string where "status_details_key = ''grpc-status-details-bin''"

definition to_dict :: "('w, 'm) channel \<Rightarrow> descriptors \<Rightarrow> 'm \<Rightarrow> json" where
  "to_dict ch ds m = restore_required ds (ch_type ch m) (ch_lean ch m) (ch_full ch m)"

subsection \<open>Requests\<close>

definition message_type :: "('w, 'm) channel \<Rightarrow> string \<Rightarrow> string result" where
  "message_type ch name = (if name = ''google.protobuf.Empty'' \<or> ch_known ch name then Ok name
     else Raise (DispatchError (''unknown protobuf message '' @ repr_str name)))"

definition metadata :: "grpc_dispatcher \<Rightarrow> (string, string) dict \<Rightarrow> (string \<times> string) list" where
  "metadata d headers = map (\<lambda>(k, v). (lower k, v)) (dict_merge (gd_default_headers d) headers)"

definition build_request :: "('w, 'm) channel \<Rightarrow> operation \<Rightarrow> tree \<Rightarrow> 'm result" where
  "build_request ch oper params = (let name = ob_grpc_request (binding_for_operation oper) in
     rbind (message_type ch name) (\<lambda>t. case ch_parse ch t (adapt oper params) of
       Inl e \<Rightarrow> Raise (DispatchError (operation_value oper @ '': params do not fit '' @ name @ '': '' @ e))
     | Inr m \<Rightarrow> Ok m))"

definition grpc_service :: string where "grpc_service = ''lf.a2a.v1.A2AService''"

definition grpc_path :: "operation \<Rightarrow> string" where
  "grpc_path oper = CHR ''/'' # grpc_service @ ''/'' @ ob_grpc_method (binding_for_operation oper)"

text \<open>The callable of an operation is typed by both its messages.\<close>

definition rpc_callable :: "('w, 'm) channel \<Rightarrow> operation \<Rightarrow> string result" where
  "rpc_callable ch oper = (let b = binding_for_operation oper in
     rbind (message_type ch (ob_grpc_request b)) (\<lambda>_.
     rbind (message_type ch (ob_grpc_response b)) (\<lambda>_. Ok (grpc_path oper))))"

definition grpc_request :: "('w, 'm) channel \<Rightarrow> operation \<Rightarrow> tree \<Rightarrow> (string \<times> 'm) result" where
  "grpc_request ch oper params =
     rbind (build_request ch oper params) (\<lambda>m. rbind (rpc_callable ch oper) (\<lambda>path. Ok (path, m)))"

subsection \<open>Errors\<close>

definition is_bytes :: "metadatum \<Rightarrow> bool" where
  "is_bytes v = (case v of Bytes_value b \<Rightarrow> True | Str_value s \<Rightarrow> False)"

definition details_blob :: "(string \<times> metadatum) list \<Rightarrow> string option" where
  "details_blob trailers = (case find (\<lambda>(k, v). k = status_details_key \<and> is_bytes v) trailers of
     Some (_, Bytes_value b) \<Rightarrow> Some b | _ \<Rightarrow> None)"

fun first_reason :: "string \<Rightarrow> status_detail list \<Rightarrow> string" where
  "first_reason reason [] = reason"
| "first_reason reason (Error_info_detail r v # ds) = first_reason (if reason \<noteq> [] then reason else r) ds"
| "first_reason reason (Other_detail u # ds) = first_reason reason ds"

definition detail_json :: "status_detail \<Rightarrow> json" where
  "detail_json d = (case d of Error_info_detail r v \<Rightarrow> v | Other_detail u \<Rightarrow> JObj [(''@type'', JStr u)])"

definition reason_from_trailers :: "('w, 'm) channel \<Rightarrow> rpc_failure \<Rightarrow> string option \<times> json list" where
  "reason_from_trailers ch e = (case details_blob (rf_trailers e) of
     None \<Rightarrow> (None, [])
   | Some blob \<Rightarrow> (case ch_status ch blob of
       None \<Rightarrow> (None, [])
     | Some ds \<Rightarrow> (let r = first_reason [] ds in (if r = [] then None else Some r, map detail_json ds))))"

definition text_trailers :: "(string \<times> metadatum) list \<Rightarrow> (string, string) dict" where
  "text_trailers trailers = dict_merge [] (List.map_filter (\<lambda>(k, v).
     case v of Str_value s \<Rightarrow> Some (k, s) | Bytes_value b \<Rightarrow> None) trailers)"

definition response_from_rpc_error :: "('w, 'm) channel \<Rightarrow> rpc_failure \<Rightarrow> wire_response" where
  "response_from_rpc_error ch e = (let info = reason_from_trailers ch e in
     \<lparr>wr_status = http_status_for_grpc (rf_code e), wr_payload = JNull,
      wr_error = Some \<lparr>we_message = (case rf_details e of None \<Rightarrow> [] | Some s \<Rightarrow> s),
        we_error_type = named_by_reason (fst info), we_jsonrpc_code = None, we_status = Some (rf_code e),
        we_reason = fst info, we_details = snd info\<rparr>,
      wr_headers = text_trailers (rf_trailers e)\<rparr>)"

subsection \<open>Calls\<close>

definition grpc_agent_card ::
  "'w network \<Rightarrow> grpc_dispatcher \<Rightarrow> (string, string) dict \<Rightarrow> ('w, wire_response) state_result" where
  "grpc_agent_card nw d headers = st_bind (send_request nw
       (plain_get (gd_agent_card_url d @ well_known_agent_card_path) (dict_merge (gd_default_headers d) headers)))
     (\<lambda>resp. st_return (wire_reply nw http_status_error resp))"

definition msg_streaming :: "operation \<Rightarrow> string" where
  "msg_streaming oper = operation_value oper @ '' is a streaming operation; use stream()''"

definition unary_call ::
  "('w, 'm) channel \<Rightarrow> descriptors \<Rightarrow> string \<Rightarrow> 'm \<Rightarrow> (string \<times> string) list \<Rightarrow> ('w, wire_response) state_result" where
  "unary_call ch ds path m md w = (case ch_unary ch path m md w of
     (Rpc_reply r, w') \<Rightarrow> (Ok \<lparr>wr_status = 200, wr_payload = to_dict ch ds r, wr_error = None, wr_headers = []\<rparr>, w')
   | (Rpc_failed e, w') \<Rightarrow> (Ok (response_from_rpc_error ch e), w')
   | (Rpc_not_made m, w') \<Rightarrow> (Raise (DispatchError (''gRPC call failed: '' @ m)), w'))"

definition grpc_dispatch ::
  "('w, 'm) channel \<Rightarrow> descriptors \<Rightarrow> 'w network \<Rightarrow> grpc_dispatcher \<Rightarrow> operation \<Rightarrow> tree \<Rightarrow> (string, string) dict \<Rightarrow>
     ('w, wire_response) state_result" where
  "grpc_dispatch ch ds nw d oper0 params headers =
     (let oper = resolve_operation oper0 (Some params); b = binding_for_operation oper in
      if ob_http_only b then grpc_agent_card nw d headers
      else if ob_streaming b then st_raise (DispatchError (msg_streaming oper))
      else st_bind (st_lift (grpc_request ch oper params))
        (\<lambda>(path, m). unary_call ch ds path m (metadata d headers)))"

text \<open>A raw block has no form on gRPC; \<open>UnsupportedByBinding\<close> is a \<open>DispatchError\<close>.\<close>

definition msg_no_raw :: string where
  "msg_no_raw = ''gRPC has no raw-request form; a test built from `raw` steps must declare `transport: [jsonrpc]` or `[rest]` (ACTS '' @ [CHR 0xA7] @ ''4.4)''"

definition msg_no_raw_stream :: string where
  "msg_no_raw_stream = ''gRPC has no raw-request form, streaming or otherwise (ACTS '' @ [CHR 0xA7] @ ''4.4)''"

definition grpc_dispatch_raw :: "raw_block \<Rightarrow> (string, string) dict \<Rightarrow> ('w, wire_response) state_result" where
  "grpc_dispatch_raw raw headers = st_raise (DispatchError msg_no_raw)"

definition grpc_stream_raw :: "raw_block \<Rightarrow> (string, string) dict \<Rightarrow> stream_source" where
  "grpc_stream_raw raw headers = ([], Broken (DispatchError msg_no_raw_stream))"

definition failure_text :: "rpc_failure \<Rightarrow> string" where
  "failure_text e = rf_code e @ '': '' @ (case rf_details e of None \<Rightarrow> ''None'' | Some s \<Rightarrow> s)"

definition end_of_rpc :: "('w, 'm) channel \<Rightarrow> nat \<Rightarrow> rpc_end \<Rightarrow> stream_end" where
  "end_of_rpc ch n e = (case e of
     Rpc_closed \<Rightarrow> Closed | Rpc_open \<Rightarrow> StillOpen
   | Rpc_died f \<Rightarrow> (if n = 0
       then Refused (''the SUT refused the stream: '' @ failure_text f) (response_from_rpc_error ch f)
       else Broken (DispatchError (''stream failed after '' @ show_nat n @ '' event(s): '' @ failure_text f))))"

definition grpc_stream ::
  "('w, 'm) channel \<Rightarrow> descriptors \<Rightarrow> grpc_dispatcher \<Rightarrow> operation \<Rightarrow> tree \<Rightarrow> (string, string) dict \<Rightarrow> 'w \<Rightarrow> stream_source \<times> 'w" where
  "grpc_stream ch ds d oper params headers w =
     (if \<not> ob_streaming (binding_for_operation oper) then (([], Broken (DispatchError (msg_not_streaming oper))), w)
      else case grpc_request ch oper params of
        Inl e \<Rightarrow> (([], Broken e), w)
      | Inr (path, m) \<Rightarrow> (case ch_stream ch path m (metadata d headers) w of
          ((messages, ending), w') \<Rightarrow>
            ((map (\<lambda>(i, x). \<lparr>se_index = i, se_data = to_dict ch ds x, se_status = None\<rparr>) (List.enumerate 0 messages),
              end_of_rpc ch (length messages) ending), w')))"

end
