(* ===== verification/DispatchClaims.thy ===== *)
theory DispatchClaims
  imports Grpc RunnerStreams
begin

section \<open>What the dispatchers guarantee\<close>

text \<open>
  The three bindings give the runner the same things: errors under the same names, streams whose
  events are numbered from zero and that are refused only while they are empty, and responses
  whose required fields are there. What a request carries is stated for the headers.
\<close>

subsection \<open>Errors\<close>

definition wire_error_name :: "wire_error option \<Rightarrow> string option" where
  "wire_error_name e = (case e of None \<Rightarrow> None | Some x \<Rightarrow> we_error_type x)"

lemma error_for_reason_of:
  assumes "binding_for_error e = Some b" "er_reason b = Some r"
  shows "error_for_reason r' = Some e \<longleftrightarrow> r' = r"
  using assms by (auto simp: error_for_reason_iff)

lemma reasons_are_not_empty: "binding_for_error e = Some b \<Longrightarrow> er_reason b \<noteq> Some []"
proof -
  assume "binding_for_error e = Some b"
  then have "(e, b) \<in> set error_table" by (simp add: binding_for_error_def map_of_SomeD)
  moreover have "list_all (\<lambda>(e, b). er_reason b \<noteq> Some []) error_table" by code_simp
  ultimately show ?thesis by (auto simp: list_all_iff)
qed

lemma named_by_reason_iff:
  assumes "binding_for_error e = Some b" "er_reason b = Some r"
  shows "named_by_reason x = Some e \<longleftrightarrow> x = Some r"
  using assms reasons_are_not_empty [OF assms(1)]
  by (auto simp: named_by_reason_def error_for_reason_of split: option.splits)

lemma error_for_code_of:
  assumes "binding_for_error e = Some b"
  shows "error_for_jsonrpc_code n = Some e \<longleftrightarrow> n = er_jsonrpc_code b"
  using assms by (auto simp: error_for_jsonrpc_code_iff)

text \<open>
  C16: an error of the A2A specification has the same name on every binding, and no other error
  has it. An answer carrying an error document is given the name \<open>e\<close> by the JSON-RPC dispatcher
  exactly when its code is that of \<open>e\<close>, by the REST dispatcher exactly when its \<open>ErrorInfo\<close> holds
  the reason of \<open>e\<close>, and a failed call is given it by the gRPC dispatcher exactly when its status
  trailer holds that reason; the status derived from the gRPC status of \<open>e\<close> is then the one REST
  answers \<open>e\<close> with.
\<close>

theorem same_error_on_every_binding:
  assumes row: "binding_for_error e = Some b" "er_reason b = Some r"
    and doc: "map_of d ''error'' = Some (JObj err)" and failed: "400 \<le> hr_status resp"
  shows "(wire_error_name (rpc_error_from any (JObj d)) = Some e \<longleftrightarrow>
      int_code (get_json err ''code'') = Some (er_jsonrpc_code b)) \<and>
    (wire_error_name (rest_error_from resp (JObj d)) = Some e \<longleftrightarrow>
      fst (error_info (get_json err ''details'')) = Some r) \<and>
    (wire_error_name (wr_error (response_from_rpc_error ch f)) = Some e \<longleftrightarrow>
      fst (reason_from_trailers ch f) = Some r) \<and>
    (er_grpc_status b = Some (rf_code f) \<longrightarrow>
      er_http_status b = Some (wr_status (response_from_rpc_error ch f)))"
proof (intro conjI impI)
  show "wire_error_name (rpc_error_from any (JObj d)) = Some e \<longleftrightarrow>
      int_code (get_json err ''code'') = Some (er_jsonrpc_code b)"
    by (cases "int_code (get_json err ''code'')")
       (auto simp: rpc_error_from_def doc wire_error_name_def Let_def error_for_code_of [OF row(1)])
  show "wire_error_name (rest_error_from resp (JObj d)) = Some e \<longleftrightarrow>
      fst (error_info (get_json err ''details'')) = Some r"
    using failed by (simp add: rest_error_from_def doc wire_error_name_def Let_def named_by_reason_iff [OF row])
  show "wire_error_name (wr_error (response_from_rpc_error ch f)) = Some e \<longleftrightarrow>
      fst (reason_from_trailers ch f) = Some r"
    by (simp add: response_from_rpc_error_def wire_error_name_def Let_def named_by_reason_iff [OF row])
  show "er_http_status b = Some (wr_status (response_from_rpc_error ch f))"
    if "er_grpc_status b = Some (rf_code f)"
    using error_row_cases [OF row(1)] that by (simp add: response_from_rpc_error_def Let_def)
qed

subsection \<open>Streams\<close>

lemma pump_events:
  "fst (pump limit n es) = map (\<lambda>e. normalize (se_data e) (se_index e))
     (take (case limit of None \<Rightarrow> length es | Some l \<Rightarrow> max 1 (l - n)) es)"
proof (induction es arbitrary: n)
  case (Cons e es)
  show ?case
  proof (cases limit)
    case (Some l)
    have "l - n = Suc (l - Suc n)" if "\<not> l \<le> n + 1" using that by simp
    moreover have "max 1 (l - Suc n) = l - Suc n" if "\<not> l \<le> n + 1" using that by simp
    ultimately show ?thesis using Cons [of "n + 1"] Some by (auto simp: case_prod_unfold max_def take_Cons')
  qed (use Cons [of "n + 1"] in \<open>simp add: case_prod_unfold\<close>)
qed simp

lemma ev_index_normalize [simp]: "ev_index (normalize v i) = i"
  by (auto simp: normalize_def Let_def split: list.split prod.split option.split)

lemma pump_unbounded [simp]: "\<not> snd (pump None n es)"
  by (induction es arbitrary: n) (simp_all add: case_prod_unfold)

lemma collect_events:
  assumes "collect r block disconnect src = Inr (events, status, timed_out)"
  shows "events = fst (pump (event_limit block disconnect) 0 (fst src))"
  using assms
  by (auto simp: collect_def Let_def hang_up_def case_prod_unfold split: if_splits stream_end.splits option.splits)

lemma collect_not_opened:
  assumes "collect r block disconnect src = Inl (NotOpened m resp)"
  shows "snd src = Refused m resp"
  using assms
  by (auto simp: collect_def Let_def hang_up_def case_prod_unfold split: if_splits stream_end.splits option.splits)

text \<open>
  What the runner relies on in the \<open>stream\<close> of a dispatcher: the events of a source are numbered
  from zero, and a refusal stands in place of a stream.
\<close>

locale stream_provider =
  fixes opens :: "'q \<Rightarrow> 'w \<Rightarrow> stream_source \<times> 'w"
  assumes numbered: "map se_index (fst (fst (opens q w))) = [0..<length (fst (fst (opens q w)))]"
    and refused: "snd (fst (opens q w)) = Refused m resp \<Longrightarrow> fst (fst (opens q w)) = []"
begin

lemma collected:
  assumes "collect r block disconnect (fst (opens q w)) = Inr (events, status, timed_out)"
  shows "events = map (\<lambda>(i, e). normalize (se_data e) i)
      (List.enumerate 0 (take (case event_limit block disconnect of
         None \<Rightarrow> length (fst (fst (opens q w))) | Some l \<Rightarrow> max 1 l) (fst (fst (opens q w)))))"
proof -
  let ?es = "fst (fst (opens q w))"
  have "se_index (?es ! i) = i" if "i < length ?es" for i
    using numbered [of q w] that by (metis add_0 diff_zero length_upt nth_map nth_upt)
  then have "map (\<lambda>e. normalize (se_data e) (se_index e)) (take k ?es) =
      map (\<lambda>(i, e). normalize (se_data e) i) (List.enumerate 0 (take k ?es))" for k
    by (intro nth_equalityI) (simp_all add: nth_enumerate_eq)
  then show ?thesis
    using collect_events [OF assms] by (simp add: pump_events split: option.split)
qed

lemma not_opened:
  assumes "collect r block disconnect (fst (opens q w)) = Inl (NotOpened m resp)"
  shows "fst (fst (opens q w)) = []"
  using refused collect_not_opened [OF assms] by blast

end

lemma stream_sse_numbered:
  "map se_index (fst (fst (stream_sse nw d rq unwrap w))) = [0..<length (fst (fst (stream_sse nw d rq unwrap w)))]"
  by (auto simp: stream_sse_def stream_event_of_def Let_def comp_def case_prod_unfold enumerate_eq_zip
      split: sum.splits prod.splits)

lemma stream_sse_refused:
  "snd (fst (stream_sse nw d rq unwrap w)) = Refused m resp \<Longrightarrow> fst (fst (stream_sse nw d rq unwrap w)) = []"
  by (auto simp: stream_sse_def end_of_sse_def split: sum.splits prod.splits if_splits sse_end.splits)

lemma rpc_stream_source:
  "fst (rpc_stream nw d oper params headers (w, n)) = (if ob_streaming (binding_for_operation oper)
     then fst (stream_sse nw d (stream_request_of nw d ''POST'' (hd_rpc_path d)
       (Text_body (nw_dumps nw (envelope (Suc n) oper params))) headers True) True w)
     else ([], Broken (DispatchError (msg_not_streaming oper))))"
  by (simp add: rpc_stream_def split: prod.split)

interpretation rpc_streams: stream_provider "\<lambda>(oper, params, headers). rpc_stream nw d oper params headers" for nw d
  by unfold_locales (auto simp: rpc_stream_source stream_sse_numbered stream_sse_refused split: if_splits)

interpretation rest_streams: stream_provider "\<lambda>(oper, params, headers). rest_stream nw d oper params headers" for nw d
  by unfold_locales
     (auto simp: rest_stream_def stream_sse_numbered stream_sse_refused split: if_splits sum.splits)

interpretation raw_streams: stream_provider "\<lambda>(raw, headers). http_stream_raw nw d raw headers" for nw d
  by unfold_locales (auto simp: http_stream_raw_def stream_sse_numbered stream_sse_refused)

interpretation grpc_streams: stream_provider "\<lambda>(oper, params, headers). grpc_stream ch ds d oper params headers" for ch ds d
  by unfold_locales
     (auto simp: grpc_stream_def comp_def case_prod_unfold enumerate_eq_zip end_of_rpc_def
       split: if_splits sum.splits prod.splits rpc_end.splits)

text \<open>
  What the runner reads of a stream is numbered, whatever the binding. A source opened by
  the JSON-RPC, the REST or the gRPC dispatcher, or by a raw block, that is read to an end gives
  the first events the SUT sent, at most one more than the step allows and never none when there
  is one, numbered from zero in the order of arrival; and a source reported as refused has sent
  no event.
\<close>

theorem collected_events_are_numbered:
  assumes src: "src \<in> {fst (rpc_stream nw d oper params headers (w, n)), fst (rest_stream nw d oper params headers w),
      fst (grpc_stream ch ds g oper params headers w), fst (http_stream_raw nw d raw headers w)}"
  shows "(collect r block disconnect src = Inr (events, status, timed_out) \<longrightarrow>
      events = map (\<lambda>(i, e). normalize (se_data e) i) (List.enumerate 0
        (take (case event_limit block disconnect of None \<Rightarrow> length (fst src) | Some l \<Rightarrow> max 1 l) (fst src)))) \<and>
    (collect r block disconnect src = Inl (NotOpened m resp) \<longrightarrow> fst src = [])"
proof (intro conjI impI)
  note streams =
    rpc_streams.collected [where q = "(oper, params, headers)"] rest_streams.collected [where q = "(oper, params, headers)"]
    grpc_streams.collected [where q = "(oper, params, headers)"] raw_streams.collected [where q = "(raw, headers)"]
    rpc_streams.not_opened [where q = "(oper, params, headers)"] rest_streams.not_opened [where q = "(oper, params, headers)"]
    grpc_streams.not_opened [where q = "(oper, params, headers)"] raw_streams.not_opened [where q = "(raw, headers)"]
  show "events = map (\<lambda>(i, e). normalize (se_data e) i) (List.enumerate 0
      (take (case event_limit block disconnect of None \<Rightarrow> length (fst src) | Some l \<Rightarrow> max 1 l) (fst src)))"
    if "collect r block disconnect src = Inr (events, status, timed_out)"
    using src that streams by fastforce
  show "fst src = []" if "collect r block disconnect src = Inl (NotOpened m resp)"
    using src that streams by fastforce
qed

subsection \<open>Headers\<close>

lemma map_of_set_header:
  "map_of (set_header k v hs) x = (if x = k \<and> v \<notin> {None, Some []} then v else map_of hs x)"
  by (auto simp: set_header_def update_conv split: option.splits)

text \<open>
  A header of a step replaces the dispatcher's own only when both are spelled alike. Every
  header of a step is sent with its value on every binding; the media type of the binding is
  sent as well whenever the step does not spell the name \<open>Content-Type\<close>, so a step that sets
  \<open>content-type\<close> sends both; and on gRPC, whose names are lowercased after the merge, a default
  in another case is sent beside the step's value under the same name.
\<close>

theorem step_header_wins_by_spelling:
  assumes hs: "distinct (map fst headers)" "map_of headers k = Some v"
  shows "map_of (rq_headers (rpc_request d i oper params headers)) k = Some v \<and>
    map_of (rq_headers (rest_request d verb path members headers)) k = Some v \<and>
    (lower k, v) \<in> set (metadata g headers) \<and>
    (map_of headers ''Content-Type'' = None \<longrightarrow>
      map_of (rq_headers (rpc_request d i oper params headers)) ''Content-Type'' = Some jsonrpc_content_type \<and>
      map_of (rq_headers (rest_request d verb path members headers)) ''Content-Type'' = Some rest_content_type) \<and>
    (map_of (gd_default_headers g) k' = Some v' \<and> map_of headers k' = None \<and> lower k' = lower k \<longrightarrow>
      {(lower k, v'), (lower k, v)} \<subseteq> set (metadata g headers))"
proof -
  have rev: "map_of (rev headers) = map_of headers"
    using hs(1) by (subst map_of_inject_set) (simp_all flip: rev_map)
  have sent: "map_of (dict_merge ds headers) k = Some v" for ds
    by (simp add: map_of_dict_merge rev hs(2))
  have one: "map_of (rq_headers (rpc_request d i oper params headers)) k = Some v"
    "map_of (rq_headers (rest_request d verb path members headers)) k = Some v"
    by (simp_all add: rpc_request_def rest_request_def merged_headers_def Let_def sent)
  have md: "(lower k, v) \<in> set (metadata g headers)"
    using map_of_SomeD [OF sent] by (force simp: metadata_def)
  have ct: "map_of (rq_headers (rpc_request d i oper params headers)) ''Content-Type'' = Some jsonrpc_content_type \<and>
      map_of (rq_headers (rest_request d verb path members headers)) ''Content-Type'' = Some rest_content_type"
    if "map_of headers ''Content-Type'' = None"
    using that
    by (simp add: rpc_request_def rest_request_def merged_headers_def Let_def map_of_dict_merge rev
        map_of_set_header jsonrpc_content_type_def rest_content_type_def)
  have both: "{(lower k, v'), (lower k, v)} \<subseteq> set (metadata g headers)"
    if "map_of (gd_default_headers g) k' = Some v'" "map_of headers k' = None" "lower k' = lower k"
  proof -
    have "map_of (dict_merge (gd_default_headers g) headers) k' = Some v'"
      using that by (simp add: map_of_dict_merge rev)
    from map_of_SomeD [OF this] md show ?thesis using that(3) by (force simp: metadata_def)
  qed
  from one md ct both show ?thesis by blast
qed

text \<open>
  A raw block is sent as written when its step is unary, but not when it streams. The unary
  request holds the block's method, the block's headers over those of the caller, its literal
  body, and none of the dispatcher's defaults; the streamed request of the same block also holds
  a \<open>Content-Type\<close> and an \<open>Accept\<close> that neither gave.
\<close>

theorem raw_stream_adds_media_types:
  assumes "map_of (rev headers) ''Content-Type'' = None" "map_of (rev headers) ''Accept'' = None"
    "rb_headers raw = Some hs" "map_of (rev hs) ''Content-Type'' = None" "map_of (rev hs) ''Accept'' = None"
    and rq: "rq = stream_request_of nw d (rb_method raw) (rb_path raw) (raw_content nw raw)
      (raw_request_headers d raw headers) False"
  shows "http_stream_raw nw d raw headers = stream_sse nw d rq False"
    "map_of (rq_headers (raw_request nw d raw headers)) k =
      (case map_of (rev hs) k of Some v \<Rightarrow> Some v | None \<Rightarrow> map_of (rev headers) k)"
    "map_of (rq_headers rq) ''Content-Type'' = Some (content_type_of (hd_binding d))"
    "map_of (rq_headers rq) ''Accept'' = Some stream_accept"
    "rq_body (raw_request nw d raw headers) = rq_body rq" "rq_url (raw_request nw d raw headers) = rq_url rq"
proof -
  have raw_hs: "map_of (raw_request_headers d raw headers) k =
      (case map_of (rev hs) k of Some v \<Rightarrow> Some v | None \<Rightarrow> map_of (rev headers) k)" for k
    using assms(3)
    by (simp add: raw_request_headers_def merged_headers_def set_header_def map_of_dict_merge split: option.split)
  show "map_of (rq_headers (raw_request nw d raw headers)) k =
      (case map_of (rev hs) k of Some v \<Rightarrow> Some v | None \<Rightarrow> map_of (rev headers) k)"
    by (simp add: raw_request_def raw_hs)
  have "''Content-Type'' \<notin> fst ` set (raw_request_headers d raw headers)"
    "''Accept'' \<notin> fst ` set (raw_request_headers d raw headers)"
    using assms raw_hs by (simp_all flip: map_of_eq_None_iff)
  then have "map_of (rev (raw_request_headers d raw headers)) ''Content-Type'' = None"
    "map_of (rev (raw_request_headers d raw headers)) ''Accept'' = None"
    by (simp_all add: map_of_eq_None_iff)
  then show "map_of (rq_headers rq) ''Content-Type'' = Some (content_type_of (hd_binding d))"
    "map_of (rq_headers rq) ''Accept'' = Some stream_accept"
    by (simp_all add: rq stream_request_of_def merged_headers_def Let_def map_of_dict_merge map_of_set_header
        content_type_of_def rest_content_type_def jsonrpc_content_type_def stream_accept_def)
qed (simp_all add: http_stream_raw_def raw_request_def stream_request_of_def rq)

subsection \<open>Required fields\<close>

text \<open>Where a rendering is walked to, and the message type the descriptors give there.\<close>

type_synonym json_path = "(string + nat) list"

fun at_path :: "json \<Rightarrow> json_path \<Rightarrow> json option" where
  "at_path v [] = Some v"
| "at_path v (Inl k # p) = (case v of
     JObj d \<Rightarrow> (case map_of d k of None \<Rightarrow> None | Some x \<Rightarrow> at_path x p) | _ \<Rightarrow> None)"
| "at_path v (Inr i # p) = (case v of
     JArr xs \<Rightarrow> (if i < length xs then at_path (xs ! i) p else None) | _ \<Rightarrow> None)"

fun type_at :: "descriptors \<Rightarrow> string \<Rightarrow> json_path \<Rightarrow> string option" where
  "type_at ds name [] = Some name"
| "type_at ds name (Inr i # p) = None"
| "type_at ds name [Inl k] = (case nested_of (ds name) k of Some (m, False) \<Rightarrow> Some m | _ \<Rightarrow> None)"
| "type_at ds name (Inl k # Inl k' # p) = (case nested_of (ds name) k of
     Some (m, False) \<Rightarrow> type_at ds m (Inl k' # p) | _ \<Rightarrow> None)"
| "type_at ds name (Inl k # Inr i # p) = (case nested_of (ds name) k of
     Some (m, True) \<Rightarrow> type_at ds m p | _ \<Rightarrow> None)"

declare restore_required.simps [simp del] and restore_member.simps [simp del]

lemma map_of_restore_members:
  "map_of (restore_members ds fs lean full) k =
     map_option (\<lambda>v. restore_member ds (nested_of fs k) v (get_json full k)) (map_of lean k)"
  by (induction lean) auto

lemma length_restore_items [simp]: "length (restore_items ds name xs ys) = length xs"
  by (induction xs arbitrary: ys) (auto split: list.split)

lemma nth_restore_items:
  "i < length xs \<Longrightarrow> i < length ys \<Longrightarrow> restore_items ds name xs ys ! i = restore_required ds name (xs ! i) (ys ! i)"
  by (induction xs arbitrary: ys i) (auto simp: nth_Cons split: list.split nat.split)

definition is_required :: "proto_field list \<Rightarrow> string \<Rightarrow> bool" where
  "is_required fs k = (\<exists>f \<in> set fs. pf_json_name f = k \<and> pf_required f)"

lemma map_of_missing_required:
  "map_of (missing_required fs lean full) k =
     (if map_of lean k = None \<and> is_required fs k then map_of full k else None)"
proof (induction fs)
  case (Cons f fs)
  then show ?case
    by (cases "map_of full k"; cases "map_of full (pf_json_name f)"; cases "pf_json_name f = k")
       (simp_all add: missing_required_def is_required_def List.map_filter_simps)
qed (simp add: missing_required_def is_required_def List.map_filter_simps)

lemma restore_objects: "map_of (restore_members ds (ds name) d e @ missing_required (ds name) d e) k =
    (case map_of d k of
       Some v \<Rightarrow> Some (restore_member ds (nested_of (ds name) k) v (get_json e k))
     | None \<Rightarrow> if is_required (ds name) k then map_of e k else None)"
  by (simp add: map_add_def map_of_restore_members map_of_missing_required split: option.split)

lemma at_path_key:
  "at_path v (Inl k # p) = Some x \<longleftrightarrow> (\<exists>d y. v = JObj d \<and> map_of d k = Some y \<and> at_path y p = Some x)"
  by (auto split: json.splits option.splits)

lemma at_path_index:
  "at_path v (Inr i # p) = Some x \<longleftrightarrow> (\<exists>xs. v = JArr xs \<and> i < length xs \<and> at_path (xs ! i) p = Some x)"
  by (auto split: json.splits)

lemma restore_key:
  assumes "map_of d k = Some x" "map_of e k = Some y" "nested_of (ds name) k = Some (m, rep)"
  shows "at_path (restore_required ds name (JObj d) (JObj e)) (Inl k # p) =
    at_path (restore_member ds (Some (m, rep)) x y) p"
  using assms by (simp add: restore_required.simps restore_objects get_json_def dict_lookup_def del: map_of_append)

lemma restore_at:
  assumes "type_at ds name p = Some m" "at_path lean p = Some v" "at_path full p = Some w"
  shows "at_path (restore_required ds name lean full) p = Some (restore_required ds m v w)"
  using assms
proof (induction ds name p arbitrary: lean full rule: type_at.induct)
  case (3 ds name k)
  from 3(1) have n: "nested_of (ds name) k = Some (m, False)" by (auto split: option.splits prod.splits bool.splits)
  from 3(2,3) obtain d e where "lean = JObj d" "map_of d k = Some v" "full = JObj e" "map_of e k = Some w"
    unfolding at_path_key by auto
  with n restore_key [of d k v e w ds name m False "[]"] show ?case
    by (simp add: restore_member.simps del: at_path.simps(2))
next
  case (4 ds name k k' p)
  from 4(2) obtain m' where n: "nested_of (ds name) k = Some (m', False)" "type_at ds m' (Inl k' # p) = Some m"
    by (auto split: option.splits prod.splits bool.splits)
  from 4(3,4) obtain d x e y where "lean = JObj d" "map_of d k = Some x" "at_path x (Inl k' # p) = Some v"
    "full = JObj e" "map_of e k = Some y" "at_path y (Inl k' # p) = Some w"
    unfolding at_path_key [of _ k] by auto
  with n 4(1) [of "(m', False)" m' False] restore_key [of d k x e y ds name m' False "Inl k' # p"] show ?case
    by (simp add: restore_member.simps del: at_path.simps(2))
next
  case (5 ds name k i p)
  from 5(2) obtain m' where n: "nested_of (ds name) k = Some (m', True)" "type_at ds m' p = Some m"
    by (auto split: option.splits prod.splits bool.splits)
  from 5(3,4) obtain d xs e ys where "lean = JObj d" "map_of d k = Some (JArr xs)" "i < length xs"
    "at_path (xs ! i) p = Some v" "full = JObj e" "map_of e k = Some (JArr ys)" "i < length ys" "at_path (ys ! i) p = Some w"
    unfolding at_path_key at_path_index by auto
  with n 5(1) [of "(m', True)" m' True] restore_key [of d k "JArr xs" e "JArr ys" ds name m' True "Inr i # p"] show ?case
    by (simp add: restore_member.simps nth_restore_items del: at_path.simps(2))
qed simp_all

text \<open>
  C26: a gRPC response holds its required fields and no default besides. Wherever both renderings
  of a message have an object of message type \<open>m\<close>, at any depth and inside repeated fields, the
  payload has an object there with the keys of the lean rendering and those of the required
  fields of \<open>m\<close> that the full rendering prints; what was put back has the value printed in full,
  and a member that is no message keeps its lean value.
\<close>

theorem required_fields_are_restored:
  assumes "type_at ds (ch_type ch msg) p = Some m"
    and "at_path (ch_lean ch msg) p = Some (JObj d)" "at_path (ch_full ch msg) p = Some (JObj e)"
  shows "\<exists>d'. at_path (to_dict ch ds msg) p = Some (JObj d') \<and>
      (\<forall>k. map_of d' k = None \<longleftrightarrow> map_of d k = None \<and> (is_required (ds m) k \<longrightarrow> map_of e k = None)) \<and>
      (\<forall>k. map_of d k = None \<longrightarrow> map_of d' k \<in> {None, map_of e k}) \<and>
      (\<forall>k v. map_of d k = Some v \<longrightarrow> nested_of (ds m) k = None \<longrightarrow> map_of d' k = Some v)"
proof -
  have "at_path (to_dict ch ds msg) p = Some (JObj (restore_members ds (ds m) d e @ missing_required (ds m) d e))"
    using restore_at [OF assms] by (simp add: to_dict_def restore_required.simps)
  then show ?thesis
    by (auto simp: restore_objects restore_member.simps simp del: map_of_append split: option.split)
qed

subsection \<open>Concrete bindings\<close>

text \<open>Messages given by their type and their two renderings, on a channel that fails every call.\<close>

definition sample_channel :: "(nat, string \<times> json \<times> json) channel" where
  "sample_channel = \<lparr>ch_known = (\<lambda>_. True), ch_parse = (\<lambda>t d. Inr (t, JObj d, JObj d)), ch_type = fst,
     ch_lean = fst \<circ> snd, ch_full = snd \<circ> snd,
     ch_status = (\<lambda>blob. Some [Error_info_detail blob (JObj [(''reason'', JStr blob)])]),
     ch_unary = (\<lambda>path m md w. (Rpc_not_made ''closed'', w)),
     ch_stream = (\<lambda>path m md w. ((replicate 3 m, Rpc_open), w))\<rparr>"

definition sample_failure :: rpc_failure where
  "sample_failure = \<lparr>rf_code = ''NOT_FOUND'', rf_details = None,
     rf_trailers = [(''x'', Str_value ''1''), (status_details_key, Bytes_value ''TASK_NOT_FOUND'')]\<rparr>"

definition sample_descriptors :: descriptors where
  "sample_descriptors name = (if name = ''ListTasksResponse''
     then [\<lparr>pf_json_name = ''nextPageToken'', pf_required = True, pf_kind_of = Scalar\<rparr>,
           \<lparr>pf_json_name = ''tasks'', pf_required = True, pf_kind_of = Message ''Task'' True\<rparr>]
     else [\<lparr>pf_json_name = ''id'', pf_required = True, pf_kind_of = Scalar\<rparr>,
           \<lparr>pf_json_name = ''history'', pf_required = False, pf_kind_of = Message ''Message'' True\<rparr>])"

definition sample_http :: http_dispatcher where
  "sample_http = new_http_dispatcher B_JSONRPC ''http://sut/jsonrpc'' None None [(''Authorization'', ''Bearer t'')]"

definition sample_grpc :: grpc_dispatcher where
  "sample_grpc = new_grpc_dispatcher ''sut:50051'' None [(''Authorization'', ''Bearer t'')]"

definition sample_network :: "nat network" where
  "sample_network = \<lparr>nw_send = (\<lambda>rq w. (Inl ''ConnectError'', w)),
     nw_stream = (\<lambda>rq w. (Inr (\<lparr>hr_status = 200, hr_headers = [(''content-type'', ''text/event-stream'')], hr_text = []\<rparr>,
        [\<lparr>sse_data = ''1'', sse_event = []\<rparr>, \<lparr>sse_data = ''2'', sse_event = []\<rparr>], Sse_closed), w)),
     nw_loads = (\<lambda>s. Some (JStr s)), nw_dumps = py_str\<rparr>"

definition sample_error_document :: "(string \<times> json) list" where
  "sample_error_document = [(''error'', JObj [(''code'', JInt (- 32001)),
     (''details'', JArr [JObj [(''@type'', JStr error_info_type), (''reason'', JStr ''TASK_NOT_FOUND'')]])])]"

definition sample_404 :: http_response where
  "sample_404 = \<lparr>hr_status = 404, hr_headers = [], hr_text = []\<rparr>"

definition sample_page :: "string \<times> json \<times> json" where
  "sample_page = (''ListTasksResponse'', JObj [(''tasks'', JArr [JObj [(''status'', JNull)]])],
     JObj [(''tasks'', JArr [JObj [(''status'', JNull), (''id'', JStr []), (''history'', JArr [])]]),
           (''nextPageToken'', JStr [])])"

definition sample_raw :: raw_block where
  "sample_raw = \<lparr>rb_method = ''POST'', rb_path = ''/'', rb_headers = Some [(''X-Trace'', ''1'')],
     rb_body = None, rb_body_raw = Some ''not json''\<rparr>"

lemma same_error_on_every_binding_witness:
  "wire_error_name (rpc_error_from sample_404 (JObj sample_error_document)) = Some ''TaskNotFoundError'' \<and>
   wire_error_name (rest_error_from sample_404 (JObj sample_error_document)) = Some ''TaskNotFoundError'' \<and>
   wire_error_name (wr_error (response_from_rpc_error sample_channel sample_failure)) = Some ''TaskNotFoundError'' \<and>
   wr_status (response_from_rpc_error sample_channel sample_failure) = 404"
proof -
  define err where "err = [(''code'', JInt (- 32001)),
    (''details'', JArr [JObj [(''@type'', JStr error_info_type), (''reason'', JStr ''TASK_NOT_FOUND'')]])]"
  have row: "binding_for_error ''TaskNotFoundError'' = Some (a2a_error (- 32001) ''NOT_FOUND'' 404 ''TASK_NOT_FOUND'')"
    by (simp add: binding_for_error_def error_table_def)
  have r: "er_reason (a2a_error (- 32001) ''NOT_FOUND'' 404 ''TASK_NOT_FOUND'') = Some ''TASK_NOT_FOUND''"
    by (simp add: a2a_error_def)
  have doc: "map_of sample_error_document ''error'' = Some (JObj err)"
    by (simp add: sample_error_document_def err_def)
  have st: "400 \<le> hr_status sample_404" by (simp add: sample_404_def)
  have parts: "int_code (get_json err ''code'') = Some (- 32001)"
    "fst (error_info (get_json err ''details'')) = Some ''TASK_NOT_FOUND''"
    "fst (reason_from_trailers sample_channel sample_failure) = Some ''TASK_NOT_FOUND''"
    by (simp_all add: err_def get_json_def dict_lookup_def int_code_def error_info_def is_error_info_def
        reason_from_trailers_def details_blob_def is_bytes_def sample_failure_def sample_channel_def
        status_details_key_def Let_def)
  have "rf_code sample_failure = ''NOT_FOUND''" by (simp add: sample_failure_def)
  then show ?thesis
    using same_error_on_every_binding [OF row r doc st, of sample_404 sample_channel sample_failure] parts
    by (simp add: a2a_error_def)
qed

lemma collected_events_are_numbered_witness:
  "\<forall>r :: nat runner. \<exists>events. collect r None None
      (fst (grpc_stream sample_channel sample_descriptors sample_grpc SUBSCRIBE_TO_TASK [] [] (0::nat))) =
        Inr (events, None, True) \<and> map ev_index events = [0, 1, 2]"
proof
  fix r :: "nat runner"
  let ?src = "fst (grpc_stream sample_channel sample_descriptors sample_grpc SUBSCRIBE_TO_TASK [] [] (0::nat))"
  have src: "length (fst ?src) = 3" "snd ?src = StillOpen" "first_status (fst ?src) = None"
    by (simp_all add: grpc_stream_def grpc_request_def build_request_def rpc_callable_def message_type_def
        sample_channel_def Let_def end_of_rpc_def numeral_3_eq_3 enumerate_eq_zip rpc_row_def)
  then obtain events where c: "collect r None None ?src = Inr (events, None, True)"
    by (cases "r_unclosable r")
       (simp_all add: collect_def hang_up_def event_limit_def Let_def case_prod_unfold pump_events)
  then have "events = map (\<lambda>(i, e). normalize (se_data e) i) (List.enumerate 0 (fst ?src))"
    using collected_events_are_numbered [of ?src sample_network sample_http SUBSCRIBE_TO_TASK "[]" "[]" 0 0
        sample_channel sample_descriptors sample_grpc sample_raw r None None events None True] src
    by (simp add: event_limit_def)
  then have "map ev_index events = map fst (List.enumerate 0 (fst ?src))"
    by (simp add: comp_def case_prod_unfold)
  also have "\<dots> = [0..<3]" by (simp only: map_fst_enumerate src(1) add_0)
  finally have "map ev_index events = [0, 1, 2]" by (simp add: upt_rec)
  with c show "\<exists>events. collect r None None ?src = Inr (events, None, True) \<and> map ev_index events = [0, 1, 2]"
    by (intro exI conjI)
qed

lemma lower_names: "lower ''Authorization'' = ''authorization''" "lower ''authorization'' = ''authorization''"
  by code_simp+

lemma step_header_wins_by_spelling_witness:
  "map_of (rq_headers (rpc_request sample_http 1 GET_TASK [] [(''content-type'', ''text/plain'')])) ''content-type'' =
     Some ''text/plain'' \<and>
   map_of (rq_headers (rpc_request sample_http 1 GET_TASK [] [(''content-type'', ''text/plain'')])) ''Content-Type'' =
     Some jsonrpc_content_type \<and>
   {(''authorization'', ''Bearer t''), (''authorization'', ''Bearer u'')} \<subseteq>
     set (metadata sample_grpc [(''authorization'', ''Bearer u'')])"
proof -
  have "map_of (gd_default_headers sample_grpc) ''Authorization'' = Some ''Bearer t''"
    by (simp add: sample_grpc_def new_grpc_dispatcher_def)
  then have "{(''authorization'', ''Bearer t''), (''authorization'', ''Bearer u'')} \<subseteq>
      set (metadata sample_grpc [(''authorization'', ''Bearer u'')])"
    using lower_names step_header_wins_by_spelling [of "[(''authorization'', ''Bearer u'')]" "''authorization''"
        "''Bearer u''" sample_http 1 GET_TASK "[]" "''GET''" "[]" "[]" sample_grpc "''Authorization''" "''Bearer t''"]
    by (simp add: insert_commute)
  then show ?thesis
    using step_header_wins_by_spelling [of "[(''content-type'', ''text/plain'')]" "''content-type''" "''text/plain''"
        sample_http 1 GET_TASK "[]" "''GET''" "[]" "[]" sample_grpc "''x''" "''y''"]
    by simp
qed

lemma raw_stream_adds_media_types_witness:
  "let headers = rq_headers (stream_request_of sample_network sample_http ''POST'' ''/'' (Text_body ''not json'')
        [(''X-Trace'', ''1'')] False) in
     map_of headers ''Content-Type'' = Some ''application/json'' \<and> map_of headers ''Accept'' = Some stream_accept"
  "map_of (rq_headers (raw_request sample_network sample_http sample_raw [])) ''Content-Type'' = None"
  using raw_stream_adds_media_types(2-4) [of "[]" sample_raw "[(''X-Trace'', ''1'')]" _ sample_network sample_http, OF _ _ _ _ _ refl]
  by (simp_all add: sample_raw_def raw_content_def raw_request_headers_def merged_headers_def set_header_def
      dict_merge_def content_type_of_def sample_http_def new_http_dispatcher_def jsonrpc_content_type_def)

lemma required_fields_are_restored_witness:
  "\<exists>d'. at_path (to_dict sample_channel sample_descriptors sample_page) [Inl ''tasks'', Inr 0] = Some (JObj d') \<and>
     map_of d' ''id'' = Some (JStr []) \<and> map_of d' ''history'' = None \<and> map_of d' ''status'' = Some JNull"
proof -
  let ?lean = "[(''status'', JNull)]" and ?full = "[(''status'', JNull), (''id'', JStr []), (''history'', JArr [])]"
  have "type_at sample_descriptors (ch_type sample_channel sample_page) [Inl ''tasks'', Inr 0] = Some ''Task''"
    "at_path (ch_lean sample_channel sample_page) [Inl ''tasks'', Inr 0] = Some (JObj ?lean)"
    "at_path (ch_full sample_channel sample_page) [Inl ''tasks'', Inr 0] = Some (JObj ?full)"
    by code_simp+
  from required_fields_are_restored [OF this] obtain d' where d':
    "at_path (to_dict sample_channel sample_descriptors sample_page) [Inl ''tasks'', Inr 0] = Some (JObj d')"
    and none: "\<And>k. map_of d' k = None \<longleftrightarrow> map_of ?lean k = None \<and>
      (is_required (sample_descriptors ''Task'') k \<longrightarrow> map_of ?full k = None)"
    and printed: "\<And>k. map_of ?lean k = None \<Longrightarrow> map_of d' k \<in> {None, map_of ?full k}"
    and kept: "\<And>k v. map_of ?lean k = Some v \<Longrightarrow> nested_of (sample_descriptors ''Task'') k = None \<Longrightarrow> map_of d' k = Some v"
    by blast
  have req: "is_required (sample_descriptors ''Task'') ''id''" "\<not> is_required (sample_descriptors ''Task'') ''history''"
    "nested_of (sample_descriptors ''Task'') ''status'' = None" by code_simp+
  have "map_of d' ''id'' = Some (JStr [])" "map_of d' ''history'' = None" "map_of d' ''status'' = Some JNull"
    using printed [of "''id''"] none [of "''id''"] none [of "''history''"] kept [of "''status''" JNull] req by auto
  with d' show ?thesis by blast
qed

end
