(* ===== verification/Bindings.thy ===== *)
theory Bindings
  imports Conformance DispatchClaims
begin

section \<open>The dispatcher of a run (acts/dispatcher/__init__.py, acts_runner.py)\<close>

text \<open>
  The configuration the pipeline reads off an agent card, made into a dispatcher of its binding,
  and a runner whose unary steps go through it. The state of such a runner is the world with the
  number of JSON-RPC envelopes drawn.
\<close>

definition http_dispatcher_of :: "dispatcher_config \<Rightarrow> http_dispatcher" where
  "http_dispatcher_of dc =
     new_http_dispatcher (dc_binding dc) (dc_target dc) (dc_rpc_path dc) (Some (dc_card_url dc)) (dc_headers dc)"

definition grpc_dispatcher_of :: "dispatcher_config \<Rightarrow> grpc_dispatcher" where
  "grpc_dispatcher_of dc = new_grpc_dispatcher (dc_target dc) (Some (dc_card_url dc)) (dc_headers dc)"

definition beside :: "('w, 'a) state_result \<Rightarrow> ('w \<times> nat, 'a) state_result" where
  "beside m = (\<lambda>(w, n). case m w of (x, w') \<Rightarrow> (x, (w', n)))"

definition dispatch_for ::
  "('w, 'm) channel \<Rightarrow> descriptors \<Rightarrow> 'w network \<Rightarrow> dispatcher_config \<Rightarrow> operation \<Rightarrow> tree \<Rightarrow> (string, string) dict \<Rightarrow>
     ('w \<times> nat, wire_response) state_result" where
  "dispatch_for ch ds nw dc oper params headers = (case dc_binding dc of
     B_JSONRPC \<Rightarrow> rpc_dispatch nw (http_dispatcher_of dc) oper params headers
   | B_REST \<Rightarrow> beside (rest_dispatch nw (http_dispatcher_of dc) oper params headers)
   | B_GRPC \<Rightarrow> beside (grpc_dispatch ch ds nw (grpc_dispatcher_of dc) oper params headers))"

definition dispatch_raw_for ::
  "'w network \<Rightarrow> dispatcher_config \<Rightarrow> raw_block \<Rightarrow> (string, string) dict \<Rightarrow> ('w \<times> nat, wire_response) state_result" where
  "dispatch_raw_for nw dc raw headers = beside (if dc_binding dc = B_GRPC then grpc_dispatch_raw raw headers
     else http_dispatch_raw nw (http_dispatcher_of dc) raw headers)"

definition wired_runner ::
  "('w, 'm) channel \<Rightarrow> descriptors \<Rightarrow> 'w network \<Rightarrow> ('w \<times> nat) runner \<Rightarrow> dispatcher_config \<Rightarrow> ('w \<times> nat) runner" where
  "wired_runner ch ds nw r dc =
     r\<lparr>r_dispatch := dispatch_for ch ds nw dc, r_dispatch_raw := dispatch_raw_for nw dc\<rparr>"

subsection \<open>What a run sends\<close>

text \<open>A network that keeps the requests it was given, whatever it answers.\<close>

definition keeps_requests :: "(http_request list) network \<Rightarrow> bool" where
  "keeps_requests nw \<longleftrightarrow> (\<forall>rq w. snd (nw_send nw rq w) = w @ [rq])"

lemma sent_by:
  assumes "keeps_requests nw"
  shows "snd (st_bind (send_request nw rq) (\<lambda>resp. st_return (f resp)) w) = w @ [rq]"
  using assms [unfolded keeps_requests_def, rule_format, of rq w]
  by (cases "nw_send nw rq w") (auto simp: send_request_def st_bind_def st_return_def split: sum.split)

lemma card_request: "keeps_requests nw \<Longrightarrow> snd (get_agent_card nw d headers w) =
    w @ [plain_get (hd_agent_card_url d @ well_known_agent_card_path) (merged_headers d headers None None True)]"
  unfolding get_agent_card_def by (rule sent_by)

lemma raw_sent: "keeps_requests nw \<Longrightarrow> snd (http_dispatch_raw nw d raw headers w) = w @ [raw_request nw d raw headers]"
  unfolding http_dispatch_raw_def by (rule sent_by)

lemma request_headers:
  "\<exists>ct. rq_headers (rest_request d verb path members headers) = merged_headers d headers ct None True"
  "\<exists>ct. rq_headers (rpc_request d i oper params headers) = merged_headers d headers ct None True"
  "\<exists>ct. merged_headers d headers None None True = merged_headers d headers ct None True"
  by (auto simp: rest_request_def rpc_request_def)

lemma rest_sent:
  assumes nw: "keeps_requests nw"
  shows "\<exists>rqs. snd (rest_dispatch nw d oper params headers w) = w @ rqs \<and> length rqs \<le> 1 \<and>
    (\<forall>rq \<in> set rqs. \<exists>ct. rq_headers rq = merged_headers d headers ct None True)"
proof -
  let ?o = "resolve_operation oper (Some params)"
  show ?thesis
  proof (cases "ob_http_only (binding_for_operation ?o)")
    case True
    then show ?thesis
      using card_request [OF nw] by (auto simp: rest_dispatch_def Let_def plain_get_def)
  next
    case False
    then show ?thesis
    proof (cases "split_params ?o params")
      case (Inr x)
      have "rest_dispatch nw d oper params headers w = st_bind (send_request nw
          (rest_request d (ob_rest_method (binding_for_operation ?o)) (fst x) (snd x) headers))
          (\<lambda>resp. st_return (wire_reply nw rest_error_from resp)) w"
        using False Inr by (simp add: rest_dispatch_def Let_def st_bind_def st_lift_def case_prod_unfold)
      then show ?thesis
        by (intro exI [of _ "[rest_request d (ob_rest_method (binding_for_operation ?o)) (fst x) (snd x) headers]"])
           (simp add: sent_by [OF nw] request_headers)
    qed (simp add: rest_dispatch_def Let_def st_bind_def st_lift_def)
  qed
qed

lemma rpc_sent:
  assumes nw: "keeps_requests nw"
  shows "\<exists>rqs. fst (snd (rpc_dispatch nw d oper params headers (w, n))) = w @ rqs \<and> length rqs \<le> 1 \<and>
    (\<forall>rq \<in> set rqs. \<exists>ct. rq_headers rq = merged_headers d headers ct None True)"
proof -
  let ?o = "resolve_operation oper (Some params)"
  show ?thesis
  proof (cases "ob_http_only (binding_for_operation ?o)")
    case True
    then have "fst (snd (rpc_dispatch nw d oper params headers (w, n))) = snd (get_agent_card nw d headers w)"
      by (simp add: rpc_dispatch_def Let_def case_prod_unfold)
    then show ?thesis
      by (intro exI [of _ "[plain_get (hd_agent_card_url d @ well_known_agent_card_path)
          (merged_headers d headers None None True)]"])
         (simp add: card_request [OF nw] plain_get_def request_headers)
  next
    case False
    let ?rq = "rpc_request d (Suc n) ?o params headers"
    have "snd (send_request nw ?rq w) = w @ [?rq]"
      using nw [unfolded keeps_requests_def, rule_format, of ?rq w]
      by (cases "nw_send nw ?rq w") (auto simp: send_request_def split: sum.split)
    moreover have "fst (snd (rpc_dispatch nw d oper params headers (w, n))) = snd (send_request nw ?rq w)"
      using False by (simp add: rpc_dispatch_def Let_def case_prod_unfold split: sum.split)
    ultimately show ?thesis
      by (intro exI [of _ "[?rq]"]) (simp add: request_headers)
  qed
qed

lemma built_dispatcher:
  assumes "build_dispatcher agent b base_url = Ok dc"
  obtains url v where "interface_for agent b = Ok (url, v)" "dc_binding dc = b"
    "dc_headers dc = [(''Authorization'', ''Bearer '' @ acts_auth_token)]" "b \<noteq> B_GRPC \<Longrightarrow> dc_target dc = url"
  using assms by (cases b) (auto simp: build_dispatcher_def rbind_eq_Ok Let_def)

lemma credential_in_metadata:
  assumes "dc_headers dc = [(''Authorization'', credential)]" "''Authorization'' \<notin> fst ` set headers"
  shows "(''authorization'', credential) \<in> set (metadata (grpc_dispatcher_of dc) headers)"
proof -
  have "map_of (rev headers) ''Authorization'' = None" using assms(2) by (simp add: map_of_eq_None_iff)
  then have "map_of (dict_merge (gd_default_headers (grpc_dispatcher_of dc)) headers) ''Authorization'' = Some credential"
    by (simp add: map_of_dict_merge grpc_dispatcher_of_def new_grpc_dispatcher_def assms(1))
  from map_of_SomeD [OF this] show ?thesis using lower_names(1) by (force simp: metadata_def)
qed


subsection \<open>A run against one card\<close>

definition plain_card :: json where
  "plain_card = JObj [(''supportedInterfaces'', JArr [JObj [(''protocolBinding'', JStr ''JSONRPC''),
     (''protocolVersion'', JStr ''1.0''), (''url'', JStr ''http://sut/rpc/'')]])]"

definition recording_network :: "(http_request list) network" where
  "recording_network = \<lparr>nw_send = (\<lambda>rq w. (Inl ''ConnectError'', w @ [rq])),
     nw_stream = (\<lambda>rq w. (Inl ''ConnectError'', w @ [rq])), nw_loads = (\<lambda>s. None), nw_dumps = py_str\<rparr>"

definition idle_channel :: "(http_request list, unit) channel" where
  "idle_channel = \<lparr>ch_known = (\<lambda>_. True), ch_parse = (\<lambda>t d. Inr ()), ch_type = (\<lambda>_. []), ch_lean = (\<lambda>_. JNull),
     ch_full = (\<lambda>_. JNull), ch_status = (\<lambda>_. None), ch_unary = (\<lambda>path m md w. (Rpc_not_made ''closed'', w)),
     ch_stream = (\<lambda>path m md w. (([], Rpc_closed), w))\<rparr>"

definition plain_dispatcher :: dispatcher_config where
  "plain_dispatcher = \<lparr>dc_binding = B_JSONRPC, dc_target = ''http://sut/rpc/'', dc_rpc_path = Some ''/'',
     dc_card_url = ''http://sut'', dc_headers = [(''Authorization'', ''Bearer itk-valid-token'')]\<rparr>"


end
