(* ===== verification/Eviction.thy ===== *)
theory Eviction
  imports CacheClaims
begin

section \<open>What an eviction leaves\<close>

text \<open>
  An eviction makes room: it stops short of its budget only where the trees that are left are
  held. The loop is followed by an invariant over the keys still to visit; the keys of the trees
  are distinct, as directory names are.
\<close>

definition disk_usage :: "cache \<Rightarrow> nat" where
  "disk_usage s = sum_list (map (\<lambda>(k, t). ct_size t) (ca_trees s))"

text \<open>The keys an eviction may not touch: locked by a builder, or with a live pin.\<close>

definition held :: "nat \<Rightarrow> (string \<Rightarrow> bool) \<Rightarrow> cache \<Rightarrow> string \<Rightarrow> bool" where
  "held deadline busy s k \<longleftrightarrow> busy k \<or> fst (has_live_pin deadline k s)"

definition without :: "string set \<Rightarrow> (string, cached_tree) dict \<Rightarrow> (string, cached_tree) dict" where
  "without E d = filter (\<lambda>p. fst p \<notin> E) d"

definition stamp :: "cache \<Rightarrow> string \<Rightarrow> nat" where
  "stamp s k = (case map_of (ca_trees s) k of Some t \<Rightarrow> (case ct_built t of None \<Rightarrow> 0 | Some m \<Rightarrow> m) | None \<Rightarrow> 0)"

subsection \<open>One key\<close>

lemma without_simps [simp]:
  "without {} d = d" "without E (without F d) = without (F \<union> E) d" "map_of (without E d) k = (if k \<in> E then None else map_of d k)"
  "fst ` set (without E d) = fst ` set d - E"
  by (auto simp: without_def filter_map map_of_filter_in image_iff intro: filter_cong)
     (induction d, auto)+

lemma delete_without: "AList.delete k d = without {k} d"
  by (auto simp: AList.delete_eq without_def intro!: filter_cong)

lemma evict_key_gone:
  assumes "evict_key deadline k s = (True, s')"
  shows "ca_trees s' = without {k} (ca_trees s)" "\<not> fst (has_live_pin deadline k s)"
  using assms
  by (auto simp: evict_key_def has_live_pin_def clear_pins_def remove_tree_def delete_without
      split: if_splits)

lemma evict_key_stays:
  assumes "evict_key deadline k s = (False, s')"
  shows "ca_trees s' = ca_trees s" "fst (has_live_pin deadline k s)"
  using assms by (auto simp: evict_key_def has_live_pin_def split: if_splits)

lemma evict_key_others:
  assumes "evict_key deadline k s = (gone, s')"
  shows "ca_now s' = ca_now s" "l \<noteq> k \<Longrightarrow> held deadline busy s' l = held deadline busy s l"
  using assms
  by (auto simp: evict_key_def has_live_pin_def clear_pins_def remove_tree_def held_def live_pin_def [abs_def]
      split: if_splits)

lemma without_absent: "k \<notin> fst ` set d \<Longrightarrow> without {k} d = d"
  by (force simp: without_def filter_id_conv)

lemma usage_without:
  "distinct (map fst d) \<Longrightarrow> map_of d k = Some t \<Longrightarrow>
   sum_list (map (\<lambda>(k, t). ct_size t) d) = ct_size t + sum_list (map (\<lambda>(k, t). ct_size t) (without {k} d))"
proof (induction d)
  case (Cons p d)
  have "without {k} (p # d) = (if fst p = k then without {k} d else p # without {k} d)" by (simp add: without_def)
  with Cons show ?case by (cases p) (auto simp: without_absent)
qed simp

lemma usage_of:
  assumes "distinct (map fst (ca_trees s))" "k \<in> fst ` set (ca_trees s)" "ca_trees s' = without {k} (ca_trees s)"
  shows "disk_usage s = tree_size s k + disk_usage s'"
proof -
  from assms(2) obtain t where "map_of (ca_trees s) k = Some t"
    by (cases "map_of (ca_trees s) k") (auto simp: map_of_eq_None_iff)
  with usage_without [OF assms(1) this] assms(3) show ?thesis by (simp add: disk_usage_def tree_size_def)
qed

subsection \<open>The loop\<close>

text \<open>What visiting the keys \<open>ks\<close> makes of the cache when \<open>E\<close> are those that went.\<close>

definition makes_room ::
  "nat \<Rightarrow> nat \<Rightarrow> nat \<Rightarrow> (string \<Rightarrow> bool) \<Rightarrow> string list \<Rightarrow> string list \<Rightarrow> cache \<Rightarrow> cache \<Rightarrow> bool" where
  "makes_room deadline budget ttl busy ks E s s' \<longleftrightarrow>
     set E \<subseteq> set ks \<and> ca_trees s' = without (set E) (ca_trees s) \<and> disk_usage s' \<le> disk_usage s \<and>
     (\<forall>k \<in> set E. \<not> held deadline busy s k) \<and>
     (\<forall>k \<in> set ks - set E. held deadline busy s k \<or> \<not> over_age ttl s k \<and> disk_usage s' \<le> budget) \<and>
     (disk_usage s \<le> budget \<longrightarrow> (\<forall>k \<in> set E. over_age ttl s k)) \<and>
     sorted_wrt (\<lambda>x k. k \<in> set E \<longrightarrow> over_age ttl s k \<or> x \<in> set E \<or> held deadline busy s x) ks"

lemma skipped_makes_room:
  assumes "makes_room deadline budget ttl busy ks E s s'" "k \<notin> set ks"
    and "held deadline busy s k \<or> \<not> over_age ttl s k \<and> disk_usage s \<le> budget"
  shows "makes_room deadline budget ttl busy (k # ks) E s s'"
  using assms by (auto simp: makes_room_def)

lemma gone_makes_room:
  assumes room: "makes_room deadline budget ttl busy ks E s1 s'" and k: "k \<notin> set ks" "\<not> busy k"
    and e: "evict_key deadline k s = (True, s1)"
    and d: "distinct (map fst (ca_trees s))" "k \<in> fst ` set (ca_trees s)"
    and need: "budget < disk_usage s \<or> over_age ttl s k"
  shows "makes_room deadline budget ttl busy (k # ks) (k # E) s s'"
proof -
  have t: "ca_trees s1 = without {k} (ca_trees s)" and nk: "\<not> held deadline busy s k"
    using evict_key_gone [OF e] k(2) by (simp_all add: held_def)
  have held: "held deadline busy s1 l = held deadline busy s l" and old: "over_age ttl s1 l = over_age ttl s l"
    if "l \<in> set ks" for l
  proof -
    have "l \<noteq> k" using that k(1) by blast
    then show "held deadline busy s1 l = held deadline busy s l" by (rule evict_key_others(2) [OF e])
    show "over_age ttl s1 l = over_age ttl s l"
      using \<open>l \<noteq> k\<close> evict_key_others(1) [OF e] by (simp add: over_age_def t split: option.split)
  qed
  have u: "disk_usage s1 \<le> disk_usage s" using usage_of [OF d t] by simp
  have "sorted_wrt (\<lambda>x l. l \<in> set (k # E) \<longrightarrow> over_age ttl s l \<or> x \<in> set (k # E) \<or> held deadline busy s x) ks"
  proof (rule sorted_wrt_mono_rel)
    show "sorted_wrt (\<lambda>x l. l \<in> set E \<longrightarrow> over_age ttl s1 l \<or> x \<in> set E \<or> held deadline busy s1 x) ks"
      using room by (simp add: makes_room_def)
    show "l \<in> set (k # E) \<longrightarrow> over_age ttl s l \<or> x \<in> set (k # E) \<or> held deadline busy s x"
      if "x \<in> set ks" "l \<in> set ks" "l \<in> set E \<longrightarrow> over_age ttl s1 l \<or> x \<in> set E \<or> held deadline busy s1 x" for x l
      using that k(1) by (auto simp: held old)
  qed
  moreover have "\<forall>l \<in> set (k # ks) - set (k # E).
      held deadline busy s l \<or> \<not> over_age ttl s l \<and> disk_usage s' \<le> budget"
    using room by (auto simp: makes_room_def held old)
  moreover have "\<forall>l \<in> set (k # E). \<not> held deadline busy s l"
    using room nk held by (auto simp: makes_room_def subset_iff)
  moreover have "disk_usage s \<le> budget \<longrightarrow> (\<forall>l \<in> set (k # E). over_age ttl s l)"
    using room need u old by (auto simp: makes_room_def subset_iff)
  ultimately show ?thesis
    using room u t by (simp add: makes_room_def subset_iff)
qed

lemma same_makes_room:
  assumes room: "makes_room deadline budget ttl busy ks E s1 s'"
    and same: "disk_usage s1 = disk_usage s" "\<And>l. over_age ttl s1 l = over_age ttl s l" "ca_trees s1 = ca_trees s"
    and held: "\<And>l. l \<in> set ks \<Longrightarrow> held deadline busy s1 l = held deadline busy s l"
  shows "makes_room deadline budget ttl busy ks E s s'"
proof -
  have "sorted_wrt (\<lambda>x l. l \<in> set E \<longrightarrow> over_age ttl s l \<or> x \<in> set E \<or> held deadline busy s x) ks"
  proof (rule sorted_wrt_mono_rel)
    show "sorted_wrt (\<lambda>x l. l \<in> set E \<longrightarrow> over_age ttl s1 l \<or> x \<in> set E \<or> held deadline busy s1 x) ks"
      using room by (simp add: makes_room_def)
  qed (auto simp: held same(2))
  moreover have "\<forall>k \<in> set ks - set E. held deadline busy s k \<or> \<not> over_age ttl s k \<and> disk_usage s' \<le> budget"
    using room by (simp add: makes_room_def held same(2))
  moreover have "\<forall>k \<in> set E. \<not> held deadline busy s k"
    using room held by (auto simp: makes_room_def subset_iff)
  ultimately show ?thesis
    using room by (simp add: makes_room_def same)
qed

lemma evict_loop_makes_room:
  assumes "distinct ks" "set ks \<subseteq> fst ` set (ca_trees s)" "distinct (map fst (ca_trees s))"
  shows "\<exists>E. fst (evict_loop deadline budget ttl busy (disk_usage s) ks evicted s) = evicted @ E \<and>
    makes_room deadline budget ttl busy ks E s (snd (evict_loop deadline budget ttl busy (disk_usage s) ks evicted s))"
  using assms
proof (induction ks arbitrary: evicted s)
  case Nil
  show ?case by (intro exI [of _ "[]"]) (simp add: makes_room_def)
next
  case (Cons k ks)
  then have k: "k \<notin> set ks" "k \<in> fst ` set (ca_trees s)" by auto
  show ?case
  proof (cases "\<not> (budget < disk_usage s \<or> over_age ttl s k) \<or> busy k")
    case True
    then have "held deadline busy s k \<or> \<not> over_age ttl s k \<and> disk_usage s \<le> budget" by (auto simp: held_def)
    moreover from Cons.IH [of s evicted] Cons.prems obtain E where
      "fst (evict_loop deadline budget ttl busy (disk_usage s) ks evicted s) = evicted @ E"
      "makes_room deadline budget ttl busy ks E s (snd (evict_loop deadline budget ttl busy (disk_usage s) ks evicted s))"
      by auto
    ultimately show ?thesis using True k(1) by (intro exI [of _ E]) (simp add: skipped_makes_room)
  next
    case False
    obtain gone s1 where e: "evict_key deadline k s = (gone, s1)" by fastforce
    show ?thesis
    proof (cases gone)
      case True
      with e have e: "evict_key deadline k s = (True, s1)" by simp
      note t = evict_key_gone(1) [OF e]
      have u: "disk_usage s - tree_size s k = disk_usage s1" using usage_of [OF Cons.prems(3) k(2) t] by simp
      have "distinct ks" "set ks \<subseteq> fst ` set (ca_trees s1)" "distinct (map fst (ca_trees s1))"
        using Cons.prems k(1) by (auto simp: t) (simp add: without_def distinct_map_filter)
      from Cons.IH [OF this, of "evicted @ [k]"] obtain E where
        E: "fst (evict_loop deadline budget ttl busy (disk_usage s1) ks (evicted @ [k]) s1) = evicted @ k # E"
        and room: "makes_room deadline budget ttl busy ks E s1
          (snd (evict_loop deadline budget ttl busy (disk_usage s1) ks (evicted @ [k]) s1))" by auto
      show ?thesis
        using gone_makes_room [OF room k(1) _ e Cons.prems(3) k(2)] False E
        by (intro exI [of _ "k # E"]) (simp add: e u)
    next
      case stays: False
      with e have e: "evict_key deadline k s = (False, s1)" by simp
      have same: "disk_usage s1 = disk_usage s" "\<And>l. over_age ttl s1 l = over_age ttl s l" "ca_trees s1 = ca_trees s"
        using evict_key_stays(1) [OF e] evict_key_others(1) [OF e] by (simp_all add: disk_usage_def over_age_def split: option.split)
      have stuck: "held deadline busy s k" using evict_key_stays(2) [OF e] by (simp add: held_def)
      have "distinct ks" "set ks \<subseteq> fst ` set (ca_trees s1)" "distinct (map fst (ca_trees s1))"
        using Cons.prems by (simp_all add: same(3))
      from Cons.IH [OF this, of evicted] obtain E where
        E: "fst (evict_loop deadline budget ttl busy (disk_usage s) ks evicted s1) = evicted @ E"
        and room: "makes_room deadline budget ttl busy ks E s1
          (snd (evict_loop deadline budget ttl busy (disk_usage s) ks evicted s1))"
        unfolding same(1) by blast
      have held: "held deadline busy s1 l = held deadline busy s l" if "l \<in> set ks" for l
        by (rule evict_key_others(2) [OF e]) (use that k(1) in blast)
      have "makes_room deadline budget ttl busy ks E s
          (snd (evict_loop deadline budget ttl busy (disk_usage s) ks evicted s1))"
        by (rule same_makes_room [OF room same held])
      then have "makes_room deadline budget ttl busy (k # ks) E s
          (snd (evict_loop deadline budget ttl busy (disk_usage s) ks evicted s1))"
        using k(1) stuck by (intro skipped_makes_room) blast+
      moreover have "evict_loop deadline budget ttl busy (disk_usage s) (k # ks) evicted s =
          evict_loop deadline budget ttl busy (disk_usage s) ks evicted s1"
        using False by (simp add: e)
      ultimately show ?thesis using E by auto
    qed
  qed
qed

subsection \<open>An eviction\<close>

lemma lru_pairs:
  assumes "distinct (map fst (ca_trees s))"
  shows "lru_keys s = map snd (sort (map (\<lambda>k. (stamp s k, k)) (map fst (ca_trees s))))"
proof -
  have "map (\<lambda>(k, t). (case ct_built t of None \<Rightarrow> 0 | Some m \<Rightarrow> m, k)) (ca_trees s) =
      map (\<lambda>k. (stamp s k, k)) (map fst (ca_trees s))"
    using assms by (auto simp: stamp_def)
  then show ?thesis by (simp only: lru_keys_def)
qed

lemma lru_keys_facts:
  assumes "distinct (map fst (ca_trees s))"
  shows "set (lru_keys s) = fst ` set (ca_trees s)" "distinct (lru_keys s)"
    "sum_list (map (tree_size s) (lru_keys s)) = disk_usage s"
    "sorted_wrt (\<lambda>x k. stamp s x \<le> stamp s k) (lru_keys s)"
proof -
  let ?ps = "map (\<lambda>k. (stamp s k, k)) (map fst (ca_trees s))"
  have m: "mset (lru_keys s) = mset (map fst (ca_trees s))"
    by (simp add: lru_pairs [OF assms] multiset.map_comp comp_def)
  show "set (lru_keys s) = fst ` set (ca_trees s)" using arg_cong [OF m, of set_mset] by simp
  show "distinct (lru_keys s)" using m assms mset_eq_imp_distinct_iff by blast
  have "sum_list (map (tree_size s) (lru_keys s)) = sum_list (map (tree_size s) (map fst (ca_trees s)))"
    using m by (metis mset_map sum_mset_sum_list)
  also have "\<dots> = disk_usage s"
    unfolding disk_usage_def using assms by (auto simp: tree_size_def intro!: arg_cong [where f = sum_list])
  finally show "sum_list (map (tree_size s) (lru_keys s)) = disk_usage s" .
  have "sorted_wrt (\<lambda>p q. stamp s (snd p) \<le> stamp s (snd q)) (sort ?ps)"
    by (rule sorted_wrt_mono_rel [OF _ sorted_sort]) (auto simp: less_eq_prod_def)
  then show "sorted_wrt (\<lambda>x k. stamp s x \<le> stamp s k) (lru_keys s)"
    by (simp add: lru_pairs [OF assms] sorted_wrt_map)
qed

lemma sorted_before:
  assumes "k \<in> set xs" "l \<in> set xs" "sorted_wrt P xs" "sorted_wrt Q xs"
  shows "k = l \<or> P k l \<or> P l k \<and> Q l k"
  using assms by (induction xs) auto

text \<open>
  C24: an eviction makes room, and takes no more than it must. Afterwards the disk usage is
  within the budget, or every tree that is left is locked by a builder or has a live pin; so is
  every left tree past its age. What went was neither locked nor pinned, the other trees are as
  they were, and a tree that was not past its age went only because the budget was exceeded, and
  only with every tree built before it that could go.
\<close>

theorem eviction_makes_room:
  assumes trees: "distinct (map fst (ca_trees s))" and ev: "evict deadline budget ttl busy s = (evicted, s')"
  shows "(disk_usage s' \<le> budget \<or> (\<forall>k \<in> fst ` set (ca_trees s'). held deadline busy s k)) \<and>
    (\<forall>k \<in> fst ` set (ca_trees s'). over_age ttl s k \<longrightarrow> held deadline busy s k) \<and>
    ca_trees s' = filter (\<lambda>p. fst p \<notin> set evicted) (ca_trees s) \<and>
    (\<forall>k \<in> set evicted. \<not> held deadline busy s k) \<and>
    (\<forall>k \<in> set evicted. \<not> over_age ttl s k \<longrightarrow> budget < disk_usage s \<and>
       (\<forall>l \<in> fst ` set (ca_trees s'). stamp s l < stamp s k \<longrightarrow> held deadline busy s l))"
proof -
  note keys = lru_keys_facts [OF trees]
  have room: "makes_room deadline budget ttl busy (lru_keys s) evicted s s'"
    using evict_loop_makes_room [OF keys(2) _ trees, of deadline budget ttl busy "[]"] ev keys(1)
    by (auto simp: evict_def Let_def keys(3))
  note [simp] = keys(1)
  have t: "ca_trees s' = filter (\<lambda>p. fst p \<notin> set evicted) (ca_trees s)"
    using room by (simp add: makes_room_def without_def)
  have within: "disk_usage s' \<le> budget \<or> (\<forall>k \<in> fst ` set (ca_trees s'). held deadline busy s k)"
    "\<forall>k \<in> fst ` set (ca_trees s'). over_age ttl s k \<longrightarrow> held deadline busy s k"
    "\<forall>k \<in> set evicted. \<not> held deadline busy s k"
    using room by (auto simp: makes_room_def t)
  have oldest: "\<forall>k \<in> set evicted. \<not> over_age ttl s k \<longrightarrow> budget < disk_usage s \<and>
       (\<forall>l \<in> fst ` set (ca_trees s'). stamp s l < stamp s k \<longrightarrow> held deadline busy s l)"
  proof (intro ballI impI conjI)
    fix k assume k: "k \<in> set evicted" "\<not> over_age ttl s k"
    then show "budget < disk_usage s" using room by (auto simp: makes_room_def not_le [symmetric])
    fix l assume l: "l \<in> fst ` set (ca_trees s')" "stamp s l < stamp s k"
    have "k \<in> set (lru_keys s)" "l \<in> set (lru_keys s)" "l \<notin> set evicted"
      using room k(1) l(1) by (auto simp: makes_room_def t)
    moreover have "sorted_wrt (\<lambda>x k. k \<in> set evicted \<longrightarrow> over_age ttl s k \<or> x \<in> set evicted \<or> held deadline busy s x)
        (lru_keys s)" using room by (simp add: makes_room_def)
    ultimately have "k = l \<or> stamp s k \<le> stamp s l \<or> (k \<in> set evicted \<longrightarrow>
        over_age ttl s k \<or> l \<in> set evicted \<or> held deadline busy s l)"
      using sorted_before [OF _ _ keys(4)] by blast
    with k l(2) \<open>l \<notin> set evicted\<close> show "held deadline busy s l" by auto
  qed
  from within t oldest show ?thesis by blast
qed

definition full_cache :: cache where
  "full_cache = \<lparr>ca_trees = [(''b'', \<lparr>ct_built = Some 2, ct_size = 5\<rparr>), (''a'', \<lparr>ct_built = Some 1, ct_size = 7\<rparr>)],
     ca_pins = (\<lambda>k. if k = ''b'' then [(1, 2)] else []), ca_refs = (\<lambda>_ _. 0), ca_alive = (\<lambda>_. True), ca_now = 3\<rparr>"

theorem eviction_makes_room_witness:
  "let (evicted, s') = evict 10 4 100 (\<lambda>_. False) full_cache in
     evicted = [''a''] \<and> ca_trees s' = [(''b'', \<lparr>ct_built = Some 2, ct_size = 5\<rparr>)] \<and>
     4 < disk_usage s' \<and> held 10 (\<lambda>_. False) full_cache ''b''"
proof -
  obtain s' where ev: "evict 10 4 100 (\<lambda>_. False) full_cache = ([''a''], s')" and big: "4 < disk_usage s'"
    by (simp add: full_cache_def evict_def lru_keys_def over_age_def evict_key_def has_live_pin_def live_pin_def
        clear_pins_def remove_tree_def tree_size_def disk_usage_def Let_def less_eq_prod_def)
  have "distinct (map fst (ca_trees full_cache))" by (simp add: full_cache_def)
  note room = eviction_makes_room [OF this ev]
  from room have left: "ca_trees s' = [(''b'', \<lparr>ct_built = Some 2, ct_size = 5\<rparr>)]"
    by (simp add: full_cache_def)
  moreover have "\<forall>k \<in> fst ` set (ca_trees s'). held 10 (\<lambda>_. False) full_cache k"
    using room big by linarith
  ultimately have "held 10 (\<lambda>_. False) full_cache ''b''" by simp
  with left ev big show ?thesis by (simp add: Let_def)
qed

end
