(* ===== verification/Service.thy ===== *)
theory Service
  imports Execution
begin

section \<open>The \<open>/run\<close> service (itk_service_v2.py, itk_runner.py)\<close>

text \<open>
  What \<open>POST /run\<close> answers: the request is resolved to scenarios, they are run, and every
  outcome of the run becomes a response or an HTTP error. The two validators of the scenario
  schemas, the harness, the remote and the cluster are parameters; the matrix and the known
  failures are given as the results of loading them, since the first run loads them. The
  response's JSON form lists the fields of the response models in their order, as FastAPI
  writes them.
\<close>

subsection \<open>From a document to scenarios (itk_runner.py)\<close>

record sources =
  so_traversal :: "(string \<times> json) list \<Rightarrow> string + traversal_scenario"
  so_legacy :: "(string \<times> json) list \<Rightarrow> string + legacy_scenario"
  so_matrix :: "matrix result"
  so_known :: "exclusion list result"

definition prepare_tests :: "sources \<Rightarrow> json \<Rightarrow> string option \<Rightarrow> resolved_scenario list result" where
  "prepare_tests so raw sut_sdk =
     rbind (parse_tests (so_traversal so) (so_legacy so) raw) (\<lambda>scenarios.
     rbind (so_matrix so) (\<lambda>m.
     rbind (so_known so) (\<lambda>known.
     rbind (resolve_all scenarios m sut_sdk known) (\<lambda>report. Ok (rr_scenarios report)))))"

subsection \<open>Requests and responses\<close>

record run_request =
  rq_tests :: "(string \<times> json) list list"
  rq_sut_sdk :: "string option"

record startup =
  su_dropped_peers :: "(string, string) dict"
  su_trimmed :: "(string \<times> string list) list"
  su_skipped :: "(string \<times> string list) list"
  su_cluster_error :: "string option"

record run_response =
  rn_results :: "(string, scenario_result) dict"
  rn_all_passed :: bool
  rn_startup :: "startup option"

datatype answer = Answered run_response | HttpError nat string | Unhandled py_exn

definition startup_report :: "run_report \<Rightarrow> startup option" where
  "startup_report ru = (if ru_dropped ru = [] then None
     else Some \<lparr>su_dropped_peers = ru_dropped ru, su_trimmed = ru_trimmed ru, su_skipped = ru_skipped ru,
       su_cluster_error = None\<rparr>)"

definition failed_placeholder :: "resolved_scenario \<Rightarrow> scenario_result" where
  "failed_placeholder s = \<lparr>sr_passed = False, sr_sdks = rv_sdks s, sr_edges = rv_edges s,
     sr_protocols = rv_protocols s, sr_behavior = rv_behavior s, sr_streaming = rv_streaming s,
     sr_tier = rv_tier s\<rparr>"

definition cluster_failure_response ::
  "resolved_scenario list \<Rightarrow> (string \<times> string) list \<Rightarrow> string \<Rightarrow> run_response" where
  "cluster_failure_response scenarios failures text =
     \<lparr>rn_results = dict_merge [] (map (\<lambda>s. (rv_name s, failed_placeholder s)) scenarios),
      rn_all_passed = False,
      rn_startup = Some \<lparr>su_dropped_peers = dict_merge [] failures, su_trimmed = [], su_skipped = [],
        su_cluster_error = Some text\<rparr>\<rparr>"

definition report_response :: "run_report \<Rightarrow> run_response" where
  "report_response ru = \<lparr>rn_results = ru_results ru,
     rn_all_passed = list_all (\<lambda>(n, r). sr_passed r) (ru_results ru), rn_startup = startup_report ru\<rparr>"

subsection \<open>The handler\<close>

definition repr_sdk :: "string option \<Rightarrow> string" where
  "repr_sdk s = (case s of None \<Rightarrow> ''None'' | Some n \<Rightarrow> repr_str n)"

definition msg_nothing_runnable :: "run_request \<Rightarrow> string" where
  "msg_nothing_runnable rq = ''All '' @ show_nat (length (rq_tests rq)) @
     '' scenario declaration(s) resolved to nothing runnable for sut_sdk='' @ repr_sdk (rq_sut_sdk rq) @
     '' '' @ em_dash @ '' filtered by test_when, or excluded as known failures. See the service '' @
     ''log for the per-scenario reasons.''"

definition refused_request :: "py_exn \<Rightarrow> answer" where
  "refused_request e = (case e of
     ScenarioFileError m \<Rightarrow> HttpError 400 (exn_text e)
   | ResolutionError m \<Rightarrow> HttpError 400 (exn_text e)
   | _ \<Rightarrow> Unhandled e)"

definition failed_run :: "resolved_scenario list \<Rightarrow> py_exn \<Rightarrow> answer" where
  "failed_run scenarios e = (case e of
     MatrixError m \<Rightarrow> HttpError 400 (exn_text e)
   | PermanentError m \<Rightarrow> HttpError 400 (exn_text e)
   | InfraFailure m \<Rightarrow> HttpError 502 (exn_text e)
   | ClusterStartupError failures summary \<Rightarrow>
       Answered (cluster_failure_response scenarios failures (exn_text e))
   | _ \<Rightarrow> HttpError 500 (''Execution error: '' @ exn_text e))"

definition run_tests_handler ::
  "sources \<Rightarrow> (resolved_scenario list \<Rightarrow> ('w, run_report) state_result) \<Rightarrow> run_request \<Rightarrow> 'w \<Rightarrow> answer \<times> 'w" where
  "run_tests_handler so run rq w =
     (if rq_tests rq = [] then (HttpError 400 ''No tests provided'', w)
      else case prepare_tests so (JObj [(''tests'', JArr (map JObj (rq_tests rq)))]) (rq_sut_sdk rq) of
        Inl e \<Rightarrow> (refused_request e, w)
      | Inr [] \<Rightarrow> (HttpError 400 (msg_nothing_runnable rq), w)
      | Inr (s # scenarios) \<Rightarrow>
          (case run (s # scenarios) w of
             (Inl e, w') \<Rightarrow> (failed_run (s # scenarios) e, w')
           | (Inr ru, w') \<Rightarrow> (Answered (report_response ru), w')))"

text \<open>The handler over the runner's own \<open>run_scenarios\<close>.\<close>

definition run_service ::
  "sources \<Rightarrow> 'w harness \<Rightarrow> matrix \<Rightarrow> (string \<Rightarrow> string \<Rightarrow> 'w \<Rightarrow> string result \<times> 'w) \<Rightarrow>
   (target_spec list \<Rightarrow> 'w \<Rightarrow> start_outcome list \<times> 'w) \<Rightarrow> ('w \<Rightarrow> 'w) \<Rightarrow> run_request \<Rightarrow> 'w \<Rightarrow> answer \<times> 'w" where
  "run_service so h m resolve_ref start_all close =
     run_tests_handler so (run_scenarios h m resolve_ref start_all close)"

subsection \<open>The response as JSON\<close>

definition json_option :: "('a \<Rightarrow> json) \<Rightarrow> 'a option \<Rightarrow> json" where
  "json_option f v = (case v of None \<Rightarrow> JNull | Some x \<Rightarrow> f x)"

definition json_strings :: "string list \<Rightarrow> json" where "json_strings xs = JArr (map JStr xs)"

definition details_json :: "scenario_result \<Rightarrow> json" where
  "details_json r = JObj [(''passed'', JBool (sr_passed r)), (''sdks'', json_strings (sr_sdks r)),
     (''edges'', json_option json_strings (sr_edges r)), (''protocols'', json_option json_strings (sr_protocols r)),
     (''behavior'', JStr (sr_behavior r)), (''streaming'', JBool (sr_streaming r)), (''tier'', JStr (sr_tier r))]"

definition cost_json :: "string \<Rightarrow> (string \<times> string list) list \<Rightarrow> json" where
  "cost_json key cs = JArr (map (\<lambda>(n, ids). JObj [(''name'', JStr n), (key, json_strings ids)]) cs)"

definition startup_json :: "startup \<Rightarrow> json" where
  "startup_json s = JObj [(''dropped_peers'', JObj (map (\<lambda>(i, d). (i, JStr d)) (su_dropped_peers s))),
     (''trimmed'', cost_json ''dropped'' (su_trimmed s)), (''skipped'', cost_json ''missing'' (su_skipped s)),
     (''cluster_error'', json_option JStr (su_cluster_error s))]"

definition response_json :: "run_response \<Rightarrow> json" where
  "response_json r = JObj [(''results'', JObj (map (\<lambda>(n, d). (n, details_json d)) (rn_results r))),
     (''all_passed'', JBool (rn_all_passed r)), (''startup'', json_option startup_json (rn_startup r))]"

text \<open>The body a client reads: FastAPI's error envelope for an HTTP error.\<close>

fun answer_body :: "answer \<Rightarrow> json option" where
  "answer_body (Answered r) = Some (response_json r)"
| "answer_body (HttpError status m) = Some (JObj [(''detail'', JStr m)])"
| "answer_body (Unhandled e) = None"

subsection \<open>Laws\<close>

lemma refused_request_not_answered [simp]: "refused_request e \<noteq> Answered r"
  by (cases e) (simp_all add: refused_request_def)

lemma answered_cases:
  assumes "run_tests_handler so run rq w = (Answered r, w')"
  obtains (ran) scenarios ru where "r = report_response ru" "run scenarios w = (Ok ru, w')" "scenarios \<noteq> []"
      "prepare_tests so (JObj [(''tests'', JArr (map JObj (rq_tests rq)))]) (rq_sut_sdk rq) = Ok scenarios"
    | (not_started) scenarios failures summary where "scenarios \<noteq> []"
      "run scenarios w = (Raise (ClusterStartupError failures summary), w')"
      "prepare_tests so (JObj [(''tests'', JArr (map JObj (rq_tests rq)))]) (rq_sut_sdk rq) = Ok scenarios"
      "r = cluster_failure_response scenarios failures (exn_text (ClusterStartupError failures summary))"
proof -
  let ?p = "prepare_tests so (JObj [(''tests'', JArr (map JObj (rq_tests rq)))]) (rq_sut_sdk rq)"
  from assms obtain s scs where p: "?p = Ok (s # scs)"
    by (auto simp: run_tests_handler_def split: if_splits sum.splits list.splits)
  obtain x w1 where run: "run (s # scs) w = (x, w1)" by fastforce
  have start: "e = ClusterStartupError f u \<and> r = cluster_failure_response (s # scs) f (exn_text e) \<longrightarrow> thesis"
    if "x = Raise e" "w1 = w'" for e f u using not_started [of "s # scs" f u] that p run by auto
  from assms p run show thesis
  proof (cases x)
    case (Inl e)
    then show thesis using assms p run start by (cases e) (auto simp: run_tests_handler_def failed_run_def split: if_splits)
  next
    case (Inr ru)
    then show thesis using assms p run ran [of ru "s # scs"] by (auto simp: run_tests_handler_def split: if_splits)
  qed
qed

end
