(* ===== verification/ItkReport.thy ===== *)
theory ItkReport
  imports Service
begin

section \<open>Reading a \<open>/run\<close> response (scripts/itk_report.py)\<close>

text \<open>
  The validation and summary of a saved response. A response is any JSON value, since the script
  reads whatever the service or the network left in the file. Parsing JSON is the standard
  library's and is given as what it returned.
\<close>

definition rule_line :: string where "rule_line = replicate 56 (CHR ''-'')"

definition validate_response :: "json \<Rightarrow> string + (string \<times> json) list" where
  "validate_response data = (case data of
     JObj d \<Rightarrow>
       (case map_of d ''detail'' of
          Some v \<Rightarrow> Inl (''service returned an error: '' @ py_str v)
        | None \<Rightarrow> (case map_of d ''results'' of
            None \<Rightarrow> Inl (''response missing \"results\" field. Keys: '' @ repr_list (str_sort (map fst d)))
          | Some (JObj []) \<Rightarrow> Inl ''\"results\" is empty; nothing ran''
          | Some (JObj rs) \<Rightarrow> Inr d
          | Some v \<Rightarrow> Inl (''\"results\" is not an object (got '' @ type_name v @ '')'')))
   | v \<Rightarrow> Inl (''response is not a JSON object (got '' @ type_name v @ '')''))"

definition scenario_passed :: "json \<Rightarrow> bool" where
  "scenario_passed v = (case v of JObj d \<Rightarrow> truthy (dict_lookup d ''passed'' (JBool False)) | _ \<Rightarrow> False)"

definition py_get :: "json \<Rightarrow> string \<Rightarrow> json \<Rightarrow> json result" where
  "py_get v k v0 = (case v of JObj d \<Rightarrow> Ok (dict_lookup d k v0)
     | _ \<Rightarrow> Raise (AttributeError (repr_str (type_name v) @ '' object has no attribute '' @ repr_str ''get'')))"

definition py_join :: "string \<Rightarrow> json \<Rightarrow> string result" where
  "py_join sep v = rbind (iterate v) (\<lambda>xs.
     if list_all is_str xs then Ok (join_with sep (map py_str xs))
     else Raise (TypeError ''sequence item: expected str instance''))"

definition dict_items :: "json \<Rightarrow> (string \<times> json) list result" where
  "dict_items v = (case v of JObj d \<Rightarrow> Ok d
     | _ \<Rightarrow> Raise (AttributeError (repr_str (type_name v) @ '' object has no attribute '' @ repr_str ''items'')))"

text \<open>\<open>sorted(d.items())\<close>: the keys are distinct, so they alone decide the order.\<close>

definition sorted_items :: "(string \<times> 'a) list \<Rightarrow> (string \<times> 'a) list" where
  "sorted_items d = List.map_filter (\<lambda>k. map_option (Pair k) (map_of d k)) (str_sort (map fst d))"

definition cost_line :: "string \<Rightarrow> string \<Rightarrow> json \<Rightarrow> string result" where
  "cost_line key word entry =
     rbind (py_get entry key (JArr [])) (\<lambda>ids.
     rbind (py_join '', '' ids) (\<lambda>text.
     rbind (py_get entry ''name'' JNull) (\<lambda>n. Ok (''  '' @ py_str n @ '' ('' @ word @ '' '' @ text @ '')''))))"

definition cost_lines :: "string \<Rightarrow> string \<Rightarrow> string \<Rightarrow> json \<Rightarrow> string list result" where
  "cost_lines title key word v =
     (if truthy v then rbind (iterate v) (\<lambda>entries.
        rbind (traverse (cost_line key word) entries) (\<lambda>lines. Ok (title # lines)))
      else Ok [])"

definition startup_lines :: "json option \<Rightarrow> string list result" where
  "startup_lines su = (case su of
     Some (JObj d) \<Rightarrow>
       (if truthy (dict_lookup d ''cluster_error'' JNull)
        then Ok [rule_line, ''CLUSTER STARTUP FAILED: '' @ py_str (dict_lookup d ''cluster_error'' JNull),
               ''Every scenario is recorded as FAILED for this run.'']
        else if \<not> truthy (dict_lookup d ''dropped_peers'' JNull) then Ok []
        else rbind (dict_items (dict_lookup d ''dropped_peers'' JNull)) (\<lambda>peers.
          rbind (cost_lines ''Scenarios run with a peer removed:'' ''dropped'' ''without'' (dict_lookup d ''trimmed'' JNull))
            (\<lambda>trimmed.
          rbind (cost_lines ''Scenarios SKIPPED (a required peer was down):'' ''missing'' ''needs'' (dict_lookup d ''skipped'' JNull))
            (\<lambda>skipped.
          Ok ([rule_line, ''PEERS DROPPED (failed to build/start, excluded):''] @
              map (\<lambda>(agent, detail). ''  '' @ agent @ '': '' @ py_str detail) (sorted_items peers) @ trimmed @ skipped)))))
   | _ \<Rightarrow> Ok [])"

definition passed_word :: "bool \<Rightarrow> string" where
  "passed_word b = (if b then ''PASSED'' else ''FAILED'')"

definition format_report :: "(string \<times> json) list \<Rightarrow> string \<Rightarrow> (string list \<times> bool) result" where
  "format_report d title = (case map_of d ''results'' of
     None \<Rightarrow> Raise (KeyError ''results'')
   | Some results \<Rightarrow>
       rbind (dict_items results) (\<lambda>items.
       rbind (startup_lines (map_of d ''startup'')) (\<lambda>cost.
         let all_passed = truthy (dict_lookup d ''all_passed'' (JBool False)) \<and> truthy results
         in Ok ([rule_line, title @ '':'', rule_line] @
              map (\<lambda>(n, v). n @ '': '' @ passed_word (scenario_passed v)) items @ cost @
              [rule_line, ''OVERALL STATUS: '' @ passed_word all_passed], all_passed))))"

text \<open>
  \<open>main\<close>: the lines printed on either stream and the exit code. An exception ends the script
  with code 1, as the interpreter does.
\<close>

definition itk_report_main :: "(string + json) \<Rightarrow> string \<Rightarrow> string \<Rightarrow> bool \<Rightarrow> string list \<times> nat" where
  "itk_report_main parsed raw title require_all_passed = (case parsed of
     Inl e \<Rightarrow> ([''ERROR: could not parse ITK response JSON: '' @ e, ''Raw response: '' @ raw], 1)
   | Inr data \<Rightarrow> (case validate_response data of
       Inl e \<Rightarrow> ([''ERROR: '' @ e, ''Raw response: '' @ raw], 1)
     | Inr d \<Rightarrow> (case format_report d title of
         Inl e \<Rightarrow> ([exn_text e], 1)
       | Inr (lines, all_passed) \<Rightarrow> (lines, if require_all_passed \<and> \<not> all_passed then 1 else 0))))"

subsection \<open>Laws\<close>

lemma scenario_passed_details [simp]: "scenario_passed (details_json r) = sr_passed r"
  by (simp add: scenario_passed_def details_json_def dict_lookup_def)

lemma is_str_strings [simp]: "list_all is_str (map JStr xs)"
  by (simp add: list_all_iff)

lemma py_str_JStr [simp]: "py_str (JStr s) = s" by (simp add: py_str_def)

lemma cost_line_json:
  "key \<noteq> ''name'' \<Longrightarrow> cost_line key word (JObj [(''name'', JStr n), (key, json_strings ids)]) =
     Ok (''  '' @ n @ '' ('' @ word @ '' '' @ join_with '', '' ids @ '')'')"
  by (simp add: cost_line_def py_get_def dict_lookup_def py_join_def iterate_def json_strings_def o_def)

lemma cost_lines_json:
  "key \<noteq> ''name'' \<Longrightarrow> \<exists>lines. cost_lines title key word (cost_json key cs) = Ok lines"
proof -
  assume "key \<noteq> ''name''"
  then have "traverse (cost_line key word) (map (\<lambda>(n, ids). JObj [(''name'', JStr n), (key, json_strings ids)]) cs) =
      Ok (map (\<lambda>v. case cost_line key word v of Inr l \<Rightarrow> l)
        (map (\<lambda>(n, ids). JObj [(''name'', JStr n), (key, json_strings ids)]) cs))"
    by (intro traverse_all_Ok) (auto simp: cost_line_json)
  then show ?thesis by (simp add: cost_lines_def cost_json_def iterate_def)
qed

lemma startup_lines_json: "\<exists>lines. startup_lines (Some (json_option startup_json su)) = Ok lines"
proof (cases su)
  case (Some s)
  obtain l1 where l1: "cost_lines ''Scenarios run with a peer removed:'' ''dropped'' ''without''
      (cost_json ''dropped'' (su_trimmed s)) = Ok l1"
    using cost_lines_json [of "''dropped''"] by fastforce
  obtain l2 where l2: "cost_lines ''Scenarios SKIPPED (a required peer was down):'' ''missing'' ''needs''
      (cost_json ''missing'' (su_skipped s)) = Ok l2"
    using cost_lines_json [of "''missing''"] by fastforce
  show ?thesis
    by (simp add: Some startup_lines_def json_option_def startup_json_def dict_lookup_def dict_items_def l1 l2)
qed (simp add: startup_lines_def json_option_def)

lemma validate_response_json:
  "validate_response (response_json r) = (if rn_results r = [] then Inl ''\"results\" is empty; nothing ran''
     else Inr [(''results'', JObj (map (\<lambda>(n, d). (n, details_json d)) (rn_results r))),
       (''all_passed'', JBool (rn_all_passed r)), (''startup'', json_option startup_json (rn_startup r))])"
  by (cases "rn_results r") (auto simp: validate_response_def response_json_def)

definition result_lines :: "run_response \<Rightarrow> string list" where
  "result_lines r = map (\<lambda>(n, d). n @ '': '' @ passed_word (sr_passed d)) (rn_results r)"

lemma report_of_response:
  assumes "rn_results r \<noteq> []"
  obtains cost where "itk_report_main (Inr (response_json r)) raw title strict =
    ([rule_line, title @ '':'', rule_line] @ result_lines r @ cost @
       [rule_line, ''OVERALL STATUS: '' @ passed_word (rn_all_passed r)],
     if strict \<and> \<not> rn_all_passed r then 1 else 0)"
proof -
  obtain cost where "startup_lines (Some (json_option startup_json (rn_startup r))) = Ok cost"
    using startup_lines_json by blast
  with assms have "itk_report_main (Inr (response_json r)) raw title strict =
    ([rule_line, title @ '':'', rule_line] @ result_lines r @ cost @
       [rule_line, ''OVERALL STATUS: '' @ passed_word (rn_all_passed r)],
     if strict \<and> \<not> rn_all_passed r then 1 else 0)"
    by (simp add: itk_report_main_def validate_response_json format_report_def dict_items_def dict_lookup_def
        result_lines_def o_def case_prod_unfold Let_def)
  then show thesis by (rule that)
qed

lemma dict_merge_from: "(k, v) \<in> set (dict_merge [] e) \<Longrightarrow> (k, v) \<in> set e"
proof -
  have "distinct (map fst d) \<Longrightarrow> distinct (map fst (dict_merge d e))" for d
    by (induction e arbitrary: d) (auto simp: dict_merge_def distinct_update)
  then have "distinct (map fst (dict_merge [] e))" by simp
  moreover assume "(k, v) \<in> set (dict_merge [] e)"
  ultimately have "map_of (dict_merge [] e) k = Some v" by simp
  then have "map_of (rev e) k = Some v" by (simp add: map_of_dict_merge split: option.splits)
  then show "(k, v) \<in> set e" by (auto dest: map_of_SomeD)
qed

lemma dict_merge_empty [simp]: "dict_merge [] e = [] \<longleftrightarrow> e = []"
proof -
  have "map_of (dict_merge [] e) (fst x) \<noteq> None" if "x \<in> set e" for x
    using that by (force simp: map_of_dict_merge map_of_eq_None_iff split: option.splits)
  from this [of "hd e"] show ?thesis by (cases e) (auto simp: dict_merge_def)
qed

lemma all_passed_is_all:
  assumes "run_tests_handler so run rq w = (Answered r, w')"
  shows "rn_results r \<noteq> [] \<Longrightarrow> rn_all_passed r = list_all (\<lambda>(n, d). sr_passed d) (rn_results r)"
  using assms
proof (cases rule: answered_cases)
  case (not_started scenarios failures summary)
  assume "rn_results r \<noteq> []"
  then obtain n d where "(n, d) \<in> set (rn_results r)" by (cases "rn_results r") auto
  moreover from this have "\<not> sr_passed d" 
    by (auto simp: not_started(4) cluster_failure_response_def failed_placeholder_def dest!: dict_merge_from)
  ultimately have "\<not> list_all (\<lambda>(n, d). sr_passed d) (rn_results r)" by (auto simp: list_all_iff)
  then show ?thesis by (simp add: not_started(4) cluster_failure_response_def)
qed (simp add: report_response_def)

subsection \<open>Properties\<close>

text \<open>
  C8: a run is green exactly when it ran something and all of it passed. Whatever the handler
  answers, the reporter's exit code under \<open>--require-all-passed\<close> is 0 exactly for a response
  that names at least one scenario and whose scenarios all passed; an HTTP error, a cluster that
  did not start and an answer without results all exit with 1.
\<close>

theorem green_means_everything_passed:
  "case run_tests_handler so run rq w of (a, w') \<Rightarrow>
     (map_option (\<lambda>body. snd (itk_report_main (Inr body) raw title True)) (answer_body a) = Some 0 \<longleftrightarrow>
        (case a of Answered r \<Rightarrow> rn_results r \<noteq> [] \<and> list_all (\<lambda>(n, d). sr_passed d) (rn_results r)
         | _ \<Rightarrow> False))"
proof -
  obtain a w' where a: "run_tests_handler so run rq w = (a, w')" by fastforce
  show ?thesis
  proof (cases a)
    case (Answered r)
    show ?thesis
    proof (cases "rn_results r = []")
      case True
      then show ?thesis by (simp add: a Answered itk_report_main_def validate_response_json)
    next
      case False
      obtain cost where "itk_report_main (Inr (response_json r)) raw title True =
          ([rule_line, title @ '':'', rule_line] @ result_lines r @ cost @
             [rule_line, ''OVERALL STATUS: '' @ passed_word (rn_all_passed r)],
           if True \<and> \<not> rn_all_passed r then 1 else 0)"
        using False by (rule report_of_response)
      with False all_passed_is_all [OF a [unfolded Answered] False] show ?thesis by (simp add: a Answered)
    qed
  qed (simp_all add: a itk_report_main_def validate_response_def)
qed

end
