(* ===== verification/History.thy ===== *)
theory History
  imports ItkReport Paths
begin

section \<open>The nightly history (scripts/process_results.py)\<close>

text \<open>
  How a saved \<open>/run\<close> response becomes an entry of the rolling history. What the file system and
  the network gave is an argument; the script either writes a history or exits with code 1 and
  leaves the published file alone, which is \<open>None\<close>.
\<close>

subsection \<open>Inputs\<close>

datatype file_read = Absent | Unreadable | Parsed json

text \<open>The download: an HTTP status with the parsed body (\<open>None\<close>: not JSON), an HTTP error, or any other failure.\<close>

datatype fetched = Fetched nat "json option" | HttpFailed nat | FetchFailed

record metrics_env =
  mx_timestamp :: string
  mx_commit_sha :: string
  mx_run_id :: string
  mx_limit :: "string option"

definition load_raw_results :: "file_read \<Rightarrow> json option" where
  "load_raw_results f = (case f of Parsed v \<Rightarrow> Some v | _ \<Rightarrow> None)"

definition fetch_existing_history :: "fetched \<Rightarrow> json list option" where
  "fetch_existing_history f = (case f of
     Fetched status body \<Rightarrow>
       (if status = 200 then (case body of Some (JArr xs) \<Rightarrow> Some xs | _ \<Rightarrow> None) else None)
   | HttpFailed status \<Rightarrow> (if status = 404 then Some [] else None)
   | FetchFailed \<Rightarrow> None)"

definition load_scenarios :: "file_read \<Rightarrow> bool \<Rightarrow> json list option" where
  "load_scenarios f required = (case f of
     Absent \<Rightarrow> (if required then None else Some [])
   | Unreadable \<Rightarrow> None
   | Parsed v \<Rightarrow> (case v of
       JObj d \<Rightarrow> (case map_of d ''tests'' of
           None \<Rightarrow> None
         | Some tests \<Rightarrow> (case iterate tests of Inl e \<Rightarrow> None | Inr xs \<Rightarrow> Some xs))
     | _ \<Rightarrow> None))"

text \<open>
  The scenarios by name: only a string can be the name of a result, and a name that is no string
  is a key nothing finds, unless it cannot be a key at all.
\<close>

definition index_scenario :: "json \<Rightarrow> (string, (string \<times> json) list) dict \<Rightarrow> (string, (string \<times> json) list) dict option" where
  "index_scenario b named = (case b of
     JObj d \<Rightarrow> (case map_of d ''name'' of
         Some (JStr n) \<Rightarrow> Some (AList.update n d named)
       | Some v \<Rightarrow> if is_mapping v \<or> is_array v then None else Some named
       | None \<Rightarrow> Some named)
   | JStr s \<Rightarrow> if contains s ''name'' then None else Some named
   | JArr xs \<Rightarrow> if JStr ''name'' \<in> set xs then None else Some named
   | _ \<Rightarrow> None)"

fun index_scenarios :: "json list \<Rightarrow> (string, (string \<times> json) list) dict \<Rightarrow> (string, (string \<times> json) list) dict option" where
  "index_scenarios [] named = Some named"
| "index_scenarios (b # bs) named = Option.bind (index_scenario b named) (index_scenarios bs)"

subsection \<open>One record\<close>

definition self_describing_keys :: "string list" where "self_describing_keys = [''protocols'', ''behavior'']"

definition is_self_describing :: "json \<Rightarrow> bool" where
  "is_self_describing v = (case v of
     JObj d \<Rightarrow> list_ex (\<lambda>k. dict_lookup d k JNull \<noteq> JNull) self_describing_keys | _ \<Rightarrow> False)"

definition pick :: "(string \<times> json) list \<Rightarrow> (string \<times> json) list \<Rightarrow> string \<Rightarrow> json" where
  "pick details base k = (case dict_lookup details k JNull of JNull \<Rightarrow> dict_lookup base k JNull | v \<Rightarrow> v)"

definition build_record :: "string \<Rightarrow> (string \<times> json) list \<Rightarrow> (string \<times> json) list option \<Rightarrow> json" where
  "build_record n details scenario =
     (let base = (case scenario of None \<Rightarrow> [] | Some b \<Rightarrow> b);
          sdks = dict_lookup details ''sdks'' JNull;
          has = (\<lambda>k d. map_of d k \<noteq> None)
      in JObj ([(''name'', JStr n),
         (''sdks'', if truthy sdks then sdks else dict_lookup base ''sdks'' (JArr [])),
         (''edges'', pick details base ''edges''), (''protocols'', pick details base ''protocols''),
         (''behavior'', pick details base ''behavior''),
         (''traversal'', dict_lookup base ''traversal'' (JStr ''euler'')),
         (''passed'', JBool (truthy (dict_lookup details ''passed'' (JBool False))))] @
       (if has ''streaming'' details \<or> has ''streaming'' base
        then [(''streaming'', dict_lookup details ''streaming'' (dict_lookup base ''streaming'' JNull))] else []) @
       (case map_of base ''build_subtests'' of None \<Rightarrow> [] | Some v \<Rightarrow> [(''build_subtests'', v)])))"

text \<open>A subtest \<open><parent>-sub-<agents>\<close> shares its parent's definition.\<close>

definition definition_of :: "(string, (string \<times> json) list) dict \<Rightarrow> string \<Rightarrow> (string \<times> json) list option" where
  "definition_of named n = (case map_of named n of
     Some b \<Rightarrow> Some b | None \<Rightarrow> map_of named (hd (split_on ''-sub-'' n)))"

definition result_details :: "json \<Rightarrow> (string \<times> json) list option" where
  "result_details v = (case v of
     JBool b \<Rightarrow> Some [(''passed'', JBool b)] | JObj d \<Rightarrow> Some d | _ \<Rightarrow> None)"

definition compile_scenario ::
  "(string, (string \<times> json) list) dict \<Rightarrow> string \<times> json \<Rightarrow> json option" where
  "compile_scenario named = (\<lambda>(n, v). Option.bind (result_details v) (\<lambda>details.
     let base = definition_of named n in
     if base = None \<and> \<not> is_self_describing (JObj details) then None
     else Some (build_record n details base)))"

subsection \<open>The rolling window\<close>

text \<open>\<open>xs[i:]\<close>.\<close>

definition slice_from :: "int \<Rightarrow> 'a list \<Rightarrow> 'a list" where
  "slice_from i xs = (if 0 \<le> i then drop (nat i) xs else drop (length xs - nat (- i)) xs)"

definition prune_history :: "int \<Rightarrow> 'a list \<Rightarrow> 'a list" where
  "prune_history limit h = (if int (length h) > limit then slice_from (- limit) h else h)"

definition default_history_limit :: int where "default_history_limit = 50"

definition limit_of :: "string option \<Rightarrow> int \<Rightarrow> int option" where
  "limit_of text standard = (case text of None \<Rightarrow> Some standard | Some s \<Rightarrow> int_text s)"

definition run_entry :: "metrics_env \<Rightarrow> json \<Rightarrow> json list \<Rightarrow> json" where
  "run_entry mx all_passed scenarios = JObj [(''timestamp'', JStr (mx_timestamp mx)),
     (''commit_sha'', JStr (mx_commit_sha mx)), (''github_run_id'', JStr (mx_run_id mx)),
     (''all_passed'', all_passed), (''scenarios'', JArr scenarios)]"

subsection \<open>The script\<close>

definition compile_all :: "(string, (string \<times> json) list) dict \<Rightarrow> (string \<times> json) list \<Rightarrow> json list option" where
  "compile_all named results =
     (let compiled = map (compile_scenario named) results in
      if None \<in> set compiled then None else Some (map the compiled))"

definition process_results :: "metrics_env \<Rightarrow> file_read \<Rightarrow> fetched \<Rightarrow> file_read \<Rightarrow> json list option" where
  "process_results mx raw net scenarios_file = (case load_raw_results raw of
     Some (JObj d) \<Rightarrow> (case dict_lookup d ''results'' (JObj []) of
         JObj results \<Rightarrow>
           Option.bind (fetch_existing_history net) (\<lambda>history.
           Option.bind (load_scenarios scenarios_file (\<not> list_all (is_self_describing \<circ> snd) results)) (\<lambda>bases.
           Option.bind (index_scenarios bases []) (\<lambda>named.
           if results = [] then None
           else Option.bind (compile_all named results) (\<lambda>scenarios.
           map_option (\<lambda>limit. prune_history limit
               (history @ [run_entry mx (dict_lookup d ''all_passed'' (JBool False)) scenarios]))
             (limit_of (mx_limit mx) default_history_limit)))))
       | _ \<Rightarrow> None)
   | _ \<Rightarrow> None)"

subsection \<open>Laws\<close>

lemma prune_keeps_latest:
  "1 \<le> limit \<Longrightarrow> prune_history limit h = drop (length h - nat limit) h"
  by (auto simp: prune_history_def slice_from_def)

lemma prune_zero_keeps_all: "prune_history 0 h = h"
  by (simp add: prune_history_def slice_from_def)

lemma prune_negative_drops_oldest: "limit < 0 \<Longrightarrow> prune_history limit h = drop (nat (- limit)) h"
  by (auto simp: prune_history_def slice_from_def)

lemma build_record_fields:
  "mapping_get (build_record n details base) ''name'' = Some (JStr n)"
  "mapping_get (build_record n details base) ''passed'' =
     Some (JBool (truthy (dict_lookup details ''passed'' (JBool False))))"
  by (simp_all add: build_record_def Let_def)

lemma compile_all_Some:
  "compile_all named results = Some rs \<longleftrightarrow> list_all2 (\<lambda>x r. compile_scenario named x = Some r) results rs"
proof -
  have all: "ys = map Some rs \<longleftrightarrow> None \<notin> set ys \<and> map the ys = rs" for ys :: "json option list"
    by (induction ys rs rule: list_induct2') auto
  have "list_all2 (\<lambda>x r. f x = Some r) xs rs \<longleftrightarrow> map f xs = map Some rs" for f :: "string \<times> json \<Rightarrow> json option" and xs
    by (induction xs rs rule: list_induct2') auto
  then show ?thesis by (simp only: all compile_all_def Let_def) simp
qed

text \<open>A bare boolean counts as its own outcome.\<close>

definition recorded_outcome :: "json \<Rightarrow> bool" where
  "recorded_outcome v = (case v of JBool b \<Rightarrow> b | v \<Rightarrow> scenario_passed v)"

lemma compiled_fields:
  "compile_scenario named (n, v) = Some r \<Longrightarrow>
     mapping_get r ''name'' = Some (JStr n) \<and> mapping_get r ''passed'' = Some (JBool (recorded_outcome v))"
  by (cases v) (auto simp: compile_scenario_def result_details_def build_record_fields recorded_outcome_def
      scenario_passed_def dict_lookup_def bind_eq_Some_conv Let_def split: if_splits)

text \<open>What the service returns describes itself, and needs no scenario file.\<close>

lemma details_self_describing [simp]: "is_self_describing (details_json r)"
  by (simp add: is_self_describing_def self_describing_keys_def details_json_def dict_lookup_def)

definition history_record :: "string \<times> scenario_result \<Rightarrow> json" where
  "history_record = (\<lambda>(n, r). JObj ([(''name'', JStr n), (''sdks'', json_strings (sr_sdks r)),
     (''edges'', json_option json_strings (sr_edges r)), (''protocols'', json_option json_strings (sr_protocols r)),
     (''behavior'', JStr (sr_behavior r)), (''traversal'', JStr ''euler''), (''passed'', JBool (sr_passed r)),
     (''streaming'', JBool (sr_streaming r))]))"

lemma compile_details: "compile_scenario [] (n, details_json r) = Some (history_record (n, r))"
proof -
  have "truthy (json_strings xs) \<longleftrightarrow> xs \<noteq> []" "json_strings [] = JArr []" for xs
    by (simp_all add: json_strings_def)
  then show ?thesis
    by (simp add: compile_scenario_def details_json_def result_details_def is_self_describing_def
        self_describing_keys_def dict_lookup_def build_record_def history_record_def pick_def definition_of_def
        json_option_def json_strings_def split: option.split)
qed

lemma compile_response:
  "compile_all [] (map (\<lambda>(n, r). (n, details_json r)) rs) = Some (map history_record rs)"
  by (simp add: compile_all_Some list_all2_conv_all_nth case_prod_unfold compile_details)

subsection \<open>Properties\<close>


definition no_env :: metrics_env where
  "no_env = \<lparr>mx_timestamp = ''t'', mx_commit_sha = ''c'', mx_run_id = ''0'', mx_limit = Some ''2''\<rparr>"

definition two_results :: "(string \<times> json) list" where
  "two_results = [(''results'', JObj [(''A'', JBool True),
     (''B-sub-x'', JObj [(''passed'', JBool False), (''behavior'', JStr ''send_message'')])]), (''all_passed'', JBool False)]"

definition named_file :: file_read where
  "named_file = Parsed (JObj [(''tests'', JArr [JObj [(''name'', JStr ''A'')], JObj [(''name'', JStr ''B'')]])])"

definition old_runs :: "json list" where "old_runs = [JInt 1, JInt 2]"



definition one_answer :: run_response where
  "one_answer = \<lparr>rn_results = [(''A'', \<lparr>sr_passed = True, sr_sdks = [''current'', ''x''], sr_edges = None,
     sr_protocols = None, sr_behavior = ''send_message'', sr_streaming = False, sr_tier = ''pr''\<rparr>)],
     rn_all_passed = True, rn_startup = None\<rparr>"


end
