(* ===== verification/ActsReport.thy ===== *)
theory ActsReport
  imports History Report
begin

section \<open>Reading and recording conformance reports (scripts/acts_report.py, scripts/process_acts_results.py)\<close>

text \<open>
  The two scripts that read the report document of a conformance run as the JSON it was saved as:
  its validation and summary, and its reduction to an entry of the rolling history. They compute
  the verdict from the document independently of \<open>acts/report.py\<close>. A count is an integer (a float,
  which no runner writes, counts as no number); a transport is a string.
\<close>

subsection \<open>The document as JSON\<close>

definition level_json :: "level_summary \<Rightarrow> (string \<times> json) list" where
  "level_json c = [(''total'', JInt (int (sm_total c))), (''passed'', JInt (int (sm_passed c))),
     (''failed'', JInt (int (sm_failed c))), (''skipped'', JInt (int (sm_skipped c))),
     (''errors'', JInt (int (sm_errors c)))]"

definition summary_json :: "report_summary \<Rightarrow> json" where
  "summary_json s = JObj [(''total'', JInt (int (sm_total s))), (''passed'', JInt (int (sm_passed s))),
     (''failed'', JInt (int (sm_failed s))), (''skipped'', JInt (int (sm_skipped s))),
     (''errors'', JInt (int (sm_errors s))), (''duration_ms'', JInt (int (sm_duration_ms s))),
     (''by_level'', JObj (map (\<lambda>(l, c). (level_value l, JObj (level_json c))) (sm_by_level s)))]"

definition suite_json :: "report_suite \<Rightarrow> json" where
  "suite_json s = JObj [(''id'', JStr (rs_id s)), (''name'', JStr (rs_name s)), (''tests'', JArr (rs_tests s))]"

definition strings_json :: "(string, string) dict \<Rightarrow> json" where
  "strings_json d = JObj (map (\<lambda>(k, v). (k, JStr v)) d)"

definition report_json :: "report \<Rightarrow> json" where
  "report_json rp = JObj [(''acts_version'', JStr (rp_acts_version rp)), (''spec_version'', JStr (rp_spec_version rp)),
     (''generated_at'', JStr (rp_generated_at rp)), (''sdk'', strings_json (rp_sdk rp)),
     (''transport'', JStr (rp_transport rp)), (''environment'', strings_json (rp_environment rp)),
     (''summary'', summary_json (rp_summary rp)), (''suites'', JArr (map suite_json (rp_suites rp)))]"

subsection \<open>Reading a value\<close>

definition py_index :: "json \<Rightarrow> string \<Rightarrow> json result" where
  "py_index v k = (case v of
     JObj d \<Rightarrow> (case map_of d k of None \<Rightarrow> Raise (KeyError k) | Some x \<Rightarrow> Ok x)
   | _ \<Rightarrow> Raise (TypeError (repr_str (type_name v) @ '' object is not subscriptable by a string'')))"

text \<open>\<open>v.get(k) or {}\<close>.\<close>

definition get_or_empty :: "json \<Rightarrow> string \<Rightarrow> json result" where
  "get_or_empty v k = rbind (py_get v k JNull) (\<lambda>x. Ok (if truthy x then x else JObj []))"

definition int_of :: "json \<Rightarrow> int result" where
  "int_of v = (case v of JInt i \<Rightarrow> Ok i | JBool b \<Rightarrow> Ok (if b then 1 else 0)
     | _ \<Rightarrow> Raise (TypeError ''unsupported operand type(s)''))"

text \<open>Every test of every suite, in order.\<close>

definition report_tests :: "json \<Rightarrow> json list result" where
  "report_tests data =
     rbind (py_get data ''suites'' (JArr [])) (\<lambda>suites. rbind (iterate suites) (\<lambda>ss.
     rbind (traverse (\<lambda>s. rbind (py_get s ''tests'' (JArr [])) iterate) ss) (\<lambda>tss. Ok (concat tss))))"

subsection \<open>acts_report.py\<close>

definition required_report_keys :: "string list" where
  "required_report_keys = [''summary'', ''suites'', ''sdk'', ''transport'']"

definition validate_report :: "json \<Rightarrow> string + (string \<times> json) list" where
  "validate_report data = (case data of
     JObj d \<Rightarrow>
       (if map_of d ''detail'' \<noteq> None \<and> map_of d ''summary'' = None
        then Inl (''service returned an error: '' @ py_str (the (map_of d ''detail'')))
        else case find (\<lambda>k. map_of d k = None) required_report_keys of
          Some k \<Rightarrow> Inl (''report is missing '' @ repr_str k)
        | None \<Rightarrow> (case map_of d ''summary'' of
            Some (JObj s) \<Rightarrow>
              (if map_of s ''by_level'' = None then Inl ''report summary is malformed''
               else if \<not> truthy (dict_lookup s ''total'' JNull) then Inl ''report contains no tests''
               else Inr d)
          | _ \<Rightarrow> Inl ''report summary is malformed''))
   | v \<Rightarrow> Inl (''expected a JSON object, got '' @ type_name v))"

definition no_failures :: "json \<Rightarrow> bool result" where
  "no_failures must = rbind (py_get must ''failed'' JNull) (\<lambda>failed.
     if truthy failed then Ok False
     else rbind (py_get must ''errors'' JNull) (\<lambda>errors. Ok (\<not> truthy errors)))"

definition acts_is_conformant :: "json \<Rightarrow> bool result" where
  "acts_is_conformant data =
     rbind (py_index data ''summary'') (\<lambda>s. rbind (py_index s ''by_level'') (\<lambda>by_level.
     rbind (py_get by_level ''must'' (JObj [])) no_failures))"

definition failure_of :: "json \<Rightarrow> (string \<times> string) list result" where
  "failure_of t = rbind (py_get t ''result'' JNull) (\<lambda>out.
     if out = JStr ''fail'' \<or> out = JStr ''error''
     then rbind (get_or_empty t ''failure'') (\<lambda>detail. rbind (py_index t ''id'') (\<lambda>i.
       rbind (py_get detail ''message'' (JStr ''(no detail)'')) (\<lambda>m. Ok [(py_str i, py_str m)])))
     else Ok [])"

definition acts_failures :: "json \<Rightarrow> (string \<times> string) list result" where
  "acts_failures data = rbind (report_tests data) (\<lambda>ts. rbind (traverse failure_of ts) (\<lambda>fs. Ok (concat fs)))"

definition blocked_prefix :: string where
  "blocked_prefix = ''PRECONDITION CANNOT BE SATISFIED: ''"

definition blocked_by :: "json \<Rightarrow> (string \<times> string) list result" where
  "blocked_by t = rbind (py_get t ''skip_reason'' JNull) (\<lambda>reason.
     if \<not> truthy reason then Ok []
     else case reason of
       JStr s \<Rightarrow> (if starts_with s blocked_prefix
         then rbind (py_index t ''id'') (\<lambda>i. Ok [(py_str i, drop (length blocked_prefix) s)]) else Ok [])
     | v \<Rightarrow> Raise (AttributeError (repr_str (type_name v) @ '' object has no attribute '' @ repr_str ''startswith'')))"

definition acts_blocked :: "json \<Rightarrow> (string \<times> string) list result" where
  "acts_blocked data = rbind (report_tests data) (\<lambda>ts. rbind (traverse blocked_by ts) (\<lambda>bs. Ok (concat bs)))"

text \<open>The levels with their padded labels.\<close>

definition level_labels :: "(string \<times> string) list" where
  "level_labels = [(''must'', ''MUST   ''), (''should'', ''SHOULD ''), (''may'', ''MAY    '')]"

definition counted_word :: "json \<Rightarrow> string \<Rightarrow> string list result" where
  "counted_word counts k = rbind (py_get counts k JNull) (\<lambda>n. Ok (if truthy n then [py_str n @ '' '' @ k] else []))"

definition level_line :: "json \<Rightarrow> string \<times> string \<Rightarrow> string list result" where
  "level_line by_level = (\<lambda>(level, label). rbind (py_get by_level level JNull) (\<lambda>counts.
     if \<not> truthy counts then Ok []
     else rbind (py_index counts ''total'') (\<lambda>t. rbind (int_of t) (\<lambda>total.
          rbind (py_index counts ''skipped'') (\<lambda>s. rbind (int_of s) (\<lambda>skipped.
          rbind (traverse (counted_word counts) [''failed'', ''errors'', ''skipped'']) (\<lambda>extra.
          rbind (py_index counts ''passed'') (\<lambda>passed.
            Ok [''  '' @ label @ py_str passed @ ''/'' @ show_int (total - skipped) @ '' passed'' @
                (if concat extra = [] then [] else '' ('' @ join_with '', '' (concat extra) @ '')'')]))))))))"

definition listed :: "string \<Rightarrow> (string \<times> string) list \<Rightarrow> string list" where
  "listed title entries = (if entries = [] then []
     else [[], show_nat (length entries) @ title] @ map (\<lambda>(i, m). ''  '' @ i @ '': '' @ m) entries)"

definition format_acts_report :: "json \<Rightarrow> string \<Rightarrow> (string list \<times> bool) result" where
  "format_acts_report data title =
     rbind (py_index data ''summary'') (\<lambda>summary. rbind (py_index data ''sdk'') (\<lambda>sdk.
     rbind (py_get sdk ''name'' (JStr ''?'')) (\<lambda>n. rbind (py_index data ''transport'') (\<lambda>transport.
     rbind (py_index summary ''total'') (\<lambda>total. rbind (py_get summary ''duration_ms'' (JInt 0)) (\<lambda>ms.
     rbind (py_index summary ''by_level'') (\<lambda>by_level. rbind (traverse (level_line by_level) level_labels) (\<lambda>levels.
     rbind (acts_failures data) (\<lambda>failed. rbind (acts_blocked data) (\<lambda>blocked.
     rbind (acts_is_conformant data) (\<lambda>conformant.
       Ok ([rule_line, title @ '': '' @ py_str n @ '' / '' @ py_str transport, rule_line,
            py_str total @ '' tests in '' @ py_str ms @ ''ms''] @ concat levels @
           listed '' failing test(s):'' failed @ listed '' test(s) COULD NOT RUN:'' blocked @
           [rule_line, ''CONFORMANCE: '' @ (if conformant then ''CONFORMANT'' else ''NOT CONFORMANT''), rule_line],
           conformant))))))))))))"

definition acts_report_main :: "file_read \<Rightarrow> string \<Rightarrow> bool \<Rightarrow> string list \<times> nat" where
  "acts_report_main response title require_conformant = (case response of
     Parsed data \<Rightarrow> (case validate_report data of
         Inl e \<Rightarrow> ([''Invalid ACTS report: '' @ e], 1)
       | Inr d \<Rightarrow> (case format_acts_report data title of
           Inl e \<Rightarrow> ([exn_text e], 1)
         | Inr (lines, conformant) \<Rightarrow> (lines, if conformant \<or> \<not> require_conformant then 0 else 1)))
   | _ \<Rightarrow> ([''Error reading the report''], 1))"

subsection \<open>process_acts_results.py\<close>

definition optional_field :: "string \<Rightarrow> json \<Rightarrow> (string \<times> json) list result" where
  "optional_field k t = rbind (py_get t k JNull) (\<lambda>v. Ok (if truthy v then [(k, v)] else []))"

definition compile_test :: "json \<Rightarrow> json result" where
  "compile_test t = rbind (py_index t ''id'') (\<lambda>i. rbind (py_get t ''level'' (JStr ''must'')) (\<lambda>l.
     rbind (py_get t ''result'' (JStr ''error'')) (\<lambda>out. rbind (optional_field ''failure'' t) (\<lambda>failure.
     rbind (optional_field ''skip_reason'' t) (\<lambda>reason.
       Ok (JObj ([(''id'', i), (''level'', l), (''result'', out)] @ failure @ reason)))))))"

definition compile_tests :: "json \<Rightarrow> json list result" where
  "compile_tests data = rbind (report_tests data) (traverse compile_test)"

definition history_is_conformant :: "json \<Rightarrow> bool result" where
  "history_is_conformant data =
     rbind (get_or_empty data ''summary'') (\<lambda>s. rbind (get_or_empty s ''by_level'') (\<lambda>by_level.
     rbind (get_or_empty by_level ''must'') no_failures))"

definition count_names :: "string list" where
  "count_names = [''total'', ''passed'', ''failed'', ''skipped'', ''errors'', ''duration_ms'']"

definition counts_of :: "json \<Rightarrow> (string \<times> json) list result" where
  "counts_of summary = traverse (\<lambda>k. rbind (py_get summary k (JInt 0)) (\<lambda>n. Ok (k, n))) count_names"

record transport_slice =
  tl_conformant :: bool
  tl_counts :: "(string \<times> json) list"
  tl_by_level :: json
  tl_tests :: "json list"

definition compile_transport :: "json \<Rightarrow> transport_slice result" where
  "compile_transport data =
     rbind (get_or_empty data ''summary'') (\<lambda>summary. rbind (history_is_conformant data) (\<lambda>conformant.
     rbind (counts_of summary) (\<lambda>counts. rbind (get_or_empty summary ''by_level'') (\<lambda>by_level.
     rbind (compile_tests data) (\<lambda>tests.
       Ok \<lparr>tl_conformant = conformant, tl_counts = counts, tl_by_level = by_level, tl_tests = tests\<rparr>)))))"

definition transport_of :: "json \<Rightarrow> string result" where
  "transport_of data = rbind (py_get data ''transport'' (JStr ''unknown'')) (\<lambda>v. case v of
     JStr t \<Rightarrow> Ok t | _ \<Rightarrow> Raise (TypeError ''transport is not a string''))"

fun sum_counts :: "string \<Rightarrow> transport_slice list \<Rightarrow> int result" where
  "sum_counts k [] = Ok 0"
| "sum_counts k (s # ss) = rbind (int_of (dict_lookup (tl_counts s) k (JInt 0))) (\<lambda>n.
     rbind (sum_counts k ss) (\<lambda>m. Ok (n + m)))"

definition slice_json :: "transport_slice \<Rightarrow> json" where
  "slice_json s = JObj [(''conformant'', JBool (tl_conformant s)), (''summary'', JObj (tl_counts s)),
     (''by_level'', tl_by_level s), (''tests'', JArr (tl_tests s))]"

record acts_entry =
  ae_timestamp :: string
  ae_commit_sha :: string
  ae_run_id :: string
  ae_sdk :: json
  ae_sdk_version :: json
  ae_acts_version :: json
  ae_spec_version :: json
  ae_transports :: "string list"
  ae_conformant :: bool
  ae_summary :: "(string, int) dict"
  ae_results :: "(string, transport_slice) dict"

definition build_run :: "metrics_env \<Rightarrow> json list \<Rightarrow> acts_entry result" where
  "build_run mx reports = (case reports of
     [] \<Rightarrow> Raise (ValueError ''build_run needs at least one report'')
   | first # rest \<Rightarrow>
       rbind (traverse (\<lambda>r. rbind (transport_of r) (\<lambda>t. rbind (compile_transport r) (\<lambda>s. Ok (t, s)))) reports) (\<lambda>slices.
       let results = dict_merge [] slices in
       rbind (traverse (\<lambda>k. rbind (sum_counts k (map snd results)) (\<lambda>n. Ok (k, n))) count_names) (\<lambda>totals.
       rbind (get_or_empty first ''sdk'') (\<lambda>sdk. rbind (py_get sdk ''name'' (JStr ''unknown'')) (\<lambda>n.
       rbind (py_get sdk ''version'' (JStr ''unknown'')) (\<lambda>version.
       rbind (py_get first ''acts_version'' (JStr [])) (\<lambda>acts. rbind (py_get first ''spec_version'' (JStr [])) (\<lambda>spec.
         Ok \<lparr>ae_timestamp = mx_timestamp mx, ae_commit_sha = mx_commit_sha mx, ae_run_id = mx_run_id mx,
           ae_sdk = n, ae_sdk_version = version, ae_acts_version = acts, ae_spec_version = spec,
           ae_transports = str_sort (map fst results), ae_conformant = list_all (\<lambda>(t, s). tl_conformant s) results,
           ae_summary = totals, ae_results = results\<rparr>))))))))"

definition entry_json :: "acts_entry \<Rightarrow> json" where
  "entry_json e = JObj [(''timestamp'', JStr (ae_timestamp e)), (''commit_sha'', JStr (ae_commit_sha e)),
     (''github_run_id'', JStr (ae_run_id e)), (''sdk'', ae_sdk e), (''sdk_version'', ae_sdk_version e),
     (''acts_version'', ae_acts_version e), (''spec_version'', ae_spec_version e),
     (''transports'', json_strings (ae_transports e)), (''conformant'', JBool (ae_conformant e)),
     (''summary'', JObj (map (\<lambda>(k, n). (k, JInt n)) (ae_summary e))),
     (''results'', JObj (map (\<lambda>(t, s). (t, slice_json s)) (ae_results e)))]"

definition fetch_acts_history :: "fetched \<Rightarrow> json list option" where
  "fetch_acts_history f = (case f of
     Fetched status (Some (JArr xs)) \<Rightarrow> Some xs
   | HttpFailed status \<Rightarrow> (if status = 404 then Some [] else None)
   | _ \<Rightarrow> None)"

definition default_acts_limit :: int where "default_acts_limit = 7"

definition load_reports :: "file_read list \<Rightarrow> json list option" where
  "load_reports files = those (map load_raw_results files)"

definition has_tests :: "json \<Rightarrow> bool result" where
  "has_tests data = rbind (compile_tests data) (\<lambda>ts. Ok (ts \<noteq> []))"

text \<open>\<open>None\<close> is exit code 1 with the published file left alone.\<close>

definition process_acts_results :: "metrics_env \<Rightarrow> file_read list \<Rightarrow> fetched \<Rightarrow> json list option" where
  "process_acts_results mx files net =
     Option.bind (load_reports files) (\<lambda>reports.
       if traverse has_tests reports \<noteq> Ok (replicate (length reports) True) then None
       else (case traverse (\<lambda>r. py_get r ''transport'' JNull) reports of
         Inl e \<Rightarrow> None
       | Inr seen \<Rightarrow>
           if \<not> distinct seen then None
           else Option.bind (fetch_acts_history net) (\<lambda>history. case build_run mx reports of
             Inl e \<Rightarrow> None
           | Inr entry \<Rightarrow> map_option (\<lambda>limit. prune_history limit (history @ [entry_json entry]))
               (limit_of (mx_limit mx) default_acts_limit))))"

end
