(* ===== verification/ActsClaims.thy ===== *)
theory ActsClaims
  imports ActsReport
begin

section \<open>One verdict, however the report is read\<close>

text \<open>
  The report is read by three programs: the runner that wrote it, the summary of the job and the
  nightly metrics. What a reader of the verdict relies on is a locale; both scripts provide it, so
  each agrees with the runner. Then the nightly entry: which runs it replaces and what it holds.
\<close>

subsection \<open>Readers of the verdict\<close>

locale verdict_reader =
  fixes verdict :: "json \<Rightarrow> bool result"
  assumes reads_must: "map_of (sm_by_level (rp_summary rp)) MUST = Some c \<Longrightarrow>
    verdict (report_json rp) = Ok (sm_failed c = 0 \<and> sm_errors c = 0)"
begin

lemma verdict_of_run:
  assumes "build_report tm now results s sdk b ms spec acts environment = Ok rp"
  shows "verdict (report_json rp) = Ok (is_conformant results)"
proof -
  have "rp_summary rp = report_summarize results ms"
    using assms by (auto simp: build_report_def Let_def split: if_splits)
  then have "map_of (sm_by_level (rp_summary rp)) MUST = Some (level_summary_of results MUST)"
    by (simp add: report_summarize_def all_levels_def)
  from reads_must [OF this] show ?thesis
    by (simp add: level_summary_of_def level_count conformant_iff_counts)
qed

end

lemma level_value_inj: "level_value l = level_value l' \<longleftrightarrow> l = l'"
  by (cases l; cases l') simp_all

lemma map_of_levels: "map_of (map (\<lambda>(l, c). (level_value l, JObj (level_json c))) d) (level_value l) =
    map_option (\<lambda>c. JObj (level_json c)) (map_of d l)"
  by (induction d) (auto simp: level_value_inj)

lemma must_in_summary:
  assumes "map_of d MUST = Some c"
  shows "map_of (map (\<lambda>(l, c). (level_value l, JObj (level_json c))) d) ''must'' = Some (JObj (level_json c))"
  using map_of_levels [of d MUST] assms by simp

lemma no_failures_json: "no_failures (JObj (level_json c)) = Ok (sm_failed c = 0 \<and> sm_errors c = 0)"
  by (simp add: no_failures_def py_get_def dict_lookup_def level_json_def)

interpretation acts_reader: verdict_reader acts_is_conformant
proof
  fix rp :: report and c
  assume must: "map_of (sm_by_level (rp_summary rp)) MUST = Some c"
  show "acts_is_conformant (report_json rp) = Ok (sm_failed c = 0 \<and> sm_errors c = 0)"
    using must_in_summary [OF must] no_failures_json [of c]
    by (simp add: acts_is_conformant_def py_index_def report_json_def summary_json_def py_get_def dict_lookup_def)
qed

interpretation history_reader: verdict_reader history_is_conformant
proof
  fix rp :: report and c
  assume must: "map_of (sm_by_level (rp_summary rp)) MUST = Some c"
  then have "map (\<lambda>(l, c). (level_value l, JObj (level_json c))) (sm_by_level (rp_summary rp)) \<noteq> []" by auto
  with must_in_summary [OF must] no_failures_json [of c]
  show "history_is_conformant (report_json rp) = Ok (sm_failed c = 0 \<and> sm_errors c = 0)"
    by (simp add: history_is_conformant_def get_or_empty_def report_json_def summary_json_def py_get_def dict_lookup_def
        level_json_def)
qed

subsection \<open>The tests a report lists\<close>

lemma report_tests_json: "report_tests (report_json rp) = Ok (concat (map rs_tests (rp_suites rp)))"
proof -
  have "traverse (\<lambda>s. rbind (py_get s ''tests'' (JArr [])) iterate) (map suite_json ss) = Ok (map rs_tests ss)" for ss
    by (induction ss) (simp_all add: suite_json_def py_get_def dict_lookup_def iterate_def)
  then show ?thesis by (simp add: report_tests_def report_json_def py_get_def dict_lookup_def iterate_def)
qed

lemma listed_tests_are_results:
  assumes "t \<in> set (concat (map rs_tests (report_suites tm results s)))"
  shows "\<exists>r. t = json_of_result tm r"
proof -
  let ?g = "fold (group_test tm (results_by_id results)) (ls_tests s) []"
  have g: "grouped_tests ?g = mset (List.map_filter (\<lambda>t. map_option (json_of_result tm) (map_of (results_by_id results) (lt_id t))) (ls_tests s))"
    "distinct (map fst ?g)"
    using group_tests_add [of "[]" tm "results_by_id results" "ls_tests s"] by (simp_all add: grouped_tests_def)
  have own: "\<exists>r. x = json_of_result tm r" if "x \<in># grouped_tests ?g" for x
    using that by (auto simp: g(1) map_filter_def)
  have upd: "set_mset (grouped_tests (AList.update k v ?g)) \<subseteq> set_mset (grouped_tests ?g) \<union> set (rs_tests v)" for k v
    using grouped_tests_update [OF g(2), of k v]
    by (metis UnI1 set_mset_mset set_mset_union subsetI)
  from assms have "t \<in># grouped_tests ?g \<or> t \<in> json_of_result tm ` set (orphans results s)"
    using upd [of unknown_suite "\<lparr>rs_id = unknown_suite, rs_name = ''Results with no suite in the loaded corpus'',
       rs_tests = map (json_of_result tm) (orphans results s)\<rparr>"]
    by (auto simp: report_suites_def Let_def grouped_tests_def split: if_splits)
  with own show ?thesis by auto
qed

lemma map_of_non_empty: "map_of (non_empty k v) k' = (if k = k' then map_option JStr (case v of Some [] \<Rightarrow> None | _ \<Rightarrow> v) else None)"
  by (auto simp: non_empty_def split: option.split list.split)

lemma result_keys:
  "py_index (json_of_result tm r) ''id'' = Ok (JStr (tr_id r))"
  "py_get (json_of_result tm r) ''level'' v0 = Ok (JStr (level_value (tr_level r)))"
  "py_get (json_of_result tm r) ''result'' v0 = Ok (JStr (outcome_value (tr_result r)))"
  "\<exists>s. py_get (json_of_result tm r) ''skip_reason'' JNull = Ok (json_option JStr s)"
  "\<exists>d. py_get (json_of_result tm r) ''failure'' JNull = Ok (json_option json_of_failure d)"
      apply (simp_all add: json_of_result_def py_index_def py_get_def dict_lookup_def)
   apply (auto simp: map_add_def map_of_non_empty json_option_def split: option.splits if_splits list.splits)
  done

lemma failure_of_result: "\<exists>fs. failure_of (json_of_result tm r) = Ok fs"
proof -
  obtain d where d: "py_get (json_of_result tm r) ''failure'' JNull = Ok (json_option json_of_failure d)"
    using result_keys by blast
  have "\<exists>m. py_get (if truthy v then v else JObj []) ''message'' (JStr ''(no detail)'') = Ok m"
    if "v = json_option json_of_failure d" for v
    using that by (cases d) (auto simp: json_option_def json_of_failure_def py_get_def)
  with d show ?thesis by (auto simp: failure_of_def get_or_empty_def result_keys)
qed

lemma blocked_by_result: "\<exists>bs. blocked_by (json_of_result tm r) = Ok bs"
proof -
  obtain s where "py_get (json_of_result tm r) ''skip_reason'' JNull = Ok (json_option JStr s)"
    using result_keys by blast
  then show ?thesis by (cases s) (auto simp: blocked_by_def json_option_def result_keys)
qed

lemma built_report:
  assumes "build_report tm now results s sdk b ms spec acts environment = Ok rp"
  shows "rp_summary rp = report_summarize results ms" "rp_suites rp = report_suites tm results s"
    "rp_transport rp = binding_value b"
  using assms by (auto simp: build_report_def Let_def split: if_splits)

lemma listed_tests_read:
  assumes "build_report tm now results s sdk b ms spec acts environment = Ok rp"
  shows "\<exists>fs. acts_failures (report_json rp) = Ok fs" "\<exists>bs. acts_blocked (report_json rp) = Ok bs"
proof -
  have each: "\<exists>r. t = json_of_result tm r" if "t \<in> set (concat (map rs_tests (rp_suites rp)))" for t
    using that listed_tests_are_results unfolding built_report(2) [OF assms] by blast
  have "\<exists>fs. traverse failure_of (concat (map rs_tests (rp_suites rp))) = Ok fs"
    unfolding traverse_ex_Ok using each failure_of_result by blast
  then show "\<exists>fs. acts_failures (report_json rp) = Ok fs" by (auto simp: acts_failures_def report_tests_json)
  have "\<exists>bs. traverse blocked_by (concat (map rs_tests (rp_suites rp))) = Ok bs"
    unfolding traverse_ex_Ok using each blocked_by_result by blast
  then show "\<exists>bs. acts_blocked (report_json rp) = Ok bs" by (auto simp: acts_blocked_def report_tests_json)
qed

lemma level_line_read:
  "map_of d level = Some (JObj (level_json c)) \<Longrightarrow> \<exists>lines. level_line (JObj d) (level, label) = Ok lines"
  by (simp add: level_line_def py_get_def dict_lookup_def level_json_def py_index_def int_of_def counted_word_def)

lemma level_lines_read:
  "\<exists>lines. traverse (level_line (JObj (map (\<lambda>(l, c). (level_value l, JObj (level_json c)))
     (sm_by_level (report_summarize results ms))))) level_labels = Ok lines"
proof -
  let ?d = "map (\<lambda>(l, c). (level_value l, JObj (level_json c))) (sm_by_level (report_summarize results ms))"
  have "map_of ?d (level_value l) = Some (JObj (level_json (level_summary_of results l)))" for l
    unfolding map_of_levels by (cases l) (simp_all add: report_summarize_def all_levels_def)
  from this [of MUST] this [of SHOULD] this [of MAY]
  have "\<exists>lines. level_line (JObj ?d) x = Ok lines" if "x \<in> set level_labels" for x
    using that level_line_read by (auto simp: level_labels_def)
  then show ?thesis unfolding traverse_ex_Ok by blast
qed

lemma format_built_report:
  assumes "build_report tm now results s sdk b ms spec acts environment = Ok rp"
  shows "\<exists>lines. format_acts_report (report_json rp) title = Ok (lines, is_conformant results)"
proof -
  obtain fs bs where read: "acts_failures (report_json rp) = Ok fs" "acts_blocked (report_json rp) = Ok bs"
    using listed_tests_read [OF assms] by blast
  obtain levels where levels: "traverse (level_line (JObj (map (\<lambda>(l, c). (level_value l, JObj (level_json c)))
     (sm_by_level (rp_summary rp))))) level_labels = Ok levels"
    using level_lines_read unfolding built_report(1) [OF assms] by blast
  have keys: "py_index (report_json rp) ''summary'' = Ok (summary_json (rp_summary rp))"
    "py_index (report_json rp) ''sdk'' = Ok (strings_json (rp_sdk rp))"
    "py_index (report_json rp) ''transport'' = Ok (JStr (rp_transport rp))"
    by (simp_all add: report_json_def py_index_def)
  have summary: "py_index (summary_json (rp_summary rp)) ''total'' = Ok (JInt (int (sm_total (rp_summary rp))))"
    "py_get (summary_json (rp_summary rp)) ''duration_ms'' (JInt 0) = Ok (JInt (int (sm_duration_ms (rp_summary rp))))"
    "py_index (summary_json (rp_summary rp)) ''by_level'' = Ok (JObj (map (\<lambda>(l, c). (level_value l, JObj (level_json c)))
       (sm_by_level (rp_summary rp))))"
    by (simp_all add: summary_json_def py_index_def py_get_def dict_lookup_def)
  have "py_get (strings_json (rp_sdk rp)) ''name'' (JStr ''?'') \<noteq> Raise e" for e
    by (simp add: strings_json_def py_get_def)
  then obtain n where "py_get (strings_json (rp_sdk rp)) ''name'' (JStr ''?'') = Ok n"
    by (cases "py_get (strings_json (rp_sdk rp)) ''name'' (JStr ''?'')") auto
  with read levels keys summary acts_reader.verdict_of_run [OF assms] show ?thesis
    by (simp add: format_acts_report_def)
qed

lemma validate_built_report:
  assumes "build_report tm now results s sdk b ms spec acts environment = Ok rp"
  shows "(\<exists>d. validate_report (report_json rp) = Inr d) \<longleftrightarrow> results \<noteq> []"
proof -
  have "sm_total (rp_summary rp) = length results"
    by (simp add: built_report(1) [OF assms] report_summarize_def)
  then show ?thesis
    by (simp add: validate_report_def report_json_def summary_json_def required_report_keys_def dict_lookup_def)
qed

lemma runner_verdict:
  assumes "build_report tm now results s sdk b ms spec acts environment = Ok rp"
  shows "report_is_conformant rp = is_conformant results"
  by (simp add: report_is_conformant_def built_report(1) [OF assms] report_summarize_def all_levels_def
      level_summary_of_def level_count conformant_iff_counts)

lemma summary_exit:
  assumes "build_report tm now results s sdk b ms spec acts environment = Ok rp"
  shows "snd (acts_report_main (Parsed (report_json rp)) title True) = 0 \<longleftrightarrow> results \<noteq> [] \<and> is_conformant results"
proof -
  obtain lines where "format_acts_report (report_json rp) title = Ok (lines, is_conformant results)"
    using format_built_report [OF assms] by blast
  with validate_built_report [OF assms] show ?thesis
    by (cases "validate_report (report_json rp)") (auto simp: acts_report_main_def)
qed

subsection \<open>Properties\<close>

text \<open>
  C9: one verdict. Whoever reads the report of a run, the runner that built it, the job's summary
  or the nightly metrics, reads the same verdict, that of the results: no test at level MUST
  failed or errored. The summary exits with 0 under \<open>--require-conformant\<close> exactly when the run
  had results and was conformant; an empty run is refused.
\<close>

theorem every_reader_agrees:
  "case build_report tm now results s sdk b ms spec acts environment of
     Inl e \<Rightarrow> \<not> list_all (\<lambda>k. map_of sdk k \<noteq> None) sdk_keys
   | Inr rp \<Rightarrow> report_is_conformant rp = is_conformant results \<and>
       acts_is_conformant (report_json rp) = Ok (is_conformant results) \<and>
       history_is_conformant (report_json rp) = Ok (is_conformant results) \<and>
       (snd (acts_report_main (Parsed (report_json rp)) title True) = 0 \<longleftrightarrow> results \<noteq> [] \<and> is_conformant results)"
proof (cases "build_report tm now results s sdk b ms spec acts environment")
  case (Inl e)
  then show ?thesis by (auto simp: build_report_def Let_def filter_empty_conv list_all_iff split: if_splits)
next
  case (Inr rp)
  show ?thesis
    by (simp add: Inr acts_reader.verdict_of_run [OF Inr] history_reader.verdict_of_run [OF Inr]
        runner_verdict [OF Inr] summary_exit [OF Inr])
qed

subsection \<open>The nightly entry\<close>

lemma dict_merge_distinct: "distinct (map fst e) \<Longrightarrow> dict_merge [] e = e"
proof -
  have "distinct (map fst d @ map fst e) \<Longrightarrow> dict_merge d e = d @ e" for d
  proof (induction e arbitrary: d)
    case (Cons x e)
    have "AList.update k v d = d @ [(k, v)]" if "k \<notin> fst ` set d" for k v
      using that by (induction d) auto
    with Cons show ?case by (cases x) (auto simp: dict_merge_def)
  qed (simp add: dict_merge_def)
  then show "distinct (map fst e) \<Longrightarrow> ?thesis" by simp
qed

lemma those_Some: "those (map Some ys) = Some ys"
  by (induction ys) auto

definition slice_of :: "json \<Rightarrow> (string \<times> transport_slice) result" where
  "slice_of r = rbind (transport_of r) (\<lambda>t. rbind (compile_transport r) (\<lambda>s. Ok (t, s)))"

lemma build_run_slices:
  assumes "build_run mx reports = Ok entry"
  obtains slices where "traverse slice_of reports = Ok slices" "ae_results entry = dict_merge [] slices"
    "ae_conformant entry = list_all (\<lambda>(t, s). tl_conformant s) (dict_merge [] slices)"
    "traverse (\<lambda>k. rbind (sum_counts k (map snd (dict_merge [] slices))) (\<lambda>n. Ok (k, n))) count_names = Ok (ae_summary entry)"
proof -
  have eta: "slice_of = (\<lambda>r. rbind (transport_of r) (\<lambda>t. rbind (compile_transport r) (\<lambda>s. Ok (t, s))))"
    by (rule ext) (simp add: slice_of_def)
  from assms that show thesis
    by (auto simp: build_run_def eta Let_def rbind_eq_Ok simp del: traverse.simps split: list.splits)
qed

text \<open>A validated report names its transport, so the names the script compares are the keys it stores.\<close>

lemma validated_transport:
  assumes "validate_report r = Inr d" "transport_of r = Ok t"
  shows "py_get r ''transport'' JNull = Ok (JStr t)"
  using assms
  by (auto simp: validate_report_def required_report_keys_def transport_of_def py_get_def dict_lookup_def rbind_eq_Ok
      split: json.splits if_splits option.splits)

lemma transports_are_keys:
  assumes "list_all2 (\<lambda>r x. slice_of r = Ok x) reports slices" "\<forall>r \<in> set reports. \<exists>d. validate_report r = Inr d"
  shows "traverse (\<lambda>r. py_get r ''transport'' JNull) reports = Ok (map (JStr \<circ> fst) slices)"
  using assms
proof (induction rule: list_all2_induct)
  case (Cons r rs x xs)
  then obtain t where t: "transport_of r = Ok t" "fst x = t" by (auto simp: slice_of_def rbind_eq_Ok)
  with Cons have "py_get r ''transport'' JNull = Ok (JStr t)" using validated_transport [of r _ t] by auto
  with Cons t show ?case by simp
qed simp

lemma slice_fields:
  assumes "slice_of r = Ok (t, s)"
  shows "history_is_conformant r = Ok (tl_conformant s)" "compile_tests r = Ok (tl_tests s)" "transport_of r = Ok t"
  using assms by (auto simp: slice_of_def compile_transport_def rbind_eq_Ok)

lemma list_all2_list_all:
  "list_all2 (\<lambda>x y. P x \<longleftrightarrow> Q y) xs ys \<Longrightarrow> list_all P xs \<longleftrightarrow> list_all Q ys"
  by (induction rule: list_all2_induct) auto

lemma slices_recorded:
  assumes "list_all2 (\<lambda>r x. slice_of r = Ok x) reports slices"
    and "traverse has_tests reports = Ok (replicate (length reports) True)"
  shows "list_all2 (\<lambda>r (t, s). transport_of r = Ok t \<and> compile_tests r = Ok (tl_tests s) \<and> tl_tests s \<noteq> [] \<and>
    history_is_conformant r = Ok (tl_conformant s)) reports slices"
  using assms
proof (induction rule: list_all2_induct)
  case (Cons r rs x xs)
  obtain t s where x: "x = (t, s)" by fastforce
  from Cons have "has_tests r = Ok True" "traverse has_tests rs = Ok (replicate (length rs) True)"
    by (auto simp: rbind_eq_Ok)
  with Cons.IH [OF this(2)] Cons.hyps(1) slice_fields [of r t s] show ?case by (simp add: x has_tests_def)
qed simp


definition small_report :: "string \<Rightarrow> int \<Rightarrow> json" where
  "small_report transport failed = JObj [(''sdk'', JObj []), (''transport'', JStr transport),
     (''summary'', JObj [(''total'', JInt 1), (''by_level'', JObj [(''must'', JObj [(''failed'', JInt failed)])])]),
     (''suites'', JArr [JObj [(''tests'', JArr [JObj [(''id'', JStr ''T'')]])]])]"

definition two_reports :: "json list" where
  "two_reports = [small_report ''jsonrpc'' 0, small_report ''grpc'' 1]"


end
