(* ===== verification/Coverage.thy ===== *)
theory Coverage
  imports History
begin

section \<open>Comparing the coverage of two scenario sets (scripts/scenarios_diff.py)\<close>

text \<open>
  The hops a set of resolved scenarios exercises, the difference of two sets, the reasons a hop
  may be dropped for, and the exit code. Python's sets are lists read as sets; the numbers printed
  are those of their distinct elements.
\<close>

type_synonym atom = "string \<times> string \<times> string \<times> string \<times> bool"

subsection \<open>The hops of a scenario\<close>

text \<open>\<open>xs[i]\<close>, a negative index counting from the end.\<close>

definition py_nth :: "'a list \<Rightarrow> int \<Rightarrow> 'a result" where
  "py_nth xs i = (let n = int (length xs) in
     if 0 \<le> i \<and> i < n then Ok (xs ! nat i)
     else if - n \<le> i \<and> i < 0 then Ok (xs ! nat (n + i))
     else Raise (IndexError ''list index out of range''))"

definition int_of_text :: "string \<Rightarrow> int result" where
  "int_of_text s = (case int_text s of Some i \<Rightarrow> Ok i
     | None \<Rightarrow> Raise (ValueError (''invalid literal for int() with base 10: '' @ repr_str s)))"

text \<open>\<open>edge.partition\<close>, without the separator.\<close>

definition partition_edge :: "string \<Rightarrow> string \<times> string" where
  "partition_edge edge = (case split_on ''->'' edge of u # vs \<Rightarrow> (u, join_with ''->'' vs))"

definition edge_pair :: "sdk list \<Rightarrow> string \<Rightarrow> (sdk \<times> sdk) result" where
  "edge_pair sdks edge = (case partition_edge edge of (raw_u, raw_v) \<Rightarrow>
     rbind (int_of_text (py_strip raw_u)) (\<lambda>u. rbind (int_of_text (py_strip raw_v)) (\<lambda>v.
     rbind (py_nth sdks u) (\<lambda>caller. rbind (py_nth sdks v) (\<lambda>callee. Ok (caller, callee))))))"

definition edge_pairs :: "resolved_scenario \<Rightarrow> (sdk \<times> sdk) list result" where
  "edge_pairs s = (case rv_edges s of
     None \<Rightarrow> Ok (complete_edges (rv_sdks s))
   | Some es \<Rightarrow> traverse (edge_pair (rv_sdks s)) es)"

definition covered_transports :: "resolved_scenario \<Rightarrow> string list" where
  "covered_transports s = (case rv_protocols s of Some (t # ts) \<Rightarrow> t # ts | _ \<Rightarrow> transport_order)"

definition atoms :: "resolved_scenario \<Rightarrow> atom list result" where
  "atoms s = rbind (edge_pairs s) (\<lambda>pairs. Ok [(u, v, t, rv_behavior s, rv_streaming s).
     (u, v) \<leftarrow> pairs, t \<leftarrow> covered_transports s])"

definition all_atoms :: "resolved_scenario list \<Rightarrow> atom list result" where
  "all_atoms scs = rbind (traverse atoms scs) (\<lambda>ass. Ok (remdups (concat ass)))"

definition describe_atom :: "atom \<Rightarrow> string" where
  "describe_atom = (\<lambda>(caller, callee, transport, b, streaming).
     caller @ '' -> '' @ callee @ ''  '' @ transport @ ''  '' @ b @ (if streaming then '' streaming'' else []))"

subsection \<open>Reasons\<close>

definition lacks_transport :: "matrix \<Rightarrow> string \<Rightarrow> string \<Rightarrow> string option" where
  "lacks_transport m transport agent = (case matrix_resolve m agent of
     Inl e \<Rightarrow> None
   | Inr e \<Rightarrow> if transport \<in> me_transports e then None
       else Some (''matrix.yaml: '' @ agent @ '' does not speak '' @ transport @ '' (has '' @
         repr_list (sorted_list_of_set (me_transports e)) @ '')''))"

definition explain_drop :: "matrix \<Rightarrow> exclusion list \<Rightarrow> string option \<Rightarrow> atom \<Rightarrow> string option" where
  "explain_drop m known sut_sdk = (\<lambda>(caller, callee, transport, b, streaming).
     case lacks_transport m transport caller of Some why \<Rightarrow> Some why
   | None \<Rightarrow> (case lacks_transport m transport callee of Some why \<Rightarrow> Some why
     | None \<Rightarrow> map_option (\<lambda>e. ''known_failures.yaml: '' @ rule_describe e)
         (find_rule known \<lparr>cb_sdks = [caller, callee], cb_protocols = Some [transport], cb_behavior = b,
            cb_streaming = streaming, cb_sut_sdk = sut_sdk\<rparr>)))"

subsection \<open>The comparison\<close>

record coverage =
  cv_old :: "atom list"
  cv_new :: "atom list"
  cv_explained :: "(atom \<times> string) list"
  cv_unexplained :: "atom list"
  cv_extra :: "atom list"

definition compare_coverage ::
  "matrix \<Rightarrow> exclusion list \<Rightarrow> string option \<Rightarrow> resolved_scenario list \<Rightarrow> resolved_scenario list \<Rightarrow> coverage result" where
  "compare_coverage m known sut_sdk old new =
     rbind (all_atoms old) (\<lambda>old_atoms. rbind (all_atoms new) (\<lambda>new_atoms.
       let missing = sort (filter (\<lambda>a. a \<notin> set new_atoms) old_atoms)
       in Ok \<lparr>cv_old = old_atoms, cv_new = new_atoms,
         cv_explained = List.map_filter (\<lambda>a. map_option (Pair a) (explain_drop m known sut_sdk a)) missing,
         cv_unexplained = filter (\<lambda>a. explain_drop m known sut_sdk a = None) missing,
         cv_extra = sort (filter (\<lambda>a. a \<notin> set old_atoms) new_atoms)\<rparr>))"

definition load_and_resolve ::
  "scenario list result list \<Rightarrow> matrix \<Rightarrow> string option \<Rightarrow> exclusion list \<Rightarrow> resolved_scenario list result" where
  "load_and_resolve files m sut_sdk known =
     rbind (traverse (\<lambda>f. f) files) (\<lambda>scs. rbind (resolve_all (concat scs) m sut_sdk known) (\<lambda>r. Ok (rr_scenarios r)))"

definition coverage_exit :: "coverage result \<Rightarrow> nat" where
  "coverage_exit r = (case r of Inl e \<Rightarrow> 1 | Inr c \<Rightarrow> if cv_unexplained c \<noteq> [] then 1 else 0)"

text \<open>\<open>main\<close>: the legacy side is resolved without exclusions and without a SUT.\<close>

definition scenarios_diff ::
  "matrix \<Rightarrow> exclusion list \<Rightarrow> string option \<Rightarrow> bool \<Rightarrow> scenario list result list \<Rightarrow> scenario list result list \<Rightarrow>
   coverage result" where
  "scenarios_diff m known_failures sut_sdk ignore_known old_files new_files =
     (let known = (if ignore_known then [] else known_failures) in
      rbind (load_and_resolve old_files m None []) (\<lambda>old.
      rbind (load_and_resolve new_files m sut_sdk known) (\<lambda>new.
      compare_coverage m known sut_sdk old new)))"

subsection \<open>Hops of the traversal\<close>

lemma edge_pair_of_indices:
  assumes "edge_indices msg (length sdks) edge = Ok (u, v)"
  shows "edge_pair sdks edge = Ok (sdks ! u, sdks ! v)"
proof -
  from assms obtain a b where ab: "split_on ''->'' edge = [a, b]"
    by (auto simp: edge_indices_def split: list.splits)
  with assms have nums: "py_int (py_strip a) = Ok u" "py_int (py_strip b) = Ok v" and bounds: "u < length sdks" "v < length sdks"
    by (auto simp: edge_indices_def Let_def rbind_eq_Ok split: if_splits)
  have num: "int_of_text (py_strip x) = Ok (int i)" if "py_int (py_strip x) = Ok i" for x i
    using that int_text_digits by (auto simp: py_int_def parse_nat_def int_of_text_def split: if_splits)
  show ?thesis
    using bounds num [OF nums(1)] num [OF nums(2)]
    by (simp add: edge_pair_def partition_edge_def ab py_nth_def Let_def)
qed

lemma edge_pairs_parsed:
  assumes "parse_edge_strings edges sdks = Ok ps"
  shows "traverse (edge_pair sdks) edges = Ok ps"
proof -
  have step: "edge_pair sdks e = Ok p"
    if "rbind (edge_indices msg_edge_format_or_index (length sdks) e) (\<lambda>(u, v). Ok (sdks ! u, sdks ! v)) = Ok p" for e p
  proof -
    from that obtain u v where "edge_indices msg_edge_format_or_index (length sdks) e = Ok (u, v)" "p = (sdks ! u, sdks ! v)"
      by (auto simp: rbind_eq_Ok)
    from edge_pair_of_indices [OF this(1)] this(2) show ?thesis by simp
  qed
  from assms show ?thesis
    unfolding parse_edge_strings_def traverse_Ok_iff by (rule list_all2_mono) (rule step)
qed

lemma edge_indices_below:
  assumes "edge_indices msg n edge = Ok (u, v)"
  shows "u < n" "v < n"
proof -
  from assms obtain a b where "split_on ''->'' edge = [a, b]"
    by (auto simp: edge_indices_def split: list.splits)
  with assms show "u < n" "v < n"
    by (auto simp: edge_indices_def Let_def rbind_eq_Ok split: if_splits)
qed

lemma parsed_pairs_known:
  assumes "parse_edge_strings edges sdks = Ok ps" "(u, v) \<in> set ps"
  shows "u \<in> set sdks" "v \<in> set sdks"
proof -
  from traverse_Ok_member [OF assms(1) [unfolded parse_edge_strings_def]] assms(2) obtain e where
    "rbind (edge_indices msg_edge_format_or_index (length sdks) e) (\<lambda>(u, v). Ok (sdks ! u, sdks ! v)) = Ok (u, v)"
    by blast
  then obtain i j where "edge_indices msg_edge_format_or_index (length sdks) e = Ok (i, j)" "u = sdks ! i" "v = sdks ! j"
    by (auto simp: rbind_eq_Ok)
  with edge_indices_below [OF this(1)] show "u \<in> set sdks" "v \<in> set sdks" by simp_all
qed

subsection \<open>Properties\<close>

definition suite_config_for :: "resolved_scenario \<Rightarrow> string \<Rightarrow> suite_config" where
  "suite_config_for s url = suite_config_of (config_of s) (rv_edges s) url"

text \<open>
  C14: the comparison counts what a run walks. For a scenario whose edges and protocols are not
  given as empty lists and whose edges the traversal accepts, the hops the script counts are the
  edges of the graph its traversal walks, once for each transport the suite tests.
\<close>

theorem atoms_are_the_hops_walked:
  assumes "parsed_edges (rv_sdks s) (suite_config_for s url) = Ok edges"
    and "rv_edges s \<noteq> Some []" "rv_protocols s \<noteq> Some []" "set order = set transport_order"
  shows "\<exists>hops. atoms s = Ok hops \<and> set hops =
    {(u, v, t, rv_behavior s, rv_streaming s) | u v t. (u, v) \<in> set (target_edges (rv_sdks s) edges) \<and>
       t \<in> set (transports_to_test order (suite_config_for s url))}"
proof -
  have transports: "set (covered_transports s) = set (transports_to_test order (suite_config_for s url))"
    using assms(3,4) by (auto simp: covered_transports_def transports_to_test_def suite_config_for_def suite_config_of_def
        config_of_def split: option.splits list.splits)
  obtain pairs where pairs: "edge_pairs s = Ok pairs" "set pairs = set (target_edges (rv_sdks s) edges)"
  proof (cases "rv_edges s")
    case None
    with assms(1) that show thesis
      by (auto simp: edge_pairs_def parsed_edges_def suite_config_for_def suite_config_of_def target_edges_def)
  next
    case (Some es)
    with assms(2) obtain e es' where es: "es = e # es'" by (cases es) auto
    with Some assms(1) obtain ps where ps: "parse_edge_strings es (rv_sdks s) = Ok ps" "edges = Some ps"
      by (auto simp: parsed_edges_def suite_config_for_def suite_config_of_def rbind_eq_Ok)
    have "length ps = length es" using ps(1) by (auto simp: parse_edge_strings_def dest: traverse_Ok_length)
    then have "set (target_edges (rv_sdks s) edges) = set ps"
      using parsed_pairs_known [OF ps(1)] es by (cases ps) (auto simp: target_edges_def ps(2))
    with Some edge_pairs_parsed [OF ps(1)] that show thesis by (simp add: edge_pairs_def)
  qed
  then show ?thesis using transports by (fastforce simp: atoms_def)
qed

definition star_scenario :: resolved_scenario where
  "star_scenario = \<lparr>rv_name = ''S'', rv_sdks = [''current'', ''x'', ''y''], rv_behavior = ''send_message'',
     rv_edges = Some [''0->1'', '' 1 -> 0''], rv_protocols = None, rv_streaming = False, rv_build_subtests = False,
     rv_tier = ''pr'', rv_topology = None\<rparr>"

theorem atoms_are_the_hops_walked_witness:
  "\<exists>edges hops. parsed_edges (rv_sdks star_scenario) (suite_config_for star_scenario []) = Ok edges \<and>
    atoms star_scenario = Ok hops \<and> set hops =
    {(u, v, t, rv_behavior star_scenario, rv_streaming star_scenario) | u v t.
       (u, v) \<in> set (target_edges (rv_sdks star_scenario) edges) \<and>
       t \<in> set (transports_to_test transport_order (suite_config_for star_scenario []))}"
proof -
  have edges: "parsed_edges (rv_sdks star_scenario) (suite_config_for star_scenario []) =
      Ok (Some [(''current'', ''x''), (''x'', ''current'')])"
    by code_simp
  have "rv_edges star_scenario \<noteq> Some []" "rv_protocols star_scenario \<noteq> Some []" by (simp_all add: star_scenario_def)
  from atoms_are_the_hops_walked [OF edges this refl] edges show ?thesis by blast
qed

text \<open>The reasons the script accepts, as what they mean.\<close>

definition mute :: "matrix \<Rightarrow> string \<Rightarrow> string \<Rightarrow> bool" where
  "mute m transport agent = (case matrix_resolve m agent of Inl e \<Rightarrow> False | Inr e \<Rightarrow> transport \<notin> me_transports e)"

definition excused :: "matrix \<Rightarrow> exclusion list \<Rightarrow> string option \<Rightarrow> atom \<Rightarrow> bool" where
  "excused m known sut_sdk = (\<lambda>(caller, callee, transport, b, streaming).
     mute m transport caller \<or> mute m transport callee \<or>
     list_ex (\<lambda>e. rule_matches e \<lparr>cb_sdks = [caller, callee], cb_protocols = Some [transport], cb_behavior = b,
       cb_streaming = streaming, cb_sut_sdk = sut_sdk\<rparr>) known)"

lemma explain_drop_excused: "explain_drop m known sut_sdk a = None \<longleftrightarrow> \<not> excused m known sut_sdk a"
  by (cases a) (auto simp: explain_drop_def excused_def mute_def lacks_transport_def find_rule_None list_ex_iff
      split: sum.splits option.splits if_splits)

text \<open>
  C30: coverage shrinks only for a stated reason. The comparison passes exactly when every hop of
  the legacy set is a hop of the new set or excused: the matrix says one of its agents does not
  speak the transport, or a rule of the known failures covers it. The lost hops are split into
  those with a reason and those without, and hops gained never fail it.
\<close>

theorem coverage_shrinks_with_a_reason:
  "case compare_coverage m known sut_sdk old new of
     Inl e \<Rightarrow> all_atoms old = Raise e \<or> all_atoms new = Raise e
   | Inr c \<Rightarrow> all_atoms old = Ok (cv_old c) \<and> all_atoms new = Ok (cv_new c) \<and>
       (coverage_exit (Ok c) = 0 \<longleftrightarrow> list_all (\<lambda>a. a \<in> set (cv_new c) \<or> excused m known sut_sdk a) (cv_old c)) \<and>
       set (map fst (cv_explained c)) = {a \<in> set (cv_old c) - set (cv_new c). excused m known sut_sdk a} \<and>
       set (cv_unexplained c) = {a \<in> set (cv_old c) - set (cv_new c). \<not> excused m known sut_sdk a} \<and>
       set (cv_extra c) = set (cv_new c) - set (cv_old c)"
proof (cases "compare_coverage m known sut_sdk old new")
  case (Inl e)
  then show ?thesis by (auto simp: compare_coverage_def rbind_eq_Raise Let_def)
next
  case (Inr c)
  then obtain old_atoms new_atoms where sets: "all_atoms old = Ok old_atoms" "all_atoms new = Ok new_atoms"
    and c: "c = \<lparr>cv_old = old_atoms, cv_new = new_atoms,
       cv_explained = List.map_filter (\<lambda>a. map_option (Pair a) (explain_drop m known sut_sdk a))
         (sort (filter (\<lambda>a. a \<notin> set new_atoms) old_atoms)),
       cv_unexplained = filter (\<lambda>a. explain_drop m known sut_sdk a = None) (sort (filter (\<lambda>a. a \<notin> set new_atoms) old_atoms)),
       cv_extra = sort (filter (\<lambda>a. a \<notin> set old_atoms) new_atoms)\<rparr>"
    by (auto simp: compare_coverage_def rbind_eq_Ok Let_def)
  have "fst ` set (List.map_filter (\<lambda>a. map_option (Pair a) (explain_drop m known sut_sdk a)) xs) =
      {a \<in> set xs. explain_drop m known sut_sdk a \<noteq> None}" for xs
    by (induction xs) (auto simp: map_filter_simps split: option.split)
  moreover have "coverage_exit (Ok c) = 0 \<longleftrightarrow> (\<forall>a \<in> set old_atoms. a \<notin> set new_atoms \<longrightarrow> excused m known sut_sdk a)"
    by (simp add: c coverage_exit_def explain_drop_excused filter_empty_conv del: split_paired_All split_paired_Ex) blast
  ultimately show ?thesis
    unfolding Inr sum.case sets list_all_iff
    by (simp add: c explain_drop_excused del: split_paired_All split_paired_Ex) blast
qed

end
