(* ===== verification/Notifications.thy ===== *)
theory Notifications
  imports Service
begin

section \<open>The push notification receiver (notifications_app.py)\<close>

text \<open>
  The store of the receiver and its handlers. A request is its headers, as Starlette lists them,
  and its body: the parsed JSON or the text of the parser's error. The lock makes each handler's
  access to the store one step, so a run is a list of requests.
\<close>

subsection \<open>Which task a notification is about\<close>

definition is_dict :: "json \<Rightarrow> bool" where "is_dict v = (case v of JObj d \<Rightarrow> True | _ \<Rightarrow> False)"

definition member_get :: "json \<Rightarrow> string \<Rightarrow> json" where
  "member_get v k = (case v of JObj d \<Rightarrow> dict_lookup d k JNull | _ \<Rightarrow> JNull)"

definition extract_task_id_v10 :: "(string \<times> json) list \<Rightarrow> json" where
  "extract_task_id_v10 data =
     (if is_dict (dict_lookup data ''task'' JNull) then member_get (dict_lookup data ''task'' JNull) ''id''
      else if is_dict (dict_lookup data ''statusUpdate'' JNull)
        then member_get (dict_lookup data ''statusUpdate'' JNull) ''taskId''
      else JNull)"

definition hashable :: "json \<Rightarrow> bool" where "hashable v = (\<not> is_mapping v \<and> \<not> is_array v)"

definition unhashable_error :: "json \<Rightarrow> py_exn" where
  "unhashable_error v = TypeError (''unhashable type: '' @ repr_str (type_name v))"

definition extract_task_id_v03 :: "(string \<times> json) list \<Rightarrow> json result" where
  "extract_task_id_v03 data = (let kind = dict_lookup data ''kind'' JNull in
     if kind = JStr ''task'' \<and> map_of data ''id'' \<noteq> None then Ok (dict_lookup data ''id'' JNull)
     else if \<not> hashable kind then Raise (unhashable_error kind)
     else if kind \<in> {JStr ''status-update'', JStr ''artifact-update''} then
       (case dict_lookup data ''taskId'' JNull of JStr (c # cs) \<Rightarrow> Ok (JStr (c # cs)) | _ \<Rightarrow> Ok JNull)
     else Ok JNull)"

definition extract_task_id :: "(string \<times> json) list \<Rightarrow> json result" where
  "extract_task_id data = (let v10 = extract_task_id_v10 data in
     if truthy v10 then Ok v10 else extract_task_id_v03 data)"

subsection \<open>The store\<close>

record pushed_notification =
  nf_event :: "(string \<times> json) list"
  nf_token :: "string option"
  nf_headers :: "(string, string) dict"

text \<open>Keys are task ids; Python takes True, 1 and 1.0 for the same key.\<close>

type_synonym store = "(json, pushed_notification list) dict"

definition task_key :: "json \<Rightarrow> json" where
  "task_key v = (case v of JBool b \<Rightarrow> JInt (if b then 1 else 0)
     | JFloat m e \<Rightarrow> (if 0 \<le> e then JInt (m * 10 ^ nat e)
         else if m mod 10 ^ nat (- e) = 0 then JInt (m div 10 ^ nat (- e)) else JFloat m e)
     | _ \<Rightarrow> v)"

definition store_notification :: "json \<Rightarrow> pushed_notification \<Rightarrow> store \<Rightarrow> store" where
  "store_notification t n st = AList.update t (dict_lookup st t [] @ [n]) st"

subsection \<open>Requests\<close>

record post =
  po_headers :: "(string \<times> string) list"
  po_body :: "string + json"

definition request_token :: "post \<Rightarrow> string option" where
  "request_token p = map_option snd (find (\<lambda>(k, v). lower k = ''x-a2a-notification-token'') (po_headers p))"

definition folded_request_headers :: "post \<Rightarrow> (string, string) dict" where
  "folded_request_headers p = dict_merge [] (map (\<lambda>(k, v). (lower k, v)) (po_headers p))"

text \<open>What the handler does before it takes the lock: the task and the notification, or the refusal.\<close>

definition read_post :: "post \<Rightarrow> (nat \<times> string) + (json \<times> pushed_notification)" where
  "read_post p = (case po_body p of
     Inl e \<Rightarrow> Inl (400, ''Invalid JSON: '' @ e)
   | Inr (JObj d) \<Rightarrow> (case extract_task_id d of
       Inl e \<Rightarrow> Inl (400, exn_text e)
     | Inr t \<Rightarrow> if \<not> truthy t then Inl (400, ''Missing \"task_id\" in push notification.'')
         else Inr (t, \<lparr>nf_event = d, nf_token = request_token p, nf_headers = folded_request_headers p\<rparr>))
   | Inr v \<Rightarrow> Inl (400, ''Notification payload must be a dictionary.''))"

datatype post_reply = Received | Refused nat string | Crashed py_exn

definition add_notification :: "post \<Rightarrow> store \<Rightarrow> post_reply \<times> store" where
  "add_notification p st = (case read_post p of
     Inl (status, m) \<Rightarrow> (Refused status m, st)
   | Inr (t, n) \<Rightarrow> if hashable t then (Received, store_notification (task_key t) n st)
       else (Crashed (unhashable_error t), st))"

definition list_notifications_by_task :: "store \<Rightarrow> string \<Rightarrow> pushed_notification list" where
  "list_notifications_by_task st t = dict_lookup st (JStr t) []"

definition list_all_notifications :: "store \<Rightarrow> pushed_notification list" where
  "list_all_notifications st = concat (map snd st)"

definition notification_json :: "pushed_notification \<Rightarrow> json" where
  "notification_json n = JObj [(''event'', JObj (nf_event n)), (''token'', json_option JStr (nf_token n)),
     (''headers'', JObj (map (\<lambda>(k, v). (k, JStr v)) (nf_headers n)))]"

definition listing_json :: "pushed_notification list \<Rightarrow> json" where
  "listing_json ns = JObj [(''notifications'', JArr (map notification_json ns))]"

subsection \<open>A mailbox\<close>

text \<open>
  What the harness relies on: a message is read back under its key, after those posted before,
  and under no other key; all messages are some arrangement of what is read per key.
\<close>

locale mailbox =
  fixes empty_box :: 's
    and post_to :: "'k \<Rightarrow> 'm \<Rightarrow> 's \<Rightarrow> 's"
    and read_from :: "'s \<Rightarrow> 'k \<Rightarrow> 'm list"
    and read_all :: "'s \<Rightarrow> 'm list"
    and box_ok :: "'s \<Rightarrow> bool"
  assumes empty_ok: "box_ok empty_box"
    and post_ok: "box_ok s \<Longrightarrow> box_ok (post_to k m s)"
    and read_empty: "read_from empty_box k = []"
    and read_post_to: "read_from (post_to k m s) k' = (if k' = k then read_from s k @ [m] else read_from s k')"
    and all_empty: "read_all empty_box = []"
    and all_post_to: "box_ok s \<Longrightarrow> mset (read_all (post_to k m s)) = add_mset m (mset (read_all s))"
begin

definition delivered :: "('k \<times> 'm) list \<Rightarrow> 's \<Rightarrow> 's" where
  "delivered ms s = fold (\<lambda>(k, m). post_to k m) ms s"

lemma read_delivered: "read_from (delivered ms s) k = read_from s k @ map snd (filter (\<lambda>(k', m). k' = k) ms)"
  by (induction ms arbitrary: s) (auto simp: delivered_def read_post_to)

lemma all_delivered: "box_ok s \<Longrightarrow> mset (read_all (delivered ms s)) = mset (read_all s) + mset (map snd ms)"
proof (induction ms arbitrary: s)
  case (Cons x ms)
  then show ?case using post_ok all_post_to by (cases x) (simp add: delivered_def)
qed (simp add: delivered_def)

lemma box_contents:
  "read_from (delivered ms empty_box) k = map snd (filter (\<lambda>(k', m). k' = k) ms)"
  "mset (read_all (delivered ms empty_box)) = mset (map snd ms)"
  using read_delivered [of ms empty_box k] all_delivered [OF empty_ok, of ms] by (simp_all add: read_empty all_empty)

end

lemma dict_lookup_store: "dict_lookup (store_notification t n st) k [] =
    (if k = t then dict_lookup st t [] @ [n] else dict_lookup st k [])"
  by (simp add: store_notification_def)

lemma all_update:
  "distinct (map fst st) \<Longrightarrow>
   mset (concat (map snd (AList.update t ns st))) + mset (dict_lookup st t []) = mset (concat (map snd st)) + mset ns"
proof (induction st)
  case (Cons x st)
  have "map_of st (fst x) = None" using Cons.prems by (simp add: map_of_eq_None_iff)
  with Cons show ?case by (cases x) (auto simp: dict_lookup_def)
qed (simp add: dict_lookup_def)

lemma all_store:
  "distinct (map fst st) \<Longrightarrow>
   mset (list_all_notifications (store_notification t n st)) = add_mset n (mset (list_all_notifications st))"
  using all_update [of st t "dict_lookup st t [] @ [n]"]
  by (simp add: list_all_notifications_def store_notification_def)

interpretation receiver: mailbox "[]" store_notification "\<lambda>st t. dict_lookup st t []" list_all_notifications
  "\<lambda>st. distinct (map fst st)"
proof
  show "distinct (map fst (store_notification t n st))" if "distinct (map fst st)" for t n and st :: store
    using that by (simp add: store_notification_def distinct_update)
qed (simp_all add: dict_lookup_store all_store, simp_all add: list_all_notifications_def dict_lookup_def)

subsection \<open>Runs of the receiver\<close>

fun serve_posts :: "post list \<Rightarrow> store \<Rightarrow> post_reply list \<times> store" where
  "serve_posts [] st = ([], st)"
| "serve_posts (p # ps) st = (case add_notification p st of (r, st') \<Rightarrow>
     (case serve_posts ps st' of (rs, st'') \<Rightarrow> (r # rs, st'')))"

definition accepted :: "post \<Rightarrow> (json \<times> pushed_notification) option" where
  "accepted p = (case read_post p of
     Inl e \<Rightarrow> None | Inr (t, n) \<Rightarrow> if hashable t then Some (task_key t, n) else None)"

definition reply_to :: "post \<Rightarrow> post_reply" where
  "reply_to p = (case read_post p of
     Inl (status, m) \<Rightarrow> Refused status m
   | Inr (t, n) \<Rightarrow> if hashable t then Received else Crashed (unhashable_error t))"

lemma add_notification_accepted:
  "add_notification p st =
     (reply_to p, case accepted p of None \<Rightarrow> st | Some (t, n) \<Rightarrow> store_notification t n st)"
  by (simp add: add_notification_def reply_to_def accepted_def split: sum.split prod.split)

lemma reply_accepted: "reply_to p = Received \<longleftrightarrow> accepted p \<noteq> None"
  by (auto simp: reply_to_def accepted_def split: sum.splits prod.splits if_splits)

lemma serve_posts_delivers:
  "serve_posts ps st = (map reply_to ps, receiver.delivered (List.map_filter accepted ps) st)"
proof (induction ps arbitrary: st)
  case (Cons p ps)
  then show ?case
    by (cases "accepted p") (auto simp: receiver.delivered_def add_notification_accepted map_filter_simps)
qed (simp add: receiver.delivered_def map_filter_simps)

subsection \<open>What the harness reads\<close>

lemma read_notifs_json:
  "traverse (\<lambda>n. notif_texts (JObj (nf_event n))) ns = Ok texts \<Longrightarrow> read_notifs (map notification_json ns) = concat texts"
  by (induction ns arbitrary: texts) (auto simp: rbind_eq_Ok notification_json_def dict_get_def get_key_def)

text \<open>
  C13: what is posted is what is judged. Whatever requests the receiver serves, it answers
  \<open>received\<close> exactly for those it stores; a task's listing is then its notifications in the order
  they came, the full listing is all of them, each once, and as long as every event can be read
  the texts the harness judges are those of the notifications of that listing.
\<close>

theorem posted_is_what_is_judged:
  "case serve_posts ps [] of (answers, st) \<Rightarrow>
     map (\<lambda>r. r = Received) answers = map (\<lambda>p. accepted p \<noteq> None) ps \<and>
     list_notifications_by_task st t = map snd (filter (\<lambda>(k, n). k = JStr t) (List.map_filter accepted ps)) \<and>
     mset (list_all_notifications st) = mset (map snd (List.map_filter accepted ps)) \<and>
     (case traverse (\<lambda>n. notif_texts (JObj (nf_event n))) (list_all_notifications st) of
        Inl e \<Rightarrow> True
      | Inr texts \<Rightarrow> read_push_notifications (Some (listing_json (list_all_notifications st))) = concat texts)"
proof -
  let ?st = "receiver.delivered (List.map_filter accepted ps) []"
  have "read_push_notifications (Some (listing_json (list_all_notifications ?st))) = concat texts"
    if "traverse (\<lambda>n. notif_texts (JObj (nf_event n))) (list_all_notifications ?st) = Ok texts" for texts
    using read_notifs_json [OF that] by (simp add: read_push_notifications_def listing_json_def iterate_def)
  then show ?thesis
    using receiver.box_contents [of "List.map_filter accepted ps"]
    by (simp add: serve_posts_delivers reply_accepted list_notifications_by_task_def o_def split: sum.split)
qed

end
