(* ===== verification/Config.thy ===== *)
theory Config
  imports Texts
begin

section \<open>Configuration of the launcher (launcher/config.py)\<close>

text \<open>
  The knobs read from the environment: integers with a default, the cap on parallel workers, and
  the directories. A path is its text; the hash of a file is an argument.
\<close>

type_synonym environment = "string \<Rightarrow> string option"

definition stripped :: "environment \<Rightarrow> string \<Rightarrow> string" where
  "stripped env n = py_strip (case env n of None \<Rightarrow> [] | Some s \<Rightarrow> s)"

definition env_int :: "environment \<Rightarrow> string \<Rightarrow> int \<Rightarrow> int result" where
  "env_int env n standard = (let raw = stripped env n in
     if raw = [] then Ok standard
     else case int_text raw of
       Some i \<Rightarrow> Ok i
     | None \<Rightarrow> Raise (ValueError (''invalid integer for '' @ n @ '': '' @ repr_str raw)))"

definition checkout_timeout :: "environment \<Rightarrow> int result" where
  "checkout_timeout env = env_int env ''ITK_CHECKOUT_TIMEOUT'' (5 * 60)"

definition build_timeout :: "environment \<Rightarrow> int result" where
  "build_timeout env = env_int env ''ITK_BUILD_TIMEOUT'' (10 * 60)"

definition run_deadline :: "environment \<Rightarrow> int result" where
  "run_deadline env = env_int env ''ITK_RUN_DEADLINE'' (30 * 60)"

definition git_retries :: "environment \<Rightarrow> int result" where
  "git_retries env = env_int env ''ITK_RETRIES'' 3"

definition disk_budget_bytes :: "environment \<Rightarrow> int result" where
  "disk_budget_bytes env = env_int env ''ITK_DISK_BUDGET_BYTES'' (50 * 1024 * 1024 * 1024)"

definition tree_ttl :: "environment \<Rightarrow> int result" where
  "tree_ttl env = env_int env ''ITK_TREE_TTL'' (7 * 24 * 60 * 60)"

definition readiness_timeout :: "environment \<Rightarrow> int result" where
  "readiness_timeout env = env_int env ''ITK_READINESS_TIMEOUT'' 35"

definition scenario_timeout :: "environment \<Rightarrow> int result" where
  "scenario_timeout env = env_int env ''ITK_SCENARIO_TIMEOUT'' 60"

definition teardown_grace :: "environment \<Rightarrow> int result" where
  "teardown_grace env = env_int env ''ITK_TEARDOWN_GRACE'' 10"

definition max_workers :: "environment \<Rightarrow> int option result" where
  "max_workers env = (let val = stripped env ''ITK_MAX_WORKERS'' in
     if val = [] then Ok None
     else case int_text val of
       None \<Rightarrow> Raise (ValueError (''ITK_MAX_WORKERS must be a positive integer, got '' @ repr_str val))
     | Some n \<Rightarrow> if n < 1 then Raise (ValueError (''ITK_MAX_WORKERS must be >= 1, got '' @ show_int n))
         else Ok (Some n))"

text \<open>\<open>Path(a) / b\<close> for a relative \<open>b\<close>.\<close>

definition path_join :: "string \<Rightarrow> string \<Rightarrow> string" where
  "path_join a b = (if ends_with a ''/'' then a @ b else a @ ''/'' @ b)"

definition cache_root :: "environment \<Rightarrow> string" where
  "cache_root env =
     (let explicit = stripped env ''ITK_CACHE_DIR''; xdg = stripped env ''XDG_CACHE_HOME''; home = stripped env ''HOME'' in
      if explicit \<noteq> [] then explicit
      else if xdg \<noteq> [] then path_join xdg ''a2a-itk''
      else if home \<noteq> [] then path_join (path_join home ''.cache'') ''a2a-itk''
      else ''/tmp/a2a-itk-cache'')"

definition mount_dir :: "string \<Rightarrow> environment \<Rightarrow> string" where
  "mount_dir repo_root env = (let explicit = stripped env ''ITK_MOUNT_DIR'' in
     if explicit \<noteq> [] then explicit else path_join (path_join (path_join repo_root ''agents'') ''repo'') ''itk'')"

text \<open>A file of the repository: absent, unreadable, or the hex digest of its bytes.\<close>

datatype hashed_file = NoFile | UnreadableFile | Sha256 string

definition file_digest :: "hashed_file \<Rightarrow> string" where
  "file_digest f = (case f of Sha256 h \<Rightarrow> ''sha256_'' @ take 16 h | _ \<Rightarrow> ''unpinned'')"

definition image_digest :: "environment \<Rightarrow> hashed_file \<Rightarrow> string" where
  "image_digest env dockerfile = (let explicit = stripped env ''ITK_IMAGE_DIGEST'' in
     if explicit \<noteq> [] then explicit else file_digest dockerfile)"

definition proto_digest :: "hashed_file \<Rightarrow> string" where "proto_digest proto = file_digest proto"

subsection \<open>Laws\<close>

lemma max_workers_positive: "max_workers env = Ok (Some n) \<Longrightarrow> 1 \<le> n"
  by (auto simp: max_workers_def Let_def split: if_splits option.splits)

lemma env_int_unset: "env n = None \<Longrightarrow> env_int env n standard = Ok standard"
  by (simp add: env_int_def stripped_def py_strip_def lstrip_def rstrip_def)

text \<open>A number set in the environment is read back, whatever the default.\<close>

lemma env_int_set: "env n = Some (show_nat k) \<Longrightarrow> env_int env n standard = Ok (int k)"
  using int_text_digits [of "show_nat k"] show_nat_digits [of k]
  by (simp add: env_int_def stripped_def read_show_nat)

end
