(* ===== verification/Fetch.thy ===== *)
theory Fetch
  imports Cache Config
begin

section \<open>Fetching commits (launcher/fetch.py)\<close>

text \<open>
  Resolving a ref and fetching a commit with bounded retries. \<open>git\<close> and the remote are a function
  of the arguments on a world; the journal records, in order, every command with its outcome and
  every pause. The random part of a pause is left out: a pause is the number of the attempt it
  follows.
\<close>

subsection \<open>Running git\<close>

datatype git_outcome = Exited nat string string | Expired string

datatype event = Ran "string list" git_outcome | Paused nat

record 'w git_state =
  gs_world :: 'w
  gs_journal :: "event list"

type_synonym 'w git = "string list \<Rightarrow> 'w \<Rightarrow> git_outcome \<times> 'w"

definition run_git :: "'w git \<Rightarrow> string list \<Rightarrow> 'w git_state \<Rightarrow> git_outcome \<times> 'w git_state" where
  "run_git git args st = (case git args (gs_world st) of (out, w) \<Rightarrow>
     (out, st\<lparr>gs_world := w, gs_journal := gs_journal st @ [Ran args out]\<rparr>))"

definition sleep_backoff :: "nat \<Rightarrow> 'w git_state \<Rightarrow> 'w git_state" where
  "sleep_backoff attempt st = st\<lparr>gs_journal := gs_journal st @ [Paused attempt]\<rparr>"

definition repo_url :: "string \<Rightarrow> string" where "repo_url repo = ''https://github.com/'' @ repo @ ''.git''"

definition permanent_markers :: "string list" where
  "permanent_markers = [''repository not found'', ''couldn'' @ [CHR 0x27] @ ''t find remote ref'',
     ''did not send all necessary objects'', ''unadvertised object'', ''reference is not a tree'',
     ''unknown revision'', ''bad object'', ''authentication failed'', ''permission denied'', ''404 not found'',
     ''not our ref'', ''upload-pack: not our ref'']"

definition is_permanent :: "string \<Rightarrow> bool" where
  "is_permanent stderr = list_ex (contains (lower stderr)) permanent_markers"

subsection \<open>Reading the refs\<close>

text \<open>\<open>str.splitlines\<close>, which also breaks at the separators FS, GS, RS and NEL.\<close>

definition is_line_end :: "char \<Rightarrow> bool" where
  "is_line_end c = (let n = code_of c in 10 \<le> n \<and> n \<le> 13 \<or> 28 \<le> n \<and> n \<le> 30 \<or> n = 133)"

fun split_lines_go :: "string \<Rightarrow> string \<Rightarrow> string list" where
  "split_lines_go acc [] = (if acc = [] then [] else [rev acc])"
| "split_lines_go acc (c # cs) =
     (if code_of c = 13 \<and> cs \<noteq> [] \<and> code_of (hd cs) = 10 then rev acc # split_lines_go [] (tl cs)
      else if is_line_end c then rev acc # split_lines_go [] cs
      else split_lines_go (c # acc) cs)"

definition split_lines :: "string \<Rightarrow> string list" where "split_lines s = split_lines_go [] s"

definition is_full_sha :: "string \<Rightarrow> bool" where
  "is_full_sha s = (length s = 40 \<and> list_all sha_char s)"

record picked =
  pk_head :: "string option"
  pk_tag :: "string option"
  pk_other :: "string option"

definition pick_line :: "string \<Rightarrow> picked \<Rightarrow> picked" where
  "pick_line raw p = (let line = py_strip raw in
     case split_on [CHR 0x09] line of
       sha_part # r # rs \<Rightarrow>
         (let sha = py_strip sha_part; refname = py_strip (join_with [CHR 0x09] (r # rs)) in
          if \<not> is_full_sha sha then p
          else if starts_with refname ''refs/heads/'' \<and> pk_head p = None then p\<lparr>pk_head := Some sha\<rparr>
          else if starts_with refname ''refs/tags/'' \<and> pk_tag p = None then p\<lparr>pk_tag := Some sha\<rparr>
          else if pk_other p = None then p\<lparr>pk_other := Some sha\<rparr> else p)
     | _ \<Rightarrow> p)"

definition pick_sha :: "string \<Rightarrow> string option" where
  "pick_sha stdout = (let p = fold pick_line (split_lines stdout) \<lparr>pk_head = None, pk_tag = None, pk_other = None\<rparr> in
     case pk_head p of Some s \<Rightarrow> Some s | None \<Rightarrow> (case pk_tag p of Some s \<Rightarrow> Some s | None \<Rightarrow> pk_other p))"

subsection \<open>Attempts\<close>

text \<open>How one attempt of either loop ends: with its value, an error, or to be tried again.\<close>

datatype 'a attempt = Finished 'a | Failed_for_good py_exn | Again string

definition text_or :: "string \<Rightarrow> string \<Rightarrow> string" where
  "text_or s alternative = (if py_strip s = [] then alternative else py_strip s)"

definition failed_command :: "string option \<Rightarrow> string option \<Rightarrow> string \<Rightarrow> string \<Rightarrow> nat \<Rightarrow> string \<Rightarrow> 'a attempt" where
  "failed_command repo sha what exit_label code stderr =
     (if is_permanent stderr then Failed_for_good (permanent_error repo sha FETCH (text_or stderr what))
      else Again (text_or stderr (exit_label @ show_nat code)))"

text \<open>
  \<open>for attempt in range(retries)\<close> with the last error kept; \<open>left\<close> attempts remain.
\<close>

fun attempts ::
  "(nat \<Rightarrow> 'w git_state \<Rightarrow> 'a attempt \<times> 'w git_state) \<Rightarrow> (string option \<Rightarrow> py_exn) \<Rightarrow> nat \<Rightarrow> nat \<Rightarrow> string option \<Rightarrow>
   'w git_state \<Rightarrow> 'a result \<times> 'w git_state" where
  "attempts once fail_with 0 i cause st = (Raise (fail_with cause), st)"
| "attempts once fail_with (Suc left) i cause st = (case once i st of
     (Finished x, st') \<Rightarrow> (Ok x, st')
   | (Failed_for_good e, st') \<Rightarrow> (Raise e, st')
   | (Again e, st') \<Rightarrow> attempts once fail_with left (Suc i) (Some e) (sleep_backoff i st'))"

subsection \<open>Resolving a ref\<close>

definition msg_no_ref :: "string \<Rightarrow> string" where
  "msg_no_ref ref = ''ls-remote returned no matching ref for '' @ repr_str ref"

definition ls_remote_filtered :: "string \<Rightarrow> string \<Rightarrow> string list" where
  "ls_remote_filtered repo ref = [''ls-remote'', ''--heads'', ''--tags'', ''--refs'', repo_url repo, ref]"

definition ls_remote_any :: "string \<Rightarrow> string \<Rightarrow> string list" where
  "ls_remote_any repo ref = [''ls-remote'', repo_url repo, ref]"

definition resolve_any ::
  "'w git \<Rightarrow> string \<Rightarrow> string \<Rightarrow> 'w git_state \<Rightarrow> string attempt \<times> 'w git_state" where
  "resolve_any git repo ref st = (case run_git git (ls_remote_any repo ref) st of
     (Expired e, st') \<Rightarrow> (Again e, st')
   | (Exited code out err, st') \<Rightarrow>
       (case (code, pick_sha out) of
          (0, Some sha) \<Rightarrow> (Finished sha, st')
        | _ \<Rightarrow> (Failed_for_good (permanent_error (Some repo) (Some ref) FETCH (msg_no_ref ref)), st')))"

definition resolve_once ::
  "'w git \<Rightarrow> string \<Rightarrow> string \<Rightarrow> nat \<Rightarrow> 'w git_state \<Rightarrow> string attempt \<times> 'w git_state" where
  "resolve_once git repo ref i st = (case run_git git (ls_remote_filtered repo ref) st of
     (Expired e, st') \<Rightarrow> (Again e, st')
   | (Exited code out err, st') \<Rightarrow>
       if code = 0 then (case pick_sha out of Some sha \<Rightarrow> (Finished sha, st') | None \<Rightarrow> resolve_any git repo ref st')
       else (failed_command (Some repo) (Some ref) ''ls-remote failed'' ''ls-remote exit '' code err, st'))"

definition resolve_remote_ref ::
  "'w git \<Rightarrow> int \<Rightarrow> string \<Rightarrow> string \<Rightarrow> 'w git_state \<Rightarrow> string result \<times> 'w git_state" where
  "resolve_remote_ref git retries repo ref =
     attempts (resolve_once git repo ref) (\<lambda>cause. infra_failure (Some repo) (Some ref) FETCH cause None) (nat retries) 0 None"

subsection \<open>Fetching a commit\<close>

definition fetch_args :: "string \<Rightarrow> string \<Rightarrow> string list" where
  "fetch_args repo sha = [''fetch'', ''--depth'', ''1'', repo_url repo, sha]"

definition fetch_once ::
  "'w git \<Rightarrow> string \<Rightarrow> string \<Rightarrow> nat \<Rightarrow> 'w git_state \<Rightarrow> unit attempt \<times> 'w git_state" where
  "fetch_once git repo sha i st = (case run_git git [''init'', ''--quiet''] st of
     (Expired e, st1) \<Rightarrow> (Again e, st1)
   | (Exited code1 out1 err1, st1) \<Rightarrow>
       if code1 \<noteq> 0 then (Again (text_or err1 (''git init exit '' @ show_nat code1)), st1)
       else (case run_git git (fetch_args repo sha) st1 of
         (Expired e, st2) \<Rightarrow> (Again e, st2)
       | (Exited code2 out2 err2, st2) \<Rightarrow>
           if code2 \<noteq> 0 then (failed_command (Some repo) (Some sha) ''fetch failed'' ''fetch exit '' code2 err2, st2)
           else (case run_git git [''checkout'', ''--quiet'', ''FETCH_HEAD''] st2 of
             (Expired e, st3) \<Rightarrow> (Again e, st3)
           | (Exited code3 out3 err3, st3) \<Rightarrow>
               if code3 \<noteq> 0 then (Again (text_or err3 (''git checkout exit '' @ show_nat code3)), st3)
               else (Finished (), st3))))"

definition fetch_commit ::
  "'w git \<Rightarrow> int \<Rightarrow> string \<Rightarrow> string \<Rightarrow> 'w git_state \<Rightarrow> unit result \<times> 'w git_state" where
  "fetch_commit git retries repo sha =
     attempts (fetch_once git repo sha) (\<lambda>cause. infra_failure (Some repo) (Some sha) FETCH cause None) (nat retries) 0 None"

subsection \<open>Bounded retries\<close>

fun pauses :: "event list \<Rightarrow> nat list" where
  "pauses [] = []"
| "pauses (Paused i # evs) = i # pauses evs"
| "pauses (Ran args out # evs) = pauses evs"

lemma pauses_append [simp]: "pauses (xs @ ys) = pauses xs @ pauses ys"
  by (induction xs rule: pauses.induct) auto

text \<open>
  What both loops rely on: one attempt runs a bounded number of commands, never pauses, and ends
  in a value or a final error only for a reason its own commands show; a command that was refused for
  good is the last of its attempt, and of the last attempt.
\<close>

locale retried =
  fixes once :: "nat \<Rightarrow> 'w git_state \<Rightarrow> 'a attempt \<times> 'w git_state"
    and bound :: nat
    and shows_value :: "'a \<Rightarrow> event list \<Rightarrow> bool"
    and shows_error :: "py_exn \<Rightarrow> event list \<Rightarrow> bool"
    and refusal :: "event \<Rightarrow> bool"
  assumes once_journal: "once i st = (r, st') \<Longrightarrow> \<exists>evs. gs_journal st' = gs_journal st @ evs \<and> pauses evs = [] \<and>
    length evs \<le> bound \<and> list_all (\<lambda>ev. \<not> refusal ev) (butlast evs) \<and> (case r of
        Finished x \<Rightarrow> shows_value x evs
      | Failed_for_good e \<Rightarrow> shows_error e evs
      | Again e \<Rightarrow> list_all (\<lambda>ev. \<not> refusal ev) evs)"
    and no_refused_pause: "\<not> refusal (Paused i)"
begin

definition concluded :: "(string option \<Rightarrow> py_exn) \<Rightarrow> nat \<Rightarrow> 'a result \<Rightarrow> event list \<Rightarrow> bool" where
  "concluded fail_with left res evs = (case res of
     Inr x \<Rightarrow> length (pauses evs) < left \<and> (\<exists>pre final. evs = pre @ final \<and> pauses final = [] \<and> shows_value x final)
   | Inl e \<Rightarrow> length (pauses evs) < left \<and> (\<exists>pre final. evs = pre @ final \<and> pauses final = [] \<and> shows_error e final) \<or>
       length (pauses evs) = left \<and> (\<exists>l. e = fail_with l))"

lemma attempts_journal:
  assumes "attempts once fail_with left i l st = (res, st')"
  shows "\<exists>evs. gs_journal st' = gs_journal st @ evs \<and> pauses evs = [i..<i + length (pauses evs)] \<and>
    length evs \<le> Suc bound * left \<and> list_all (\<lambda>ev. \<not> refusal ev) (butlast evs) \<and> concluded fail_with left res evs"
  using assms
proof (induction left arbitrary: i l st)
  case 0
  then show ?case by (auto simp: concluded_def intro: exI [of _ "[]"])
next
  case (Suc left)
  obtain r st1 where once: "once i st = (r, st1)" by fastforce
  from once_journal [OF this] obtain evs where evs: "gs_journal st1 = gs_journal st @ evs" "pauses evs = []"
    "length evs \<le> bound" "list_all (\<lambda>ev. \<not> refusal ev) (butlast evs)"
    and shown: "case r of Finished x \<Rightarrow> shows_value x evs | Failed_for_good e \<Rightarrow> shows_error e evs
      | Again e \<Rightarrow> list_all (\<lambda>ev. \<not> refusal ev) evs"
    by blast
  have room: "length evs \<le> Suc bound * Suc left" using evs(3) by simp
  show ?case
  proof (cases r)
    case (Again e)
    with Suc.prems once have "attempts once fail_with left (Suc i) (Some e) (sleep_backoff i st1) = (res, st')" by simp
    from Suc.IH [OF this] obtain more where more: "gs_journal st' = gs_journal (sleep_backoff i st1) @ more"
      "pauses more = [Suc i..<Suc i + length (pauses more)]" "length more \<le> Suc bound * left" "list_all (\<lambda>ev. \<not> refusal ev) (butlast more)" and ends: "concluded fail_with left res more"
      by blast
    let ?all = "evs @ [Paused i] @ more"
    have "gs_journal st' = gs_journal st @ ?all" using more(1) evs(1) by (simp add: sleep_backoff_def)
    moreover have "pauses ?all = [i..<i + length (pauses ?all)]"
    proof -
      have "[i..<i + Suc n] = i # [Suc i..<Suc i + n]" for n by (simp add: upt_conv_Cons del: upt_Suc)
      from this [of "length (pauses more)"] more(2) evs(2) show ?thesis by (simp del: upt_Suc)
    qed
    moreover have "length ?all \<le> Suc bound * Suc left" using more(3) evs(3) by simp
    moreover have "list_all (\<lambda>ev. \<not> refusal ev) (butlast ?all)"
      using shown Again more(4) no_refused_pause by (simp add: butlast_append)
    moreover have "concluded fail_with (Suc left) res ?all"
    proof (cases res)
      case (Inl e')
      with ends evs(2) show ?thesis
        by (auto simp: concluded_def) (metis append.assoc append_Cons)
    next
      case (Inr x)
      with ends evs(2) show ?thesis
        by (auto simp: concluded_def) (metis append.assoc append_Cons)
    qed
    ultimately show ?thesis by blast
  next
    case (Finished x)
    then have "concluded fail_with (Suc left) (Ok x) evs" using evs(2) shown by (auto simp: concluded_def intro: exI [of _ "[]"])
    with Suc.prems once evs(1,2,4) room Finished show ?thesis by (intro exI [of _ evs]) simp
  next
    case (Failed_for_good e)
    then have "concluded fail_with (Suc left) (Raise e) evs" using evs(2) shown by (auto simp: concluded_def intro: exI [of _ "[]"])
    with Suc.prems once evs(1,2,4) room Failed_for_good show ?thesis by (intro exI [of _ evs]) simp
  qed
qed

end

lemma run_git_journal:
  "run_git git args st = (out, st') \<Longrightarrow> gs_journal st' = gs_journal st @ [Ran args out]"
  by (auto simp: run_git_def split: prod.splits)

definition shows_sha :: "string \<Rightarrow> event list \<Rightarrow> bool" where
  "shows_sha sha evs = (evs \<noteq> [] \<and> is_full_sha sha \<and> (\<exists>args out err. last evs = Ran args (Exited 0 out err) \<and> pick_sha out = Some sha))"

definition shows_no_ref :: "py_exn \<Rightarrow> event list \<Rightarrow> bool" where
  "shows_no_ref e evs = (evs \<noteq> [] \<and> (\<exists>m args code out err. e = PermanentError m \<and> last evs = Ran args (Exited code out err)))"

definition shows_checkout :: "unit \<Rightarrow> event list \<Rightarrow> bool" where
  "shows_checkout x evs = (evs \<noteq> [] \<and> (\<exists>out err. last evs = Ran [''checkout'', ''--quiet'', ''FETCH_HEAD''] (Exited 0 out err)))"

definition shows_refused_fetch :: "string \<Rightarrow> string \<Rightarrow> py_exn \<Rightarrow> event list \<Rightarrow> bool" where
  "shows_refused_fetch repo sha e evs = (evs \<noteq> [] \<and> (\<exists>m code out err. e = PermanentError m \<and> code \<noteq> 0 \<and> is_permanent err \<and>
     last evs = Ran (fetch_args repo sha) (Exited code out err)))"

text \<open>A command the remote refused in a way that no retry mends.\<close>

definition refused_for_good :: "string list \<Rightarrow> event \<Rightarrow> bool" where
  "refused_for_good args ev = (case ev of
     Ran cmd (Exited code out err) \<Rightarrow> cmd = args \<and> code \<noteq> 0 \<and> is_permanent err | _ \<Rightarrow> False)"

lemma refused_for_good_simps [simp]:
  "refused_for_good args (Ran cmd (Exited code out err)) \<longleftrightarrow> cmd = args \<and> code \<noteq> 0 \<and> is_permanent err"
  "\<not> refused_for_good args (Ran cmd (Expired e))" "\<not> refused_for_good args (Paused i)"
  by (simp_all add: refused_for_good_def)

lemma pick_sha_full: "pick_sha out = Some sha \<Longrightarrow> is_full_sha sha"
proof -
  define ok :: "picked \<Rightarrow> bool" where "ok p = (list_all (\<lambda>x. case x of None \<Rightarrow> True | Some s \<Rightarrow> is_full_sha s) [pk_head p, pk_tag p, pk_other p])" for p
  have "ok p \<Longrightarrow> ok (pick_line l p)" for l p
    by (auto simp: ok_def pick_line_def Let_def split: list.splits if_splits)
  then have "ok p \<Longrightarrow> ok (fold pick_line ls p)" for ls p by (induction ls arbitrary: p) auto
  then have "ok (fold pick_line (split_lines out) \<lparr>pk_head = None, pk_tag = None, pk_other = None\<rparr>)"
    by (simp add: ok_def)
  then show "pick_sha out = Some sha \<Longrightarrow> is_full_sha sha"
    by (auto simp: pick_sha_def ok_def Let_def split: option.splits)
qed

lemma failed_command_cases:
  "failed_command repo sha what label code err = r \<Longrightarrow>
     (case r of Finished x \<Rightarrow> False | Failed_for_good e \<Rightarrow> is_permanent err \<and> (\<exists>m. e = PermanentError m) | Again e \<Rightarrow> True)"
  by (auto simp: failed_command_def permanent_error_def)

lemma command_names_differ:
  "fetch_args repo sha \<noteq> [''init'', ''--quiet'']" "fetch_args repo sha \<noteq> [''checkout'', ''--quiet'', ''FETCH_HEAD'']"
  "ls_remote_any repo ref \<noteq> ls_remote_filtered repo ref"
  by (simp_all add: fetch_args_def ls_remote_any_def ls_remote_filtered_def)

interpretation resolving: retried "resolve_once git repo ref" 2 shows_sha shows_no_ref
  "refused_for_good (ls_remote_filtered repo ref)" for git repo ref
proof
  fix i and st :: "'a git_state" and r st'
  assume "resolve_once git repo ref i st = (r, st')"
  then show "\<exists>evs. gs_journal st' = gs_journal st @ evs \<and> pauses evs = [] \<and> length evs \<le> 2 \<and>
      list_all (\<lambda>ev. \<not> refused_for_good (ls_remote_filtered repo ref) ev) (butlast evs) \<and> (case r of
        Finished x \<Rightarrow> shows_sha x evs
      | Failed_for_good e \<Rightarrow> shows_no_ref e evs
      | Again e \<Rightarrow> list_all (\<lambda>ev. \<not> refused_for_good (ls_remote_filtered repo ref) ev) evs)"
    by (auto simp: resolve_once_def resolve_any_def shows_sha_def shows_no_ref_def permanent_error_def failed_command_def
        command_names_differ command_names_differ [symmetric] dest!: run_git_journal intro: pick_sha_full split: prod.splits git_outcome.splits if_splits option.splits nat.splits)
qed simp

interpretation fetching: retried "fetch_once git repo sha" 3 shows_checkout "shows_refused_fetch repo sha"
  "refused_for_good (fetch_args repo sha)" for git repo sha
proof
  fix i and st :: "'a git_state" and r st'
  assume "fetch_once git repo sha i st = (r, st')"
  then show "\<exists>evs. gs_journal st' = gs_journal st @ evs \<and> pauses evs = [] \<and> length evs \<le> 3 \<and>
      list_all (\<lambda>ev. \<not> refused_for_good (fetch_args repo sha) ev) (butlast evs) \<and> (case r of
        Finished x \<Rightarrow> shows_checkout x evs
      | Failed_for_good e \<Rightarrow> shows_refused_fetch repo sha e evs
      | Again e \<Rightarrow> list_all (\<lambda>ev. \<not> refused_for_good (fetch_args repo sha) ev) evs)"
    by (auto simp: fetch_once_def shows_checkout_def shows_refused_fetch_def permanent_error_def failed_command_def
        command_names_differ command_names_differ [symmetric] dest!: run_git_journal split: prod.splits git_outcome.splits if_splits)
qed simp

subsection \<open>Properties\<close>

definition fresh_git :: "'w \<Rightarrow> 'w git_state" where "fresh_git w = \<lparr>gs_world = w, gs_journal = []\<rparr>"


text \<open>A resolved ref is a full commit id, so it makes a launch target.\<close>

lemma full_sha_is_sha: "is_full_sha s \<Longrightarrow> is_sha s"
  by (simp add: is_full_sha_def is_sha_def at_end_def)

theorem resolved_ref_makes_a_target:
  assumes "resolve_remote_ref git retries repo ref st = (Ok sha, st')" "is_repo repo"
  shows "make_target CHECKOUT (Some repo) (Some sha) = Ok \<lparr>tg_kind = CHECKOUT, tg_repo = Some repo, tg_sha = Some sha\<rparr>"
proof -
  from resolving.attempts_journal [OF assms(1) [unfolded resolve_remote_ref_def]] obtain final where "shows_sha sha final"
    by (auto simp: resolving.concluded_def)
  then have "is_sha sha" by (simp add: shows_sha_def full_sha_is_sha)
  with assms(2) show ?thesis by (simp add: make_target_def check_present_def check_repo_def check_sha_def)
qed

text \<open>
  The unfiltered query is not classified: whatever made it fail, a proxy that is down included,
  the ref is reported missing for good and nothing is retried.
\<close>

lemma unfiltered_failure_is_final:
  assumes "git (ls_remote_filtered repo ref) w = (Exited 0 [] err, w1)" "git (ls_remote_any repo ref) w1 = (Exited code out err', w2)"
    and "code \<noteq> 0" "0 < retries"
  shows "fst (resolve_remote_ref git retries repo ref (fresh_git w)) =
    Raise (permanent_error (Some repo) (Some ref) FETCH (msg_no_ref ref))"
proof -
  obtain k where k: "nat retries = Suc k" using assms(4) by (cases "nat retries") auto
  have "pick_sha [] = None" by (simp add: pick_sha_def split_lines_def)
  with assms(1,2,3) show ?thesis
    by (simp add: resolve_remote_ref_def k resolve_once_def resolve_any_def run_git_def fresh_git_def split: nat.split)
qed

end
