(* ===== verification/Agents.thy ===== *)
theory Agents
  imports Fetch Execution
begin

section \<open>Building and spawning agents (current.py, launcher/builders.py, launcher/codegen.py)\<close>

text \<open>
  The detection of an agent's language, the build and code generation of a fetched tree and the
  command an agent is spawned with. The disk is a dictionary from absolute paths to what is there;
  the tools (uv, go, mvn, cargo, npm, dotnet, protoc, buf) are one function from a command and a
  disk to an outcome and a disk. The log redirection and the process itself are not modelled: a
  spawn ends in the command that is started.
\<close>

subsection \<open>Disk and tools\<close>

type_synonym path = "string list"

datatype node = Folder | Document bool string | Link path

type_synonym disk = "(path, node) dict"

definition path_text :: "path \<Rightarrow> string" where "path_text p = ''/'' @ join_with ''/'' p"

definition parent :: "path \<Rightarrow> path" where "parent p = butlast p"

definition there :: "disk \<Rightarrow> path \<Rightarrow> bool" where
  "there d p = (case map_of d p of
     None \<Rightarrow> False | Some (Link target) \<Rightarrow> map_of d target \<noteq> None | Some _ \<Rightarrow> True)"

definition make_folder :: "path \<Rightarrow> disk \<Rightarrow> disk" where
  "make_folder p d = (if map_of d p = None then AList.update p Folder d else d)"

definition make_folders :: "path \<Rightarrow> disk \<Rightarrow> disk" where
  "make_folders p d = fold (\<lambda>n. make_folder (take n p)) [1..<Suc (length p)] d"

definition remove_below :: "path \<Rightarrow> disk \<Rightarrow> disk" where
  "remove_below p d = filter (\<lambda>(q, n). take (length p) q \<noteq> p) d"

text \<open>The names in a directory that match a glob, sorted.\<close>

definition children :: "(string \<Rightarrow> bool) \<Rightarrow> path \<Rightarrow> disk \<Rightarrow> string list" where
  "children matches dir d = str_sort (map last (filter (\<lambda>q. q \<noteq> [] \<and> butlast q = dir \<and> matches (last q)) (map fst d)))"

record command =
  cm_args :: "string list"
  cm_cwd :: path
  cm_timeout :: "int option"
  cm_cargo_dir :: "path option"

datatype tool_outcome = Succeeded | Failed_with nat | Ran_out_of_time | Cannot_start string

type_synonym tools = "command \<Rightarrow> disk \<Rightarrow> tool_outcome \<times> disk"

record workshop =
  ws_disk :: disk
  ws_ran :: "command list"

definition run_tool :: "tools \<Rightarrow> command \<Rightarrow> (workshop, unit) state_result" where
  "run_tool tools cmd st = (case tools cmd (ws_disk st) of (out, d) \<Rightarrow>
     (case out of
        Succeeded \<Rightarrow> Ok ()
      | Failed_with code \<Rightarrow> Raise (CalledProcessError (''Command '' @ repr_list (cm_args cmd) @
          '' returned non-zero exit status '' @ show_nat code @ ''.''))
      | Ran_out_of_time \<Rightarrow> Raise (TimeoutExpired (''Command '' @ repr_list (cm_args cmd) @ '' timed out''))
      | Cannot_start e \<Rightarrow> Raise (OsError e),
      \<lparr>ws_disk = d, ws_ran = ws_ran st @ [cmd]\<rparr>))"

definition on_disk :: "(disk \<Rightarrow> 'a) \<Rightarrow> (workshop, 'a) state_result" where
  "on_disk f st = (Ok (f (ws_disk st)), st)"

definition change_disk :: "(disk \<Rightarrow> disk) \<Rightarrow> (workshop, unit) state_result" where
  "change_disk f st = (Ok (), st\<lparr>ws_disk := f (ws_disk st)\<rparr>)"

definition copy_file :: "path \<Rightarrow> path \<Rightarrow> (workshop, unit) state_result" where
  "copy_file src dst = st_bind (on_disk (\<lambda>d. map_of d src)) (\<lambda>n. case n of
     Some (Document x text) \<Rightarrow> change_disk (AList.update dst (Document False text))
   | _ \<Rightarrow> st_raise (OsError (''No such file or directory: '' @ repr_str (path_text src))))"

definition plain_command :: "string list \<Rightarrow> path \<Rightarrow> int option \<Rightarrow> command" where
  "plain_command args cwd timeout = \<lparr>cm_args = args, cm_cwd = cwd, cm_timeout = timeout, cm_cargo_dir = None\<rparr>"

subsection \<open>The site\<close>

text \<open>The directories read from the environment and the SHA-1 hex digest of a text.\<close>

record site =
  si_sha1 :: "string \<Rightarrow> string"
  si_maven_root :: path
  si_rust_root :: path
  si_itk_root :: path
  si_build_timeout :: "int result"

definition maven_repo :: "site \<Rightarrow> path \<Rightarrow> path" where
  "maven_repo si dir = si_maven_root si @ [si_sha1 si (path_text dir)]"

definition maven_repo_dir :: "site \<Rightarrow> path \<Rightarrow> (workshop, path) state_result" where
  "maven_repo_dir si dir =
     st_bind (change_disk (make_folders (maven_repo si dir))) (\<lambda>_. st_return (maven_repo si dir))"

definition rust_target :: "site \<Rightarrow> path \<Rightarrow> path" where
  "rust_target si dir = si_rust_root si @ [si_sha1 si (path_text dir)]"

definition rust_target_dir :: "site \<Rightarrow> path \<Rightarrow> (workshop, path) state_result" where
  "rust_target_dir si dir =
     st_bind (change_disk (make_folders (rust_target si dir))) (\<lambda>_. st_return (rust_target si dir))"

subsection \<open>Detection\<close>

datatype language = PYTHON | GO | JAVA | RUST | TS | DOTNET

definition is_csproj :: "string \<Rightarrow> bool" where "is_csproj n = ends_with n ''.csproj''"

definition dotnet_csproj :: "path \<Rightarrow> disk \<Rightarrow> path option" where
  "dotnet_csproj dir d = (case children is_csproj dir d of [] \<Rightarrow> None | n # ns \<Rightarrow> Some (dir @ [n]))"

definition msg_markers :: string where
  "msg_markers = ''Expected main.go, main.py, ../package.json, *.csproj, pom.xml, or Cargo.toml.''"

definition detect_language :: "path \<Rightarrow> disk \<Rightarrow> language result" where
  "detect_language dir d =
     (if there d (dir @ [''main.go'']) then Ok GO
      else if there d (dir @ [''main.py'']) then Ok PYTHON
      else if there d (parent dir @ [''package.json'']) then Ok TS
      else if children is_csproj dir d \<noteq> [] then Ok DOTNET
      else if there d (dir @ [''pom.xml'']) then Ok JAVA
      else if there d (dir @ [''Cargo.toml'']) then Ok RUST
      else Raise (RuntimeError (''could not detect agent language in '' @ path_text dir @ ''. '' @ msg_markers)))"

subsection \<open>Builders\<close>

definition stem :: "string \<Rightarrow> string" where
  "stem n = (case split_on ''.'' n of parts \<Rightarrow>
     if length parts < 2 \<or> hd parts = [] \<and> length parts = 2 then n else join_with ''.'' (butlast parts))"

definition dotnet_publish_args :: "path \<Rightarrow> path \<Rightarrow> string list" where
  "dotnet_publish_args csproj publish_dir =
     [''dotnet'', ''publish'', path_text csproj, ''-c'', ''Release'', ''-o'', path_text publish_dir]"

definition dotnet_publish_dll :: "path \<Rightarrow> path \<Rightarrow> path" where
  "dotnet_publish_dll dir csproj = dir @ [''publish'', stem (last csproj) @ ''.dll'']"

definition build_python :: "tools \<Rightarrow> path \<Rightarrow> int \<Rightarrow> (workshop, unit) state_result" where
  "build_python tools dir timeout = run_tool tools (plain_command [''uv'', ''sync'', ''--locked''] dir (Some timeout))"

definition go_binary :: "path \<Rightarrow> path" where "go_binary dir = dir @ [''bin'', ''agent'']"

definition build_go :: "tools \<Rightarrow> path \<Rightarrow> int \<Rightarrow> (workshop, unit) state_result" where
  "build_go tools dir timeout =
     st_bind (change_disk (make_folder (dir @ [''bin'']))) (\<lambda>_.
     st_bind (on_disk (\<lambda>d. there d (go_binary dir))) (\<lambda>built.
       if built then st_return ()
       else run_tool tools (plain_command
         [''go'', ''build'', ''-mod=readonly'', ''-o'', path_text (go_binary dir), ''.''] dir (Some timeout))))"

definition maven_install_args :: "path \<Rightarrow> string list" where
  "maven_install_args repo = [''mvn'', ''-Pitk'', ''-pl'', ''itk'', ''-am'', ''install'', ''-DskipTests'',
     ''-Dmaven.javadoc.skip=true'', ''-Dmaven.repo.local='' @ path_text repo]"

definition build_java :: "site \<Rightarrow> tools \<Rightarrow> path \<Rightarrow> int \<Rightarrow> (workshop, unit) state_result" where
  "build_java si tools dir timeout = st_bind (maven_repo_dir si dir) (\<lambda>repo.
     run_tool tools (plain_command (maven_install_args repo) (parent dir) (Some timeout)))"

text \<open>\<open>is_file\<close>, not a dependency file, executable.\<close>

definition runnable_binary :: "disk \<Rightarrow> path \<Rightarrow> bool" where
  "runnable_binary d p = (case map_of d p of
     Some (Document runnable text) \<Rightarrow> runnable \<and> \<not> ends_with (last p) ''.d'' | _ \<Rightarrow> False)"

definition is_itk_file :: "string \<Rightarrow> bool" where "is_itk_file n = starts_with n ''itk-''"

definition cargo_command :: "path \<Rightarrow> path \<Rightarrow> int \<Rightarrow> command" where
  "cargo_command dir target timeout = \<lparr>cm_args = [''cargo'', ''build'', ''--locked'', ''--release''], cm_cwd = dir,
     cm_timeout = Some timeout, cm_cargo_dir = Some target\<rparr>"

definition rust_built :: "path \<Rightarrow> disk \<Rightarrow> bool" where
  "rust_built output d = (there d output \<and>
     list_ex (\<lambda>n. runnable_binary d (output @ [n])) (children is_itk_file output d))"

definition build_rust :: "site \<Rightarrow> tools \<Rightarrow> path \<Rightarrow> int \<Rightarrow> (workshop, unit) state_result" where
  "build_rust si tools dir timeout = st_bind (rust_target_dir si dir) (\<lambda>target.
     st_bind (on_disk (rust_built (target @ [''release'']))) (\<lambda>built.
       if built then st_return () else run_tool tools (cargo_command dir target timeout)))"

definition npm_ci :: "tools \<Rightarrow> path \<Rightarrow> int \<Rightarrow> (workshop, unit) state_result" where
  "npm_ci tools dir timeout = run_tool tools (plain_command [''npm'', ''ci''] dir (Some timeout))"

definition build_ts :: "tools \<Rightarrow> path \<Rightarrow> int \<Rightarrow> (workshop, unit) state_result" where
  "build_ts tools dir timeout =
     st_bind (on_disk (\<lambda>d. there d (parent dir @ [''node_modules'']))) (\<lambda>installed.
     st_bind (if installed then st_return () else npm_ci tools (parent dir) timeout) (\<lambda>_.
     st_bind (on_disk (\<lambda>d. there d (dir @ [''package.json'']) \<and> \<not> there d (dir @ [''node_modules'']))) (\<lambda>own.
       if own then npm_ci tools dir timeout else st_return ())))"

definition build_dotnet :: "tools \<Rightarrow> path \<Rightarrow> int \<Rightarrow> (workshop, unit) state_result" where
  "build_dotnet tools dir timeout = st_bind (on_disk (dotnet_csproj dir)) (\<lambda>project. case project of
     None \<Rightarrow> st_raise (RuntimeError (''no .csproj in '' @ path_text dir))
   | Some csproj \<Rightarrow>
       st_bind (on_disk (\<lambda>d. there d (dotnet_publish_dll dir csproj))) (\<lambda>built.
         if built then st_return ()
         else run_tool tools (plain_command
           (dotnet_publish_args csproj (parent (dotnet_publish_dll dir csproj))) dir (Some timeout))))"

definition builder :: "site \<Rightarrow> tools \<Rightarrow> language \<Rightarrow> path \<Rightarrow> int \<Rightarrow> (workshop, unit) state_result" where
  "builder si tools lang = (case lang of
     PYTHON \<Rightarrow> build_python tools | GO \<Rightarrow> build_go tools | JAVA \<Rightarrow> build_java si tools
   | RUST \<Rightarrow> build_rust si tools | TS \<Rightarrow> build_ts tools | DOTNET \<Rightarrow> build_dotnet tools)"

subsection \<open>Code generation\<close>

definition protoc_python_args :: "string list" where
  "protoc_python_args = [''uv'', ''run'', ''--with'', ''grpcio-tools'', ''python'', ''-m'', ''grpc_tools.protoc'', ''-I.'',
     ''--python_out=pyproto'', ''--grpc_python_out=pyproto'', ''instruction.proto'']"

definition patch_import :: "string \<Rightarrow> string" where
  "patch_import text = py_replace ''import instruction_pb2 as instruction__pb2''
     ''from . import instruction_pb2 as instruction__pb2'' text"

definition patch_file :: "path \<Rightarrow> disk \<Rightarrow> disk" where
  "patch_file p d = (case map_of d p of
     Some (Document x text) \<Rightarrow> AList.update p (Document x (patch_import text)) d | _ \<Rightarrow> d)"

definition touch :: "path \<Rightarrow> disk \<Rightarrow> disk" where
  "touch p d = (if map_of d p = None then AList.update p (Document False []) d else d)"

definition prepare_python :: "tools \<Rightarrow> path \<Rightarrow> path \<Rightarrow> int option \<Rightarrow> (workshop, unit) state_result" where
  "prepare_python tools proto dir timeout = (let pyproto = dir @ [''pyproto''] in
     st_bind (on_disk (\<lambda>d. there d (pyproto @ [''instruction_pb2.py'']))) (\<lambda>generated.
       if generated then st_return ()
       else st_bind (copy_file proto (dir @ [''instruction.proto''])) (\<lambda>_.
         st_bind (change_disk (make_folder pyproto)) (\<lambda>_.
         st_bind (change_disk (touch (pyproto @ [''__init__.py'']))) (\<lambda>_.
         st_bind (run_tool tools (plain_command protoc_python_args dir timeout)) (\<lambda>_.
           change_disk (patch_file (pyproto @ [''instruction_pb2_grpc.py''])))))))) "

definition protoc_go_args :: "string list" where
  "protoc_go_args = [''protoc'', ''-I.'', ''--go_out=pb'',
     ''--go_opt=Minstruction.proto=github.com/a2aproject/a2a-go/itk/pb'', ''--go_opt=paths=source_relative'',
     ''--go-grpc_out=pb'', ''--go-grpc_opt=Minstruction.proto=github.com/a2aproject/a2a-go/itk/pb'',
     ''--go-grpc_opt=paths=source_relative'', ''instruction.proto'']"

definition prepare_go :: "tools \<Rightarrow> path \<Rightarrow> path \<Rightarrow> int option \<Rightarrow> (workshop, unit) state_result" where
  "prepare_go tools proto dir timeout = (let pb = dir @ [''pb''] in
     st_bind (on_disk (\<lambda>d. there d (pb @ [''instruction.pb.go'']))) (\<lambda>generated.
       if generated then st_return ()
       else st_bind (copy_file proto (dir @ [''instruction.proto''])) (\<lambda>_.
         st_bind (change_disk (make_folder pb)) (\<lambda>_.
           run_tool tools (plain_command protoc_go_args dir timeout)))))"

definition msg_no_buf :: "path \<Rightarrow> string" where
  "msg_no_buf dir = path_text dir @ ''/buf.gen.yaml missing '' @ em_dash @ '' each SDK itk/ must own its '' @
     ''buf codegen config. Copy the reference config from a2a-js/itk/buf.gen.yaml.''"

definition prepare_ts :: "tools \<Rightarrow> path \<Rightarrow> path \<Rightarrow> int option \<Rightarrow> (workshop, unit) state_result" where
  "prepare_ts tools proto dir timeout = (let stage = dir @ [''protos''] in
     st_bind (on_disk (\<lambda>d. there d (dir @ [''buf.gen.yaml'']))) (\<lambda>configured.
       if \<not> configured then st_raise (RuntimeError (msg_no_buf dir))
       else st_bind (change_disk (make_folders stage)) (\<lambda>_.
         st_finally
           (st_bind (copy_file proto (stage @ [''instruction.proto''])) (\<lambda>_.
             run_tool tools (plain_command
               [path_text (parent dir @ [''node_modules'', ''.bin'', ''buf'']), ''generate''] dir timeout)))
           (\<lambda>st. st\<lparr>ws_disk := remove_below stage (ws_disk st)\<rparr>))))"

definition ensure_itk_link :: "path \<Rightarrow> path \<Rightarrow> disk \<Rightarrow> disk" where
  "ensure_itk_link dir itk d = (let link = dir @ [''a2a-itk''] in
     case map_of d link of
       Some (Link target) \<Rightarrow> (if target = itk then d else AList.update link (Link itk) d)
     | Some n \<Rightarrow> d
     | None \<Rightarrow> AList.update link (Link itk) d)"

definition preparer :: "site \<Rightarrow> tools \<Rightarrow> path option \<Rightarrow> path option \<Rightarrow> language \<Rightarrow> path \<Rightarrow> int option \<Rightarrow>
    (workshop, unit) state_result option" where
  "preparer si tools proto_source itk_source lang dir timeout =
     (let proto = (case proto_source of Some p \<Rightarrow> p | None \<Rightarrow> si_itk_root si @ [''protos'', ''instruction.proto'']);
          itk = (case itk_source of Some p \<Rightarrow> p | None \<Rightarrow> si_itk_root si) in
      case lang of
        PYTHON \<Rightarrow> Some (prepare_python tools proto dir timeout)
      | GO \<Rightarrow> Some (prepare_go tools proto dir timeout)
      | TS \<Rightarrow> Some (prepare_ts tools proto dir timeout)
      | RUST \<Rightarrow> Some (change_disk (ensure_itk_link dir itk))
      | JAVA \<Rightarrow> Some (change_disk (ensure_itk_link dir itk))
      | DOTNET \<Rightarrow> None)"

definition codegen_before_build :: "language set" where "codegen_before_build = {GO, RUST, JAVA}"

subsection \<open>The build of a fetched tree\<close>

definition build_steps ::
  "site \<Rightarrow> tools \<Rightarrow> path option \<Rightarrow> path option \<Rightarrow> bool \<Rightarrow> language \<Rightarrow> path \<Rightarrow> int \<Rightarrow> (workshop, unit) state_result" where
  "build_steps si tools proto_source itk_source skip_codegen lang dir timeout =
     (let build = builder si tools lang dir timeout in
      case (if skip_codegen then None else preparer si tools proto_source itk_source lang dir (Some timeout)) of
        None \<Rightarrow> build
      | Some codegen \<Rightarrow>
          if lang \<in> codegen_before_build then st_bind codegen (\<lambda>_. build) else st_bind build (\<lambda>_. codegen))"

definition build_failure :: "string \<Rightarrow> string \<Rightarrow> py_exn \<Rightarrow> py_exn" where
  "build_failure repo sha e = (case e of
     TimeoutExpired m \<Rightarrow> infra_failure (Some repo) (Some sha) BUILD (Some m) None
   | CalledProcessError m \<Rightarrow> infra_failure (Some repo) (Some sha) BUILD (Some m) None
   | _ \<Rightarrow> e)"

definition build_in_place ::
  "site \<Rightarrow> tools \<Rightarrow> path option \<Rightarrow> path option \<Rightarrow> bool \<Rightarrow> int option \<Rightarrow> string \<Rightarrow> string \<Rightarrow> path \<Rightarrow>
   (workshop, language) state_result" where
  "build_in_place si tools proto_source itk_source skip_codegen timeout repo sha dir =
     st_bind (on_disk (detect_language dir)) (\<lambda>detected. st_bind (st_lift detected) (\<lambda>lang.
     st_bind (st_lift (case timeout of Some t \<Rightarrow> Ok t | None \<Rightarrow> si_build_timeout si)) (\<lambda>t.
     st_bind (st_catch (build_steps si tools proto_source itk_source skip_codegen lang dir t)
       (\<lambda>e. st_raise (build_failure repo sha e))) (\<lambda>_. st_return lang))))"

subsection \<open>Spawning\<close>

definition port_args :: "nat \<Rightarrow> nat \<Rightarrow> string list" where
  "port_args http grpc = [''--httpPort'', show_nat http, ''--grpcPort'', show_nat grpc]"

definition spawn_dotnet :: "tools \<Rightarrow> path \<Rightarrow> path \<Rightarrow> nat \<Rightarrow> nat \<Rightarrow> (workshop, command) state_result" where
  "spawn_dotnet tools dir csproj http grpc = (let dll = dotnet_publish_dll dir csproj in
     st_bind (on_disk (\<lambda>d. there d dll)) (\<lambda>published.
     st_bind (if published then st_return () else
        st_bind (run_tool tools (plain_command (dotnet_publish_args csproj (parent dll)) dir None)) (\<lambda>_.
        st_bind (on_disk (\<lambda>d. there d dll)) (\<lambda>now.
          if now then st_return ()
          else st_raise (RuntimeError (''dotnet publish succeeded but '' @ last dll @ '' is not in '' @ path_text (parent dll) @
            ''. Expected the assembly to be named after the project ('' @ last csproj @
            ''); set <AssemblyName> to match.''))))) (\<lambda>_.
       st_return (plain_command ([''dotnet'', path_text dll] @ port_args http grpc) dir None))))"

definition spawn_java :: "site \<Rightarrow> tools \<Rightarrow> path \<Rightarrow> nat \<Rightarrow> nat \<Rightarrow> (workshop, command) state_result" where
  "spawn_java si tools dir http grpc = st_bind (maven_repo_dir si dir) (\<lambda>repo.
     st_bind (st_lift (si_build_timeout si)) (\<lambda>timeout.
     st_bind (run_tool tools (plain_command (maven_install_args repo) (parent dir) (Some timeout))) (\<lambda>_.
       st_return (plain_command [''mvn'', ''exec:java'', ''-Dexec.mainClass=org.a2aproject.sdk.itk.Main'',
         ''-Dexec.args=--httpPort '' @ show_nat http @ '' --grpcPort '' @ show_nat grpc,
         ''-Dmaven.repo.local='' @ path_text repo] dir None))))"

definition find_rust_binary :: "path \<Rightarrow> disk \<Rightarrow> path option" where
  "find_rust_binary output d =
     (if \<not> there d output then None
      else if runnable_binary d (output @ [''itk-rust-current-agent'']) then Some (output @ [''itk-rust-current-agent''])
      else if runnable_binary d (output @ [''itk-current-agent'']) then Some (output @ [''itk-current-agent''])
      else find (runnable_binary d) (map (\<lambda>n. output @ [n]) (children is_itk_file output d)))"

definition spawn_rust :: "site \<Rightarrow> tools \<Rightarrow> path \<Rightarrow> nat \<Rightarrow> nat \<Rightarrow> (workshop, command) state_result" where
  "spawn_rust si tools dir http grpc = st_bind (rust_target_dir si dir) (\<lambda>target.
     st_bind (st_lift (si_build_timeout si)) (\<lambda>timeout.
     st_bind (run_tool tools (cargo_command dir target timeout)) (\<lambda>_.
     st_bind (on_disk (find_rust_binary (target @ [''release'']))) (\<lambda>binary. case binary of
       None \<Rightarrow> st_raise (RuntimeError (''cargo build succeeded but no itk-* binary found in '' @
         path_text (target @ [''release''])))
     | Some p \<Rightarrow> st_return (plain_command (path_text p # port_args http grpc) dir None)))))"

definition spawn_from_dir :: "site \<Rightarrow> tools \<Rightarrow> path \<Rightarrow> nat \<Rightarrow> nat \<Rightarrow> (workshop, command) state_result" where
  "spawn_from_dir si tools dir http grpc st = (let d = ws_disk st in
     if \<not> there d dir then (Raise (RuntimeError (''agent dir does not exist: '' @ path_text dir)), st)
     else if there d (dir @ [''main.go''])
       then st_return (plain_command ([''go'', ''run'', ''-mod=readonly'', ''.''] @ port_args http grpc) dir None) st
     else if there d (dir @ [''main.py''])
       then st_return (plain_command ([''uv'', ''run'', ''--locked'', ''main.py''] @ port_args http grpc) dir None) st
     else if there d (parent dir @ [''package.json''])
       then st_return (plain_command ([''npm'', ''run'', ''itk-agent'', ''--''] @ port_args http grpc) dir None) st
     else case dotnet_csproj dir d of
       Some csproj \<Rightarrow> spawn_dotnet tools dir csproj http grpc st
     | None \<Rightarrow>
         if there d (dir @ [''pom.xml'']) then spawn_java si tools dir http grpc st
         else if there d (dir @ [''Cargo.toml'']) then spawn_rust si tools dir http grpc st
         else (Raise (RuntimeError (''could not determine agent type in '' @ path_text dir @ ''. '' @ msg_markers)), st))"

end
