(* ===== verification/AgentClaims.thy ===== *)
theory AgentClaims
  imports Agents
begin

section \<open>Building and spawning agree\<close>

text \<open>
  The build and the spawn of an agent detect its language by two separate chains of tests; they
  classify every directory alike. What each of them runs on a tree that is already built.
\<close>

subsection \<open>One classification\<close>

definition spawner ::
  "site \<Rightarrow> tools \<Rightarrow> language \<Rightarrow> path \<Rightarrow> nat \<Rightarrow> nat \<Rightarrow> (workshop, command) state_result" where
  "spawner si tools lang dir http grpc = (case lang of
     GO \<Rightarrow> st_return (plain_command ([''go'', ''run'', ''-mod=readonly'', ''.''] @ port_args http grpc) dir None)
   | PYTHON \<Rightarrow> st_return (plain_command ([''uv'', ''run'', ''--locked'', ''main.py''] @ port_args http grpc) dir None)
   | TS \<Rightarrow> st_return (plain_command ([''npm'', ''run'', ''itk-agent'', ''--''] @ port_args http grpc) dir None)
   | DOTNET \<Rightarrow> st_bind (on_disk (\<lambda>d. the (dotnet_csproj dir d))) (\<lambda>csproj. spawn_dotnet tools dir csproj http grpc)
   | JAVA \<Rightarrow> spawn_java si tools dir http grpc
   | RUST \<Rightarrow> spawn_rust si tools dir http grpc)"

lemma csproj_detected: "children is_csproj dir d \<noteq> [] \<longleftrightarrow> dotnet_csproj dir d \<noteq> None"
  by (simp add: dotnet_csproj_def split: list.split)

lemma spawn_detected:
  assumes "there (ws_disk st) dir"
  shows "spawn_from_dir si tools dir http grpc st =
    (case detect_language dir (ws_disk st) of
       Inl e \<Rightarrow> (Raise (RuntimeError (''could not determine agent type in '' @ path_text dir @ ''. '' @ msg_markers)), st)
     | Inr lang \<Rightarrow> spawner si tools lang dir http grpc st)"
proof (cases "dotnet_csproj dir (ws_disk st)")
  case None
  then have "children is_csproj dir (ws_disk st) = []" using csproj_detected by blast
  with None assms show ?thesis by (simp add: spawn_from_dir_def detect_language_def spawner_def)
next
  case (Some csproj)
  then have "children is_csproj dir (ws_disk st) \<noteq> []" using csproj_detected by blast
  with Some assms show ?thesis
    by (simp add: spawn_from_dir_def detect_language_def spawner_def st_bind_def on_disk_def)
qed

lemma spawn_needs_dir: "\<not> there (ws_disk st) dir \<Longrightarrow> spawn_from_dir si tools dir http grpc st =
    (Raise (RuntimeError (''agent dir does not exist: '' @ path_text dir)), st)"
  by (simp add: spawn_from_dir_def)

text \<open>
  C23: the build and the spawn classify alike. Wherever the directory exists, a spawn is the spawn
  of the language the build detects, and it refuses the directory, having run nothing, exactly
  when the build does.
\<close>

theorem spawn_follows_the_detection:
  "spawn_from_dir si tools dir http grpc st =
     (if \<not> there (ws_disk st) dir then (Raise (RuntimeError (''agent dir does not exist: '' @ path_text dir)), st)
      else case detect_language dir (ws_disk st) of
        Inl e \<Rightarrow> (Raise (RuntimeError (''could not determine agent type in '' @ path_text dir @ ''. '' @ msg_markers)), st)
      | Inr lang \<Rightarrow> spawner si tools lang dir http grpc st)"
  by (simp add: spawn_detected spawn_needs_dir)

subsection \<open>What a built tree still costs\<close>

text \<open>The files whose presence lets a build or a code generation skip its tool.\<close>

definition outputs_there :: "site \<Rightarrow> language \<Rightarrow> path \<Rightarrow> disk \<Rightarrow> bool" where
  "outputs_there si lang dir d = (case lang of
     PYTHON \<Rightarrow> there d (dir @ [''pyproto'', ''instruction_pb2.py''])
   | GO \<Rightarrow> there d (go_binary dir) \<and> there d (dir @ [''pb'', ''instruction.pb.go''])
   | JAVA \<Rightarrow> True
   | RUST \<Rightarrow> rust_built (rust_target si dir @ [''release'']) d
   | TS \<Rightarrow> there d (parent dir @ [''node_modules'']) \<and> there d (dir @ [''node_modules''])
   | DOTNET \<Rightarrow> (case dotnet_csproj dir d of None \<Rightarrow> False | Some csproj \<Rightarrow> there d (dotnet_publish_dll dir csproj)))"

lemma run_tool_ran: "run_tool tools cmd st = (res, st') \<Longrightarrow> ws_ran st' = ws_ran st @ [cmd]"
  by (auto simp: run_tool_def split: prod.splits)

lemma change_disk_ran: "change_disk f st = (res, st') \<Longrightarrow> ws_ran st' = ws_ran st \<and> ws_disk st' = f (ws_disk st)"
  by (auto simp: change_disk_def)

text \<open>Folders come, nothing goes.\<close>

lemma map_of_make_folder: "map_of (make_folder p d) q = (case map_of d q of None \<Rightarrow> if p = q then Some Folder else None | Some n \<Rightarrow> Some n)"
  by (auto simp: make_folder_def split: option.split)

lemma map_of_make_folders: "map_of d q = Some n \<Longrightarrow> map_of (make_folders p d) q = Some n"
proof -
  have "map_of d q = Some n \<Longrightarrow> map_of (fold (\<lambda>k. make_folder (take k p)) ks d) q = Some n" for ks d
    by (induction ks arbitrary: d) (simp_all add: map_of_make_folder)
  then show "map_of d q = Some n \<Longrightarrow> ?thesis" by (simp add: make_folders_def)
qed

text \<open>Nothing is lost, and only what stands at \<open>l\<close> may change.\<close>

definition grown :: "path \<Rightarrow> disk \<Rightarrow> disk \<Rightarrow> bool" where
  "grown l d d' = (\<forall>p n. map_of d p = Some n \<longrightarrow> map_of d' p \<noteq> None \<and> (p \<noteq> l \<longrightarrow> map_of d' p = Some n))"

lemma there_grown: "grown l d d' \<Longrightarrow> p \<noteq> l \<Longrightarrow> there d p \<Longrightarrow> there d' p"
  by (force simp: grown_def there_def split: option.splits node.splits)

lemma grown_folders: "grown l d (make_folders p d)" "grown l d (make_folder p d)"
  by (simp_all add: grown_def map_of_make_folders map_of_make_folder)

lemma grown_link: "grown (dir @ [''a2a-itk'']) d (ensure_itk_link dir itk d)"
  by (auto simp: grown_def ensure_itk_link_def Let_def split: option.split node.split)

lemma grown_trans: "grown l d d' \<Longrightarrow> grown l d' d'' \<Longrightarrow> grown l d d''"
  by (fastforce simp: grown_def)

lemma children_member: "n \<in> set (children matches dir d) \<longleftrightarrow> matches n \<and> map_of d (dir @ [n]) \<noteq> None"
proof
  assume "n \<in> set (children matches dir d)"
  then have "n \<in> last ` {q \<in> fst ` set d. q \<noteq> [] \<and> butlast q = dir \<and> matches (last q)}"
    unfolding children_def set_str_sort set_map set_filter .
  then obtain q where q: "q \<in> fst ` set d" "q \<noteq> []" "butlast q = dir" "matches (last q)" "n = last q"
    by blast
  have "q = dir @ [n]" using append_butlast_last_id [OF q(2)] unfolding q(3) q(5) [symmetric] by (rule sym)
  moreover have "matches n" using q(4) unfolding q(5) [symmetric] .
  ultimately show "matches n \<and> map_of d (dir @ [n]) \<noteq> None" using q(1) by (simp add: map_of_eq_None_iff)
next
  assume n: "matches n \<and> map_of d (dir @ [n]) \<noteq> None"
  then have "dir @ [n] \<in> set (filter (\<lambda>q. q \<noteq> [] \<and> butlast q = dir \<and> matches (last q)) (map fst d))"
    by (simp add: map_of_eq_None_iff)
  then have "last (dir @ [n]) \<in> set (children matches dir d)" unfolding children_def set_str_sort set_map by (rule imageI)
  then show "n \<in> set (children matches dir d)" by simp
qed

lemma rust_built_grown:
  assumes "grown l d d'" "rust_built out d" "last l = ''a2a-itk''" "last out \<noteq> ''a2a-itk''"
  shows "rust_built out d'"
proof -
  from assms(2) obtain n where n: "n \<in> set (children is_itk_file out d)" "runnable_binary d (out @ [n])" "there d out"
    by (auto simp: rust_built_def list_ex_iff)
  from n(1) have itk: "is_itk_file n" "map_of d (out @ [n]) \<noteq> None" by (auto simp: children_member)
  then have other: "out @ [n] \<noteq> l" "out \<noteq> l" using assms(3,4) by (auto simp: is_itk_file_def starts_with_def)
  have "n \<in> set (children is_itk_file out d')" using itk assms(1) by (auto simp: children_member grown_def)
  moreover have "runnable_binary d' (out @ [n])"
    using n(2) other(1) assms(1) by (auto simp: runnable_binary_def grown_def split: option.splits node.splits)
  ultimately show ?thesis using there_grown [OF assms(1) other(2) n(3)] by (auto simp: rust_built_def list_ex_iff)
qed

definition buf_path :: "path \<Rightarrow> path" where "buf_path dir = parent dir @ [''node_modules'', ''.bin'', ''buf'']"

definition rebuild_commands :: "site \<Rightarrow> bool \<Rightarrow> language \<Rightarrow> path \<Rightarrow> string list list \<Rightarrow> bool" where
  "rebuild_commands si skip_codegen lang dir cmds = (case lang of
     PYTHON \<Rightarrow> take 1 cmds = [[''uv'', ''sync'', ''--locked'']]
   | JAVA \<Rightarrow> cmds = [maven_install_args (maven_repo si dir)]
   | TS \<Rightarrow> cmds = (if skip_codegen then [] else [[path_text (buf_path dir), ''generate'']])
   | _ \<Rightarrow> cmds = [])"

lemma st_catch_raise: "st_catch m (\<lambda>e. st_raise (f e)) s = (Ok x, s') \<longleftrightarrow> m s = (Ok x, s')"
  by (auto simp: st_catch_def st_raise_def split: prod.splits sum.splits)

lemma build_in_place_steps:
  assumes "build_in_place si tools proto itk skip timeout repo sha dir st = (Ok lang, st')"
  shows "detect_language dir (ws_disk st) = Ok lang"
    "\<exists>t. build_steps si tools proto itk skip lang dir t st = (Ok (), st')"
  using assms
  by (auto simp: build_in_place_def st_bind_eq_Ok on_disk_def st_lift_def st_return_def st_catch_raise)

lemma rebuild_go:
  assumes "outputs_there si GO dir (ws_disk st)" "build_steps si tools proto itk skip GO dir t st = (Ok (), st')"
  shows "ws_ran st' = ws_ran st"
proof -
  have "there (make_folder (dir @ [''bin'']) (ws_disk st)) (go_binary dir)"
    using assms(1) there_grown [OF grown_folders(2), of "go_binary dir" "[]"] by (simp add: outputs_there_def go_binary_def)
  with assms show ?thesis
    by (auto simp: build_steps_def outputs_there_def preparer_def builder_def build_go_def prepare_go_def Let_def st_bind_def
        on_disk_def change_disk_def st_return_def codegen_before_build_def split: if_splits)
qed

lemma rebuild_dotnet:
  assumes "outputs_there si DOTNET dir (ws_disk st)" "build_steps si tools proto itk skip DOTNET dir t st = (Ok (), st')"
  shows "ws_ran st' = ws_ran st"
  using assms
  by (auto simp: build_steps_def outputs_there_def preparer_def builder_def build_dotnet_def Let_def st_bind_def
      on_disk_def st_return_def split: option.splits if_splits)

lemma rebuild_rust:
  assumes "outputs_there si RUST dir (ws_disk st)" "build_steps si tools proto itk skip RUST dir t st = (Ok (), st')"
  shows "ws_ran st' = ws_ran st"
proof -
  let ?out = "rust_target si dir @ [''release'']" and ?l = "dir @ [''a2a-itk'']"
  have built: "rust_built ?out d'" if "grown ?l (ws_disk st) d'" for d'
    using rust_built_grown [OF that, of ?out] assms(1) by (simp add: outputs_there_def)
  have "rust_built ?out (make_folders (rust_target si dir) (ws_disk st))"
    "rust_built ?out (make_folders (rust_target si dir) (ensure_itk_link dir src (ws_disk st)))" for src
    using built grown_folders(1) grown_trans [OF grown_link grown_folders(1)] by blast+
  with assms(2) show ?thesis
    by (auto simp: build_steps_def preparer_def builder_def build_rust_def rust_target_dir_def Let_def st_bind_def
        on_disk_def change_disk_def st_return_def codegen_before_build_def split: if_splits)
qed

lemma rebuild_java:
  assumes "build_steps si tools proto itk skip JAVA dir t st = (Ok (), st')"
  shows "map cm_args (drop (length (ws_ran st)) (ws_ran st')) = [maven_install_args (maven_repo si dir)]"
    "take (length (ws_ran st)) (ws_ran st') = ws_ran st"
  using assms
  by (auto simp: build_steps_def preparer_def builder_def build_java_def maven_repo_dir_def Let_def st_bind_def
      change_disk_def st_return_def codegen_before_build_def plain_command_def dest!: run_tool_ran split: if_splits)

lemma copy_file_ran: "copy_file src dst st = (res, st') \<Longrightarrow> ws_ran st' = ws_ran st"
  by (auto simp: copy_file_def st_bind_def on_disk_def change_disk_def st_raise_def split: option.splits node.splits)

lemma prepare_python_extends:
  "prepare_python tools proto dir timeout st = (Ok (), st') \<Longrightarrow> \<exists>more. ws_ran st' = ws_ran st @ more"
  by (auto simp: prepare_python_def Let_def st_bind_eq_Ok on_disk_def st_return_def
      dest!: change_disk_ran run_tool_ran copy_file_ran split: if_splits)

lemma rebuild_python:
  assumes "build_steps si tools proto itk skip PYTHON dir t st = (Ok (), st')"
  shows "\<exists>more. ws_ran st' = ws_ran st @ plain_command [''uv'', ''sync'', ''--locked''] dir (Some t) # more"
  using assms
  by (auto simp: build_steps_def preparer_def builder_def build_python_def Let_def st_bind_eq_Ok codegen_before_build_def
      dest!: run_tool_ran prepare_python_extends split: if_splits)

lemma st_finally_eq: "st_finally m f s = (x, s') \<longleftrightarrow> (\<exists>t. m s = (x, t) \<and> s' = f t)"
  by (auto simp: st_finally_def split: prod.splits)

lemma prepare_ts_ran:
  "prepare_ts tools proto dir timeout st = (Ok (), st') \<Longrightarrow>
     ws_ran st' = ws_ran st @ [plain_command [path_text (buf_path dir), ''generate''] dir timeout]"
  by (auto simp: prepare_ts_def Let_def st_bind_eq_Ok on_disk_def st_raise_def st_finally_eq buf_path_def
      dest!: change_disk_ran run_tool_ran copy_file_ran split: if_splits)

lemma rebuild_ts:
  assumes "outputs_there si TS dir (ws_disk st)" "build_steps si tools proto itk skip TS dir t st = (Ok (), st')"
  shows "ws_ran st' = ws_ran st @
    (if skip then [] else [plain_command [path_text (buf_path dir), ''generate''] dir (Some t)])"
  using assms
  by (auto simp: build_steps_def outputs_there_def preparer_def builder_def build_ts_def Let_def st_bind_eq_Ok on_disk_def
      st_return_def codegen_before_build_def dest!: prepare_ts_ran split: if_splits)

subsection \<open>Properties\<close>

text \<open>
  C34: what building a built tree again runs. On a tree whose outputs are there a build of a Go,
  Rust or .NET agent runs no tool at all, one of a TypeScript agent only the code generator, one of
  a Java agent the whole Maven install and one of a Python agent starts with \<open>uv sync\<close>: these two
  never look for what they built.
\<close>

theorem rebuild_runs:
  assumes "build_in_place si tools proto itk skip timeout repo sha dir st = (Ok lang, st')"
    and "outputs_there si lang dir (ws_disk st)"
  shows "\<exists>cmds. ws_ran st' = ws_ran st @ cmds \<and> rebuild_commands si skip lang dir (map cm_args cmds)"
proof -
  obtain t where steps: "build_steps si tools proto itk skip lang dir t st = (Ok (), st')"
    using build_in_place_steps(2) [OF assms(1)] by blast
  show ?thesis
  proof (cases lang)
    case PYTHON
    with rebuild_python steps show ?thesis by (fastforce simp: rebuild_commands_def plain_command_def)
  next
    case GO
    with rebuild_go [of si dir st] steps assms(2) show ?thesis by (auto simp: rebuild_commands_def)
  next
    case JAVA
    note java = rebuild_java [OF steps [unfolded JAVA]]
    show ?thesis
      by (rule exI [of _ "drop (length (ws_ran st)) (ws_ran st')"])
        (use java append_take_drop_id [of "length (ws_ran st)" "ws_ran st'"] in \<open>simp add: rebuild_commands_def JAVA\<close>)
  next
    case RUST
    with rebuild_rust [of si dir st] steps assms(2) show ?thesis by (auto simp: rebuild_commands_def)
  next
    case TS
    with rebuild_ts [of si dir st] steps assms(2) show ?thesis by (auto simp: rebuild_commands_def plain_command_def)
  next
    case DOTNET
    with rebuild_dotnet [of si dir st] steps assms(2) show ?thesis by (auto simp: rebuild_commands_def)
  qed
qed

definition demo_site :: site where
  "demo_site = \<lparr>si_sha1 = (\<lambda>s. ''0''), si_maven_root = [''m''], si_rust_root = [''r''], si_itk_root = [''itk''],
     si_build_timeout = Ok 600\<rparr>"

definition go_tree :: workshop where
  "go_tree = \<lparr>ws_disk = [([''a'', ''main.go''], Document False []), ([''a'', ''bin'', ''agent''], Document True []),
     ([''a'', ''pb'', ''instruction.pb.go''], Document False [])], ws_ran = []\<rparr>"

theorem rebuild_runs_witness:
  "\<exists>st' cmds. build_in_place demo_site (\<lambda>c d. (Failed_with 1, d)) None None False None ''o/r'' ''s'' [''a''] go_tree = (Ok GO, st') \<and>
     ws_ran st' = ws_ran go_tree @ cmds \<and> rebuild_commands demo_site False GO [''a''] (map cm_args cmds)"
proof -
  have "fst (build_in_place demo_site (\<lambda>c d. (Failed_with 1, d)) None None False None ''o/r'' ''s'' [''a''] go_tree) = Ok GO"
    by code_simp
  then obtain st' where st': "build_in_place demo_site (\<lambda>c d. (Failed_with 1, d)) None None False None ''o/r'' ''s'' [''a''] go_tree = (Ok GO, st')"
    by (metis prod.collapse)
  have "outputs_there demo_site GO [''a''] (ws_disk go_tree)" by code_simp
  from rebuild_runs [OF st' this] st' show ?thesis by blast
qed

text \<open>
  What spawning runs. A spawn that succeeds has started nothing before the agent itself for Go,
  Python and TypeScript; it has published a .NET agent exactly when nothing had; and it has run the
  whole Maven install of a Java agent and the whole cargo build of a Rust agent, also on a tree that
  the build phase has just built.
\<close>

theorem spawn_runs:
  assumes "spawn_from_dir si tools dir http grpc st = (Ok cmd, st')"
  shows "\<exists>lang cmds. detect_language dir (ws_disk st) = Ok lang \<and> ws_ran st' = ws_ran st @ cmds \<and>
    map cm_args cmds = (case lang of
        JAVA \<Rightarrow> [maven_install_args (maven_repo si dir)]
      | RUST \<Rightarrow> [[''cargo'', ''build'', ''--locked'', ''--release'']]
      | DOTNET \<Rightarrow> (let dll = dotnet_publish_dll dir (the (dotnet_csproj dir (ws_disk st))) in
          if there (ws_disk st) dll then []
          else [dotnet_publish_args (the (dotnet_csproj dir (ws_disk st))) (parent dll)])
      | _ \<Rightarrow> [])"
proof -
  obtain lang where lang: "detect_language dir (ws_disk st) = Ok lang" "spawner si tools lang dir http grpc st = (Ok cmd, st')"
    using assms by (cases "there (ws_disk st) dir") (auto simp: spawn_detected spawn_needs_dir split: sum.splits)
  have java: "\<exists>cmds. ws_ran st' = ws_ran st @ cmds \<and> map cm_args cmds = [maven_install_args (maven_repo si dir)]" if "lang = JAVA"
    using lang(2) that
    by (auto simp: spawner_def spawn_java_def maven_repo_dir_def st_bind_eq_Ok st_return_def st_lift_def plain_command_def
        dest!: change_disk_ran run_tool_ran)
  have rust: "\<exists>cmds. ws_ran st' = ws_ran st @ cmds \<and> map cm_args cmds = [[''cargo'', ''build'', ''--locked'', ''--release'']]" if "lang = RUST"
    using lang(2) that
    by (auto simp: spawner_def spawn_rust_def rust_target_dir_def st_bind_eq_Ok st_return_def st_lift_def st_raise_def
        on_disk_def cargo_command_def dest!: change_disk_ran run_tool_ran split: option.splits)
  have dotnet: "\<exists>cmds. ws_ran st' = ws_ran st @ cmds \<and> map cm_args cmds =
      (if there (ws_disk st) dll then [] else [dotnet_publish_args csproj (parent dll)])"
    if "lang = DOTNET" "csproj = the (dotnet_csproj dir (ws_disk st))" "dll = dotnet_publish_dll dir csproj" for csproj dll
    using lang(2) that
    by (auto simp: spawner_def spawn_dotnet_def st_bind_eq_Ok st_return_def st_raise_def on_disk_def Let_def plain_command_def
        dest!: run_tool_ran split: if_splits)
  show ?thesis
    using lang java rust dotnet by (cases lang) (auto simp: spawner_def st_return_def Let_def)
qed

definition go_place :: workshop where
  "go_place = \<lparr>ws_disk = ([''a''], Folder) # ws_disk go_tree, ws_ran = []\<rparr>"

theorem spawn_runs_witness:
  "\<exists>cmd st'. spawn_from_dir demo_site (\<lambda>c d. (Failed_with 1, d)) [''a''] 1 2 go_place = (Ok cmd, st') \<and>
     (\<exists>lang cmds. detect_language [''a''] (ws_disk go_place) = Ok lang \<and> ws_ran st' = ws_ran go_place @ cmds \<and>
        map cm_args cmds = (case lang of
            JAVA \<Rightarrow> [maven_install_args (maven_repo demo_site [''a''])]
          | RUST \<Rightarrow> [[''cargo'', ''build'', ''--locked'', ''--release'']]
          | DOTNET \<Rightarrow> (let dll = dotnet_publish_dll [''a''] (the (dotnet_csproj [''a''] (ws_disk go_place))) in
              if there (ws_disk go_place) dll then []
              else [dotnet_publish_args (the (dotnet_csproj [''a''] (ws_disk go_place))) (parent dll)])
          | _ \<Rightarrow> []))"
proof -
  have spawned: "spawn_from_dir demo_site (\<lambda>c d. (Failed_with 1, d)) [''a''] 1 2 go_place =
      (Ok (plain_command ([''go'', ''run'', ''-mod=readonly'', ''.''] @ port_args 1 2) [''a''] None), go_place)"
    by (simp add: spawn_from_dir_def there_def go_place_def go_tree_def st_return_def)
  show ?thesis
    by (rule exI [of _ "plain_command ([''go'', ''run'', ''-mod=readonly'', ''.''] @ port_args 1 2) [''a''] None"],
      rule exI [of _ go_place], rule conjI [OF spawned spawn_runs [OF spawned]])
qed

end
