(* ===== verification/Commands.thy ===== *)
theory Commands
  imports Coverage ConformanceClaims
begin

section \<open>The command lines (run_tests.py, scenarios/build_request.py, scenarios/validate.py)\<close>

text \<open>
  What the commands do with their parsed arguments: the exit code, and what was printed where it
  is the point of the command. Argument parsing is the standard library's. A file is the result of
  reading and parsing it.
\<close>

subsection \<open>build_request.py\<close>

text \<open>A YAML document: an error text, nothing at all, or a value.\<close>

datatype yaml = Unparseable string | Empty_document | Yaml json

definition run_request_body :: "yaml \<Rightarrow> string option \<Rightarrow> string \<Rightarrow> string + (string \<times> json) list" where
  "run_request_body doc sut_sdk label = (case doc of
     Unparseable e \<Rightarrow> Inl (label @ '': could not parse: '' @ e)
   | Empty_document \<Rightarrow> Inl (label @ '': file is empty'')
   | Yaml data \<Rightarrow>
       (case (case data of
            JArr xs \<Rightarrow> Some data
          | JObj d \<Rightarrow> Some (case map_of d ''tests'' of Some v \<Rightarrow> v | None \<Rightarrow> JArr [data])
          | _ \<Rightarrow> None) of
          None \<Rightarrow> Inl (label @ '': expected a mapping or a list'')
        | Some (JArr (x # xs)) \<Rightarrow> Inr ((''tests'', JArr (x # xs)) #
            (case sut_sdk of Some (c # cs) \<Rightarrow> [(''sut_sdk'', JStr (c # cs))] | _ \<Rightarrow> []))
        | Some v \<Rightarrow> Inl (label @ '': no scenarios found'')))"

subsection \<open>Scenario files (scenarios/loader.py, itk_runner.py)\<close>

text \<open>The files by their path; None is no file.\<close>

type_synonym file_system = "string \<Rightarrow> yaml option"

definition load_file :: "sources \<Rightarrow> file_system \<Rightarrow> string \<Rightarrow> scenario list result" where
  "load_file so fs p = (case fs p of
     None \<Rightarrow> Raise (ScenarioFileError (''Scenario file not found: '' @ p))
   | Some (Unparseable e) \<Rightarrow> Raise (ScenarioFileError (p @ '': could not parse: '' @ e))
   | Some Empty_document \<Rightarrow> Raise (ScenarioFileError (p @ '': file is empty''))
   | Some (Yaml data) \<Rightarrow> (case parse_tests (so_traversal so) (so_legacy so) data of
       Inl (ScenarioFileError m) \<Rightarrow> Raise (ScenarioFileError (p @ '': '' @ m))
     | r \<Rightarrow> r))"

definition load_files :: "sources \<Rightarrow> file_system \<Rightarrow> string list \<Rightarrow> scenario list result" where
  "load_files so fs paths = rbind (traverse (load_file so fs) paths) (\<lambda>each. Ok (concat each))"

definition prepare_file :: "sources \<Rightarrow> file_system \<Rightarrow> string option \<Rightarrow> string \<Rightarrow> resolved_scenario list result" where
  "prepare_file so fs sut_sdk p =
     rbind (load_file so fs p) (\<lambda>scenarios.
     rbind (so_matrix so) (\<lambda>m.
     rbind (so_known so) (\<lambda>known.
     rbind (resolve_all scenarios m sut_sdk known) (\<lambda>report. Ok (rr_scenarios report)))))"

text \<open>What reading a file refuses, posting its document refuses too, and what it resolves to is the same.\<close>

lemma prepare_file_posted:
  assumes "fs p = Some (Yaml data)"
  shows "case prepare_tests so data sut of
     Inr scenarios \<Rightarrow> prepare_file so fs sut p = Ok scenarios | Inl e \<Rightarrow> \<exists>e'. prepare_file so fs sut p = Raise e'"
proof (cases "parse_tests (so_traversal so) (so_legacy so) data")
  case (Inl e)
  with assms show ?thesis by (cases e) (simp_all add: prepare_file_def prepare_tests_def load_file_def)
next
  case (Inr scenarios)
  with assms show ?thesis by (simp add: prepare_file_def prepare_tests_def load_file_def split: sum.split)
qed

text \<open>Whether a file has one of the suffixes of a scenario file; the directories give their files sorted.\<close>

definition scenario_suffix :: "string \<Rightarrow> bool" where
  "scenario_suffix p \<longleftrightarrow> list_ex (ends_with p) [''.json'', ''.yaml'', ''.yml'']"

definition collect_files :: "(string \<Rightarrow> string list option) \<Rightarrow> string list \<Rightarrow> string list" where
  "collect_files below paths = concat (map (\<lambda>p. case below p of
     None \<Rightarrow> [p] | Some inside \<Rightarrow> str_sort (filter scenario_suffix inside)) paths)"

subsection \<open>validate.py\<close>

text \<open>
  One file: whether it is valid and how many scenarios it expands to. \<open>matrix\<close> is asked only with
  \<open>--resolve\<close>; exclusions are the default ones.
\<close>

datatype file_verdict = Invalid string | Valid nat nat | Expands nat nat nat

definition is_traversal :: "scenario \<Rightarrow> bool" where
  "is_traversal s = (case s of Traversal t \<Rightarrow> True | Legacy l \<Rightarrow> False)"

definition describe_file ::
  "bool \<Rightarrow> matrix result \<Rightarrow> exclusion list result \<Rightarrow> scenario list result \<Rightarrow> file_verdict result" where
  "describe_file with_resolve matrix known loaded = (case loaded of
     Inl (ScenarioFileError m) \<Rightarrow> Ok (Invalid m)
   | Inl e \<Rightarrow> Raise e
   | Inr [] \<Rightarrow> Ok (Invalid ''contains no scenarios'')
   | Inr scs \<Rightarrow>
       (let new = length (filter is_traversal scs); old = length scs - new in
        if \<not> with_resolve then Ok (Valid new old)
        else case rbind matrix (\<lambda>m. rbind known (\<lambda>k. resolve_all scs m None k)) of
          Inl (MatrixError m) \<Rightarrow> Ok (Invalid m)
        | Inl (ResolutionError m) \<Rightarrow> Ok (Invalid m)
        | Inl e \<Rightarrow> Raise e
        | Inr r \<Rightarrow> if rr_scenarios r = [] then Ok (Invalid ''resolves to 0 executable scenarios'')
            else Ok (Expands new old (length (rr_scenarios r)))))"

definition is_invalid :: "file_verdict \<Rightarrow> bool" where
  "is_invalid v = (case v of Invalid m \<Rightarrow> True | _ \<Rightarrow> False)"

definition validate_main ::
  "bool \<Rightarrow> matrix result \<Rightarrow> exclusion list result \<Rightarrow> scenario list result list \<Rightarrow> nat" where
  "validate_main with_resolve matrix known files =
     (if files = [] then 1
      else case traverse (describe_file with_resolve matrix known) files of
        Inl e \<Rightarrow> 1
      | Inr verdicts \<Rightarrow> if list_ex is_invalid verdicts then 1 else 0)"

subsection \<open>run_tests.py\<close>

definition filter_by_sdks :: "resolved_scenario list \<Rightarrow> string set option \<Rightarrow> resolved_scenario list" where
  "filter_by_sdks scs selected = (case selected of
     None \<Rightarrow> scs | Some ids \<Rightarrow> filter (\<lambda>s. list_all (\<lambda>i. i \<in> ids) (rv_sdks s)) scs)"

record test_args =
  ta_sdks :: string
  ta_mount :: "bool option"
  ta_dry_run :: bool

text \<open>\<open>--sdks\<close> as its list, the empty text being no selection; \<open>--mount\<close> as whether it is a directory.\<close>

definition selected_sdks :: "test_args \<Rightarrow> string set option" where
  "selected_sdks a = (if ta_sdks a = [] then None
     else Some (set (filter (\<lambda>s. s \<noteq> []) (map py_strip (split_on '','' (ta_sdks a))))))"

definition mount_missing :: "test_args \<Rightarrow> resolved_scenario list \<Rightarrow> bool" where
  "mount_missing a scs = (sut_id \<in> set (batch_ids scs) \<and> ta_mount a \<noteq> Some True)"

definition cli_report :: "(string, scenario_result) dict \<Rightarrow> bool" where
  "cli_report results =
     (length (filter (\<lambda>(n, r). sr_passed r) results) = length results)"

text \<open>\<open>main_async\<close> with its exit code; an exception that is not handled ends it with 1 too.\<close>

definition run_tests_main ::
  "(resolved_scenario list \<Rightarrow> ('w, run_report) state_result) \<Rightarrow> resolved_scenario list result \<Rightarrow> test_args \<Rightarrow>
   'w \<Rightarrow> nat \<times> 'w" where
  "run_tests_main run loaded a w = (case loaded of
     Inl e \<Rightarrow> (1, w)
   | Inr [] \<Rightarrow> (1, w)
   | Inr all_scs \<Rightarrow>
       (let scs = filter_by_sdks all_scs (selected_sdks a) in
        if scs = [] then (1, w)
        else if mount_missing a scs then (1, w)
        else if ta_dry_run a then (0, w)
        else case run scs w of
          (Inl e, w') \<Rightarrow> (1, w')
        | (Inr ru, w') \<Rightarrow> (if cli_report (ru_results ru) then 0 else 1, w')))"

definition output_payload :: "run_report \<Rightarrow> json" where
  "output_payload ru = JObj ([(''all_passed'', JBool (list_all (\<lambda>(n, r). sr_passed r) (ru_results ru))),
     (''results'', JObj (map (\<lambda>(n, r). (n, details_json r)) (ru_results ru)))] @
     (if ru_dropped ru = [] then [] else [(''startup'', JObj
        [(''dropped_peers'', JObj (map (\<lambda>(i, d). (i, JStr d)) (ru_dropped ru))),
         (''trimmed'', cost_json ''dropped'' (ru_trimmed ru)), (''skipped'', cost_json ''missing'' (ru_skipped ru))])]))"

subsection \<open>Local runs and the service\<close>

lemma cli_report_all: "cli_report results \<longleftrightarrow> list_all (\<lambda>(n, r). sr_passed r) results"
proof -
  have "length (filter P xs) = length xs \<longleftrightarrow> list_all P xs" for P :: "string \<times> scenario_result \<Rightarrow> bool" and xs
  proof (induction xs)
    case (Cons x xs)
    have "length (filter P xs) \<noteq> Suc (length xs)" 
      by (rule less_imp_neq [OF le_imp_less_Suc [OF length_filter_le]])
    with Cons show ?case by simp
  qed simp
  then show ?thesis unfolding cli_report_def .
qed

lemma payload_verdict:
  "snd (itk_report_main (Inr (output_payload ru)) raw title True) = 0 \<longleftrightarrow>
     ru_results ru \<noteq> [] \<and> list_all (\<lambda>(n, r). sr_passed r) (ru_results ru)"
proof (cases "ru_results ru = []")
  case True
  then show ?thesis by (simp add: itk_report_main_def validate_response_def output_payload_def)
next
  case False
  define r where "r = \<lparr>rn_results = ru_results ru, rn_all_passed = list_all (\<lambda>(n, r). sr_passed r) (ru_results ru),
    rn_startup = startup_report ru\<rparr>"
  have items: "map (\<lambda>(n, r). (n, details_json r)) (ru_results ru) = x # xs \<Longrightarrow>
      validate_response (output_payload ru) = Inr (case output_payload ru of JObj d \<Rightarrow> d)" for x xs
    by (simp add: validate_response_def output_payload_def)
  obtain x xs where xs: "map (\<lambda>(n, r). (n, details_json r)) (ru_results ru) = x # xs"
    using False by (cases "ru_results ru") auto
  have "\<exists>cost. startup_lines (map_of (case output_payload ru of JObj d \<Rightarrow> d) ''startup'') = Ok cost"
  proof (cases "ru_dropped ru = []")
    case True
    then show ?thesis by (simp add: output_payload_def startup_lines_def)
  next
    case dropped: False
    obtain l1 l2 where l: "cost_lines ''Scenarios run with a peer removed:'' ''dropped'' ''without''
        (cost_json ''dropped'' (ru_trimmed ru)) = Ok l1"
      "cost_lines ''Scenarios SKIPPED (a required peer was down):'' ''missing'' ''needs''
        (cost_json ''missing'' (ru_skipped ru)) = Ok l2"
      using cost_lines_json [of "''dropped''"] cost_lines_json [of "''missing''"] by fastforce
    from dropped show ?thesis
      by (simp add: output_payload_def startup_lines_def dict_lookup_def dict_items_def l)
  qed
  then obtain cost where "startup_lines (map_of (case output_payload ru of JObj d \<Rightarrow> d) ''startup'') = Ok cost" by blast
  then have "\<exists>lines. format_report (case output_payload ru of JObj d \<Rightarrow> d) title =
      Ok (lines, list_all (\<lambda>(n, r). sr_passed r) (ru_results ru))"
    using False by (simp add: format_report_def output_payload_def dict_items_def dict_lookup_def Let_def)
  with items [OF xs] False show ?thesis by (auto simp: itk_report_main_def split: if_splits)
qed

text \<open>
  A local run that tested nothing passes: when every subtest of what was selected has vanished, the
  command exits with 0, while the report of the very same run is refused.
\<close>

theorem local_run_may_test_nothing:
  assumes "run scs w = (Ok ru, w')" "scs \<noteq> []" "ta_sdks a = []" "\<not> mount_missing a scs" "\<not> ta_dry_run a"
  shows "(fst (run_tests_main run (Ok scs) a w) = 0 \<longleftrightarrow> list_all (\<lambda>(n, r). sr_passed r) (ru_results ru)) \<and>
    (snd (itk_report_main (Inr (output_payload ru)) raw title True) = 0 \<longleftrightarrow>
       ru_results ru \<noteq> [] \<and> fst (run_tests_main run (Ok scs) a w) = 0)"
proof -
  obtain s rest where scs: "scs = s # rest" using assms(2) by (cases scs) auto
  have "fst (run_tests_main run (Ok scs) a w) = 0 \<longleftrightarrow> list_all (\<lambda>(n, r). sr_passed r) (ru_results ru)"
    using assms by (simp add: scs run_tests_main_def filter_by_sdks_def selected_sdks_def cli_report_all)
  then show ?thesis by (simp add: payload_verdict)
qed

subsection \<open>Properties\<close>

text \<open>
  C32: posting a file runs what loading it runs. For a document the loader reads as a list with at
  least one entry, unless it is a single scenario that also has a \<open>tests\<close> key, the request body
  carries that list, and the service resolves it, or fails to, exactly as the command line does.
\<close>

theorem posting_is_loading:
  assumes "extract_tests data = Ok (x # xs)"
    and "case data of JObj d \<Rightarrow> is_traversal_v1 data \<longrightarrow> map_of d ''tests'' = None | _ \<Rightarrow> True"
    and "fs p = Some (Yaml data)"
  shows "\<exists>body. run_request_body (Yaml data) sut label = Inr body \<and> dict_lookup body ''tests'' JNull = JArr (x # xs) \<and>
    (case prepare_tests so (JObj [(''tests'', dict_lookup body ''tests'' JNull)]) sut of
       Inr scenarios \<Rightarrow> prepare_file so fs sut p = Ok scenarios
     | Inl e \<Rightarrow> \<exists>e'. prepare_file so fs sut p = Raise e')"
proof -
  have wrapped: "extract_tests (JObj [(''tests'', JArr ys)]) = Ok ys" for ys
    by (simp add: extract_tests_def is_traversal_v1_def get_key_def)
  obtain rest where body: "run_request_body (Yaml data) sut label = Inr ((''tests'', JArr (x # xs)) # rest)"
  proof (cases data)
    case (JArr ys)
    with assms(1) that show thesis by (auto simp: run_request_body_def extract_tests_def)
  next
    case (JObj d)
    show thesis
    proof (cases "map_of d ''tests''")
      case None
      with JObj assms(1) have "x = data \<and> xs = []"
        by (auto simp: extract_tests_def get_key_def split: if_splits)
      with None JObj that show thesis by (auto simp: run_request_body_def)
    next
      case (Some v)
      with JObj assms have "v = JArr (x # xs)"
        by (auto simp: extract_tests_def get_key_def split: if_splits json.splits)
      with Some JObj that show thesis by (auto simp: run_request_body_def)
    qed
  qed (use assms(1) in \<open>simp_all add: extract_tests_def\<close>)
  have "parse_tests v1 legacy (JObj [(''tests'', JArr (x # xs))]) = parse_tests v1 legacy data" for v1 legacy
    by (simp add: parse_tests_def wrapped assms(1))
  then have "prepare_tests so (JObj [(''tests'', JArr (x # xs))]) sut = prepare_tests so data sut"
    by (simp add: prepare_tests_def)
  with body prepare_file_posted [of fs p data so sut, OF assms(3)] show ?thesis
    by (intro exI [of _ "(''tests'', JArr (x # xs)) # rest"]) (simp add: dict_lookup_def)
qed

definition one_scenario :: json where
  "one_scenario = JObj [(''schema'', JStr ''traversal/v1''), (''name'', JStr ''S'')]"

definition no_validators :: sources where
  "no_validators = \<lparr>so_traversal = (\<lambda>d. Inl ''name: Field required''), so_legacy = (\<lambda>d. Inl ''name: Field required''),
     so_matrix = Ok [], so_known = Ok []\<rparr>"

theorem posting_is_loading_witness:
  "\<exists>body. run_request_body (Yaml one_scenario) (Some ''go'') ''f'' = Inr body \<and> dict_lookup body ''tests'' JNull = JArr [one_scenario] \<and>
    (case prepare_tests no_validators (JObj [(''tests'', dict_lookup body ''tests'' JNull)]) (Some ''go'') of
       Inr scenarios \<Rightarrow> prepare_file no_validators (\<lambda>p. Some (Yaml one_scenario)) (Some ''go'') ''f'' = Ok scenarios
     | Inl e \<Rightarrow> \<exists>e'. prepare_file no_validators (\<lambda>p. Some (Yaml one_scenario)) (Some ''go'') ''f'' = Raise e')"
  by (rule posting_is_loading)
    (simp_all add: one_scenario_def extract_tests_def is_traversal_v1_def traversal_v1_def)

end
