(* ===== verification/ActsCommand.thy ===== *)
theory ActsCommand
  imports Commands ActsClaims Agents
begin

section \<open>Running the conformance suite (run_acts.py, \<open>/run-acts\<close> of itk_service_v2.py)\<close>

text \<open>
  The two ways a conformance run is asked for, the command line and the service, over the same
  \<open>acts_run\<close>; what the command prints and writes, and the code it exits with. The state is that of a
  run; the clocks and the environment a report is stamped with are an argument. Argument parsing
  and the writing of JSON text are the standard library's: a written file is the document. The log
  directory is not modelled.
\<close>

subsection \<open>Rendering a report (acts/report.py, run_acts.py)\<close>

definition pad_right :: "nat \<Rightarrow> string \<Rightarrow> string" where "pad_right n s = s @ replicate (n - length s) CHR '' ''"

definition pad_left :: "nat \<Rightarrow> string \<Rightarrow> string" where "pad_left n s = replicate (n - length s) CHR '' '' @ s"

definition sdk_name_of :: "report \<Rightarrow> string result" where
  "sdk_name_of rp = (case map_of (rp_sdk rp) ''name'' of None \<Rightarrow> Raise (KeyError ''name'') | Some n \<Rightarrow> Ok n)"

definition verdict_word :: "bool \<Rightarrow> string" where
  "verdict_word conformant = (if conformant then ''CONFORMANT'' else ''NOT CONFORMANT'')"

definition render :: "report \<Rightarrow> string list result" where
  "render rp = rbind (sdk_name_of rp) (\<lambda>n. Ok
     ((''ACTS '' @ n @ '' / '' @ rp_transport rp @ '' '' @ em_dash @ '' '' @ show_nat (sm_total (rp_summary rp)) @
        '' tests in '' @ show_nat (sm_duration_ms (rp_summary rp)) @ ''ms'') #
      map (\<lambda>line. ''  '' @ line) (conformance_lines rp) @
      [''  => '' @ verdict_word (report_is_conformant rp)]))"

definition report_test_list :: "report \<Rightarrow> json list" where
  "report_test_list rp = concat (map rs_tests (rp_suites rp))"

definition covered_ids :: "report list \<Rightarrow> json list" where
  "covered_ids reports =
     remdups (List.map_filter (\<lambda>t. mapping_get t ''id'') (concat (map report_test_list reports)))"

definition binding_line :: "report \<Rightarrow> string result" where
  "binding_line rp = (case map_of (sm_by_level (rp_summary rp)) MUST of
     None \<Rightarrow> Raise (KeyError ''must'')
   | Some must \<Rightarrow> (let s = rp_summary rp in Ok
       (''  '' @ pad_right 8 (rp_transport rp) @ '' '' @
        pad_left 7 (show_nat (sm_passed s) @ ''/'' @ show_nat (sm_total s)) @ '' passed   must '' @
        show_nat (sm_passed must) @ ''/'' @ show_int (int (sm_total must) - int (sm_skipped must)) @ ''   '' @
        show_nat (sm_failed s) @ '' failed, '' @ show_nat (sm_errors s) @ '' error(s)   '' @
        (if report_is_conformant rp then ''ok'' else ''NOT CONFORMANT''))))"

text \<open>The tests no agent could run, with the last reason each was given.\<close>

definition note_blocked :: "json \<Rightarrow> (string, string) dict \<Rightarrow> (string, string) dict" where
  "note_blocked t blocked = (case (mapping_get t ''id'', mapping_get t ''skip_reason'') of
     (Some (JStr i), Some (JStr reason)) \<Rightarrow>
       (if starts_with reason unsatisfiable then AList.update i (drop (length unsatisfiable) reason) blocked else blocked)
   | _ \<Rightarrow> blocked)"

definition blocked_tests :: "report list \<Rightarrow> (string, string) dict" where
  "blocked_tests reports = fold note_blocked (concat (map report_test_list reports)) []"

definition unsatisfiable_lines :: "report list \<Rightarrow> string list" where
  "unsatisfiable_lines reports = (let blocked = blocked_tests reports in
     if blocked = [] then []
     else [[], ''  '' @ show_nat (length blocked) @ '' test(s) COULD NOT RUN ON ANY BINDING:''] @
       map (\<lambda>i. ''    '' @ i @ '': '' @ dict_lookup blocked i []) (str_sort (map fst blocked)))"

definition combined_lines :: "report list \<Rightarrow> string list result" where
  "combined_lines reports = rbind (traverse binding_line reports) (\<lambda>lines. Ok
     ([replicate 56 CHR ''='', ''ACROSS '' @ show_nat (length reports) @ '' BINDING(S)'', replicate 56 CHR ''='',
       ''  '' @ show_nat (length (covered_ids reports)) @ '' test(s) in all, each scored on the binding(s) it targets''] @
      lines @ [''  => '' @ verdict_word (list_all report_is_conformant reports) @ '' overall''] @
      unsatisfiable_lines reports))"

subsection \<open>Writing a report\<close>

definition binding_of :: "string \<Rightarrow> transport_binding result" where
  "binding_of s = (case find (\<lambda>b. binding_value b = s) [B_JSONRPC, B_GRPC, B_REST] of
     None \<Rightarrow> Raise (ValueError (repr_str s @ '' is not a valid TransportBinding'')) | Some b \<Rightarrow> Ok b)"

definition report_filename :: "string \<Rightarrow> transport_binding \<Rightarrow> string \<Rightarrow> string" where
  "report_filename sdk b timestamp = ''acts-report-'' @ sdk @ ''-'' @ binding_value b @ ''-'' @ timestamp @ ''.json''"

type_synonym report_files = "(path, json) dict"

definition write_report :: "path \<Rightarrow> string \<Rightarrow> report \<Rightarrow> report_files \<Rightarrow> (path \<times> report_files) result" where
  "write_report directory timestamp rp files =
     rbind (sdk_name_of rp) (\<lambda>n. rbind (binding_of (rp_transport rp)) (\<lambda>b.
       let path = directory @ [report_filename n b timestamp] in Ok (path, AList.update path (report_json rp) files)))"

fun write_reports ::
  "path \<Rightarrow> (transport_binding \<Rightarrow> string) \<Rightarrow> report list \<Rightarrow> report_files \<Rightarrow> (string list \<times> report_files) result" where
  "write_reports directory timestamps [] files = Ok ([], files)"
| "write_reports directory timestamps (rp # rps) files =
     rbind (binding_of (rp_transport rp)) (\<lambda>b. rbind (write_report directory (timestamps b) rp files) (\<lambda>(path, files').
     rbind (write_reports directory timestamps rps files') (\<lambda>(lines, files'').
       Ok ((''report: '' @ path_text path) # lines, files''))))"

subsection \<open>The command (run_acts.py)\<close>

definition all_bindings :: "string list" where "all_bindings = [''jsonrpc'', ''grpc'', ''rest'']"

definition acts_bindings :: "string list \<Rightarrow> string list" where
  "acts_bindings requested =
     (if requested = [] then [''jsonrpc'']
      else if ''all'' \<in> set requested then all_bindings
      else filter (\<lambda>b. b \<in> set requested) all_bindings)"

text \<open>\<open>aa_mount\<close> is whether the directory given with \<open>--mount\<close> is one; None when it is not given.\<close>

record acts_args =
  aa_mount :: "bool option"
  aa_sut_url :: "string option"
  aa_reduced_url :: "string option"
  aa_auth_url :: "string option"
  aa_sdk :: string
  aa_sdk_version :: string
  aa_language :: string
  aa_repository :: "string option"
  aa_transports :: "string list"
  aa_tests :: "string list option"
  aa_suite :: "file_path option"
  aa_out :: "path option"
  aa_behaviors :: "file_path option"
  aa_no_gate :: bool
  aa_no_codegen :: bool
  aa_json :: bool

definition bad_url :: "string option \<Rightarrow> bool" where
  "bad_url u = (case u of None \<Rightarrow> False
     | Some s \<Rightarrow> \<not> (starts_with s ''http://'' \<or> starts_with s ''https://''))"

definition url_given :: "string option \<Rightarrow> bool" where
  "url_given u = (case u of Some (c # cs) \<Rightarrow> True | _ \<Rightarrow> False)"

text \<open>The combinations the parser refuses with exit code 2.\<close>

definition acts_args_refused :: "acts_args \<Rightarrow> bool" where
  "acts_args_refused a =
     (aa_sut_url a = None \<and> (url_given (aa_reduced_url a) \<or> url_given (aa_auth_url a)) \<or>
      list_ex bad_url [aa_sut_url a, aa_reduced_url a, aa_auth_url a] \<or>
      aa_behaviors a \<noteq> None \<and> aa_no_gate a \<or> aa_mount a = Some False)"

definition deviation_urls :: "string option \<Rightarrow> string option \<Rightarrow> (string, string) dict" where
  "deviation_urls reduced auth = List.map_filter
     (\<lambda>(variable, url). case url of Some (c # cs) \<Rightarrow> Some (variable, c # cs) | _ \<Rightarrow> None)
     [(reduced_capabilities_env, reduced), (auth_enforced_env, auth)]"

definition command_options :: "acts_args \<Rightarrow> transport_binding \<Rightarrow> run_options" where
  "command_options a b = \<lparr>op_transport = b, op_sut_url = aa_sut_url a, op_suite_path = aa_suite a,
     op_test_ids = aa_tests a, op_variables = [], op_capabilities = [], op_gate_on_behaviors = (\<not> aa_no_gate a),
     op_behaviors_path = aa_behaviors a, op_deviation_urls = deviation_urls (aa_reduced_url a) (aa_auth_url a)\<rparr>"

text \<open>What a report is stamped with: the durations, the time, the environment, per binding.\<close>

record report_stamp =
  sp_timings :: timings
  sp_now :: string
  sp_duration_ms :: nat
  sp_environment :: "(string, string) dict"

definition stamped ::
  "report_stamp \<Rightarrow> acts_run_result \<Rightarrow> string \<Rightarrow> string \<Rightarrow> string \<Rightarrow> string option \<Rightarrow> report result" where
  "stamped sp ar sdk version language repository =
     run_report_of (sp_timings sp) (sp_now sp) ar sdk version language repository (sp_duration_ms sp) (sp_environment sp)"

text \<open>
  The bindings in turn: one without applicable tests is passed over, an error of the run ends the
  command with 2, any other exception with 1. None is a corpus whose loading does not end.
\<close>

fun run_bindings ::
  "'w pipeline \<Rightarrow> (transport_binding \<Rightarrow> report_stamp) \<Rightarrow> acts_args \<Rightarrow> string list \<Rightarrow> report list \<Rightarrow> 'w \<times> nat \<Rightarrow>
   ((nat + report list) \<times> 'w \<times> nat) option" where
  "run_bindings pl stamps a [] reports st = Some (Inr reports, st)"
| "run_bindings pl stamps a (s # ss) reports st = (case binding_of s of
     Inl e \<Rightarrow> Some (Inl 1, st)
   | Inr b \<Rightarrow> (case acts_run pl (command_options a b) st of
       None \<Rightarrow> None
     | Some (Inl (NoApplicableTests m), st') \<Rightarrow> run_bindings pl stamps a ss reports st'
     | Some (Inl (ActsRunError m), st') \<Rightarrow> Some (Inl 2, st')
     | Some (Inl e, st') \<Rightarrow> Some (Inl 1, st')
     | Some (Inr ar, st') \<Rightarrow>
         (case stamped (stamps b) ar (aa_sdk a) (aa_sdk_version a) (aa_language a) (aa_repository a) of
            Inl e \<Rightarrow> Some (Inl 1, st')
          | Inr rp \<Rightarrow> run_bindings pl stamps a ss (reports @ [rp]) st')))"

definition printed_report :: "report \<Rightarrow> string list result" where
  "printed_report rp = rbind (render rp) (\<lambda>lines.
     Ok (lines @ map (\<lambda>(i, m). ''    '' @ i @ '': '' @ m) (report_failures rp) @ [[]]))"

definition printed :: "acts_args \<Rightarrow> report list \<Rightarrow> string list result" where
  "printed a reports =
     (if aa_json a then Ok []
      else rbind (traverse printed_report reports) (\<lambda>each.
        rbind (if 1 < length reports then combined_lines reports else Ok []) (\<lambda>combined. Ok (concat each @ combined))))"

text \<open>The lines printed (none of the JSON output) and the files written.\<close>

definition publish ::
  "acts_args \<Rightarrow> (transport_binding \<Rightarrow> string) \<Rightarrow> report list \<Rightarrow> (string list \<times> report_files) result" where
  "publish a timestamps reports = rbind (printed a reports) (\<lambda>lines.
     case aa_out a of
       None \<Rightarrow> Ok (lines, [])
     | Some directory \<Rightarrow> rbind (write_reports directory timestamps reports []) (\<lambda>(written, files). Ok (lines @ written, files)))"

definition run_acts_main ::
  "'w pipeline \<Rightarrow> (transport_binding \<Rightarrow> report_stamp) \<Rightarrow> (transport_binding \<Rightarrow> string) \<Rightarrow> ('w \<times> nat, unit) state_result \<Rightarrow>
   acts_args \<Rightarrow> 'w \<times> nat \<Rightarrow> (nat \<times> 'w \<times> nat) option" where
  "run_acts_main pl stamps timestamps generate_stubs a st =
     (if acts_args_refused a then Some (2, st)
      else case (if aa_mount a \<noteq> None \<and> \<not> aa_no_codegen a then generate_stubs st else (Ok (), st)) of
        (Inl e, st') \<Rightarrow> Some (1, st')
      | (Inr _, st') \<Rightarrow> (case run_bindings pl stamps a (acts_bindings (aa_transports a)) [] st' of
          None \<Rightarrow> None
        | Some (Inl code, st'') \<Rightarrow> Some (code, st'')
        | Some (Inr [], st'') \<Rightarrow> Some (2, st'')
        | Some (Inr reports, st'') \<Rightarrow> Some (case publish a timestamps reports of
              Inl e \<Rightarrow> 1 | Inr out \<Rightarrow> if list_all report_is_conformant reports then 0 else 1, st'')))"

subsection \<open>Code generation for a mounted SUT (run_acts.py)\<close>

definition generate_protos :: "site \<Rightarrow> tools \<Rightarrow> path \<Rightarrow> (workshop, unit) state_result" where
  "generate_protos si tools mount st = (case detect_language mount (ws_disk st) of
     Inl e \<Rightarrow> (Ok (), st)
   | Inr lang \<Rightarrow> (case preparer si tools None None lang mount None of
       None \<Rightarrow> (Ok (), st) | Some prepare \<Rightarrow> prepare st))"

subsection \<open>The service (itk_service_v2.py)\<close>

record run_acts_request =
  ra_transport :: transport_binding
  ra_sdk :: string
  ra_sdk_version :: string
  ra_language :: string
  ra_repository :: "string option"
  ra_sut_url :: "string option"
  ra_reduced_url :: "string option"
  ra_auth_url :: "string option"
  ra_tests :: "string list option"
  ra_variables :: tree
  ra_capabilities :: "runner_requirement list"
  ra_gate_on_behaviors :: bool

datatype acts_answer = Acts_report report | Acts_error nat string | Acts_unhandled py_exn

definition request_options :: "run_acts_request \<Rightarrow> run_options" where
  "request_options rq = \<lparr>op_transport = ra_transport rq, op_sut_url = ra_sut_url rq, op_suite_path = None,
     op_test_ids = ra_tests rq, op_variables = ra_variables rq, op_capabilities = ra_capabilities rq,
     op_gate_on_behaviors = ra_gate_on_behaviors rq, op_behaviors_path = None,
     op_deviation_urls = deviation_urls (ra_reduced_url rq) (ra_auth_url rq)\<rparr>"

definition run_acts_handler ::
  "'w pipeline \<Rightarrow> report_stamp \<Rightarrow> run_acts_request \<Rightarrow> 'w \<times> nat \<Rightarrow> (acts_answer \<times> 'w \<times> nat) option" where
  "run_acts_handler pl sp rq st = (case acts_run pl (request_options rq) st of
     None \<Rightarrow> None
   | Some (Inl e, st') \<Rightarrow> Some (if is_acts_run_error e then Acts_error 400 (exn_text e)
        else Acts_error 500 (''ACTS error: '' @ exn_text e), st')
   | Some (Inr ar, st') \<Rightarrow>
       Some (case stamped sp ar (ra_sdk rq) (ra_sdk_version rq) (ra_language rq) (ra_repository rq) of
         Inl e \<Rightarrow> Acts_unhandled e | Inr rp \<Rightarrow> Acts_report rp, st'))"

subsection \<open>What is stamped can be printed and written\<close>

lemma binding_of_value [simp]: "binding_of (binding_value b) = Ok b"
  by (cases b) (simp_all add: binding_of_def)

lemma binding_of_Ok: "binding_of s = Ok b \<Longrightarrow> s = binding_value b"
  by (auto simp: binding_of_def split: if_splits option.splits)

lemma stamped_Ok:
  obtains rp where "stamped sp ar sdk version language repository = Ok rp"
    "build_report (sp_timings sp) (sp_now sp) (ar_results ar) (ar_suite ar) (sdk_info sdk version language repository)
       (ar_transport ar) (sp_duration_ms sp) ''1.0'' ''1.0''
       (if ar_external_sut ar then AList.update ''sut'' ''external'' (sp_environment sp) else sp_environment sp) = Ok rp"
proof -
  have "filter (\<lambda>k. map_of (sdk_info sdk version language repository) k = None) sdk_keys = []"
    by (simp add: sdk_info_def sdk_keys_def)
  then show thesis by (auto simp: stamped_def run_report_of_def build_report_def intro: that)
qed

text \<open>A report of a run that was stamped: printing and writing it cannot fail.\<close>

definition publishable :: "report \<Rightarrow> bool" where
  "publishable rp \<longleftrightarrow> (\<exists>n. sdk_name_of rp = Ok n) \<and> (\<exists>b. binding_of (rp_transport rp) = Ok b) \<and>
     map_of (sm_by_level (rp_summary rp)) MUST \<noteq> None"

lemma stamped_publishable: "stamped sp ar sdk version language repository = Ok rp \<Longrightarrow> publishable rp"
  by (auto simp: stamped_def run_report_of_def build_report_def Let_def publishable_def sdk_name_of_def sdk_info_def
      report_summarize_def all_levels_def split: if_splits)

lemma printed_publishable:
  assumes "list_all publishable reports"
  shows "\<exists>lines. printed a reports = Ok lines"
proof -
  have "\<exists>lines. printed_report rp = Ok lines" "\<exists>line. binding_line rp = Ok line" if "rp \<in> set reports" for rp
    using assms that by (auto simp: list_all_iff publishable_def printed_report_def render_def binding_line_def Let_def)
  then have "\<exists>each. traverse printed_report reports = Ok each" "\<exists>lines. traverse binding_line reports = Ok lines"
    unfolding traverse_ex_Ok by blast+
  then show ?thesis by (auto simp: printed_def combined_lines_def)
qed

lemma write_reports_publishable:
  "list_all publishable reports \<Longrightarrow> \<exists>out. write_reports directory timestamps reports files = Ok out"
proof (induction reports arbitrary: files)
  case (Cons rp rps)
  then obtain n b where rp: "sdk_name_of rp = Ok n" "binding_of (rp_transport rp) = Ok b" by (auto simp: publishable_def)
  define files' where "files' = AList.update (directory @ [report_filename n b (timestamps b)]) (report_json rp) files"
  obtain lines rest where "write_reports directory timestamps rps files' = Ok (lines, rest)"
    using Cons by (metis list.pred_inject(2) surj_pair)
  with rp show ?case by (simp add: write_report_def Let_def files'_def)
qed simp

lemma publish_publishable:
  assumes "list_all publishable reports"
  shows "\<exists>out. publish a timestamps reports = Ok out"
proof -
  obtain lines where lines: "printed a reports = Ok lines" using printed_publishable [OF assms] by blast
  show ?thesis
  proof (cases "aa_out a")
    case (Some directory)
    obtain written files where "write_reports directory timestamps reports [] = Ok (written, files)"
      using write_reports_publishable [OF assms] by fastforce
    with lines Some show ?thesis by (simp add: publish_def)
  qed (simp add: publish_def lines)
qed

lemma run_bindings_publishable:
  "run_bindings pl stamps a ss reports st = Some (Inr reports', st') \<Longrightarrow> list_all publishable reports \<Longrightarrow>
   list_all publishable reports'"
proof (induction pl stamps a ss reports st rule: run_bindings.induct)
  case (2 pl stamps a s ss reports st)
  obtain b where b: "binding_of s = Ok b" using "2.prems" by (cases "binding_of s") auto
  obtain x st1 where run: "acts_run pl (command_options a b) st = Some (x, st1)"
    using "2.prems" b by (auto split: option.splits)
  show ?case
  proof (cases x)
    case (Inl e)
    with "2.prems" "2.IH"(1) [OF b run] b run show ?thesis by (cases e) auto
  next
    case (Inr ar)
    obtain rp where "stamped (stamps b) ar (aa_sdk a) (aa_sdk_version a) (aa_language a) (aa_repository a) = Ok rp"
      using stamped_Ok by blast
    with "2.prems" "2.IH"(2) [OF b run] b run Inr stamped_publishable show ?thesis by auto
  qed
qed simp

text \<open>The exit code of a command whose arguments are accepted and whose stubs are there.\<close>

lemma run_acts_main_exit:
  assumes "\<not> acts_args_refused a" "aa_mount a = None \<or> aa_no_codegen a"
  shows "run_acts_main pl stamps timestamps generate_stubs a st =
    (case run_bindings pl stamps a (acts_bindings (aa_transports a)) [] st of
       None \<Rightarrow> None
     | Some (Inl code, st') \<Rightarrow> Some (code, st')
     | Some (Inr reports, st') \<Rightarrow>
         Some (if reports = [] then 2 else if list_all report_is_conformant reports then 0 else 1, st'))"
proof -
  have written: "\<exists>out. publish a timestamps reports = Ok out"
    if "run_bindings pl stamps a (acts_bindings (aa_transports a)) [] st = Some (Inr reports, st')" for reports st'
    by (rule publish_publishable [OF run_bindings_publishable [OF that]]) simp
  have ready: "(if aa_mount a \<noteq> None \<and> \<not> aa_no_codegen a then generate_stubs st else (Ok (), st)) = (Ok (), st)"
    using assms(2) by auto
  show ?thesis
  proof (cases "run_bindings pl stamps a (acts_bindings (aa_transports a)) [] st")
    case (Some out)
    obtain x st' where x: "out = (x, st')" by (cases out) blast
    show ?thesis
    proof (cases x)
      case (Inr reports)
      with Some x written obtain shown where "publish a timestamps reports = Ok shown" by blast
      with Some x Inr assms(1) show ?thesis unfolding run_acts_main_def ready by (cases reports) simp_all
    qed (use Some x assms(1) in \<open>simp add: run_acts_main_def ready del: not_None_eq\<close>)
  qed (use assms(1) in \<open>simp add: run_acts_main_def ready del: not_None_eq\<close>)
qed

subsection \<open>Every binding was run\<close>

text \<open>
  What the loop over the bindings collects: the reports of runs that graded something, in the
  order of the bindings, one at most for each.
\<close>

definition reports_a_run :: "'w pipeline \<Rightarrow> acts_args \<Rightarrow> report \<Rightarrow> bool" where
  "reports_a_run pl a rp \<longleftrightarrow> (\<exists>b st ar st'. rp_transport rp = binding_value b \<and>
     acts_run pl (command_options a b) st = Some (Ok ar, st') \<and>
     report_is_conformant rp = is_conformant (ar_results ar))"

lemma stamped_reports_a_run:
  assumes "binding_of s = Ok b" "acts_run pl (command_options a b) st = Some (Ok ar, st')"
    and "stamped sp ar sdk version language repository = Ok rp"
  shows "rp_transport rp = s" "reports_a_run pl a rp"
proof -
  have built: "build_report (sp_timings sp) (sp_now sp) (ar_results ar) (ar_suite ar) (sdk_info sdk version language repository)
       (ar_transport ar) (sp_duration_ms sp) ''1.0'' ''1.0''
       (if ar_external_sut ar then AList.update ''sut'' ''external'' (sp_environment sp) else sp_environment sp) = Ok rp"
    using assms(3) by (simp add: stamped_def run_report_of_def)
  have "ar_transport ar = b" using acts_run_transport [OF assms(2)] by (simp add: command_options_def)
  then show transport: "rp_transport rp = s" using built_report(3) [OF built] binding_of_Ok [OF assms(1)] by simp
  show "reports_a_run pl a rp"
    unfolding reports_a_run_def using transport assms(2) binding_of_Ok [OF assms(1)] runner_verdict [OF built] by blast
qed

lemma run_bindings_collects:
  "run_bindings pl stamps a ss reports st = Some (Inr reports', st') \<Longrightarrow>
   \<exists>new. reports' = reports @ new \<and> subseq (map rp_transport new) ss \<and> list_all (reports_a_run pl a) new"
proof (induction pl stamps a ss reports st rule: run_bindings.induct)
  case (2 pl stamps a s ss reports st)
  obtain b where b: "binding_of s = Ok b" using "2.prems" by (cases "binding_of s") auto
  obtain x w n where run: "acts_run pl (command_options a b) st = Some (x, w, n)"
    using "2.prems" b by (cases "acts_run pl (command_options a b) st") auto
  show ?case
  proof (cases x)
    case (Inl e)
    with "2.prems" b run obtain m where "e = NoApplicableTests m" by (cases e) auto
    with "2.prems" b run Inl have rest: "run_bindings pl stamps a ss reports (w, n) = Some (Inr reports', st')" by simp
    have "x = Inl (NoApplicableTests m)" using Inl \<open>e = _\<close> by simp
    from "2.IH"(1) [OF b run refl this refl rest] obtain new where
      "reports' = reports @ new" "subseq (map rp_transport new) ss" "list_all (reports_a_run pl a) new" by blast
    then show ?thesis by (intro exI [of _ new]) auto
  next
    case (Inr ar)
    obtain rp where rp: "stamped (stamps b) ar (aa_sdk a) (aa_sdk_version a) (aa_language a) (aa_repository a) = Ok rp"
      using stamped_Ok by blast
    from "2.prems" "2.IH"(2) [OF b run _ Inr rp] b run Inr rp obtain new where
      "reports' = (reports @ [rp]) @ new" "subseq (map rp_transport new) ss" "list_all (reports_a_run pl a) new" by auto
    then show ?thesis
      using stamped_reports_a_run [OF b run [unfolded Inr] rp] by (intro exI [of _ "rp # new"]) simp
  qed
qed simp

text \<open>
  A command that exits with 0 has graded at least one binding, each at most once and in their
  order, and every run it made was conformant; the bindings it has no report of had no test.
\<close>

lemma run_bindings_code:
  "run_bindings pl stamps a ss reports st = Some (Inl code, st') \<Longrightarrow> code \<noteq> 0"
proof (induction pl stamps a ss reports st rule: run_bindings.induct)
  case (2 pl stamps a s ss reports st)
  then show ?case
    by (fastforce split: sum.splits option.splits prod.splits py_exn.splits)
qed simp

theorem exit_zero_is_conformant:
  assumes "\<not> acts_args_refused a" "aa_mount a = None \<or> aa_no_codegen a"
    and "run_acts_main pl stamps timestamps generate_stubs a st = Some (0, st')"
  shows "\<exists>reports. reports \<noteq> [] \<and> subseq (map rp_transport reports) (acts_bindings (aa_transports a)) \<and>
    list_all (\<lambda>rp. reports_a_run pl a rp \<and> report_is_conformant rp) reports"
proof -
  let ?run = "run_bindings pl stamps a (acts_bindings (aa_transports a)) [] st"
  note exit = assms(3) [unfolded run_acts_main_exit [OF assms(1,2)]]
  obtain x st'' where run: "?run = Some (x, st'')" using exit by (cases ?run) auto
  obtain reports where x: "x = Inr reports"
  proof (cases x)
    case (Inl code)
    with run_bindings_code run exit that show thesis by fastforce
  qed
  have "reports \<noteq> []" "list_all report_is_conformant reports" using exit run x by (auto split: if_splits)
  with run_bindings_collects [OF run [unfolded x]] show ?thesis by (fastforce simp: list_all_iff)
qed

subsection \<open>Properties\<close>

definition request_of :: "acts_args \<Rightarrow> transport_binding \<Rightarrow> run_acts_request" where
  "request_of a b = \<lparr>ra_transport = b, ra_sdk = aa_sdk a, ra_sdk_version = aa_sdk_version a, ra_language = aa_language a,
     ra_repository = aa_repository a, ra_sut_url = aa_sut_url a, ra_reduced_url = aa_reduced_url a,
     ra_auth_url = aa_auth_url a, ra_tests = aa_tests a, ra_variables = [], ra_capabilities = [],
     ra_gate_on_behaviors = (\<not> aa_no_gate a)\<rparr>"

lemma request_of_options:
  "aa_suite a = None \<Longrightarrow> aa_behaviors a = None \<Longrightarrow> request_options (request_of a b) = command_options a b"
  by (simp add: request_options_def request_of_def command_options_def)

text \<open>
  C21: the command and the service reach one verdict. For one binding and the arguments a request
  can carry, the command ends where the service's handler ends, also in what it does to the world,
  and it exits with 0 exactly when the handler answers a report that the job's summary, reading the
  document, lets pass under \<open>--require-conformant\<close>.
\<close>

theorem command_and_service_agree:
  assumes "\<not> acts_args_refused a" "aa_mount a = None \<or> aa_no_codegen a"
    and "acts_bindings (aa_transports a) = [binding_value b]" "aa_suite a = None" "aa_behaviors a = None"
  shows "case run_acts_handler pl (stamps b) (request_of a b) st of
      None \<Rightarrow> run_acts_main pl stamps timestamps generate_stubs a st = None
    | Some (answered, st') \<Rightarrow> \<exists>code. run_acts_main pl stamps timestamps generate_stubs a st = Some (code, st') \<and>
        (code = 0 \<longleftrightarrow> (case answered of
           Acts_report rp \<Rightarrow> snd (acts_report_main (Parsed (report_json rp)) title True) = 0 | _ \<Rightarrow> False))"
proof (cases "acts_run pl (command_options a b) st")
  case None
  with assms show ?thesis by (simp add: run_acts_handler_def request_of_options run_acts_main_exit)
next
  case (Some out)
  obtain x w n where out: "out = (x, w, n)" by (cases out) auto
  show ?thesis
  proof (cases x)
    case (Inl e)
    with Some out assms show ?thesis
      by (cases e) (simp_all add: run_acts_handler_def request_of_options run_acts_main_exit)
  next
    case (Inr ar)
    obtain rp where rp: "stamped (stamps b) ar (aa_sdk a) (aa_sdk_version a) (aa_language a) (aa_repository a) = Ok rp"
      and built: "build_report (sp_timings (stamps b)) (sp_now (stamps b)) (ar_results ar) (ar_suite ar)
        (sdk_info (aa_sdk a) (aa_sdk_version a) (aa_language a) (aa_repository a)) (ar_transport ar)
        (sp_duration_ms (stamps b)) ''1.0'' ''1.0'' (if ar_external_sut ar
          then AList.update ''sut'' ''external'' (sp_environment (stamps b)) else sp_environment (stamps b)) = Ok rp"
      using stamped_Ok by blast
    have "ar_results ar \<noteq> []" using acts_run_graded Some out Inr by blast
    then have exit: "snd (acts_report_main (Parsed (report_json rp)) title True) = 0 \<longleftrightarrow> report_is_conformant rp"
      using summary_exit [OF built] runner_verdict [OF built] by simp
    have handled: "run_acts_handler pl (stamps b) (request_of a b) st = Some (Acts_report rp, w, n)"
      using Some out Inr rp assms(4,5)
      by (simp add: run_acts_handler_def request_of_options) (simp add: request_of_def)
    have "run_bindings pl stamps a [binding_value b] [] st = Some (Inr [rp], w, n)"
      using Some out Inr rp by simp
    with assms(1,2,3) exit show ?thesis unfolding handled by (simp add: run_acts_main_exit)
  qed
qed

definition local_args :: acts_args where
  "local_args = \<lparr>aa_mount = Some True, aa_sut_url = None, aa_reduced_url = None, aa_auth_url = None, aa_sdk = ''py'',
     aa_sdk_version = ''1'', aa_language = ''python'', aa_repository = None, aa_transports = [], aa_tests = None,
     aa_suite = None, aa_out = None, aa_behaviors = None, aa_no_gate = True, aa_no_codegen = True, aa_json = False\<rparr>"

definition blank_stamp :: report_stamp where
  "blank_stamp = \<lparr>sp_timings = \<lparr>tm_test = (\<lambda>t. 1), tm_step = (\<lambda>t s. 1)\<rparr>, sp_now = [], sp_duration_ms = 1, sp_environment = []\<rparr>"

theorem command_and_service_agree_witness:
  "\<exists>rp. run_acts_handler demo_pipeline blank_stamp (request_of local_args B_JSONRPC) ((0, 0), 0) =
       Some (Acts_report rp, ((0, 1), 0)) \<and>
     run_acts_main demo_pipeline (\<lambda>b. blank_stamp) (\<lambda>b. []) (\<lambda>st. (Raise (RuntimeError []), st)) local_args ((0, 0), 0) =
       Some (0, ((0, 1), 0))"
proof -
  have options: "request_options (request_of local_args B_JSONRPC) = demo_options"
    by (simp add: request_options_def request_of_def local_args_def demo_options_def deviation_urls_def map_filter_simps)
  have accepted: "\<not> acts_args_refused local_args" "aa_mount local_args = None \<or> aa_no_codegen local_args"
    "acts_bindings (aa_transports local_args) = [binding_value B_JSONRPC]" "aa_suite local_args = None"
    "aa_behaviors local_args = None"
    by (simp_all add: acts_args_refused_def local_args_def url_given_def bad_url_def acts_bindings_def)
  obtain ar where run: "acts_run demo_pipeline demo_options ((0, 0), 0) = Some (Ok ar, ((0, 1), 0))"
    "ar_results ar = final_results" using demo_run by fastforce
  obtain rp where rp: "stamped blank_stamp ar ''py'' ''1'' ''python'' None = Ok rp"
    and exit: "snd (acts_report_main (Parsed (report_json rp)) [] True) = 0 \<longleftrightarrow>
      ar_results ar \<noteq> [] \<and> is_conformant (ar_results ar)"
    by (metis stamped_Ok summary_exit)
  have handled: "run_acts_handler demo_pipeline blank_stamp (request_of local_args B_JSONRPC) ((0, 0), 0) =
       Some (Acts_report rp, ((0, 1), 0))"
    unfolding run_acts_handler_def options run(1) using rp by (simp add: request_of_def local_args_def)
  have "ar_results ar \<noteq> [] \<and> is_conformant (ar_results ar)"
    by (simp add: run(2) is_conformant_def final_results_def plain_result_def)
  with command_and_service_agree [OF accepted, where pl = demo_pipeline and stamps = "\<lambda>b. blank_stamp" and st = "((0, 0), 0)"
      and timestamps = "\<lambda>b. []" and generate_stubs = "\<lambda>st. (Raise (RuntimeError []), st)" and title = "[]"] exit handled
  show ?thesis by auto
qed

end
