(* ===== verification/Sessions.thy ===== *)
theory Sessions
  imports Cluster
begin

section \<open>Readiness and single sessions (launcher/health.py, launcher/resolve.py)\<close>

text \<open>
  The poll that decides whether an agent has come up, and the context manager that owns what one
  launch took: cache pins and log handles. The clock, counted in milliseconds, the HTTP request and
  the sleep of the poll are operations of a record; the session uses the cache and the platform of
  the cluster.
\<close>

subsection \<open>The readiness gate\<close>

text \<open>A request is answered, fails with one of the exceptions the poll ignores, or with another.\<close>

datatype probe = Answers nat | Unreachable | Fails py_exn

record 'w prober =
  pb_now :: "'w \<Rightarrow> int \<times> 'w"
  pb_get :: "string \<Rightarrow> 'w \<Rightarrow> probe \<times> 'w"
  pb_sleep :: "int \<Rightarrow> 'w \<Rightarrow> 'w"

definition agent_card_url :: "string \<Rightarrow> nat \<Rightarrow> string" where
  "agent_card_url host port = ''http://'' @ host @ '':'' @ show_nat port @ ''/.well-known/agent-card.json''"

text \<open>None is a poll that never ends.\<close>

partial_function (option) ready_loop ::
  "'w prober \<Rightarrow> string \<Rightarrow> int \<Rightarrow> int \<Rightarrow> int \<Rightarrow> 'w \<Rightarrow> ((bool \<times> int) result \<times> 'w) option" where
  "ready_loop pb url deadline timeout interval w =
    (case pb_now pb w of (t, w1) \<Rightarrow>
     case pb_get pb url w1 of (reply, w2) \<Rightarrow>
     case reply of
       Fails e \<Rightarrow> Some (Raise e, w2)
     | _ \<Rightarrow> if reply = Answers 200 then Some (Ok (True, t - (deadline - timeout)), w2)
         else case pb_now pb w2 of (t', w3) \<Rightarrow>
           if deadline \<le> t' then Some (Ok (False, t - (deadline - timeout)), w3)
           else ready_loop pb url deadline timeout interval (pb_sleep pb interval w3))"

definition wait_ready ::
  "'w prober \<Rightarrow> nat \<Rightarrow> int \<Rightarrow> string \<Rightarrow> int \<Rightarrow> 'w \<Rightarrow> ((bool \<times> int) result \<times> 'w) option" where
  "wait_ready pb port timeout host interval w = (case pb_now pb w of (t, w1) \<Rightarrow>
     ready_loop pb (agent_card_url host port) (t + timeout) timeout interval w1)"

subsection \<open>Sessions\<close>

record 'w session =
  ss_cache :: cache
  ss_world :: 'w
  ss_pinned :: "(string \<times> string) list"
  ss_spawned :: "nat list"

definition new_session :: "cache \<Rightarrow> 'w \<Rightarrow> 'w session" where
  "new_session c w = \<lparr>ss_cache = c, ss_world = w, ss_pinned = [], ss_spawned = []\<rparr>"

text \<open>A checkout without its repository or commit fails an assertion; no constructor of a spec makes one.\<close>

definition resolve_target :: "'w platform \<Rightarrow> pid \<Rightarrow> target_spec \<Rightarrow> cache \<Rightarrow> string result \<times> cache" where
  "resolve_target pf p t c = (case tg_kind t of
     MOUNT \<Rightarrow> (case pf_mount pf of None \<Rightarrow> (Raise (RuntimeError msg_no_mount), c) | Some d \<Rightarrow> (Ok d, c))
   | CHECKOUT \<Rightarrow> (case (tg_repo t, tg_sha t) of
       (Some repo, Some sha) \<Rightarrow> checkout_and_build (pf_key_of pf) (pf_fetch pf) (pf_build pf) p ''itk'' repo sha c
     | _ \<Rightarrow> (Raise (RuntimeError ''assertion failed''), c)))"

definition session_resolve :: "'w platform \<Rightarrow> pid \<Rightarrow> target_spec \<Rightarrow> ('w session, string) state_result" where
  "session_resolve pf p t s = (case resolve_target pf p t (ss_cache s) of
     (Inl e, c) \<Rightarrow> (Raise e, s\<lparr>ss_cache := c\<rparr>)
   | (Inr d, c) \<Rightarrow> (Ok d, s\<lparr>ss_cache := c, ss_pinned := ss_pinned s @
       (case (tg_kind t, tg_repo t, tg_sha t) of (CHECKOUT, Some repo, Some sha) \<Rightarrow> [(repo, sha)] | _ \<Rightarrow> [])\<rparr>))"

definition spawn_exn :: "spawned \<Rightarrow> py_exn option" where
  "spawn_exn x = (case x of
     Running i \<Rightarrow> None | Misconfigured m \<Rightarrow> Some (RuntimeError m) | Unavailable m \<Rightarrow> Some (OsError m) | Escapes e \<Rightarrow> Some e)"

definition session_spawn ::
  "'w platform \<Rightarrow> pid \<Rightarrow> target_spec \<Rightarrow> nat \<Rightarrow> nat \<Rightarrow> ('w session, nat) state_result" where
  "session_spawn pf p t http grpc = st_bind (session_resolve pf p t) (\<lambda>d s.
     (case pf_spawn pf d http grpc (ss_world s) of
        (Running i, w) \<Rightarrow> (Ok i, s\<lparr>ss_world := w, ss_spawned := ss_spawned s @ [i]\<rparr>)
      | (x, w) \<Rightarrow> (Raise (the (spawn_exn x)), s\<lparr>ss_world := w\<rparr>)))"

definition close_session :: "'w platform \<Rightarrow> pid \<Rightarrow> 'w session \<Rightarrow> 'w session" where
  "close_session pf p s = s\<lparr>ss_spawned := [],
     ss_cache := fold (\<lambda>(repo, sha) c. release (pf_key_of pf) p repo sha c) (ss_pinned s) (ss_cache s), ss_pinned := []\<rparr>"

text \<open>The body of the \<open>with\<close> statement: calls in turn, until one raises.\<close>

datatype session_op = Resolve target_spec | Spawn target_spec nat nat

definition session_call :: "'w platform \<Rightarrow> pid \<Rightarrow> session_op \<Rightarrow> ('w session, unit) state_result" where
  "session_call pf p c = (case c of
     Resolve t \<Rightarrow> st_bind (session_resolve pf p t) (\<lambda>_. st_return ())
   | Spawn t http grpc \<Rightarrow> st_bind (session_spawn pf p t http grpc) (\<lambda>_. st_return ()))"

fun session_body :: "'w platform \<Rightarrow> pid \<Rightarrow> session_op list \<Rightarrow> ('w session, unit) state_result" where
  "session_body pf p [] = st_return ()"
| "session_body pf p (c # cs) = st_bind (session_call pf p c) (\<lambda>_. session_body pf p cs)"

definition in_session :: "'w platform \<Rightarrow> pid \<Rightarrow> session_op list \<Rightarrow> cache \<Rightarrow> 'w \<Rightarrow> unit result \<times> 'w session" where
  "in_session pf p cs c w = (case session_body pf p cs (new_session c w) of (x, s) \<Rightarrow> (x, close_session pf p s))"

subsection \<open>What a session owes\<close>

definition pins_held :: "'w platform \<Rightarrow> pid \<Rightarrow> (string \<Rightarrow> nat) \<Rightarrow> 'w session \<Rightarrow> bool" where
  "pins_held pf p base s \<longleftrightarrow>
     (\<forall>k. ca_refs (ss_cache s) p k = base k + count_list (map (\<lambda>(r, h). pf_key_of pf r h) (ss_pinned s)) k)"

lemma session_resolve_pins:
  assumes "pins_held pf p base s" "session_resolve pf p t s = (x, s')"
  shows "pins_held pf p base s'"
proof (cases "\<exists>repo sha. tg_kind t = CHECKOUT \<and> tg_repo t = Some repo \<and> tg_sha t = Some sha")
  case True
  then obtain repo sha where t: "tg_kind t = CHECKOUT" "tg_repo t = Some repo" "tg_sha t = Some sha" by blast
  obtain y c where a: "checkout_and_build (pf_key_of pf) (pf_fetch pf) (pf_build pf) p ''itk'' repo sha (ss_cache s) = (y, c)"
    by fastforce
  from assms t a show ?thesis
    by (cases y) (auto simp: session_resolve_def resolve_target_def pins_held_def checkout_refs [OF a])
next
  case False
  then have "ss_cache s' = ss_cache s \<and> ss_pinned s' = ss_pinned s" using assms(2)
    by (auto simp: session_resolve_def resolve_target_def split: kind.splits option.splits)
  with assms(1) show ?thesis by (simp add: pins_held_def)
qed

lemma session_call_pins:
  assumes "pins_held pf p base s" "session_call pf p c s = (x, s')"
  shows "pins_held pf p base s'"
proof (cases c)
  case (Resolve t)
  obtain y s1 where "session_resolve pf p t s = (y, s1)" by fastforce
  with session_resolve_pins [OF assms(1) this] assms(2) Resolve show ?thesis
    by (cases y) (auto simp: session_call_def st_bind_def st_return_def)
next
  case (Spawn t http grpc)
  obtain y s1 where "session_resolve pf p t s = (y, s1)" by fastforce
  with session_resolve_pins [OF assms(1) this] assms(2) Spawn show ?thesis
    by (cases y) (auto simp: session_call_def session_spawn_def st_bind_def st_return_def pins_held_def
        split: prod.splits spawned.splits)
qed

lemma session_body_pins: "pins_held pf p base s \<Longrightarrow> pins_held pf p base (snd (session_body pf p cs s))"
proof (induction cs arbitrary: s)
  case (Cons c cs)
  obtain x s1 where call: "session_call pf p c s = (x, s1)" by fastforce
  from Cons.IH [OF session_call_pins [OF Cons.prems call]] session_call_pins [OF Cons.prems call] call show ?case
    by (cases x) (simp_all add: st_bind_def)
qed (simp add: st_return_def)

text \<open>
  A session gives back its pins and handles, also when a call of its body raises, but not its
  agents: leaving it touches no process.
\<close>

theorem session_returns_its_pins:
  "case in_session pf p cs c w of (x, s) \<Rightarrow> ca_refs (ss_cache s) p = ca_refs c p \<and> ss_spawned s = [] \<and> ss_pinned s = [] \<and>
     ss_world s = ss_world (snd (session_body pf p cs (new_session c w)))"
proof -
  obtain x s where body: "session_body pf p cs (new_session c w) = (x, s)" by fastforce
  have "pins_held pf p (ca_refs c p) (snd (session_body pf p cs (new_session c w)))"
    by (rule session_body_pins) (simp add: pins_held_def new_session_def)
  then show ?thesis
    by (simp add: in_session_def body close_session_def pins_held_def release_all_refs fun_eq_iff)
qed

subsection \<open>The gate decides\<close>

text \<open>
  With a clock that never runs back and a sleep that takes its time, the gate decides: it is open
  because the card was answered with 200, it is shut because the timeout has passed, or a request
  raised an exception the gate does not ignore.
\<close>

lemma ready_loop_decides:
  assumes clock: "\<And>w. time_at w \<le> fst (pb_now pb w)" "\<And>w. fst (pb_now pb w) \<le> time_at (snd (pb_now pb w))"
    "\<And>w. time_at w \<le> time_at (snd (pb_get pb url w))" "\<And>w. time_at w + interval \<le> time_at (pb_sleep pb interval w)"
    and "0 < interval"
  shows "\<exists>x w'. ready_loop pb url deadline timeout interval w = Some (x, w') \<and>
    (case x of Inl e \<Rightarrow> \<exists>v. pb_get pb url v = (Fails e, w')
     | Inr (True, elapsed) \<Rightarrow> \<exists>v. pb_get pb url v = (Answers 200, w')
     | Inr (False, elapsed) \<Rightarrow> deadline \<le> time_at w')"
proof (induction "nat (deadline - time_at w)" arbitrary: w rule: less_induct)
  case less
  obtain t w1 where n1: "pb_now pb w = (t, w1)" by fastforce
  obtain reply w2 where g: "pb_get pb url w1 = (reply, w2)" by fastforce
  obtain t' w3 where n2: "pb_now pb w2 = (t', w3)" by fastforce
  have times: "time_at w \<le> time_at w1" "time_at w1 \<le> time_at w2" "time_at w2 \<le> t'" "t' \<le> time_at w3"
    using clock(1,2) [of w] n1 clock(3) [of w1] g clock(1,2) [of w2] n2 by auto
  note unfold = ready_loop.simps [of pb url deadline timeout interval w] n1 g n2
  show ?case
  proof (cases "(\<exists>e. reply = Fails e) \<or> reply = Answers 200 \<or> deadline \<le> t'")
    case True
    then show ?thesis
      using g times by (cases reply) (auto simp: unfold intro: exI [of _ w1])
  next
    case False
    then have "nat (deadline - time_at (pb_sleep pb interval w3)) < nat (deadline - time_at w)"
      using clock(4) [of w3] times assms(5) by linarith
    with less.hyps [OF this] False show ?thesis by (cases reply) (simp_all add: unfold)
  qed
qed

theorem readiness_is_decided:
  assumes "\<And>w. time_at w \<le> fst (pb_now pb w)" "\<And>w. fst (pb_now pb w) \<le> time_at (snd (pb_now pb w))"
    "\<And>w. time_at w \<le> time_at (snd (pb_get pb (agent_card_url host port) w))"
    "\<And>w. time_at w + interval \<le> time_at (pb_sleep pb interval w)" "0 < interval"
  shows "\<exists>x w'. wait_ready pb port timeout host interval w = Some (x, w') \<and>
    (case x of Inl e \<Rightarrow> \<exists>v. pb_get pb (agent_card_url host port) v = (Fails e, w')
     | Inr (True, elapsed) \<Rightarrow> \<exists>v. pb_get pb (agent_card_url host port) v = (Answers 200, w')
     | Inr (False, elapsed) \<Rightarrow> time_at w + timeout \<le> time_at w')"
proof -
  obtain t w1 where n: "pb_now pb w = (t, w1)" by fastforce
  then have "time_at w \<le> t" using assms(1) [of w] by simp
  then show ?thesis
    using ready_loop_decides [of time_at pb "agent_card_url host port" interval "t + timeout" timeout w1, OF assms] n
    by (fastforce simp: wait_ready_def split: sum.splits bool.splits)
qed

end
