(* ===== verification/Processes.thy ===== *)
theory Processes
  imports Config Sessions Agents
begin

section \<open>Keys and child processes (launcher/cache.py, acts_runner.py, testlib.py, current.py)\<close>

text \<open>
  What surrounds the modelled pipelines: the key a checkout is cached under and its paths, the
  environment variable a deviated SUT is started with, the two places that start the notification
  receiver and wait for it, and how an agent's process is set up. Processes, requests, ports and
  sleeps are operations of a record.
\<close>

subsection \<open>Cache keys (launcher/cache.py)\<close>

definition tree_path :: "environment \<Rightarrow> string \<Rightarrow> string" where
  "tree_path env key = path_join (path_join (cache_root env) ''trees'') key"

definition lock_path :: "environment \<Rightarrow> string \<Rightarrow> string" where
  "lock_path env key = path_join (path_join (cache_root env) ''locks'') (key @ ''.lock'')"

definition pin_dir :: "environment \<Rightarrow> string \<Rightarrow> string" where
  "pin_dir env key = path_join (path_join (cache_root env) ''pins'') key"

lemma repo_slug_map: "repo_slug s = map (\<lambda>c. if c = CHR ''/'' then CHR ''_'' else c) s"
  by (induction s) (auto simp: repo_slug_def starts_with_def)

lemma cut_at:
  assumes "c \<notin> set xs" "c \<notin> set ys" "xs @ c # us = ys @ c # vs"
  shows "xs = ys \<and> us = vs"
proof -
  have "takeWhile (\<lambda>x. x \<noteq> c) (zs @ c # ws) = zs" if "c \<notin> set zs" for zs ws
    using that by (induction zs) auto
  from this [OF assms(1), of us] this [OF assms(2), of vs] assms(3) have "xs = ys" by simp
  with assms(3) show ?thesis by simp
qed

text \<open>
  Under one image and one proto, the key names the tree: for repositories \<open>owner/name\<close> whose owner
  has no underscore, as no account of the forge has, two checkouts share a key only when they are
  the same commit of the same repository. Without that the slug confuses two names.
\<close>

theorem cache_key_names_the_tree:
  assumes "cache_key digest proto (owner @ ''/'' @ name) sha = cache_key digest proto (owner' @ ''/'' @ name') sha'"
    and "set owner \<inter> {CHR ''_'', CHR ''/'', CHR ''@''} = {}" "set owner' \<inter> {CHR ''_'', CHR ''/'', CHR ''@''} = {}"
    and "set name \<inter> {CHR ''/'', CHR ''@''} = {}" "set name' \<inter> {CHR ''/'', CHR ''@''} = {}"
    and "CHR ''@'' \<notin> set sha" "CHR ''@'' \<notin> set sha'"
  shows "owner = owner' \<and> name = name' \<and> sha = sha'"
proof -
  have same: "repo_slug s = s" if "CHR ''/'' \<notin> set s" for s
    unfolding repo_slug_map by (rule map_idI) (use that in auto)
  have slug: "repo_slug (u @ CHR ''/'' # n) = u @ CHR ''_'' # n" if "CHR ''/'' \<notin> set u" "CHR ''/'' \<notin> set n" for u n
    using same [OF that(1)] same [OF that(2)] by (simp add: repo_slug_map)
  let ?rest = "''@'' @ digest @ ''@'' @ proto"
  from assms(1) slug assms(2-5) have "(owner @ CHR ''_'' # name) @ CHR ''@'' # sha @ ?rest = (owner' @ CHR ''_'' # name') @ CHR ''@'' # sha' @ ?rest"
    by (simp add: cache_key_def slug)
  moreover have "CHR ''@'' \<notin> set (owner @ CHR ''_'' # name)" "CHR ''@'' \<notin> set (owner' @ CHR ''_'' # name')"
    using assms by auto
  ultimately have "owner @ CHR ''_'' # name = owner' @ CHR ''_'' # name'" "sha = sha'"
    using cut_at [of "CHR ''@''" "owner @ CHR ''_'' # name" "owner' @ CHR ''_'' # name'"] by auto
  then show ?thesis using cut_at [of "CHR ''_''" owner owner'] assms(2,3) by auto
qed

lemma slug_confuses_underscores:
  "cache_key digest proto ''a/b_c'' sha = cache_key digest proto ''a_b/c'' sha"
  by (simp add: cache_key_def repo_slug_map)

subsection \<open>Deviating the environment (acts_runner.py)\<close>

definition with_sut_env ::
  "string \<Rightarrow> (environment \<times> 'w, 'a) state_result \<Rightarrow> (environment \<times> 'w, 'a) state_result" where
  "with_sut_env n body = (\<lambda>(env, w). case body (env(n := Some ''1''), w) of
     (x, (env', w')) \<Rightarrow> (x, (env'(n := env n), w')))"

text \<open>A body that leaves the environment alone leaves it as it was, also when it raises.\<close>

lemma with_sut_env_restores:
  assumes "\<And>env w. fst (snd (body (env, w))) = env"
  shows "fst (snd (with_sut_env n body (env, w))) = env"
proof -
  obtain x env' w' where "body (env(n := Some ''1''), w) = (x, (env', w'))" by (metis prod.exhaust)
  moreover from this have "env' = env(n := Some ''1'')" using assms [of "env(n := Some ''1'')" w] by simp
  ultimately show ?thesis by (simp add: with_sut_env_def)
qed

subsection \<open>The notification receiver of a pass (acts_runner.py)\<close>

text \<open>What an HTTP GET gives: None is an \<open>HTTPError\<close>, else the status and the parsed body.\<close>

record 'w child_ops =
  ch_port :: "'w \<Rightarrow> nat \<times> 'w"
  ch_start :: "nat \<Rightarrow> 'w \<Rightarrow> 'w"
  ch_get :: "string \<Rightarrow> 'w \<Rightarrow> (nat \<times> json) option \<times> 'w"
  ch_sleep :: "nat \<Rightarrow> 'w \<Rightarrow> 'w"
  ch_stop :: "'w \<Rightarrow> 'w"
  ch_release :: "nat \<Rightarrow> 'w \<Rightarrow> 'w"
  ch_clean_port :: "nat \<Rightarrow> 'w \<Rightarrow> 'w"

definition webhook_startup_attempts :: nat where "webhook_startup_attempts = 40"

fun await_health :: "'w child_ops \<Rightarrow> string \<Rightarrow> nat \<Rightarrow> 'w \<Rightarrow> bool \<times> 'w" where
  "await_health ch base 0 w = (False, w)"
| "await_health ch base (Suc left) w = (case ch_get ch (base @ ''/health'') w of (reply, w') \<Rightarrow>
     if map_option fst reply = Some 200 then (True, w')
     else await_health ch base left (ch_sleep ch 250 w'))"

definition read_receiver :: "'w child_ops \<Rightarrow> string \<Rightarrow> string \<Rightarrow> ('w, json) state_result" where
  "read_receiver ch base task w = (case ch_get ch (base @ ''/'' @ task @ ''/notifications'') w of
     (None, w') \<Rightarrow> (Raise (RuntimeError ''HTTPError''), w')
   | (Some (status, doc), w') \<Rightarrow>
       (if status \<noteq> 200 then (Ok (JArr []), w')
        else case doc of
          JObj d \<Rightarrow> (Ok (let ns = get_key d ''notifications'' in if truthy ns then ns else JArr []), w')
        | v \<Rightarrow> (Raise (AttributeError (repr_str (type_name v) @ '' object has no attribute '' @ repr_str ''get'')), w')))"

text \<open>The body is given the receiver, or nothing when it has not come up.\<close>

definition with_webhook_receiver ::
  "'w child_ops \<Rightarrow> ((string \<times> (string \<Rightarrow> ('w, json) state_result)) option \<Rightarrow> ('w, 'a) state_result) \<Rightarrow>
   ('w, 'a) state_result" where
  "with_webhook_receiver ch body w = (case ch_port ch w of (port, w1) \<Rightarrow>
     let base = ''http://127.0.0.1:'' @ show_nat port in
     case await_health ch base webhook_startup_attempts (ch_start ch port w1) of (up, w2) \<Rightarrow>
     case body (if up then Some (base, read_receiver ch base) else None) w2 of (x, w3) \<Rightarrow>
       (x, ch_release ch port (ch_stop ch w3)))"

subsection \<open>The notification server of a traversal (testlib.py)\<close>

text \<open>Only a request that fails is followed by a pause.\<close>

fun await_server :: "'w child_ops \<Rightarrow> string \<Rightarrow> nat \<Rightarrow> 'w \<Rightarrow> bool \<times> 'w" where
  "await_server ch base 0 w = (False, w)"
| "await_server ch base (Suc left) w = (case ch_get ch (base @ ''/health'') w of
     (None, w') \<Rightarrow> await_server ch base left (ch_sleep ch 500 w')
   | (Some (status, doc), w') \<Rightarrow> if status = 200 then (True, w') else await_server ch base left w')"

definition start_notification_server :: "'w child_ops \<Rightarrow> nat \<Rightarrow> ('w, unit) state_result" where
  "start_notification_server ch port w =
     (case await_server ch (''http://127.0.0.1:'' @ show_nat port) 10 (ch_start ch port (ch_clean_port ch port w)) of
        (True, w') \<Rightarrow> (Ok (), w')
      | (False, w') \<Rightarrow> (Raise (RuntimeError ''Notification server failed to start.''), ch_stop ch w'))"

text \<open>A server that answers each time, but never with 200, is given up without a pause.\<close>

lemma await_server_without_pause:
  assumes "\<And>w. \<exists>status doc. fst (ch_get ch (base @ ''/health'') w) = Some (status, doc) \<and> status \<noteq> 200"
  shows "await_server ch base n w = (False, ((\<lambda>w. snd (ch_get ch (base @ ''/health'') w)) ^^ n) w)"
proof (induction n arbitrary: w)
  case (Suc n)
  obtain status doc w' where "ch_get ch (base @ ''/health'') w = (Some (status, doc), w')" "status \<noteq> 200"
    using assms [of w] by (metis prod.collapse)
  with Suc show ?case by (simp add: funpow_Suc_right del: funpow.simps(2))
qed simp

subsection \<open>The process of an agent (current.py)\<close>

datatype child_output = Discarded | Appended_to path

record process_setup =
  pr_args :: "string list"
  pr_cwd :: path
  pr_output :: child_output
  pr_new_session :: bool

text \<open>The hash is that of the directory's path, cut to eight digits.\<close>

definition default_log_name :: "(string \<Rightarrow> string) \<Rightarrow> path \<Rightarrow> string" where
  "default_log_name sha1 dir = ''agent_'' @ (if dir = [] then [] else last dir) @ ''_'' @ take 8 (sha1 (path_text dir))"

definition popen_setup ::
  "(string \<Rightarrow> string) \<Rightarrow> path \<Rightarrow> path option \<Rightarrow> string option \<Rightarrow> bool \<Rightarrow> command \<Rightarrow> process_setup" where
  "popen_setup sha1 dir log_dir log_name own_session cmd = \<lparr>pr_args = cm_args cmd, pr_cwd = cm_cwd cmd,
     pr_output = (case log_dir of None \<Rightarrow> Discarded
       | Some logs \<Rightarrow> Appended_to (logs @ [(case log_name of Some (c # cs) \<Rightarrow> c # cs | _ \<Rightarrow> default_log_name sha1 dir) @ ''.log''])),
     pr_new_session = own_session\<rparr>"

end
